(* ===== verification/Prelude.thy ===== *)
theory Prelude
  imports Main "HOL-Library.Word"
begin

text \<open>
  Shared vocabulary of the development: machine integers, byte strings, faults and the
  error monad, the list splice behind every \<open>memcpy\<close>, little-endian encodings of words,
  big-endian numbers, and the ordered associative containers (\<open>std::map\<close> and
  \<open>std::multimap\<close>) that the services iterate over.  No program code is modelled here;
  the lemmas are the ones the components share.
\<close>

unbundle bit_operations_syntax

section \<open>Integers and strings\<close>

type_synonym u8 = "8 word"
type_synonym u16 = "16 word"
type_synonym u32 = "32 word"
type_synonym u64 = "64 word"
type_synonym byte = "8 word"

text \<open>A \<open>std::string\<close> or a \<open>uint8\<close> array is its sequence of bytes.\<close>

type_synonym bytes = "8 word list"

definition str :: "string \<Rightarrow> bytes" where
  "str s = map of_char s"

named_theorems outcome_simps \<open>unfolding the error monad on constructors\<close>
named_theorems frame_simps \<open>fields an operation leaves alone\<close>

section \<open>Faults and outcomes\<close>

text \<open>
  A C++ operation that fails an \<open>ASSERT\<close>, reads or writes outside an object, uses a
  deleted object, divides by zero, throws or waits for ever does not return a value.  Each of these is a
  fault; an operation that may fault returns an \<open>outcome\<close>.
\<close>

datatype fault =
    Assert_failed
  | Out_of_bounds
  | Dangling
  | Null_pointer
  | Div_by_zero
  | Thrown bytes
  | Hangs

type_synonym 'a outcome = "fault + 'a"

definition obind :: "'a outcome \<Rightarrow> ('a \<Rightarrow> 'b outcome) \<Rightarrow> 'b outcome" where
  "obind m f = (case m of Inl e \<Rightarrow> Inl e | Inr x \<Rightarrow> f x)"

lemma obind_Inl [simp, outcome_simps]: "obind (Inl e) f = Inl e"
  by (simp add: obind_def)

lemma obind_Inr [simp, outcome_simps]: "obind (Inr x) f = f x"
  by (simp add: obind_def)

lemma obind_eq_Inr:
  "obind m f = Inr y \<longleftrightarrow> (\<exists>x. m = Inr x \<and> f x = Inr y)"
  by (cases m) auto

lemma obind_assoc: "obind (obind m f) g = obind m (\<lambda>x. obind (f x) g)"
  by (cases m) auto

lemma obind_cong [fundef_cong]:
  "m = m' \<Longrightarrow> (\<And>x. m' = Inr x \<Longrightarrow> f x = f' x) \<Longrightarrow> obind m f = obind m' f'"
  by (cases m') auto

fun ofold :: "('a \<Rightarrow> 's \<Rightarrow> 's outcome) \<Rightarrow> 'a list \<Rightarrow> 's \<Rightarrow> 's outcome" where
  "ofold f [] s = Inr s"
| "ofold f (x # xs) s = obind (f x s) (ofold f xs)"

lemma ofold_pure: "(\<And>x s. x \<in> set xs \<Longrightarrow> f x s = Inr (g x s)) \<Longrightarrow> ofold f xs s = Inr (fold g xs s)"
  by (induction xs arbitrary: s) auto

text \<open>\<open>ensures m Q\<close>: every result of \<open>m\<close> satisfies \<open>Q\<close>; the rules follow the syntax of \<open>m\<close>.\<close>

definition ensures :: "'a outcome \<Rightarrow> ('a \<Rightarrow> bool) \<Rightarrow> bool" where
  "ensures m Q \<longleftrightarrow> (\<forall>x. m = Inr x \<longrightarrow> Q x)"

lemma ensuresD: "m = Inr x \<Longrightarrow> ensures m Q \<Longrightarrow> Q x"
  by (simp add: ensures_def)

lemma ensures_Inl: "ensures (Inl e) Q"
  by (simp add: ensures_def)

lemma ensures_Inr: "Q x \<Longrightarrow> ensures (Inr x) Q"
  by (simp add: ensures_def)

lemma ensures_bind: "(\<And>x. m = Inr x \<Longrightarrow> ensures (f x) Q) \<Longrightarrow> ensures (obind m f) Q"
  by (cases m) (simp_all add: ensures_def)

lemma ensures_if: "(b \<Longrightarrow> ensures m Q) \<Longrightarrow> (\<not> b \<Longrightarrow> ensures m' Q) \<Longrightarrow> ensures (if b then m else m') Q"
  by simp

lemma ensures_pair: "(\<And>a b. p = (a, b) \<Longrightarrow> ensures (f a b) Q) \<Longrightarrow> ensures (case p of (a, b) \<Rightarrow> f a b) Q"
  by (cases p) simp

lemma ensures_option:
  "(z = None \<Longrightarrow> ensures m Q) \<Longrightarrow> (\<And>a. z = Some a \<Longrightarrow> ensures (f a) Q) \<Longrightarrow>
     ensures (case z of None \<Rightarrow> m | Some a \<Rightarrow> f a) Q"
  by (cases z) simp_all

lemmas ensures_rules = ensures_Inl ensures_if ensures_option ensures_pair ensures_bind

section \<open>Copying a block into a list\<close>

definition splice_at :: "nat \<Rightarrow> 'a list \<Rightarrow> 'a list \<Rightarrow> 'a list" where
  "splice_at p ys xs = take p xs @ ys @ drop (p + length ys) xs"

lemma length_splice_at [simp]:
  "p + length ys \<le> length xs \<Longrightarrow> length (splice_at p ys xs) = length xs"
  by (simp add: splice_at_def)

lemma splice_at_Nil [simp]: "splice_at p [] xs = xs"
  by (simp add: splice_at_def)

lemma take_drop_splice_at:
  "p \<le> length xs \<Longrightarrow> take (length ys) (drop p (splice_at p ys xs)) = ys"
  by (simp add: splice_at_def)

lemma take_splice_at:
  "n \<le> p \<Longrightarrow> p \<le> length xs \<Longrightarrow> take n (splice_at p ys xs) = take n xs"
  by (simp add: splice_at_def min_def)

section \<open>Little-endian encodings of words\<close>

fun le_bytes :: "nat \<Rightarrow> 'a::len word \<Rightarrow> bytes" where
  "le_bytes 0 w = []"
| "le_bytes (Suc n) w = ucast w # le_bytes n (drop_bit 8 w)"

fun of_le :: "bytes \<Rightarrow> 'a::len word" where
  "of_le [] = 0"
| "of_le (b # bs) = ucast b OR push_bit 8 (of_le bs)"

lemma length_le_bytes [simp]: "length (le_bytes n w) = n"
  by (induction n arbitrary: w) auto

lemma of_le_le_bytes: "of_le (le_bytes n w) = take_bit (8 * n) (w :: 'a::len word)"
proof (induction n arbitrary: w)
  case 0
  then show ?case by simp
next
  case (Suc n)
  show ?case
    unfolding le_bytes.simps of_le.simps Suc.IH
    by (rule bit_word_eqI) (auto simp: bit_simps not_less)
qed

lemma of_le_le_bytes_full [simp]:
  "LENGTH('a) \<le> 8 * n \<Longrightarrow> of_le (le_bytes n w) = (w :: 'a::len word)"
  by (simp add: of_le_le_bytes take_bit_word_eq_self)

lemma le_bytes_of_le:
  "8 * length bs \<le> LENGTH('a) \<Longrightarrow> le_bytes (length bs) (of_le bs :: 'a::len word) = bs"
proof (induction bs)
  case Nil
  then show ?case by simp
next
  case (Cons b bs)
  let ?r = "of_le bs :: 'a word"
  have low: "(ucast (ucast b OR push_bit 8 ?r) :: 8 word) = b"
    using Cons.prems by (intro bit_word_eqI) (auto simp: bit_simps)
  have bound: "\<not> bit ?r n" if "8 * length bs \<le> n" for n
    using that
  proof (induction bs arbitrary: n)
    case Nil
    then show ?case by simp
  next
    case (Cons c cs)
    from Cons.prems have "8 \<le> n" "8 * length cs \<le> n - 8" by auto
    with Cons.IH [of "n - 8"] show ?case
      by (auto simp: bit_simps dest: bit_imp_le_length)
  qed
  have high: "drop_bit 8 (ucast b OR push_bit 8 ?r) = ?r"
  proof (rule bit_word_eqI)
    fix n
    assume n: "n < LENGTH('a)"
    show "bit (drop_bit 8 (ucast b OR push_bit 8 ?r)) n = bit ?r n"
    proof (cases "n + 8 < LENGTH('a)")
      case True
      then show ?thesis
        by (auto simp: bit_simps dest: bit_imp_le_length)
    next
      case False
      with Cons.prems have "8 * length bs \<le> n" by simp
      with bound False show ?thesis
        by (auto simp: bit_simps dest: bit_imp_le_length)
    qed
  qed
  from Cons.prems have "le_bytes (length bs) ?r = bs"
    by (intro Cons.IH) simp
  with low high show ?case by simp
qed

lemma unat_of_nat_small:
  "n < 2 ^ LENGTH('a) \<Longrightarrow> unat (of_nat n :: 'a::len word) = n"
  by (simp add: unsigned_of_nat take_bit_nat_eq_self)

lemma takeWhile_nonzero [simp]:
  "0 \<notin> set s \<Longrightarrow> takeWhile (\<lambda>c. c \<noteq> 0) (s @ (0 :: byte) # ys) = s"
  by (induction s) auto

lemma of_le_le_bytes_cast: "(of_le (le_bytes n w) :: 'b::len word) = ucast (take_bit (8 * n) (w :: 'a::len word))"
proof (induction n arbitrary: w)
  case (Suc n)
  show ?case
    unfolding le_bytes.simps of_le.simps Suc.IH
    by (rule bit_word_eqI) (auto simp: bit_simps not_less dest: bit_imp_le_length)
qed simp

lemma take_le_bytes: "n \<le> k \<Longrightarrow> take n (le_bytes k w) = le_bytes n w"
proof (induction n arbitrary: k w)
  case (Suc n)
  then show ?case by (cases k) simp_all
qed simp

section \<open>Big-endian natural numbers\<close>

definition nat_of_be :: "bytes \<Rightarrow> nat" where
  "nat_of_be bs = foldl (\<lambda>a b. a * 256 + unat b) 0 bs"

definition nat_of_le :: "bytes \<Rightarrow> nat" where
  "nat_of_le bs = nat_of_be (rev bs)"

lemma nat_of_be_Nil [simp]: "nat_of_be [] = 0"
  by (simp add: nat_of_be_def)

lemma nat_of_be_snoc [simp]: "nat_of_be (bs @ [b]) = nat_of_be bs * 256 + unat b"
  by (simp add: nat_of_be_def)

lemma nat_of_be_append:
  "nat_of_be (as @ bs) = nat_of_be as * 256 ^ length bs + nat_of_be bs"
  by (induction bs rule: rev_induct)
     (simp_all add: algebra_simps flip: append_assoc)

lemma nat_of_be_zeros [simp]: "nat_of_be (replicate n 0) = 0"
  by (induction n) (simp_all flip: replicate_append_same)

lemma unat_byte_less [simp]: "unat (b :: byte) < 256"
  using unsigned_less [of b, where ?'a = nat] by simp

lemma nat_of_be_less: "nat_of_be bs < 256 ^ length bs"
proof (induction bs rule: rev_induct)
  case Nil
  then show ?case by simp
next
  case (snoc b bs)
  have "nat_of_be bs * 256 + unat b < Suc (nat_of_be bs) * 256"
    using unat_byte_less [of b] by simp
  also have "\<dots> \<le> 256 ^ length bs * 256"
    using snoc.IH by (intro mult_le_mono1) simp
  finally show ?case by simp
qed

lemma nat_of_be_inject:
  "length as = length bs \<Longrightarrow> nat_of_be as = nat_of_be bs \<Longrightarrow> as = bs"
proof (induction as arbitrary: bs rule: rev_induct)
  case Nil
  then show ?case by simp
next
  case (snoc a as)
  obtain cs b where bs: "bs = cs @ [b]"
    using snoc.prems(1) by (cases bs rule: rev_cases) auto
  have eq: "nat_of_be as * 256 + unat a = nat_of_be cs * 256 + unat b"
    using snoc.prems(2) bs by simp
  then have "(nat_of_be as * 256 + unat a) mod 256 = (nat_of_be cs * 256 + unat b) mod 256"
    by simp
  then have "unat a = unat b" by simp
  with eq have "nat_of_be as = nat_of_be cs" by simp
  moreover have "length as = length cs" using snoc.prems(1) bs by simp
  ultimately have "as = cs" using snoc.IH by blast
  moreover from \<open>unat a = unat b\<close> have "a = b" by (simp add: word_unat_eq_iff)
  ultimately show ?case using bs by simp
qed

section \<open>Ordered associative containers\<close>

text \<open>
  \<open>std::map\<close> and \<open>std::multimap\<close> keep their entries ordered by key and are iterated in
  that order.  Both are association lists here: \<open>om_update\<close> is \<open>m[k] = v\<close> (insert in
  order or overwrite), \<open>mm_insert\<close> inserts after the entries of equal key.
\<close>

fun om_update :: "'k::linorder \<Rightarrow> 'v \<Rightarrow> ('k \<times> 'v) list \<Rightarrow> ('k \<times> 'v) list" where
  "om_update k v [] = [(k, v)]"
| "om_update k v ((k', v') # xs) =
     (if k < k' then (k, v) # (k', v') # xs
      else if k = k' then (k, v) # xs
      else (k', v') # om_update k v xs)"

fun mm_insert :: "'k::linorder \<Rightarrow> 'v \<Rightarrow> ('k \<times> 'v) list \<Rightarrow> ('k \<times> 'v) list" where
  "mm_insert k v [] = [(k, v)]"
| "mm_insert k v ((k', v') # xs) =
     (if k < k' then (k, v) # (k', v') # xs else (k', v') # mm_insert k v xs)"

text \<open>\<open>m.insert(pair)\<close> leaves an existing entry alone.\<close>

definition om_insert :: "'k::linorder \<Rightarrow> 'v \<Rightarrow> ('k \<times> 'v) list \<Rightarrow> ('k \<times> 'v) list" where
  "om_insert k v xs = (if k \<in> fst ` set xs then xs else om_update k v xs)"

definition om_sorted :: "('k::linorder \<times> 'v) list \<Rightarrow> bool" where
  "om_sorted xs \<longleftrightarrow> sorted_wrt (<) (map fst xs)"

definition mm_sorted :: "('k::linorder \<times> 'v) list \<Rightarrow> bool" where
  "mm_sorted xs \<longleftrightarrow> sorted (map fst xs)"

lemma set_map_fst_om_update [simp]:
  "fst ` set (om_update k v xs) = insert k (fst ` set xs)"
  by (induction k v xs rule: om_update.induct) auto

lemma om_sorted_update: "om_sorted xs \<Longrightarrow> om_sorted (om_update k v xs)"
proof (induction k v xs rule: om_update.induct)
  case (1 k v)
  then show ?case by (simp add: om_sorted_def)
next
  case (2 k v k' v' xs)
  have "\<forall>y\<in>fst ` set (om_update k v xs). k' < y" if "k' < k"
    unfolding set_map_fst_om_update using that "2.prems" by (auto simp: om_sorted_def)
  with 2 show ?case by (auto simp: om_sorted_def)
qed

lemma map_of_om_update:
  "om_sorted xs \<Longrightarrow> map_of (om_update k v xs) = (map_of xs)(k \<mapsto> v)"
proof (induction k v xs rule: om_update.induct)
  case (1 k v)
  then show ?case by simp
next
  case (2 k v k' v' xs)
  then show ?case by (auto simp: om_sorted_def fun_eq_iff)
qed

lemma set_mm_insert [simp]: "set (mm_insert k v xs) = insert (k, v) (set xs)"
  by (induction k v xs rule: mm_insert.induct) auto

lemma mm_sorted_insert: "mm_sorted xs \<Longrightarrow> mm_sorted (mm_insert k v xs)"
  by (induction k v xs rule: mm_insert.induct) (auto simp: mm_sorted_def)

lemma mm_insert_filter:
  "filter (\<lambda>e. fst e = k') (mm_insert k v xs) =
     filter (\<lambda>e. fst e = k') xs @ (if k = k' then [(k, v)] else [])"
  if "mm_sorted xs"
  using that
proof (induction k v xs rule: mm_insert.induct)
  case (1 k v)
  then show ?case by simp
next
  case (2 k v k2 v2 xs)
  have "filter (\<lambda>e. fst e = k') xs = []" if "k < k2" "k' = k"
    using 2(2) that by (fastforce simp: mm_sorted_def filter_empty_conv)
  with 2 show ?case by (auto simp: mm_sorted_def)
qed

end
