(* ===== verification/Sql_Operation.thy ===== *)
theory Sql_Operation
  imports Prelude
begin

text \<open>
  Requests to the database layer (src/database/Database.h, src/database/Database.cpp):
  \<open>SqlOperationBase\<close> with the values to be bound to a prepared statement, its
  \<open>add_*\<close> methods, \<open>SqlOperationRequest\<close> and \<open>SqlOperationTransaction\<close> as the
  daemons fill them, and the queue side of \<open>DatabaseHolder\<close>.

  A request is polymorphic in the statement index \<open>'s\<close> (each daemon has its own
  enumeration) and in the observer \<open>'c\<close> whose callback gets the result.  The order in
  which the worker threads take requests from the queue belongs to \<open>ACE_Activation_Queue\<close>,
  which is not part of the repository; the queue is the list of requests handed to it, in
  call order, each with the priority set on it.
\<close>

section \<open>Values to bind\<close>

datatype ps_type =
    TYPE_BOOL | TYPE_U8 | TYPE_U16 | TYPE_U32 | TYPE_U64 | TYPE_FLOAT | TYPE_STRING

text \<open>\<open>PreparedStatementData\<close>; the union is its eight bytes of memory, read as a number.\<close>

record ps_data =
  udata :: u64
  ptype :: ps_type
  pstr :: bytes

definition ps_default :: ps_data where
  "ps_default = \<lparr>udata = 0, ptype = TYPE_BOOL, pstr = []\<rparr>"

text \<open>Assigning a member of the union overwrites its bytes and keeps the others.\<close>

definition set_low :: "nat \<Rightarrow> u64 \<Rightarrow> u64 \<Rightarrow> u64" where
  "set_low n v old = take_bit n v OR push_bit n (drop_bit n old)"

text \<open>
  The common part of the \<open>add_*\<close> methods: grow \<open>statement_data\<close> to \<open>index\<close> entries,
  decrement the \<open>uint8\<close> index and store.  Index 0 wraps to 255, an entry that is not there.
\<close>

definition put_slot :: "u8 \<Rightarrow> (ps_data \<Rightarrow> ps_data) \<Rightarrow> ps_data list \<Rightarrow> ps_data list outcome" where
  "put_slot index f sd =
     (let sd' = (if length sd < unat index
                 then sd @ replicate (unat index - length sd) ps_default else sd);
          i = unat (index - 1)
      in if i < length sd' then Inr (sd'[i := f (sd' ! i)]) else Inl Out_of_bounds)"

section \<open>Requests\<close>

datatype priority = PRIORITY_LOW | PRIORITY_MEDIUM | PRIORITY_HIGH

record ('s, 'c) sql_op =
  statement :: 's
  observer :: "'c option"
  op_priority :: priority
  statement_data :: "ps_data list"

text \<open>The two constructors: with and without a future (and its observer).\<close>

definition sql_request :: "'s \<Rightarrow> ('s, 'c) sql_op" where
  "sql_request sid =
     \<lparr>statement = sid, observer = None, op_priority = PRIORITY_LOW, statement_data = []\<rparr>"

definition sql_request_res :: "'s \<Rightarrow> 'c \<Rightarrow> ('s, 'c) sql_op" where
  "sql_request_res sid obs = (sql_request sid)\<lparr>observer := Some obs\<rparr>"

definition has_result :: "('s, 'c) sql_op \<Rightarrow> bool" where
  "has_result op \<longleftrightarrow> observer op \<noteq> None"

definition add_slot :: "u8 \<Rightarrow> (ps_data \<Rightarrow> ps_data) \<Rightarrow> ('s, 'c) sql_op \<Rightarrow> ('s, 'c) sql_op outcome" where
  "add_slot index f op =
     obind (put_slot index f (statement_data op)) (\<lambda>sd. Inr (op\<lparr>statement_data := sd\<rparr>))"

definition add_bool :: "u8 \<Rightarrow> bool \<Rightarrow> ('s, 'c) sql_op \<Rightarrow> ('s, 'c) sql_op outcome" where
  "add_bool index v =
     add_slot index (\<lambda>d. d\<lparr>udata := set_low 8 (of_bool v) (udata d), ptype := TYPE_BOOL\<rparr>)"

text \<open>The 8-bit and 16-bit variants assign the \<open>u32\<close> member, as the code does.\<close>

definition add_uint8 :: "u8 \<Rightarrow> u8 \<Rightarrow> ('s, 'c) sql_op \<Rightarrow> ('s, 'c) sql_op outcome" where
  "add_uint8 index v =
     add_slot index (\<lambda>d. d\<lparr>udata := set_low 32 (ucast v) (udata d), ptype := TYPE_U8\<rparr>)"

definition add_uint16 :: "u8 \<Rightarrow> u16 \<Rightarrow> ('s, 'c) sql_op \<Rightarrow> ('s, 'c) sql_op outcome" where
  "add_uint16 index v =
     add_slot index (\<lambda>d. d\<lparr>udata := set_low 32 (ucast v) (udata d), ptype := TYPE_U16\<rparr>)"

definition add_uint32 :: "u8 \<Rightarrow> u32 \<Rightarrow> ('s, 'c) sql_op \<Rightarrow> ('s, 'c) sql_op outcome" where
  "add_uint32 index v =
     add_slot index (\<lambda>d. d\<lparr>udata := set_low 32 (ucast v) (udata d), ptype := TYPE_U32\<rparr>)"

definition add_uint64 :: "u8 \<Rightarrow> u64 \<Rightarrow> ('s, 'c) sql_op \<Rightarrow> ('s, 'c) sql_op outcome" where
  "add_uint64 index v = add_slot index (\<lambda>d. d\<lparr>udata := v, ptype := TYPE_U64\<rparr>)"

definition add_float :: "u8 \<Rightarrow> u32 \<Rightarrow> ('s, 'c) sql_op \<Rightarrow> ('s, 'c) sql_op outcome" where
  "add_float index v =
     add_slot index (\<lambda>d. d\<lparr>udata := set_low 32 (ucast v) (udata d), ptype := TYPE_FLOAT\<rparr>)"

text \<open>\<open>add_string\<close> appends to whatever string the slot holds.\<close>

definition add_string :: "u8 \<Rightarrow> bytes \<Rightarrow> ('s, 'c) sql_op \<Rightarrow> ('s, 'c) sql_op outcome" where
  "add_string index v =
     add_slot index (\<lambda>d. d\<lparr>pstr := pstr d @ takeWhile (\<lambda>c. c \<noteq> 0) v, ptype := TYPE_STRING\<rparr>)"

text \<open>What \<open>execute\<close> will bind for a slot.\<close>

datatype bound =
    B_bool bool
  | B_uint32 u32
  | B_uint64 u64
  | B_float u32
  | B_string bytes

definition bound_value :: "ps_data \<Rightarrow> bound" where
  "bound_value d = (case ptype d of
       TYPE_BOOL \<Rightarrow> B_bool (ucast (udata d) \<noteq> (0 :: u8))
     | TYPE_U8 \<Rightarrow> B_uint32 (ucast (udata d))
     | TYPE_U16 \<Rightarrow> B_uint32 (ucast (udata d))
     | TYPE_U32 \<Rightarrow> B_uint32 (ucast (udata d))
     | TYPE_U64 \<Rightarrow> B_uint64 (udata d)
     | TYPE_FLOAT \<Rightarrow> B_float (ucast (udata d))
     | TYPE_STRING \<Rightarrow> B_string (pstr d))"

definition bound_values :: "('s, 'c) sql_op \<Rightarrow> bound list" where
  "bound_values op = map bound_value (statement_data op)"

section \<open>The queue side of DatabaseHolder\<close>

text \<open>The constructor's sanity check on the number of connections.\<close>

definition holder_connections :: "int \<Rightarrow> int" where
  "holder_connections num = (if num < 1 \<or> num > 32 then 1 else num)"

definition db_enqueue :: "('s, 'c) sql_op \<Rightarrow> ('s, 'c) sql_op list \<Rightarrow> ('s, 'c) sql_op list" where
  "db_enqueue op queue = queue @ [op]"

definition db_enqueue_with_priority ::
    "('s, 'c) sql_op \<Rightarrow> priority \<Rightarrow> ('s, 'c) sql_op list \<Rightarrow> ('s, 'c) sql_op list" where
  "db_enqueue_with_priority op prio queue = queue @ [op\<lparr>op_priority := prio\<rparr>]"

section \<open>Laws\<close>

named_theorems sql_simps \<open>evaluating request construction\<close>

lemma ucast_set_low_32 [simp]: "ucast (set_low 32 (ucast v) old) = (v :: u32)"
  by (rule bit_word_eqI) (auto simp: set_low_def bit_simps)

lemma ucast_set_low_8:
  "ucast (set_low 32 (ucast (v :: u8)) old) = (ucast v :: u32)"
  by (rule bit_word_eqI) (auto simp: set_low_def bit_simps)

lemma ucast_set_low_16:
  "ucast (set_low 32 (ucast (v :: u16)) old) = (ucast v :: u32)"
  by (rule bit_word_eqI) (auto simp: set_low_def bit_simps)

lemma ucast_set_low_bool [simp]: "(ucast (set_low 8 (of_bool v) old) = (0 :: u8)) = (\<not> v)"
proof -
  have "ucast (set_low 8 (of_bool v) old) = (of_bool v :: u8)"
    by (rule bit_word_eqI) (auto simp: set_low_def bit_simps)
  then show ?thesis by simp
qed

text \<open>Adding the next parameter in order extends the data by one slot.\<close>

lemma put_slot_next:
  assumes "unat index = Suc (length sd)"
  shows "put_slot index f sd = Inr (sd @ [f ps_default])"
proof -
  have "index \<noteq> 0" using assms by auto
  then have "unat (index - 1) = length sd"
    using assms by (simp add: unat_minus_one)
  with assms show ?thesis
    by (simp add: put_slot_def Let_def)
qed

text \<open>Slots count from 1: index 0 addresses slot 255.\<close>

lemma put_slot_zero: "length sd \<le> 255 \<Longrightarrow> put_slot 0 f sd = Inl Out_of_bounds"
proof -
  assume "length sd \<le> 255"
  moreover have "unat (0 - 1 :: u8) = 255" by (simp add: unsigned_minus_1_eq_mask mask_eq_exp_minus_1)
  ultimately show ?thesis
    by (simp add: put_slot_def Let_def)
qed

lemma add_slot_next [sql_simps]:
  "unat index = Suc (length (statement_data op)) \<Longrightarrow>
     add_slot index f op = Inr (op\<lparr>statement_data := statement_data op @ [f ps_default]\<rparr>)"
  by (simp add: add_slot_def put_slot_next)

lemmas add_defs = add_bool_def add_uint8_def add_uint16_def add_uint32_def add_uint64_def
  add_float_def add_string_def

text \<open>What each kind of parameter will be bound as.\<close>

definition slot_bool :: "bool \<Rightarrow> ps_data" where
  "slot_bool v = ps_default\<lparr>udata := set_low 8 (of_bool v) 0, ptype := TYPE_BOOL\<rparr>"

definition slot_uint8 :: "u8 \<Rightarrow> ps_data" where
  "slot_uint8 v = ps_default\<lparr>udata := set_low 32 (ucast v) 0, ptype := TYPE_U8\<rparr>"

definition slot_uint32 :: "u32 \<Rightarrow> ps_data" where
  "slot_uint32 v = ps_default\<lparr>udata := set_low 32 (ucast v) 0, ptype := TYPE_U32\<rparr>"

definition slot_uint64 :: "u64 \<Rightarrow> ps_data" where
  "slot_uint64 v = ps_default\<lparr>udata := v, ptype := TYPE_U64\<rparr>"

definition slot_float :: "u32 \<Rightarrow> ps_data" where
  "slot_float v = ps_default\<lparr>udata := set_low 32 (ucast v) 0, ptype := TYPE_FLOAT\<rparr>"

definition slot_string :: "bytes \<Rightarrow> ps_data" where
  "slot_string v = ps_default\<lparr>pstr := takeWhile (\<lambda>c. c \<noteq> 0) v, ptype := TYPE_STRING\<rparr>"

lemma bound_value_slots [simp]:
  "bound_value (slot_bool b) = B_bool b"
  "bound_value (slot_uint8 v8) = B_uint32 (ucast v8)"
  "bound_value (slot_uint32 v32) = B_uint32 v32"
  "bound_value (slot_uint64 v64) = B_uint64 v64"
  "bound_value (slot_float f) = B_float f"
  "bound_value (slot_string s) = B_string (takeWhile (\<lambda>c. c \<noteq> 0) s)"
  by (simp_all add: bound_value_def slot_bool_def slot_uint8_def slot_uint32_def slot_uint64_def
      slot_float_def slot_string_def ucast_set_low_8)

lemma add_next [sql_simps]:
  "unat index = Suc (length (statement_data op)) \<Longrightarrow>
     add_bool index b op = Inr (op\<lparr>statement_data := statement_data op @ [slot_bool b]\<rparr>)"
  "unat index = Suc (length (statement_data op)) \<Longrightarrow>
     add_uint8 index v8 op = Inr (op\<lparr>statement_data := statement_data op @ [slot_uint8 v8]\<rparr>)"
  "unat index = Suc (length (statement_data op)) \<Longrightarrow>
     add_uint32 index v32 op = Inr (op\<lparr>statement_data := statement_data op @ [slot_uint32 v32]\<rparr>)"
  "unat index = Suc (length (statement_data op)) \<Longrightarrow>
     add_uint64 index v64 op = Inr (op\<lparr>statement_data := statement_data op @ [slot_uint64 v64]\<rparr>)"
  "unat index = Suc (length (statement_data op)) \<Longrightarrow>
     add_float index f op = Inr (op\<lparr>statement_data := statement_data op @ [slot_float f]\<rparr>)"
  "unat index = Suc (length (statement_data op)) \<Longrightarrow>
     add_string index s op = Inr (op\<lparr>statement_data := statement_data op @ [slot_string s]\<rparr>)"
  by (simp_all add: add_defs add_slot_next slot_bool_def slot_uint8_def slot_uint32_def
      slot_uint64_def slot_float_def slot_string_def ps_default_def)

lemma sql_request_simps [simp, sql_simps]:
  "statement (sql_request sid) = sid" "statement_data (sql_request sid) = []"
  "observer (sql_request sid) = None"
  "statement (sql_request_res sid obs) = sid" "statement_data (sql_request_res sid obs) = []"
  "observer (sql_request_res sid obs) = Some obs"
  "op_priority (sql_request sid) = PRIORITY_LOW"
  "op_priority (sql_request_res sid obs) = PRIORITY_LOW"
  by (simp_all add: sql_request_def sql_request_res_def)

end
