(* ===== verification/Result_Set.thy ===== *)
theory Result_Set
  imports Prelude
begin

text \<open>
  Query results (src/database/ResultSet.h) as its two implementations for prepared statements
  provide them: \<open>MySQLPreparedResultSet\<close> (src/database/MySQL/MySQLPreparedResultSet.cpp) and
  \<open>SQLiteResultSet\<close> (src/database/SQLite/SQLiteResultSet.cpp).  The pointer to the abstract
  class that the rest of the program holds is a datatype with one constructor per
  implementation, and a virtual call is a case distinction.

  The client libraries are not part of the repository.  What they deliver is data of the
  model: for MySQL, the rows that \<open>mysql_stmt_store_result\<close> has buffered, each column being
  the contents of its bound buffer (little-endian host) or NULL; for SQLite, the sequence of
  outcomes of \<open>sqlite3_step\<close>, each column value given by what the \<open>sqlite3_column_*\<close>
  accessors return on it.  An exception of the program is the fault \<open>Thrown\<close>.
\<close>

section \<open>MySQLPreparedResultSet\<close>

datatype enum_field_types =
    MYSQL_TYPE_TINY | MYSQL_TYPE_SHORT | MYSQL_TYPE_FLOAT | MYSQL_TYPE_LONG
  | MYSQL_TYPE_DOUBLE | MYSQL_TYPE_LONGLONG
  | MYSQL_TYPE_TIMESTAMP | MYSQL_TYPE_DATE | MYSQL_TYPE_TIME | MYSQL_TYPE_DATETIME
  | MYSQL_TYPE_VARCHAR | MYSQL_TYPE_VAR_STRING | MYSQL_TYPE_STRING | MYSQL_TYPE_BLOB
  | MYSQL_TYPE_INT24 | MYSQL_TYPE_YEAR | MYSQL_TYPE_NEWDATE | MYSQL_TYPE_BIT
  | MYSQL_TYPE_NEWDECIMAL | MYSQL_TYPE_ENUM | MYSQL_TYPE_DECIMAL | MYSQL_TYPE_NULL
  | MYSQL_TYPE_SET | MYSQL_TYPE_TINY_BLOB | MYSQL_TYPE_MEDIUM_BLOB | MYSQL_TYPE_LONG_BLOB
  | MYSQL_TYPE_GEOMETRY

text \<open>\<open>typeToSize\<close>; \<open>sizeof(MYSQL_TIME)\<close> belongs to the library and is a parameter.\<close>

definition typeToSize :: "nat \<Rightarrow> enum_field_types \<Rightarrow> nat outcome" where
  "typeToSize mysql_time t =
     (if t = MYSQL_TYPE_TINY then Inr 1
      else if t = MYSQL_TYPE_SHORT then Inr 2
      else if t \<in> {MYSQL_TYPE_FLOAT, MYSQL_TYPE_LONG} then Inr 4
      else if t \<in> {MYSQL_TYPE_DOUBLE, MYSQL_TYPE_LONGLONG} then Inr 8
      else if t \<in> {MYSQL_TYPE_TIMESTAMP, MYSQL_TYPE_DATE, MYSQL_TYPE_TIME, MYSQL_TYPE_DATETIME}
        then Inr mysql_time
      else if t \<in> {MYSQL_TYPE_VARCHAR, MYSQL_TYPE_VAR_STRING, MYSQL_TYPE_STRING, MYSQL_TYPE_BLOB}
        then Inr 0
      else Inl (Thrown (str ''MySQLPreparedResultSet, unsupported data type'')))"

text \<open>A bound column after a fetch: \<open>None\<close> is NULL (\<open>is_null\<close>), otherwise the bytes in the
  bound buffer and the length the library has stored with them.\<close>

type_synonym mysql_cell = "(bytes \<times> nat) option"

record mysql_rs =
  m_rowPosition :: u32
  m_numRows :: u32
  m_numFields :: u32
  m_bindResult :: "mysql_cell list"
  m_pending :: "mysql_cell list list"

text \<open>\<open>fillBindResult\<close>: the length of the buffer of every column.  A NUL byte is added for
  the types whose size is 0 only.\<close>

fun fillBindResult :: "nat \<Rightarrow> (enum_field_types \<times> nat) list \<Rightarrow> nat list outcome" where
  "fillBindResult mysql_time [] = Inr []"
| "fillBindResult mysql_time ((t, max_length) # fs) =
     obind (typeToSize mysql_time t) (\<lambda>len.
       obind (fillBindResult mysql_time fs) (\<lambda>lens.
         Inr ((if len = 0 then max_length + 1 else max_length) # lens)))"

text \<open>The constructor; \<open>rows\<close> is the stored result, the buffers start zeroed.\<close>

definition MySQLPreparedResultSet ::
    "nat \<Rightarrow> (enum_field_types \<times> nat) list \<Rightarrow> mysql_cell list list \<Rightarrow> mysql_rs outcome" where
  "MySQLPreparedResultSet mysql_time columns rows =
     obind (fillBindResult mysql_time columns) (\<lambda>lens.
       Inr \<lparr>m_rowPosition = 0, m_numRows = of_nat (length rows), m_numFields = of_nat (length columns),
            m_bindResult = map (\<lambda>len. Some (replicate len 0, 0)) lens, m_pending = rows\<rparr>)"

definition mysql_checkValidity :: "u8 \<Rightarrow> mysql_rs \<Rightarrow> unit outcome" where
  "mysql_checkValidity idx r =
     (if idx = 0 \<or> ucast idx > m_numFields r
        then Inl (Thrown (str ''MySQLPreparedResultSet, invalid index''))
      else if m_rowPosition r = 0
        then Inl (Thrown (str ''MySQLPreparedResultSet, before first row''))
      else Inr ())"

definition mysql_column :: "u8 \<Rightarrow> mysql_rs \<Rightarrow> mysql_cell outcome" where
  "mysql_column idx r =
     (if unat (idx - 1) < length (m_bindResult r) then Inr (m_bindResult r ! unat (idx - 1))
      else Inl Out_of_bounds)"

text \<open>The numeric getters read as many bytes as their type has; NULL reads as 0.\<close>

definition mysql_get :: "u8 \<Rightarrow> mysql_rs \<Rightarrow> 'a::len word outcome" where
  "mysql_get idx r =
     obind (mysql_checkValidity idx r) (\<lambda>_. obind (mysql_column idx r) (\<lambda>c.
       case c of
         None \<Rightarrow> Inr 0
       | Some (bs, n) \<Rightarrow> (if LENGTH('a) div 8 \<le> length bs then Inr (of_le (take (LENGTH('a) div 8) bs))
                    else Inl Out_of_bounds)))"

definition mysql_getUint8 :: "u8 \<Rightarrow> mysql_rs \<Rightarrow> u8 outcome" where
  "mysql_getUint8 idx r = mysql_get idx r"

definition mysql_getUint16 :: "u8 \<Rightarrow> mysql_rs \<Rightarrow> u16 outcome" where
  "mysql_getUint16 idx r = mysql_get idx r"

definition mysql_getUint32 :: "u8 \<Rightarrow> mysql_rs \<Rightarrow> u32 outcome" where
  "mysql_getUint32 idx r = mysql_get idx r"

definition mysql_getUint64 :: "u8 \<Rightarrow> mysql_rs \<Rightarrow> u64 outcome" where
  "mysql_getUint64 idx r = mysql_get idx r"

text \<open>The signed getters and \<open>getDouble\<close> read the same bytes.\<close>

definition mysql_getInt8 :: "u8 \<Rightarrow> mysql_rs \<Rightarrow> int outcome" where
  "mysql_getInt8 idx r = obind (mysql_get idx r) (\<lambda>w :: u8. Inr (sint w))"

definition mysql_getInt16 :: "u8 \<Rightarrow> mysql_rs \<Rightarrow> int outcome" where
  "mysql_getInt16 idx r = obind (mysql_get idx r) (\<lambda>w :: u16. Inr (sint w))"

definition mysql_getInt32 :: "u8 \<Rightarrow> mysql_rs \<Rightarrow> int outcome" where
  "mysql_getInt32 idx r = obind (mysql_get idx r) (\<lambda>w :: u32. Inr (sint w))"

definition mysql_getInt64 :: "u8 \<Rightarrow> mysql_rs \<Rightarrow> int outcome" where
  "mysql_getInt64 idx r = obind (mysql_get idx r) (\<lambda>w :: u64. Inr (sint w))"

definition mysql_getDouble :: "u8 \<Rightarrow> mysql_rs \<Rightarrow> u64 outcome" where
  "mysql_getDouble idx r = mysql_get idx r"

definition mysql_getBool :: "u8 \<Rightarrow> mysql_rs \<Rightarrow> bool outcome" where
  "mysql_getBool idx r =
     obind (mysql_checkValidity idx r) (\<lambda>_. obind (mysql_getInt8 idx r) (\<lambda>i. Inr (0 < i)))"

definition mysql_getFloat :: "u8 \<Rightarrow> mysql_rs \<Rightarrow> u32 outcome" where
  "mysql_getFloat idx r = mysql_getUint32 idx r"

definition mysql_getString :: "u8 \<Rightarrow> mysql_rs \<Rightarrow> bytes outcome" where
  "mysql_getString idx r =
     obind (mysql_checkValidity idx r) (\<lambda>_. obind (mysql_column idx r) (\<lambda>c.
       case c of
         None \<Rightarrow> Inr []
       | Some (bs, n) \<Rightarrow> (if n \<le> length bs then Inr (take n bs) else Inl Out_of_bounds)))"

text \<open>A fetch past the last row leaves the buffers as they were.\<close>

definition mysql_next :: "mysql_rs \<Rightarrow> bool \<times> mysql_rs" where
  "mysql_next r =
     (case m_pending r of
        [] \<Rightarrow> (False, r\<lparr>m_rowPosition := m_rowPosition r + 1\<rparr>)
      | row # rows \<Rightarrow>
          (True, r\<lparr>m_rowPosition := m_rowPosition r + 1, m_bindResult := row, m_pending := rows\<rparr>))"

definition mysql_isFirst :: "mysql_rs \<Rightarrow> bool" where
  "mysql_isFirst r \<longleftrightarrow> m_rowPosition r = 1"

definition mysql_rowsCount :: "mysql_rs \<Rightarrow> u32" where
  "mysql_rowsCount r = m_numRows r"

section \<open>SQLiteResultSet\<close>

text \<open>A column value, by the results of the accessors on it.\<close>

record sqlite_value =
  column_int :: u32
  column_int64 :: u64
  column_text :: "bytes option"

datatype sqlite_step = STEP_ROW "sqlite_value list" | STEP_ERROR

record sqlite_rs =
  s_rowPosition :: u32
  s_numRows :: u32
  s_numFields :: u32
  s_row :: "sqlite_value list option"
  s_pending :: "sqlite_step list"

definition SQLiteResultSet :: "nat \<Rightarrow> sqlite_step list \<Rightarrow> sqlite_rs" where
  "SQLiteResultSet column_count steps =
     \<lparr>s_rowPosition = 0, s_numRows = 0, s_numFields = of_nat column_count, s_row = None,
      s_pending = steps\<rparr>"

definition sqlite_checkValidity :: "u8 \<Rightarrow> sqlite_rs \<Rightarrow> unit outcome" where
  "sqlite_checkValidity idx r =
     (if idx = 0 \<or> ucast idx > s_numFields r
        then Inl (Thrown (str ''SQLiteResultSet: invalid index''))
      else if s_rowPosition r = 0
        then Inl (Thrown (str ''SQLiteResultSet: invalid row position (before first)''))
      else Inr ())"

text \<open>The accessors get the index as it is, and SQLite counts columns from 0.\<close>

definition sqlite_column :: "u8 \<Rightarrow> sqlite_rs \<Rightarrow> sqlite_value outcome" where
  "sqlite_column idx r =
     (case s_row r of
        None \<Rightarrow> Inl Out_of_bounds
      | Some row \<Rightarrow> (if unat idx < length row then Inr (row ! unat idx) else Inl Out_of_bounds))"

definition sqlite_getInt32 :: "u8 \<Rightarrow> sqlite_rs \<Rightarrow> u32 outcome" where
  "sqlite_getInt32 idx r =
     obind (sqlite_checkValidity idx r) (\<lambda>_. obind (sqlite_column idx r) (\<lambda>v. Inr (column_int v)))"

definition sqlite_getBool :: "u8 \<Rightarrow> sqlite_rs \<Rightarrow> bool outcome" where
  "sqlite_getBool idx r = obind (sqlite_getInt32 idx r) (\<lambda>w. Inr (0 < sint w))"

definition sqlite_getUint8 :: "u8 \<Rightarrow> sqlite_rs \<Rightarrow> u8 outcome" where
  "sqlite_getUint8 idx r = obind (sqlite_getInt32 idx r) (\<lambda>w. Inr (ucast w))"

definition sqlite_getUint16 :: "u8 \<Rightarrow> sqlite_rs \<Rightarrow> u16 outcome" where
  "sqlite_getUint16 idx r = obind (sqlite_getInt32 idx r) (\<lambda>w. Inr (ucast w))"

definition sqlite_getUint32 :: "u8 \<Rightarrow> sqlite_rs \<Rightarrow> u32 outcome" where
  "sqlite_getUint32 idx r = sqlite_getInt32 idx r"

definition sqlite_getInt8 :: "u8 \<Rightarrow> sqlite_rs \<Rightarrow> int outcome" where
  "sqlite_getInt8 idx r = obind (sqlite_getInt32 idx r) (\<lambda>w. Inr (sint (ucast w :: u8)))"

definition sqlite_getInt16 :: "u8 \<Rightarrow> sqlite_rs \<Rightarrow> int outcome" where
  "sqlite_getInt16 idx r = obind (sqlite_getInt32 idx r) (\<lambda>w. Inr (sint (ucast w :: u16)))"

definition sqlite_getFloat :: "u8 \<Rightarrow> sqlite_rs \<Rightarrow> u32 outcome" where
  "sqlite_getFloat idx r = sqlite_getUint32 idx r"

definition sqlite_getInt64 :: "u8 \<Rightarrow> sqlite_rs \<Rightarrow> u64 outcome" where
  "sqlite_getInt64 idx r =
     obind (sqlite_checkValidity idx r) (\<lambda>_. obind (sqlite_column idx r) (\<lambda>v. Inr (column_int64 v)))"

definition sqlite_getUint64 :: "u8 \<Rightarrow> sqlite_rs \<Rightarrow> u64 outcome" where
  "sqlite_getUint64 idx r = sqlite_getInt64 idx r"

definition sqlite_getString :: "u8 \<Rightarrow> sqlite_rs \<Rightarrow> bytes outcome" where
  "sqlite_getString idx r =
     obind (sqlite_checkValidity idx r) (\<lambda>_. obind (sqlite_column idx r) (\<lambda>v.
       Inr (case column_text v of None \<Rightarrow> [] | Some bs \<Rightarrow> bs)))"

definition sqlite_next :: "sqlite_rs \<Rightarrow> (bool \<times> sqlite_rs) outcome" where
  "sqlite_next r =
     (case s_pending r of
        [] \<Rightarrow> Inr (False, r\<lparr>s_row := None\<rparr>)
      | STEP_ROW row # steps \<Rightarrow>
          Inr (True, r\<lparr>s_rowPosition := s_rowPosition r + 1, s_numRows := s_numRows r + 1,
                       s_row := Some row, s_pending := steps\<rparr>)
      | STEP_ERROR # steps \<Rightarrow>
          Inl (Thrown (str ''SQLiteResultSet: Error while executing or fetching data'')))"

definition sqlite_isFirst :: "sqlite_rs \<Rightarrow> bool" where
  "sqlite_isFirst r \<longleftrightarrow> s_rowPosition r = 1"

definition sqlite_rowsCount :: "sqlite_rs \<Rightarrow> u32" where
  "sqlite_rowsCount r = s_numRows r"

section \<open>ResultSet\<close>

datatype result_set = RS_MySQL mysql_rs | RS_SQLite sqlite_rs

definition rs_next :: "result_set \<Rightarrow> (bool \<times> result_set) outcome" where
  "rs_next r = (case r of
       RS_MySQL m \<Rightarrow> (let (avail, m') = mysql_next m in Inr (avail, RS_MySQL m'))
     | RS_SQLite s \<Rightarrow> obind (sqlite_next s) (\<lambda>(avail, s'). Inr (avail, RS_SQLite s')))"

definition rs_rowsCount :: "result_set \<Rightarrow> u32" where
  "rs_rowsCount r = (case r of RS_MySQL m \<Rightarrow> mysql_rowsCount m | RS_SQLite s \<Rightarrow> sqlite_rowsCount s)"

definition rs_getBool :: "u8 \<Rightarrow> result_set \<Rightarrow> bool outcome" where
  "rs_getBool i r = (case r of RS_MySQL m \<Rightarrow> mysql_getBool i m | RS_SQLite s \<Rightarrow> sqlite_getBool i s)"

definition rs_getUint8 :: "u8 \<Rightarrow> result_set \<Rightarrow> u8 outcome" where
  "rs_getUint8 i r = (case r of RS_MySQL m \<Rightarrow> mysql_getUint8 i m | RS_SQLite s \<Rightarrow> sqlite_getUint8 i s)"

definition rs_getUint16 :: "u8 \<Rightarrow> result_set \<Rightarrow> u16 outcome" where
  "rs_getUint16 i r = (case r of RS_MySQL m \<Rightarrow> mysql_getUint16 i m | RS_SQLite s \<Rightarrow> sqlite_getUint16 i s)"

definition rs_getUint32 :: "u8 \<Rightarrow> result_set \<Rightarrow> u32 outcome" where
  "rs_getUint32 i r = (case r of RS_MySQL m \<Rightarrow> mysql_getUint32 i m | RS_SQLite s \<Rightarrow> sqlite_getUint32 i s)"

definition rs_getUint64 :: "u8 \<Rightarrow> result_set \<Rightarrow> u64 outcome" where
  "rs_getUint64 i r = (case r of RS_MySQL m \<Rightarrow> mysql_getUint64 i m | RS_SQLite s \<Rightarrow> sqlite_getUint64 i s)"

definition rs_getFloat :: "u8 \<Rightarrow> result_set \<Rightarrow> u32 outcome" where
  "rs_getFloat i r = (case r of RS_MySQL m \<Rightarrow> mysql_getFloat i m | RS_SQLite s \<Rightarrow> sqlite_getFloat i s)"

definition rs_getString :: "u8 \<Rightarrow> result_set \<Rightarrow> bytes outcome" where
  "rs_getString i r = (case r of RS_MySQL m \<Rightarrow> mysql_getString i m | RS_SQLite s \<Rightarrow> sqlite_getString i s)"

definition rs_left :: "result_set \<Rightarrow> nat" where
  "rs_left r = (case r of RS_MySQL m \<Rightarrow> length (m_pending m) | RS_SQLite s \<Rightarrow> length (s_pending s))"

lemma rs_next_left: "rs_next r = Inr (True, r') \<Longrightarrow> rs_left r' < rs_left r"
  by (auto simp: rs_next_def rs_left_def mysql_next_def sqlite_next_def obind_eq_Inr
      split: result_set.splits list.splits sqlite_step.splits)

text \<open>The loop \<open>while (res->next()) body\<close>, with the variables the body assigns as \<open>s\<close>.\<close>

function rs_while :: "(result_set \<Rightarrow> 's \<Rightarrow> 's outcome) \<Rightarrow> result_set \<Rightarrow> 's \<Rightarrow> 's outcome" where
  "rs_while body r s =
     (case rs_next r of
        Inl e \<Rightarrow> Inl e
      | Inr (avail, r') \<Rightarrow> if avail then obind (body r' s) (rs_while body r') else Inr s)"
  by pat_completeness auto
termination
  by (relation "measure (\<lambda>(body, r, s). rs_left r)") (auto dest: rs_next_left)

declare rs_while.simps [simp del]

section \<open>The cursor interface\<close>

text \<open>
  What the observers rely on: \<open>next\<close> steps through the rows in order and reports the end, and
  the getters read the current row.  \<open>pending\<close> are the rows not yet fetched, \<open>current\<close> is the row
  fetched last.  \<open>col\<close> maps the index a getter is given to the position of the column it reads;
  the two drivers differ there.
\<close>

locale row_cursor =
  fixes nxt :: "'r \<Rightarrow> (bool \<times> 'r) outcome"
    and get :: "u8 \<Rightarrow> 'r \<Rightarrow> 'v outcome"
    and ok :: "'r \<Rightarrow> bool"
    and pending :: "'r \<Rightarrow> 'row list"
    and current :: "'r \<Rightarrow> 'row option"
    and col :: "u8 \<Rightarrow> 'row \<Rightarrow> 'v outcome"
  assumes next_end: "ok r \<Longrightarrow> pending r = [] \<Longrightarrow> \<exists>r'. nxt r = Inr (False, r')"
    and next_row: "ok r \<Longrightarrow> pending r = row # rows \<Longrightarrow>
          \<exists>r'. nxt r = Inr (True, r') \<and> ok r' \<and> pending r' = rows \<and> current r' = Some row"
    and get_current: "ok r \<Longrightarrow> current r = Some row \<Longrightarrow> get i r = col i row"
begin

text \<open>A loop over the cursor is a fold over the rows, whatever the loop's body does with the
  current row.\<close>

lemma loop_fold:
  assumes loop: "\<And>r s. loop r s = (case nxt r of
      Inl e \<Rightarrow> Inl e
    | Inr (avail, r') \<Rightarrow> if avail then obind (body r' s) (loop r') else Inr s)"
    and body: "\<And>r row s. ok r \<Longrightarrow> current r = Some row \<Longrightarrow> body r s = step row s"
  shows "ok r \<Longrightarrow> loop r s = ofold step (pending r) s"
proof (induction "pending r" arbitrary: r s)
  case Nil
  then obtain r' where "nxt r = Inr (False, r')"
    using next_end by metis
  with Nil show ?case by (subst loop) simp
next
  case (Cons row rows)
  from Cons.prems Cons.hyps(2) obtain r' where n: "nxt r = Inr (True, r')"
    and r': "ok r'" "pending r' = rows" "current r' = Some row"
    using next_row [of r row rows] by auto
  have "obind (body r' s) (loop r') = obind (step row s) (ofold step rows)"
    using Cons.hyps(1) [of r'] r' by (intro obind_cong) (simp_all add: body)
  with n Cons.hyps(2) [symmetric] show ?case by (subst loop) simp
qed

end

text \<open>Both drivers provide the interface, each with its own column numbering.\<close>

definition mysql_ok :: "mysql_rs \<Rightarrow> bool" where
  "mysql_ok r \<longleftrightarrow>
     length (m_bindResult r) = unat (m_numFields r) \<and>
     (\<forall>row\<in>set (m_pending r). length row = unat (m_numFields r)) \<and>
     unat (m_rowPosition r) + length (m_pending r) < 2 ^ 32"

definition mysql_current :: "mysql_rs \<Rightarrow> mysql_cell list option" where
  "mysql_current r =
     (if m_rowPosition r = 0 \<or> length (m_bindResult r) \<noteq> unat (m_numFields r) then None
      else Some (m_bindResult r))"

definition mysql_col :: "u8 \<Rightarrow> mysql_cell list \<Rightarrow> mysql_cell outcome" where
  "mysql_col i row =
     (if i = 0 \<or> length row < unat i
      then Inl (Thrown (str ''MySQLPreparedResultSet, invalid index'')) else Inr (row ! (unat i - 1)))"

definition mysql_cell_at :: "u8 \<Rightarrow> mysql_rs \<Rightarrow> mysql_cell outcome" where
  "mysql_cell_at i r = obind (mysql_checkValidity i r) (\<lambda>_. mysql_column i r)"

definition sqlite_ok :: "sqlite_rs \<Rightarrow> bool" where
  "sqlite_ok r \<longleftrightarrow>
     STEP_ERROR \<notin> set (s_pending r) \<and>
     (\<forall>row. s_row r = Some row \<longrightarrow> s_rowPosition r \<noteq> 0 \<and> length row = unat (s_numFields r)) \<and>
     (\<forall>row. STEP_ROW row \<in> set (s_pending r) \<longrightarrow> length row = unat (s_numFields r)) \<and>
     unat (s_rowPosition r) + length (s_pending r) < 2 ^ 32"

fun step_rows :: "sqlite_step list \<Rightarrow> sqlite_value list list" where
  "step_rows (STEP_ROW row # steps) = row # step_rows steps"
| "step_rows _ = []"

definition sqlite_col :: "u8 \<Rightarrow> sqlite_value list \<Rightarrow> sqlite_value outcome" where
  "sqlite_col i row =
     (if i = 0 \<or> length row < unat i
      then Inl (Thrown (str ''SQLiteResultSet: invalid index''))
      else if unat i < length row then Inr (row ! unat i) else Inl Out_of_bounds)"

definition sqlite_cell_at :: "u8 \<Rightarrow> sqlite_rs \<Rightarrow> sqlite_value outcome" where
  "sqlite_cell_at i r = obind (sqlite_checkValidity i r) (\<lambda>_. sqlite_column i r)"

lemma word_succ_nonzero: "unat w + Suc n < 2 ^ 32 \<Longrightarrow> w + 1 \<noteq> (0 :: u32) \<and> unat (w + 1) = Suc (unat w)"
proof -
  assume "unat w + Suc n < 2 ^ 32"
  then have "unat (w + 1) = unat w + 1" by (simp add: unat_word_ariths)
  then show ?thesis by (metis Suc_eq_plus1 unat_0 nat.distinct(1))
qed

lemma index_gt_fields: "(ucast (i :: u8) > (n :: u32)) = (unat n < unat i)"
  by (simp add: word_less_nat_alt unsigned_ucast_eq take_bit_nat_eq_self less_le_trans [OF unat_byte_less])

lemma unat_pos: "i \<noteq> 0 \<Longrightarrow> 0 < unat i"
  by (simp add: unat_gt_0)

interpretation mysql_cursor: row_cursor "\<lambda>r. Inr (mysql_next r)" mysql_cell_at mysql_ok m_pending
    mysql_current mysql_col
proof unfold_locales
  fix r assume "mysql_ok r" "m_pending r = []"
  then show "\<exists>r'. Inr (mysql_next r) = (Inr (False, r') :: (bool \<times> mysql_rs) outcome)"
    by (simp add: mysql_next_def)
next
  fix r :: mysql_rs and row rows assume ok: "mysql_ok r" and p: "m_pending r = row # rows"
  then have "unat (m_rowPosition r) + Suc (length rows) < 2 ^ 32" by (simp add: mysql_ok_def)
  from word_succ_nonzero [OF this] ok p
  show "\<exists>r'. Inr (mysql_next r) = (Inr (True, r') :: (bool \<times> mysql_rs) outcome) \<and> mysql_ok r' \<and>
          m_pending r' = rows \<and> mysql_current r' = Some row"
    by (simp add: mysql_next_def mysql_ok_def mysql_current_def)
next
  fix r row i assume "mysql_ok r" "mysql_current r = Some row"
  then show "mysql_cell_at i r = mysql_col i row"
    by (auto simp: mysql_cell_at_def mysql_checkValidity_def mysql_column_def mysql_col_def
        mysql_current_def index_gt_fields unat_minus_one split: if_splits dest: unat_pos)
qed

interpretation sqlite_cursor: row_cursor sqlite_next sqlite_cell_at sqlite_ok "step_rows \<circ> s_pending"
    s_row sqlite_col
proof unfold_locales
  fix r assume "sqlite_ok r" "(step_rows \<circ> s_pending) r = []"
  then show "\<exists>r'. sqlite_next r = Inr (False, r')"
    by (cases "s_pending r" rule: step_rows.cases) (auto simp: sqlite_next_def sqlite_ok_def)
next
  fix r :: sqlite_rs and row rows assume ok: "sqlite_ok r" and p: "(step_rows \<circ> s_pending) r = row # rows"
  then obtain steps where s: "s_pending r = STEP_ROW row # steps" and rows: "rows = step_rows steps"
    by (cases "s_pending r" rule: step_rows.cases) (auto simp: sqlite_ok_def)
  from ok s have "unat (s_rowPosition r) + Suc (length steps) < 2 ^ 32" by (simp add: sqlite_ok_def)
  from word_succ_nonzero [OF this] ok s rows
  show "\<exists>r'. sqlite_next r = Inr (True, r') \<and> sqlite_ok r' \<and> (step_rows \<circ> s_pending) r' = rows \<and>
          s_row r' = Some row"
    by (auto simp: sqlite_next_def sqlite_ok_def)
next
  fix r row i assume "sqlite_ok r" "s_row r = Some row"
  then show "sqlite_cell_at i r = sqlite_col i row"
    by (auto simp: sqlite_cell_at_def sqlite_checkValidity_def sqlite_column_def sqlite_col_def
        sqlite_ok_def index_gt_fields)
qed

section \<open>Reading rows through the getters\<close>

lemma mysql_get_cell: "mysql_get i r = obind (mysql_cell_at i r) (\<lambda>c. case c of
      None \<Rightarrow> Inr 0
    | Some (bs, n) \<Rightarrow> (if LENGTH('a) div 8 \<le> length bs then Inr (of_le (take (LENGTH('a) div 8) bs) :: 'a::len word)
                 else Inl Out_of_bounds))"
  by (simp add: mysql_get_def mysql_cell_at_def obind_assoc)

lemma mysql_getString_cell: "mysql_getString i r = obind (mysql_cell_at i r) (\<lambda>c.
    case c of
      None \<Rightarrow> Inr []
    | Some (bs, n) \<Rightarrow> (if n \<le> length bs then Inr (take n bs) else Inl Out_of_bounds))"
  by (simp add: mysql_getString_def mysql_cell_at_def obind_assoc)

end
