(* ===== verification/Openssl.thy ===== *)
theory Openssl
  imports Prelude
begin

text \<open>
  The part of OpenSSL that the daemons use.  OpenSSL is not part of the repository, so its
  functions are the fields of a record, an argument of every definition that calls them;
  \<open>openssl_ok\<close> states their documented behaviour.  A \<open>BIGNUM\<close> is a natural number, and
  a digest context that is initialised, updated and finished is the digest of the
  concatenated updates.
\<close>

section \<open>The interface\<close>

record openssl =
  sha1 :: "bytes \<Rightarrow> bytes"
  hmac_sha1 :: "bytes \<Rightarrow> bytes \<Rightarrow> bytes"
  bn_mod_exp :: "nat \<Rightarrow> nat \<Rightarrow> nat \<Rightarrow> nat"
  bn_mul :: "nat \<Rightarrow> nat \<Rightarrow> nat"
  bn_add :: "nat \<Rightarrow> nat \<Rightarrow> nat"
  bn_mod :: "nat \<Rightarrow> nat \<Rightarrow> nat"
  bn2bin :: "nat \<Rightarrow> bytes"
  bin2bn :: "bytes \<Rightarrow> nat"
  bn2hex :: "nat \<Rightarrow> bytes"
  hex2bn :: "bytes \<Rightarrow> nat option"

text \<open>
  \<open>bn_mod_exp a p m\<close> is \<open>BN_mod_exp(r, a, p, m, ctx)\<close>.  \<open>hex2bn\<close> is \<open>None\<close> where
  \<open>BN_hex2bn\<close> parses nothing and leaves the number as it was (an empty string).
  \<open>bn2bin\<close> is the minimal big-endian encoding, so \<open>BN_num_bytes\<close> is its length.
\<close>

definition hex_digit :: "byte \<Rightarrow> nat option" where
  "hex_digit c =
     (if 48 \<le> c \<and> c \<le> 57 then Some (unat c - 48)
      else if 65 \<le> c \<and> c \<le> 70 then Some (unat c - 55)
      else if 97 \<le> c \<and> c \<le> 102 then Some (unat c - 87)
      else None)"

definition is_hex :: "bytes \<Rightarrow> bool" where
  "is_hex bs \<longleftrightarrow> bs \<noteq> [] \<and> (\<forall>c\<in>set bs. hex_digit c \<noteq> None)"

definition nat_of_hex :: "bytes \<Rightarrow> nat" where
  "nat_of_hex bs = foldl (\<lambda>a c. a * 16 + the (hex_digit c)) 0 bs"

definition openssl_ok :: "openssl \<Rightarrow> bool" where
  "openssl_ok L \<longleftrightarrow>
     (\<forall>x. length (sha1 L x) = 20) \<and>
     (\<forall>k x. length (hmac_sha1 L k x) = 20) \<and>
     (\<forall>a p m. 1 < m \<longrightarrow> bn_mod_exp L a p m = a ^ p mod m) \<and>
     (\<forall>a b. bn_mul L a b = a * b) \<and>
     (\<forall>a b. bn_add L a b = a + b) \<and>
     (\<forall>a m. 0 < m \<longrightarrow> bn_mod L a m = a mod m) \<and>
     (\<forall>n. nat_of_be (bn2bin L n) = n) \<and>
     (\<forall>n. bn2bin L n = [] \<or> hd (bn2bin L n) \<noteq> 0) \<and>
     (\<forall>bs. bin2bn L bs = nat_of_be bs) \<and>
     (\<forall>bs. is_hex bs \<longrightarrow> hex2bn L bs = Some (nat_of_hex bs)) \<and>
     hex2bn L [] = None \<and>
     (\<forall>n. is_hex (bn2hex L n) \<and> nat_of_hex (bn2hex L n) = n)"

lemma openssl_okD:
  assumes "openssl_ok L"
  shows "length (sha1 L x) = 20"
    and "length (hmac_sha1 L key x) = 20"
    and "1 < m \<Longrightarrow> bn_mod_exp L a p m = a ^ p mod m"
    and "bn_mul L a b = a * b"
    and "bn_add L a b = a + b"
    and "0 < m \<Longrightarrow> bn_mod L a m = a mod m"
    and "nat_of_be (bn2bin L n) = n"
    and "bn2bin L n = [] \<or> hd (bn2bin L n) \<noteq> 0"
    and "bin2bn L bs = nat_of_be bs"
    and "hex2bn L (bn2hex L n) = Some n"
    and "is_hex hs \<Longrightarrow> hex2bn L hs = Some (nat_of_hex hs)"
    and "hex2bn L [] = None"
    and "0 \<notin> set (bn2hex L n)"
proof -
  have hex: "is_hex (bn2hex L n)" "nat_of_hex (bn2hex L n) = n" for n
    using assms by (auto simp: openssl_ok_def)
  have "hex_digit 0 = None" by (simp add: hex_digit_def)
  then show "0 \<notin> set (bn2hex L n)" using hex(1) [of n] by (auto simp: is_hex_def)
  show "hex2bn L (bn2hex L n) = Some n" using assms hex by (simp add: openssl_ok_def)
qed (use assms in \<open>auto simp: openssl_ok_def\<close>)

lemmas openssl_simps = openssl_okD(1-7,9-13)

section \<open>Numbers in fixed buffers\<close>

text \<open>\<open>BN_bn2bin(n, buf)\<close> writes from the front of the buffer and leaves the rest of it.\<close>

definition bn2bin_into :: "openssl \<Rightarrow> nat \<Rightarrow> bytes \<Rightarrow> bytes outcome" where
  "bn2bin_into L n buf =
     (if length (bn2bin L n) \<le> length buf then Inr (splice_at 0 (bn2bin L n) buf)
      else Inl Out_of_bounds)"

lemma nat_of_be_Cons: "nat_of_be (c # cs) = unat c * 256 ^ length cs + nat_of_be cs"
  using nat_of_be_append [of "[c]" cs] by (simp add: nat_of_be_def)

text \<open>The minimal encoding of a number below \<open>256^k\<close> has at most \<open>k\<close> bytes; it has
  exactly \<open>k\<close> when the number is also at least \<open>256^(k-1)\<close>.\<close>

lemma length_bn2bin_le:
  assumes "openssl_ok L" and "n < 256 ^ k"
  shows "length (bn2bin L n) \<le> k"
proof (rule ccontr)
  assume "\<not> length (bn2bin L n) \<le> k"
  then obtain c cs where eq: "bn2bin L n = c # cs" and k: "k \<le> length cs"
    by (cases "bn2bin L n") auto
  have "c \<noteq> 0" using openssl_okD(8) [OF assms(1), of n] eq by simp
  then have c: "1 \<le> unat c" by (simp add: unat_gt_0 Suc_le_eq)
  have "(256 :: nat) ^ k \<le> 256 ^ length cs" using k by (simp add: power_increasing)
  also have "\<dots> \<le> unat c * 256 ^ length cs" using c by simp
  also have "\<dots> \<le> nat_of_be (bn2bin L n)" by (simp add: eq nat_of_be_Cons)
  also have "\<dots> = n" by (rule openssl_okD(7) [OF assms(1)])
  finally show False using assms(2) by simp
qed

lemma length_bn2bin_eq:
  assumes "openssl_ok L" and "n < 256 ^ Suc k" and "256 ^ k \<le> n"
  shows "length (bn2bin L n) = Suc k"
proof (rule antisym)
  show "length (bn2bin L n) \<le> Suc k"
    using assms(1,2) by (rule length_bn2bin_le)
  show "Suc k \<le> length (bn2bin L n)"
  proof (rule ccontr)
    assume "\<not> Suc k \<le> length (bn2bin L n)"
    then have "(256 :: nat) ^ length (bn2bin L n) \<le> 256 ^ k"
      by (intro power_increasing) auto
    moreover have "nat_of_be (bn2bin L n) < 256 ^ length (bn2bin L n)"
      by (rule nat_of_be_less)
    ultimately show False
      using assms(3) openssl_okD(7) [OF assms(1), of n] by linarith
  qed
qed

lemma bn2bin_into_full:
  "length (bn2bin L n) = length buf \<Longrightarrow> bn2bin_into L n buf = Inr (bn2bin L n)"
  by (simp add: bn2bin_into_def splice_at_def)

text \<open>A shorter number fills the front; the tail of the buffer stays what it was.\<close>

lemma bn2bin_into_short:
  "length (bn2bin L n) \<le> length buf \<Longrightarrow>
     bn2bin_into L n buf = Inr (bn2bin L n @ drop (length (bn2bin L n)) buf)"
  by (simp add: bn2bin_into_def splice_at_def)

lemma length_bn2bin_into:
  "bn2bin_into L n buf = Inr bs \<Longrightarrow> length bs = length buf"
  by (auto simp: bn2bin_into_def split: if_splits)

section \<open>An instance\<close>

text \<open>A concrete instance of the interface, used to show that its laws can hold together.
  The digest is not SHA-1, only a function of the right shape; the rest is exact.\<close>

fun be_of_nat :: "nat \<Rightarrow> bytes" where
  "be_of_nat n = (if n = 0 then [] else be_of_nat (n div 256) @ [of_nat n])"

declare be_of_nat.simps [simp del]

definition hex_char :: "nat \<Rightarrow> byte" where
  "hex_char d = of_nat (if d < 10 then 48 + d else 55 + d)"

fun hex_of_nat :: "nat \<Rightarrow> bytes" where
  "hex_of_nat n = (if n < 16 then [hex_char n] else hex_of_nat (n div 16) @ [hex_char (n mod 16)])"

declare hex_of_nat.simps [simp del]

lemma hex_digit_char: "d < 16 \<Longrightarrow> hex_digit (hex_char d) = Some d"
proof -
  assume "d < 16"
  moreover have "\<forall>d<16. hex_digit (hex_char d) = Some d"
    by (simp add: All_less_Suc numeral_eq_Suc) (simp add: hex_digit_def hex_char_def)
  ultimately show ?thesis by blast
qed

lemma hex_of_nat_ok: "is_hex (hex_of_nat n) \<and> nat_of_hex (hex_of_nat n) = n"
proof (induction n rule: hex_of_nat.induct)
  case (1 n)
  show ?case
  proof (cases "n < 16")
    case True
    then show ?thesis
      by (subst (1 2) hex_of_nat.simps) (simp add: is_hex_def nat_of_hex_def hex_digit_char)
  next
    case False
    with 1 show ?thesis
      by (subst (1 2) hex_of_nat.simps) (auto simp: is_hex_def nat_of_hex_def hex_digit_char)
  qed
qed

definition hex_prefix :: "bytes \<Rightarrow> bytes" where
  "hex_prefix bs = takeWhile (\<lambda>c. hex_digit c \<noteq> None) bs"

lemma hex_prefix_is_hex: "is_hex bs \<Longrightarrow> hex_prefix bs = bs"
  by (auto simp: is_hex_def hex_prefix_def takeWhile_eq_all_conv)

definition demo_digest :: "bytes \<Rightarrow> bytes" where
  "demo_digest x = take 20 (x @ replicate 20 0)"

lemma length_demo_digest: "length (demo_digest x) = 20"
  by (simp add: demo_digest_def min_def)

definition demo_openssl :: openssl where
  "demo_openssl = \<lparr>
     sha1 = demo_digest,
     hmac_sha1 = (\<lambda>k x. demo_digest (x @ k)),
     bn_mod_exp = (\<lambda>a p m. a ^ p mod m),
     bn_mul = (\<lambda>a b. a * b),
     bn_add = (\<lambda>a b. a + b),
     bn_mod = (\<lambda>a m. a mod m),
     bn2bin = be_of_nat,
     bin2bn = nat_of_be,
     bn2hex = hex_of_nat,
     hex2bn = (\<lambda>bs. if hex_prefix bs = [] then None else Some (nat_of_hex (hex_prefix bs)))\<rparr>"

lemma nat_of_be_of_nat: "nat_of_be (be_of_nat n) = n"
proof (induction n rule: be_of_nat.induct)
  case (1 n)
  then show ?case
    by (subst be_of_nat.simps) (simp add: unsigned_of_nat take_bit_eq_mod)
qed

lemma hd_be_of_nat: "be_of_nat n = [] \<or> hd (be_of_nat n) \<noteq> 0"
proof (induction n rule: be_of_nat.induct)
  case (1 n)
  show ?case
  proof (cases "n = 0")
    case True
    then show ?thesis by (simp add: be_of_nat.simps)
  next
    case False
    show ?thesis
    proof (cases "n div 256 = 0")
      case True
      then have "n < 256" by simp
      have "unat (of_nat n :: byte) = n"
        using \<open>n < 256\<close> by (simp add: unat_of_nat_small)
      then have "(of_nat n :: byte) \<noteq> 0" using False by auto
      with True False show ?thesis
        by (simp add: be_of_nat.simps [of n] be_of_nat.simps [of 0])
    next
      case d: False
      have "be_of_nat (n div 256) \<noteq> []"
        using d by (simp add: be_of_nat.simps [of "n div 256"])
      with 1 [OF False] False show ?thesis
        by (simp add: be_of_nat.simps [of n])
    qed
  qed
qed

lemma openssl_ok_demo: "openssl_ok demo_openssl"
  by (simp add: openssl_ok_def demo_openssl_def length_demo_digest nat_of_be_of_nat hd_be_of_nat
      hex_prefix_is_hex hex_of_nat_ok)
     (simp add: hex_prefix_def is_hex_def)

end
