(* ===== verification/Realm_Database.thy ===== *)
theory Realm_Database
  imports Sql_Operation Result_Set Openssl
begin

text \<open>
  The database side of the realm daemon (src/realmd/Realm_Database.h and .cpp): the statements
  every connection prepares, the requests that \<open>RealmDB\<close> puts on the queue, and the
  observers that turn a query result into the argument of a socket's callback.

  An observer's \<open>update\<close> is a function of the result set; what it calls back with (and
  what it stores in the socket first) is its value.  The request is returned to the caller,
  which appends it to the queue.
\<close>

section \<open>Accounts\<close>

record account =
  sha_pass :: bytes
  acct_id :: u64
  locked :: bool
  last_ip :: bytes
  gmlevel :: u8
  failed_logins :: u8

datatype AccountState = ACCOUNT_EXISTS | ACCOUNT_NOTFOUND | ACCOUNT_BANNED

section \<open>Statements\<close>

datatype realm_stmt =
    REALMD_DB_SET_S_V | REALMD_DB_PRUNE_BANS | REALMD_DB_SET_INACTIVE_BANS
  | REALMD_DB_UPDATE_ACCOUNT | REALMD_DB_SET_FAILED_LOGINS | REALMD_DB_ADD_ACCOUNT_AUTOBAN
  | REALMD_DB_ADD_IP_AUTOBAN | REALMD_DB_CHECK_IP_BAN | REALMD_DB_GET_ACCT
  | REALMD_DB_CHECK_ACCT_BAN | REALMD_DB_CHECK_FAILED_LOGIN | REALMD_DB_GET_SESSIONKEY
  | REALMD_DB_GET_PASS_HASH | REALMD_DB_GET_NUMCHAR | REALMD_DB_PING
  | REALMD_DB_GET_REALMLIST | REALMD_DB_FIX_SV

text \<open>\<open>RealmDatabaseConnection::open\<close>: the text prepared for each statement; an entry that
  is not listed stays a null pointer in \<open>statement_holder\<close>.\<close>

definition realm_statements :: "(realm_stmt \<times> bytes) list" where
  "realm_statements = [
     (REALMD_DB_SET_INACTIVE_BANS, str ''UPDATE account_banned SET active = 0 WHERE unbandate<=UNIX_TIMESTAMP() AND unbandate<>bandate''),
     (REALMD_DB_PRUNE_BANS, str ''DELETE FROM ip_banned WHERE unbandate<=UNIX_TIMESTAMP() AND unbandate<>bandate''),
     (REALMD_DB_CHECK_IP_BAN, str ''SELECT * FROM ip_banned WHERE ip = ?''),
     (REALMD_DB_CHECK_ACCT_BAN, str ''SELECT UPPER(a.sha_pass_hash) , a.id, a.locked, a.last_ip, ab.active, a.failed_logins FROM account AS a LEFT OUTER JOIN account_banned AS ab ON ab.id = a.id AND ab.active = 1 WHERE a.username = ?''),
     (REALMD_DB_SET_S_V, str ''UPDATE account SET v = ?, s = ? WHERE username = ?''),
     (REALMD_DB_UPDATE_ACCOUNT, str ''UPDATE account SET sessionkey = ?, last_ip = ?, last_login = NOW(), locale = ?, failed_logins = 0 WHERE username = ?''),
     (REALMD_DB_GET_REALMLIST, str ''SELECT id, name, icon, color, timezone, allowedSecurityLevel, population, gamebuild FROM realmlist WHERE color <> 3 ORDER BY id''),
     (REALMD_DB_GET_NUMCHAR, str ''SELECT realmid, numchars FROM realmcharacters WHERE acctid = ?''),
     (REALMD_DB_FIX_SV, str ''UPDATE account set s ='' @ [39, 39] @ str '', v ='' @ [39, 39] @ str '' where username = ?''),
     (REALMD_DB_SET_FAILED_LOGINS, str ''UPDATE account set failed_logins = failed_logins + 1 where id = ?''),
     (REALMD_DB_ADD_IP_AUTOBAN, str ''INSERT INTO ip_banned VALUES (?,UNIX_TIMESTAMP(),UNIX_TIMESTAMP()+ ?,'Morpheus realmd','Failed login autoban')''),
     (REALMD_DB_ADD_ACCOUNT_AUTOBAN, str ''INSERT INTO account_banned VALUES (? ,UNIX_TIMESTAMP(),UNIX_TIMESTAMP()+ ?,'Morpheus realmd','Failed login autoban',1)''),
     (REALMD_DB_GET_SESSIONKEY, str ''SELECT sessionkey FROM account WHERE username = ?'')]"

definition placeholders :: "bytes \<Rightarrow> nat" where
  "placeholders sql = length (filter (\<lambda>c. c = 63) sql)"

section \<open>Requests\<close>

datatype realm_obs = checkIpBan | checkAcct | getCharAmnt | getSessionKey | getRealmList

type_synonym realm_op = "(realm_stmt, realm_obs) sql_op"

definition ban_failed_logins_id :: "u64 \<Rightarrow> realm_op outcome" where
  "ban_failed_logins_id ident =
     obind (add_uint32 1 (ucast ident) (sql_request REALMD_DB_ADD_ACCOUNT_AUTOBAN)) (add_uint32 2 600)"

definition ban_failed_logins_ip :: "bytes \<Rightarrow> realm_op outcome" where
  "ban_failed_logins_ip ip =
     obind (add_string 1 ip (sql_request REALMD_DB_ADD_IP_AUTOBAN)) (add_uint32 2 600)"

definition increment_failed_logins :: "u64 \<Rightarrow> realm_op outcome" where
  "increment_failed_logins ident = add_uint64 1 ident (sql_request REALMD_DB_SET_FAILED_LOGINS)"

definition fix_sv :: "bytes \<Rightarrow> realm_op outcome" where
  "fix_sv login =
     obind (add_string 1 login (sql_request REALMD_DB_FIX_SV))
       (\<lambda>op. Inr (op\<lparr>op_priority := PRIORITY_HIGH\<rparr>))"

definition set_sv :: "bytes \<Rightarrow> bytes \<Rightarrow> bytes \<Rightarrow> realm_op outcome" where
  "set_sv login s_str v_str =
     obind (add_string 1 v_str (sql_request REALMD_DB_SET_S_V))
       (\<lambda>op. obind (add_string 2 s_str op) (add_string 3 login))"

text \<open>\<open>K_buff\<close> is the 40-byte little-endian session key.\<close>

definition update_account :: "openssl \<Rightarrow> bytes \<Rightarrow> bytes \<Rightarrow> bytes \<Rightarrow> realm_op outcome" where
  "update_account L login ip K_buff =
     (let K = bin2bn L (rev K_buff)
      in obind (add_string 1 (bn2hex L K) (sql_request REALMD_DB_UPDATE_ACCOUNT))
           (\<lambda>op. obind (add_string 2 ip op)
             (\<lambda>op. obind (add_uint8 3 0 op) (add_string 4 login))))"

text \<open>The requests for a connection carry the observer to notify.\<close>

definition check_ip_ban :: "bytes \<Rightarrow> realm_op outcome" where
  "check_ip_ban ip = add_string 1 ip (sql_request_res REALMD_DB_CHECK_IP_BAN checkIpBan)"

definition get_account :: "bytes \<Rightarrow> realm_op outcome" where
  "get_account login = add_string 1 login (sql_request_res REALMD_DB_CHECK_ACCT_BAN checkAcct)"

definition db_get_char_amount :: "u64 \<Rightarrow> realm_op outcome" where
  "db_get_char_amount ident = add_uint32 1 (ucast ident) (sql_request_res REALMD_DB_GET_NUMCHAR getCharAmnt)"

definition db_get_sessionkey :: "bytes \<Rightarrow> realm_op outcome" where
  "db_get_sessionkey login = add_string 1 login (sql_request_res REALMD_DB_GET_SESSIONKEY getSessionKey)"

definition get_realmlist :: "realm_op outcome" where
  "get_realmlist = Inr (sql_request_res REALMD_DB_GET_REALMLIST getRealmList)"

text \<open>\<open>Unban_Timer::handle_timeout\<close> (src/realmd/Realm_Timer.h).\<close>

definition unban_timer :: "realm_op list" where
  "unban_timer = [sql_request REALMD_DB_PRUNE_BANS, sql_request REALMD_DB_SET_INACTIVE_BANS]"

section \<open>Observers\<close>

definition checkIpBanObsv :: "result_set \<Rightarrow> bool outcome" where
  "checkIpBanObsv res = obind (rs_next res) (\<lambda>(_, res'). Inr (rs_rowsCount res' \<noteq> 0))"

definition checkAcctObsv :: "result_set \<Rightarrow> (AccountState \<times> account option) outcome" where
  "checkAcctObsv res = obind (rs_next res) (\<lambda>(_, r).
     if rs_rowsCount r = 0 then Inr (ACCOUNT_NOTFOUND, None)
     else obind (rs_getUint8 5 r) (\<lambda>active.
       if active \<noteq> 0 then Inr (ACCOUNT_BANNED, None)
       else
         obind (rs_getString 1 r) (\<lambda>sha_pass.
         obind (rs_getUint32 2 r) (\<lambda>ident.
         obind (rs_getBool 3 r) (\<lambda>locked.
         obind (rs_getString 4 r) (\<lambda>last_ip.
         obind (rs_getUint8 5 r) (\<lambda>gmlevel.
         obind (rs_getUint8 6 r) (\<lambda>failed_logins.
           Inr (ACCOUNT_EXISTS,
                Some \<lparr>sha_pass = sha_pass, acct_id = ucast ident, locked = locked, last_ip = last_ip,
                      gmlevel = gmlevel, failed_logins = failed_logins\<rparr>)))))))))"

text \<open>The callback's argument, and the session key \<open>k\<close> that the observer leaves in the socket.
  \<open>BN_hex2bn\<close> leaves \<open>k\<close> alone where it finds no number.\<close>

definition getSessionKeyObsv :: "openssl \<Rightarrow> result_set \<Rightarrow> nat \<Rightarrow> (bool \<times> nat) outcome" where
  "getSessionKeyObsv L res k = obind (rs_next res) (\<lambda>(_, r).
     if rs_rowsCount r \<noteq> 0 then Inr (False, k)
     else obind (rs_getString 1 r) (\<lambda>hex.
       Inr (True, case hex2bn L hex of None \<Rightarrow> k | Some n \<Rightarrow> n)))"

text \<open>The arguments of the successive calls of the callback.\<close>

definition getCharAmntObsv :: "result_set \<Rightarrow> (u8 \<times> u8) list list outcome" where
  "getCharAmntObsv res =
     (let early = (if rs_rowsCount res = 0 then [[]] else [])
      in obind (rs_while (\<lambda>r amnt.
             obind (rs_getUint8 1 r) (\<lambda>realm. obind (rs_getUint8 2 r) (\<lambda>n.
               Inr (om_update realm n amnt)))) res [])
           (\<lambda>amnt. Inr (early @ [amnt])))"

section \<open>Lemmas\<close>

lemmas realm_request_defs = ban_failed_logins_id_def ban_failed_logins_ip_def
  increment_failed_logins_def fix_sv_def set_sv_def update_account_def check_ip_ban_def
  get_account_def db_get_char_amount_def db_get_sessionkey_def get_realmlist_def

text \<open>No request faults, and each one binds the placeholders of its statement.\<close>

lemma realm_requests_eval:
  "ban_failed_logins_id ident = Inr ((sql_request REALMD_DB_ADD_ACCOUNT_AUTOBAN)
     \<lparr>statement_data := [slot_uint32 (ucast ident), slot_uint32 600]\<rparr>)"
  "ban_failed_logins_ip ip = Inr ((sql_request REALMD_DB_ADD_IP_AUTOBAN)
     \<lparr>statement_data := [slot_string ip, slot_uint32 600]\<rparr>)"
  "increment_failed_logins ident = Inr ((sql_request REALMD_DB_SET_FAILED_LOGINS)
     \<lparr>statement_data := [slot_uint64 ident]\<rparr>)"
  "fix_sv login = Inr ((sql_request REALMD_DB_FIX_SV)
     \<lparr>statement_data := [slot_string login], op_priority := PRIORITY_HIGH\<rparr>)"
  "set_sv login s v = Inr ((sql_request REALMD_DB_SET_S_V)
     \<lparr>statement_data := [slot_string v, slot_string s, slot_string login]\<rparr>)"
  "update_account L login ip K = Inr ((sql_request REALMD_DB_UPDATE_ACCOUNT)
     \<lparr>statement_data := [slot_string (bn2hex L (bin2bn L (rev K))), slot_string ip, slot_uint8 0,
                         slot_string login]\<rparr>)"
  "check_ip_ban ip = Inr ((sql_request_res REALMD_DB_CHECK_IP_BAN checkIpBan)
     \<lparr>statement_data := [slot_string ip]\<rparr>)"
  "get_account login = Inr ((sql_request_res REALMD_DB_CHECK_ACCT_BAN checkAcct)
     \<lparr>statement_data := [slot_string login]\<rparr>)"
  "db_get_char_amount ident = Inr ((sql_request_res REALMD_DB_GET_NUMCHAR getCharAmnt)
     \<lparr>statement_data := [slot_uint32 (ucast ident)]\<rparr>)"
  "db_get_sessionkey login = Inr ((sql_request_res REALMD_DB_GET_SESSIONKEY getSessionKey)
     \<lparr>statement_data := [slot_string login]\<rparr>)"
  by (simp_all add: realm_request_defs sql_simps sql_request_def sql_request_res_def Let_def)

text \<open>A request is well formed when its statement is prepared and every placeholder of the
  statement gets a value.\<close>

definition realm_op_ok :: "realm_op \<Rightarrow> bool" where
  "realm_op_ok op \<longleftrightarrow>
     (\<exists>sql. map_of realm_statements (statement op) = Some sql \<and>
            length (statement_data op) = placeholders sql)"

lemma placeholders_prepared:
  "map_option placeholders (map_of realm_statements s) = (case s of
       REALMD_DB_SET_S_V \<Rightarrow> Some 3 | REALMD_DB_PRUNE_BANS \<Rightarrow> Some 0
     | REALMD_DB_SET_INACTIVE_BANS \<Rightarrow> Some 0 | REALMD_DB_UPDATE_ACCOUNT \<Rightarrow> Some 4
     | REALMD_DB_SET_FAILED_LOGINS \<Rightarrow> Some 1 | REALMD_DB_ADD_ACCOUNT_AUTOBAN \<Rightarrow> Some 2
     | REALMD_DB_ADD_IP_AUTOBAN \<Rightarrow> Some 2 | REALMD_DB_CHECK_IP_BAN \<Rightarrow> Some 1
     | REALMD_DB_CHECK_ACCT_BAN \<Rightarrow> Some 1 | REALMD_DB_GET_SESSIONKEY \<Rightarrow> Some 1
     | REALMD_DB_GET_NUMCHAR \<Rightarrow> Some 1 | REALMD_DB_GET_REALMLIST \<Rightarrow> Some 0
     | REALMD_DB_FIX_SV \<Rightarrow> Some 1 | _ \<Rightarrow> None)"
  by (cases s; simp add: realm_statements_def; simp add: placeholders_def str_def)

lemma requests_ok:
  "get_account l = Inr op \<Longrightarrow> realm_op_ok op" "check_ip_ban l = Inr op \<Longrightarrow> realm_op_ok op"
  "db_get_sessionkey l = Inr op \<Longrightarrow> realm_op_ok op" "db_get_char_amount i = Inr op \<Longrightarrow> realm_op_ok op"
  "increment_failed_logins i = Inr op \<Longrightarrow> realm_op_ok op"
  "ban_failed_logins_id i = Inr op \<Longrightarrow> realm_op_ok op" "ban_failed_logins_ip l = Inr op \<Longrightarrow> realm_op_ok op"
  "update_account L l a k = Inr op \<Longrightarrow> realm_op_ok op"
  "fix_sv l = Inr op \<Longrightarrow> realm_op_ok op" "set_sv l a c = Inr op \<Longrightarrow> realm_op_ok op"
  "get_realmlist = Inr op \<Longrightarrow> realm_op_ok op" "op \<in> set unban_timer \<Longrightarrow> realm_op_ok op"
  using placeholders_prepared [of "statement op"]
  by (auto simp: realm_requests_eval realm_op_ok_def sql_request_def sql_request_res_def get_realmlist_def
      unban_timer_def)

end
