(* ===== verification/Float_Bits.thy ===== *)
theory Float_Bits
  imports Prelude
begin

text \<open>
  The little floating-point arithmetic the program does: comparing two \<open>float\<close>s, and
  converting an integer to \<open>float\<close>.  A \<open>float\<close> is its 32-bit IEEE 754 pattern, as it is
  everywhere else in the development.
\<close>

type_synonym f32 = "32 word"

definition f32_nan :: "f32 \<Rightarrow> bool" where
  "f32_nan x \<longleftrightarrow> 0x7F800000 < unat (take_bit 31 x)"

text \<open>Patterns of numbers ordered as the numbers are; both zeros have the key 0.\<close>

definition f32_key :: "f32 \<Rightarrow> int" where
  "f32_key x = (if bit x 31 then - int (unat (take_bit 31 x)) else int (unat (take_bit 31 x)))"

definition f32_less :: "f32 \<Rightarrow> f32 \<Rightarrow> bool" where
  "f32_less a b \<longleftrightarrow> \<not> f32_nan a \<and> \<not> f32_nan b \<and> f32_key a < f32_key b"

text \<open>The conversion of an integer: exact below \<open>2^24\<close>, otherwise rounded to nearest, ties to
  even.  A mantissa that rounds up to \<open>2^24\<close> carries into the exponent.\<close>

fun log2 :: "nat \<Rightarrow> nat" where
  "log2 n = (if n \<le> 1 then 0 else Suc (log2 (n div 2)))"

declare log2.simps [simp del]

definition round_half_even :: "nat \<Rightarrow> nat \<Rightarrow> nat" where
  "round_half_even n d =
     (let q = n div d; r = n mod d
      in if 2 * r < d then q else if d < 2 * r then q + 1 else if even q then q else q + 1)"

definition f32_of_nat :: "nat \<Rightarrow> f32" where
  "f32_of_nat n =
     (if n = 0 then 0
      else
        let k = log2 n;
            m = (if k \<le> 23 then n * 2 ^ (23 - k) else round_half_even n (2 ^ (k - 23)))
        in of_nat ((126 + k) * 2 ^ 23 + m))"

lemma f32_of_nat_0 [simp]: "f32_of_nat 0 = 0"
  by (simp add: f32_of_nat_def)

lemma f32_of_nat_1 [simp]: "f32_of_nat (Suc 0) = 0x3F800000"
  by (simp add: f32_of_nat_def log2.simps)

lemma f32_less_irrefl [simp]: "\<not> f32_less a a"
  by (simp add: f32_less_def)

lemma f32_less_trans: "f32_less a b \<Longrightarrow> f32_less b c \<Longrightarrow> f32_less a c"
  by (auto simp: f32_less_def)

lemma f32_not_less_trans:
  "\<not> f32_nan a \<Longrightarrow> \<not> f32_nan b \<Longrightarrow> \<not> f32_nan c \<Longrightarrow> \<not> f32_less a b \<Longrightarrow> f32_less c b \<Longrightarrow> \<not> f32_less a c"
  by (auto simp: f32_less_def)

end
