(* ===== verification/Proxy_Events.thy ===== *)
theory Proxy_Events
  imports Float_Bits
begin

text \<open>
  The messages between the realm and the proxy daemons on the event channel
  (src/idl/Proxy_Events.idl).  The channel itself is CORBA's; a message is what a \<open>CORBA::Any\<close>
  holds.
\<close>

datatype ec_event =
    Proxy_Announce (ann_realm_id: u16) (ann_address: bytes) (ann_load: f32)
  | Proxy_Request (req_realm_id: u16)
  | Proxy_Shutdowned (shut_address: bytes)

end
