(* ===== verification/Realm_Service.thy ===== *)
theory Realm_Service
  imports Realm_Database Proxy_Events
begin

text \<open>
  The realm and proxy tables of the realm daemon (src/realmd/Realm_Service.h and .cpp) and the
  event-channel messages that maintain them (src/realmd/Realm_EC_Communicator.cpp,
  src/idl/Proxy_Events.idl).  \<open>realm_map\<close> is a \<open>std::map\<close>, \<open>proxies\<close> a \<open>std::multimap\<close>, both
  association lists in iteration order; \<open>pushed\<close> are the messages handed to the event channel.
  Starting and stopping the daemon and the thread body only drive the reactor and the ORB.
\<close>

section \<open>State\<close>

record realm =
  r_name :: bytes
  r_icon :: u8
  r_color :: u8
  r_timezone :: u8
  r_allowedSecurityLevel :: u8
  r_population :: f32
  r_build :: u16

record proxy_info =
  p_ip :: bytes
  p_load :: f32

record realm_service =
  realm_map :: "(u8 \<times> realm) list"
  proxies :: "(u8 \<times> proxy_info) list"
  pushed :: "ec_event list"

definition realm_service_new :: realm_service where
  "realm_service_new = \<lparr>realm_map = [], proxies = [], pushed = []\<rparr>"

text \<open>What \<open>realm_map[id]\<close> inserts for a missing key.\<close>

definition realm_default :: realm where
  "realm_default = \<lparr>r_name = [], r_icon = 0, r_color = 0, r_timezone = 0,
     r_allowedSecurityLevel = 0, r_population = 0, r_build = 0\<rparr>"

section \<open>Requesting proxies\<close>

definition delete_proxies :: "realm_service \<Rightarrow> realm_service" where
  "delete_proxies s = s\<lparr>proxies := []\<rparr>"

definition request_proxies_for_realm :: "u8 \<Rightarrow> realm_service \<Rightarrow> realm_service" where
  "request_proxies_for_realm i s = s\<lparr>pushed := pushed s @ [Proxy_Request (ucast i)]\<rparr>"

definition request_proxies :: "realm_service \<Rightarrow> realm_service" where
  "request_proxies s = fold (\<lambda>e. request_proxies_for_realm (fst e)) (realm_map s) (delete_proxies s)"

text \<open>The body of the loop of \<open>update_realms\<close>.  The 32-bit id becomes the 8-bit key.\<close>

definition update_realms_row :: "result_set \<Rightarrow> realm_service \<Rightarrow> realm_service outcome" where
  "update_realms_row res s =
     obind (rs_getString 2 res) (\<lambda>name.
     obind (rs_getUint8 3 res) (\<lambda>icon.
     obind (rs_getUint8 4 res) (\<lambda>color.
     obind (rs_getUint8 5 res) (\<lambda>timezone.
     obind (rs_getUint8 6 res) (\<lambda>level.
     obind (rs_getFloat 7 res) (\<lambda>population.
     obind (rs_getUint16 8 res) (\<lambda>build.
     obind (rs_getUint32 1 res) (\<lambda>ident.
       let rlm = \<lparr>r_name = name, r_icon = icon, r_color = color, r_timezone = timezone,
                  r_allowedSecurityLevel = level, r_population = population, r_build = build\<rparr>
       in Inr (s\<lparr>realm_map := om_update (ucast ident) rlm (realm_map s)\<rparr>)))))))))"

definition update_realms :: "result_set option \<Rightarrow> realm_service \<Rightarrow> realm_service outcome" where
  "update_realms res s = (case res of
       None \<Rightarrow> Inr s
     | Some r \<Rightarrow> obind (rs_while update_realms_row r s) (\<lambda>s'. Inr (request_proxies s')))"

section \<open>Maintaining proxies\<close>

definition add_proxy :: "u8 \<Rightarrow> bytes \<Rightarrow> f32 \<Rightarrow> realm_service \<Rightarrow> realm_service" where
  "add_proxy rid ip load s =
     s\<lparr>proxies := mm_insert rid \<lparr>p_ip = ip, p_load = load\<rparr> (proxies s),
       realm_map := om_insert rid realm_default (realm_map s)\<rparr>"

fun set_first_load :: "bytes \<Rightarrow> f32 \<Rightarrow> (u8 \<times> proxy_info) list \<Rightarrow> (u8 \<times> proxy_info) list" where
  "set_first_load ip load [] = []"
| "set_first_load ip load ((rid, p) # xs) =
     (if p_ip p = ip then (rid, p\<lparr>p_load := load\<rparr>) # xs else (rid, p) # set_first_load ip load xs)"

definition update_proxy_load :: "bytes \<Rightarrow> f32 \<Rightarrow> realm_service \<Rightarrow> realm_service" where
  "update_proxy_load ip load s = s\<lparr>proxies := set_first_load ip load (proxies s)\<rparr>"

definition delete_proxy :: "bytes \<Rightarrow> realm_service \<Rightarrow> realm_service outcome" where
  "delete_proxy ip s =
     (let kept = filter (\<lambda>e. p_ip (snd e) \<noteq> ip) (proxies s)
      in if length kept = length (proxies s) then Inl Assert_failed else Inr (s\<lparr>proxies := kept\<rparr>))"

text \<open>The loop of \<open>process_proxy_announce\<close>: how the search for the address ends.\<close>

datatype announce_scan = New_proxy | Known_proxy | Other_realm u8

fun scan_proxies :: "u8 \<Rightarrow> bytes \<Rightarrow> (u8 \<times> proxy_info) list \<Rightarrow> announce_scan" where
  "scan_proxies rid address [] = New_proxy"
| "scan_proxies rid address ((r, p) # xs) =
     (if r \<noteq> rid then (if p_ip p = address then Other_realm r else scan_proxies rid address xs)
      else if p_ip p = address then Known_proxy
      else scan_proxies rid address xs)"

text \<open>When the address belongs to another realm, \<open>delete_proxy\<close> erases the very entry the loop's
  iterator points to, and the next statement reads \<open>itr->first\<close>.\<close>

definition process_proxy_announce ::
    "u16 \<Rightarrow> bytes \<Rightarrow> f32 \<Rightarrow> realm_service \<Rightarrow> realm_service outcome" where
  "process_proxy_announce announced address load s =
     (let rid = ucast announced :: u8
      in if rid \<notin> fst ` set (realm_map s) then Inr s
         else if rid \<notin> fst ` set (proxies s) then Inr (add_proxy rid address load s)
         else (case scan_proxies rid address (proxies s) of
             New_proxy \<Rightarrow> Inr (add_proxy rid address load s)
           | Known_proxy \<Rightarrow> Inr (update_proxy_load address load s)
           | Other_realm r \<Rightarrow> obind (delete_proxy address s) (\<lambda>_. Inl Dangling)))"

text \<open>\<open>EC_Communicator::push\<close>\<close>

definition realm_ec_push :: "ec_event \<Rightarrow> realm_service \<Rightarrow> realm_service outcome" where
  "realm_ec_push e s = (case e of
       Proxy_Announce rid address load \<Rightarrow> process_proxy_announce rid address load s
     | Proxy_Shutdowned address \<Rightarrow> delete_proxy address s
     | Proxy_Request rid \<Rightarrow> Inr s)"

section \<open>Choosing a proxy\<close>

definition proxies_for_realm :: "u8 \<Rightarrow> realm_service \<Rightarrow> proxy_info list" where
  "proxies_for_realm i s = map snd (filter (\<lambda>e. fst e = i) (proxies s))"

fun lowest_load :: "proxy_info \<Rightarrow> proxy_info list \<Rightarrow> proxy_info" where
  "lowest_load low [] = low"
| "lowest_load low (p # ps) = lowest_load (if f32_less (p_load p) (p_load low) then p else low) ps"

definition get_proxy_for_realm :: "u8 \<Rightarrow> realm_service \<Rightarrow> bytes" where
  "get_proxy_for_realm i s = (case proxies_for_realm i s of
       [] \<Rightarrow> []
     | p # ps \<Rightarrow> p_ip (lowest_load p (p # ps)))"

section \<open>Laws\<close>

text \<open>The table invariant: both containers are ordered, proxies belong to known realms, and no
  realm lists an address twice.\<close>

definition proxy_key :: "u8 \<times> proxy_info \<Rightarrow> u8 \<times> bytes" where
  "proxy_key e = (fst e, p_ip (snd e))"

definition realm_service_inv :: "realm_service \<Rightarrow> bool" where
  "realm_service_inv s \<longleftrightarrow>
     om_sorted (realm_map s) \<and> mm_sorted (proxies s) \<and>
     fst ` set (proxies s) \<subseteq> fst ` set (realm_map s) \<and>
     distinct (map proxy_key (proxies s))"

lemma om_insert_known: "k \<in> fst ` set m \<Longrightarrow> om_insert k v m = m"
  by (simp add: om_insert_def)

lemma add_proxy_known:
  "rid \<in> fst ` set (realm_map s) \<Longrightarrow>
     add_proxy rid ip load s = s\<lparr>proxies := mm_insert rid \<lparr>p_ip = ip, p_load = load\<rparr> (proxies s)\<rparr>"
  by (simp add: add_proxy_def om_insert_known)

lemma distinct_map_mm_insert:
  "distinct (map f (mm_insert k v xs)) \<longleftrightarrow> f (k, v) \<notin> f ` set xs \<and> distinct (map f xs)"
  by (induction k v xs rule: mm_insert.induct) auto

lemma scan_New: "scan_proxies rid address xs = New_proxy \<longleftrightarrow> (\<forall>e\<in>set xs. p_ip (snd e) \<noteq> address)"
  by (induction xs) (auto split: if_splits)

lemma scan_Known: "scan_proxies rid address xs = Known_proxy \<Longrightarrow> \<exists>p. (rid, p) \<in> set xs \<and> p_ip p = address"
  by (induction xs) (auto split: if_splits)

lemma set_first_load_keys [simp]: "map fst (set_first_load ip load xs) = map fst xs"
  "map proxy_key (set_first_load ip load xs) = map proxy_key xs"
  by (induction xs) (auto simp: proxy_key_def)

lemma fst_set_first_load [simp]: "fst ` set (set_first_load ip load xs) = fst ` set xs"
  by (metis set_first_load_keys(1) set_map)

lemma delete_proxy_eq:
  "delete_proxy ip s =
     (if \<exists>e\<in>set (proxies s). p_ip (snd e) = ip
      then Inr (s\<lparr>proxies := filter (\<lambda>e. p_ip (snd e) \<noteq> ip) (proxies s)\<rparr>)
      else Inl Assert_failed)"
proof -
  have "length (filter P xs) = length xs \<longleftrightarrow> (\<forall>x\<in>set xs. P x)" for P and xs :: "(u8 \<times> proxy_info) list"
    by (metis filter_True length_filter_less less_irrefl)
  then show ?thesis by (auto simp: delete_proxy_def Let_def)
qed

lemma request_proxies_eq:
  "request_proxies s =
     s\<lparr>proxies := [], pushed := pushed s @ map (\<lambda>e. Proxy_Request (ucast (fst e))) (realm_map s)\<rparr>"
proof -
  have "fold (\<lambda>e. request_proxies_for_realm (fst e)) m t =
          t\<lparr>pushed := pushed t @ map (\<lambda>e. Proxy_Request (ucast (fst e))) m\<rparr>" for m :: "(u8 \<times> realm) list" and t
    by (induction m arbitrary: t) (auto simp: request_proxies_for_realm_def)
  then show ?thesis by (simp add: request_proxies_def delete_proxies_def)
qed

lemma realm_ec_push_inv:
  assumes "realm_service_inv s" and "realm_ec_push e s = Inr s'"
  shows "realm_service_inv s'"
proof (cases e)
  case (Proxy_Announce rid address load)
  let ?r = "ucast rid :: u8"
  have add: "realm_service_inv (add_proxy ?r address load s)"
    if "?r \<in> fst ` set (realm_map s)" "\<forall>p. (?r, p) \<in> set (proxies s) \<longrightarrow> p_ip p \<noteq> address"
    using assms(1) that
    by (auto simp: add_proxy_known realm_service_inv_def mm_sorted_insert distinct_map_mm_insert proxy_key_def)
  have load: "realm_service_inv (update_proxy_load address load s)"
    using assms(1) by (simp add: realm_service_inv_def update_proxy_load_def mm_sorted_def)
  from assms(2) Proxy_Announce
  consider "s' = s"
    | "?r \<in> fst ` set (realm_map s)" "?r \<notin> fst ` set (proxies s)" "s' = add_proxy ?r address load s"
    | "?r \<in> fst ` set (realm_map s)" "scan_proxies ?r address (proxies s) = New_proxy"
      "s' = add_proxy ?r address load s"
    | "s' = update_proxy_load address load s"
    by (auto simp: realm_ec_push_def process_proxy_announce_def Let_def obind_eq_Inr
        split: if_splits announce_scan.splits)
  then show ?thesis
    by cases (use assms(1) add load in \<open>force simp: scan_New\<close>)+
next
  case (Proxy_Request rid)
  with assms show ?thesis by (simp add: realm_ec_push_def)
next
  case (Proxy_Shutdowned address)
  with assms(2) have s': "s' = s\<lparr>proxies := filter (\<lambda>e. p_ip (snd e) \<noteq> address) (proxies s)\<rparr>"
    by (simp add: realm_ec_push_def delete_proxy_eq split: if_splits)
  have "fst ` set (filter P (proxies s)) \<subseteq> fst ` set (proxies s)" for P by auto
  with assms(1) show ?thesis
    unfolding s' by (force simp: realm_service_inv_def mm_sorted_def sorted_filter distinct_map_filter)
qed

lemma rs_while_inv:
  "(\<And>r s s'. P s \<Longrightarrow> body r s = Inr s' \<Longrightarrow> P s') \<Longrightarrow> P s \<Longrightarrow> rs_while body r s = Inr s' \<Longrightarrow> P s'"
proof (induction body r s rule: rs_while.induct)
  case (1 body r s)
  show ?case
  proof (cases "rs_next r")
    case (Inl e)
    with "1.prems"(3) show ?thesis by (subst (asm) rs_while.simps) simp
  next
    case (Inr n)
    obtain avail r' where n: "n = (avail, r')" by (cases n)
    show ?thesis
    proof (cases avail)
      case False
      with "1.prems"(2,3) Inr n show ?thesis by (subst (asm) rs_while.simps) simp
    next
      case True
      with "1.prems"(3) Inr n obtain t where t: "body r' s = Inr t" "rs_while body r' t = Inr s'"
        by (subst (asm) rs_while.simps) (auto simp: obind_eq_Inr)
      have "P t" using "1.prems"(1) [OF "1.prems"(2) t(1)] .
      then show ?thesis
        using "1.IH" [OF Inr n [symmetric] True t(1) _ _ t(2)] "1.prems"(1) by blast
    qed
  qed
qed

lemma update_realms_inv:
  assumes "realm_service_inv s" and "update_realms res s = Inr s'"
  shows "realm_service_inv s'"
proof (cases res)
  case None
  with assms show ?thesis by (simp add: update_realms_def)
next
  case (Some r)
  then obtain t where t: "rs_while update_realms_row r s = Inr t" and s': "s' = request_proxies t"
    using assms(2) by (auto simp: update_realms_def obind_eq_Inr)
  have "om_sorted (realm_map t)"
  proof (rule rs_while_inv [where P = "\<lambda>u. om_sorted (realm_map u)", OF _ _ t])
    fix q u v assume "om_sorted (realm_map u)" "update_realms_row q u = Inr v"
    then show "om_sorted (realm_map v)"
      by (auto simp: update_realms_row_def obind_eq_Inr Let_def om_sorted_update)
  qed (use assms(1) in \<open>simp add: realm_service_inv_def\<close>)
  then show ?thesis by (simp add: s' request_proxies_eq realm_service_inv_def mm_sorted_def)
qed

section \<open>Load balancing\<close>

lemma lowest_load_in: "lowest_load low ps \<in> set (low # ps)"
  by (induction low ps rule: lowest_load.induct) auto

lemma lowest_load_min:
  assumes "\<forall>p\<in>set (low # ps). \<not> f32_nan (p_load p)" and "q \<in> set (low # ps)"
  shows "\<not> f32_less (p_load q) (p_load (lowest_load low ps))"
  using assms
proof (induction low ps arbitrary: q rule: lowest_load.induct)
  case (1 low)
  then show ?case by simp
next
  case (2 low p ps)
  let ?low = "if f32_less (p_load p) (p_load low) then p else low"
  have IH: "\<not> f32_less (p_load q') (p_load (lowest_load ?low ps))" if "q' \<in> set (?low # ps)" for q'
    using that "2.prems"(1) by (intro "2.IH") auto
  show ?case
  proof (cases "q \<in> set (?low # ps)")
    case True
    then show ?thesis using IH by simp
  next
    case False
    with "2.prems"(2) have q: "q = (if f32_less (p_load p) (p_load low) then low else p)"
      by (auto split: if_splits)
    have "\<not> f32_less (p_load q) (p_load ?low)"
      using q by (auto simp: f32_less_def)
    moreover have "\<not> f32_less (p_load ?low) (p_load (lowest_load ?low ps))"
      by (rule IH) simp
    moreover have "lowest_load ?low ps \<in> set (?low # ps)" by (rule lowest_load_in)
    then have "\<not> f32_nan (p_load (lowest_load ?low ps))"
      using "2.prems"(1) by (auto split: if_splits)
    ultimately show ?thesis
      using "2.prems" by (auto simp: f32_less_def split: if_splits)
  qed
qed

text \<open>Tables for concrete instances: realm 7 with two proxies, realm 9 with none.\<close>

definition demo_service :: realm_service where
  "demo_service = \<lparr>
     realm_map = [(7, realm_default\<lparr>r_build := 8606\<rparr>), (9, realm_default)],
     proxies = [(7, \<lparr>p_ip = [65], p_load = 0x3F800000\<rparr>), (7, \<lparr>p_ip = [66], p_load = 0\<rparr>)],
     pushed = []\<rparr>"

lemma demo_service_inv: "realm_service_inv demo_service"
  by (simp add: demo_service_def realm_service_inv_def om_sorted_def mm_sorted_def proxy_key_def)

text \<open>C28. With no NaN among the loads announced for a realm, \<open>get_proxy_for_realm\<close> returns the
  address of a proxy of that realm whose load no other proxy of the realm undercuts; a realm
  without proxies gets the empty string, which the realm list shows as offline.\<close>

theorem get_proxy_for_realm_lowest:
  assumes "\<forall>p\<in>set (proxies_for_realm i s). \<not> f32_nan (p_load p)"
  shows "if proxies_for_realm i s = [] then get_proxy_for_realm i s = []
         else \<exists>p\<in>set (proxies_for_realm i s). get_proxy_for_realm i s = p_ip p \<and>
                (i, p) \<in> set (proxies s) \<and>
                (\<forall>q. (i, q) \<in> set (proxies s) \<longrightarrow> \<not> f32_less (p_load q) (p_load p))"
proof (cases "proxies_for_realm i s")
  case Nil
  then show ?thesis by (simp add: get_proxy_for_realm_def)
next
  case (Cons p ps)
  let ?low = "lowest_load p (p # ps)"
  have mem: "(i, q) \<in> set (proxies s) \<longleftrightarrow> q \<in> set (p # ps)" for q
    unfolding Cons [symmetric] proxies_for_realm_def by force
  have "?low \<in> set (p # ps)" using lowest_load_in [of p "p # ps"] by simp
  moreover have "\<not> f32_less (p_load q) (p_load ?low)" if "q \<in> set (p # ps)" for q
    using assms that Cons by (intro lowest_load_min) auto
  ultimately show ?thesis
    using Cons mem by (auto simp: get_proxy_for_realm_def)
qed

theorem get_proxy_for_realm_lowest_witness:
  "if proxies_for_realm 7 demo_service = []
   then get_proxy_for_realm 7 demo_service = []
   else \<exists>p\<in>set (proxies_for_realm 7 demo_service).
     get_proxy_for_realm 7 demo_service = p_ip p \<and>
     (7, p) \<in> set (proxies demo_service) \<and>
     (\<forall>q. (7, q) \<in> set (proxies demo_service) \<longrightarrow>
        \<not> f32_less (p_load q) (p_load p))"
  by (rule get_proxy_for_realm_lowest) (simp add: demo_service_def proxies_for_realm_def f32_nan_def take_bit_eq_mod)

section \<open>Reachable tables\<close>

inductive realm_tables :: "realm_service \<Rightarrow> bool" where
  start: "realm_tables realm_service_new"
| event: "realm_tables s \<Longrightarrow> realm_ec_push e s = Inr s' \<Longrightarrow> realm_tables s'"
| reload: "realm_tables s \<Longrightarrow> update_realms res s = Inr s' \<Longrightarrow> realm_tables s'"



section \<open>Announcements\<close>

lemma set_first_load_unique:
  assumes "distinct (map proxy_key xs)" and "(rid, p) \<in> set xs" and "p_ip p = ip"
    and "\<forall>e\<in>set xs. p_ip (snd e) = ip \<longrightarrow> fst e = rid"
  shows "set (set_first_load ip load xs) =
           {e \<in> set xs. p_ip (snd e) \<noteq> ip} \<union> {(rid, \<lparr>p_ip = ip, p_load = load\<rparr>)}"
  using assms
proof (induction xs)
  case Nil
  then show ?case by simp
next
  case (Cons e xs)
  obtain r q where e: "e = (r, q)" by (cases e)
  show ?case
  proof (cases "p_ip q = ip")
    case True
    with Cons.prems e have r: "r = rid" by auto
    have "p_ip (snd f) \<noteq> ip" if "f \<in> set xs" for f
    proof
      assume "p_ip (snd f) = ip"
      with Cons.prems(4) that e True r have "proxy_key f = proxy_key e"
        by (cases f) (auto simp: proxy_key_def)
      with Cons.prems(1) that show False by (metis distinct.simps(2) image_eqI list.set_map list.simps(9))
    qed
    moreover have "q\<lparr>p_load := load\<rparr> = \<lparr>p_ip = ip, p_load = load\<rparr>"
      using True by (cases q) simp
    ultimately show ?thesis using e True r by auto
  next
    case False
    with Cons.prems e have "(rid, p) \<in> set xs" by auto
    with Cons False e show ?thesis by auto
  qed
qed

lemma scan_other:
  "scan_proxies rid address xs = Other_realm r \<Longrightarrow> \<exists>p. (r, p) \<in> set xs \<and> p_ip p = address \<and> r \<noteq> rid"
  by (induction xs) (auto split: if_splits)

lemma scan_not_known:
  "\<forall>e\<in>set xs. p_ip (snd e) = address \<longrightarrow> fst e \<noteq> rid \<Longrightarrow> e \<in> set xs \<Longrightarrow> p_ip (snd e) = address \<Longrightarrow>
     \<exists>r. scan_proxies rid address xs = Other_realm r"
  by (induction xs) auto

text \<open>What a proxy announcement does.  For a realm that is not listed it does nothing.  If
  the address is registered for no other realm, the announcement leaves exactly one entry for
  the address, under the announced realm and with the announced load, and touches no other
  entry.  If the realm already has proxies and the address is registered for another realm only,
  \<open>process_proxy_announce\<close> reads through the iterator it has just erased.\<close>

theorem proxy_announce_effect:
  assumes "realm_service_inv s"
  shows "case process_proxy_announce announced address load s of
           Inr s' \<Rightarrow>
             if (ucast announced :: u8) \<notin> fst ` set (realm_map s) then s' = s
             else (\<forall>e\<in>set (proxies s). p_ip (snd e) = address \<longrightarrow> fst e = ucast announced) \<longrightarrow>
               realm_map s' = realm_map s \<and>
               set (proxies s') = {e \<in> set (proxies s). p_ip (snd e) \<noteq> address} \<union>
                                  {(ucast announced, \<lparr>p_ip = address, p_load = load\<rparr>)}
         | Inl f \<Rightarrow>
             f = Dangling \<and> (\<exists>e\<in>set (proxies s). p_ip (snd e) = address \<and> fst e \<noteq> ucast announced)"
proof -
  let ?r = "ucast announced :: u8"
  let ?only = "\<forall>e\<in>set (proxies s). p_ip (snd e) = address \<longrightarrow> fst e = ?r"
  show ?thesis
  proof (cases "?r \<in> fst ` set (realm_map s)")
    case False
    then show ?thesis by (simp add: process_proxy_announce_def Let_def)
  next
    case known: True
    have add: "set (proxies (add_proxy ?r address load s)) =
        {e \<in> set (proxies s). p_ip (snd e) \<noteq> address} \<union> {(?r, \<lparr>p_ip = address, p_load = load\<rparr>)}"
      if "\<forall>e\<in>set (proxies s). p_ip (snd e) \<noteq> address"
      using that known by (auto simp: add_proxy_known)
    show ?thesis
    proof (cases "?r \<in> fst ` set (proxies s)")
      case False
      then have "\<forall>e\<in>set (proxies s). p_ip (snd e) \<noteq> address" if ?only
        using that by (metis imageI)
      with False known add show ?thesis
        by (auto simp: process_proxy_announce_def Let_def add_proxy_known)
    next
      case True
      show ?thesis
      proof (cases "scan_proxies ?r address (proxies s)")
        case New_proxy
        then have "\<forall>e\<in>set (proxies s). p_ip (snd e) \<noteq> address" by (simp only: scan_New)
        from add [OF this] New_proxy True known show ?thesis
          by (simp add: process_proxy_announce_def Let_def add_proxy_known)
      next
        case Known_proxy
        then obtain p where "(?r, p) \<in> set (proxies s)" "p_ip p = address"
          using scan_Known by blast
        with Known_proxy True known assms show ?thesis
          by (simp add: process_proxy_announce_def Let_def update_proxy_load_def realm_service_inv_def
              set_first_load_unique)
      next
        case (Other_realm r)
        then obtain p where p: "(r, p) \<in> set (proxies s)" "p_ip p = address" "r \<noteq> ?r"
          using scan_other by blast
        then have "\<exists>e\<in>set (proxies s). p_ip (snd e) = address"
          and "\<exists>e\<in>set (proxies s). p_ip (snd e) = address \<and> fst e \<noteq> ?r"
          by force+
        with Other_realm True known show ?thesis
          by (simp add: process_proxy_announce_def Let_def delete_proxy_eq)
      qed
    qed
  qed
qed

theorem proxy_announce_effect_witness:
  "case process_proxy_announce 7 [66] 0x40000000 demo_service of
     Inr s' \<Rightarrow>
       if (ucast (7 :: u16) :: u8) \<notin> fst ` set (realm_map demo_service) then s' = demo_service
       else (\<forall>e\<in>set (proxies demo_service). p_ip (snd e) = [66] \<longrightarrow> fst e = ucast (7 :: u16)) \<longrightarrow>
         realm_map s' = realm_map demo_service \<and>
         set (proxies s') = {e \<in> set (proxies demo_service). p_ip (snd e) \<noteq> [66]} \<union>
                            {(ucast (7 :: u16), \<lparr>p_ip = [66], p_load = 0x40000000\<rparr>)}
   | Inl f \<Rightarrow>
       f = Dangling \<and> (\<exists>e\<in>set (proxies demo_service). p_ip (snd e) = [66] \<and> fst e \<noteq> ucast (7 :: u16))"
  using demo_service_inv by (rule proxy_announce_effect)

text \<open>After a shutdown message for an address, no realm is given that address until the next
  announcement, and the other proxies are left alone; a shutdown message for an address that is
  not registered aborts the daemon on a failed assertion.\<close>

theorem shutdown_effect:
  "case realm_ec_push (Proxy_Shutdowned address) s of
     Inr s' \<Rightarrow> proxies s' = filter (\<lambda>e. p_ip (snd e) \<noteq> address) (proxies s) \<and>
              realm_map s' = realm_map s \<and> (address \<noteq> [] \<longrightarrow> get_proxy_for_realm i s' \<noteq> address)
   | Inl f \<Rightarrow> f = Assert_failed \<and> (\<forall>e\<in>set (proxies s). p_ip (snd e) \<noteq> address)"
proof (cases "\<exists>e\<in>set (proxies s). p_ip (snd e) = address")
  case True
  let ?s = "s\<lparr>proxies := filter (\<lambda>e. p_ip (snd e) \<noteq> address) (proxies s)\<rparr>"
  have "get_proxy_for_realm i ?s \<noteq> address" if "address \<noteq> []"
  proof (cases "proxies_for_realm i ?s")
    case Nil
    with that show ?thesis by (simp add: get_proxy_for_realm_def)
  next
    case (Cons p ps)
    have "p_ip q \<noteq> address" if "q \<in> set (p # ps)" for q
      using that unfolding Cons [symmetric] by (auto simp: proxies_for_realm_def)
    with lowest_load_in [of p "p # ps"] Cons show ?thesis
      by (auto simp: get_proxy_for_realm_def)
  qed
  with True show ?thesis by (simp add: realm_ec_push_def delete_proxy_eq)
next
  case False
  then show ?thesis by (simp add: realm_ec_push_def delete_proxy_eq)
qed

theorem shutdown_effect_witness:
  "case realm_ec_push (Proxy_Shutdowned [65]) demo_service of
     Inr s' \<Rightarrow> proxies s' = filter (\<lambda>e. p_ip (snd e) \<noteq> [65]) (proxies demo_service) \<and>
              realm_map s' = realm_map demo_service \<and>
              ([65] \<noteq> ([] :: bytes) \<longrightarrow> get_proxy_for_realm 7 s' \<noteq> [65])
   | Inl f \<Rightarrow> f = Assert_failed \<and> (\<forall>e\<in>set (proxies demo_service). p_ip (snd e) \<noteq> [65])"
  by (rule shutdown_effect)

section \<open>Loading the realm list\<close>

text \<open>A row of the realm query as the MySQL client delivers it.\<close>

definition num_cell :: "bytes \<Rightarrow> mysql_cell" where
  "num_cell bs = Some (bs, length bs)"

definition text_cell :: "bytes \<Rightarrow> mysql_cell" where
  "text_cell s = Some (s @ [0], length s)"

definition realm_row :: "u32 \<times> realm \<Rightarrow> mysql_cell list" where
  "realm_row e = (case e of (ident, r) \<Rightarrow>
     [num_cell (le_bytes 4 ident), text_cell (r_name r), num_cell [r_icon r], num_cell [r_color r],
      num_cell [r_timezone r], num_cell [r_allowedSecurityLevel r], num_cell (le_bytes 4 (r_population r)),
      num_cell (le_bytes 2 (r_build r))])"

definition realm_row_step :: "mysql_cell list \<Rightarrow> realm_service \<Rightarrow> realm_service outcome" where
  "realm_row_step row s = update_realms_row
     (RS_MySQL \<lparr>m_rowPosition = 1, m_numRows = 1, m_numFields = of_nat (length row),
        m_bindResult = row, m_pending = []\<rparr>) s"

lemma realm_row_step_eq:
  "realm_row_step (realm_row (ident, r)) s =
     Inr (s\<lparr>realm_map := om_update (ucast ident) r (realm_map s)\<rparr>)"
  by (cases r)
     (simp add: realm_row_step_def update_realms_row_def realm_row_def rs_getString_def rs_getUint8_def
      rs_getUint16_def rs_getUint32_def rs_getFloat_def mysql_getString_def mysql_getUint8_def
      mysql_getUint16_def mysql_getUint32_def mysql_getFloat_def mysql_get_def mysql_checkValidity_def
      mysql_column_def num_cell_def text_cell_def)

text \<open>The loop's body sees the result only through the current row.\<close>

lemma update_realms_row_current:
  assumes "mysql_ok r" and "mysql_current r = Some row"
  shows "update_realms_row (RS_MySQL r) s = realm_row_step row s"
proof -
  let ?r1 = "\<lparr>m_rowPosition = 1, m_numRows = 1, m_numFields = of_nat (length row),
               m_bindResult = row, m_pending = []\<rparr>"
  have "length row = unat (m_numFields r)"
    using assms by (auto simp: mysql_current_def split: if_splits)
  then have "unat (of_nat (length row) :: u32) = length row" by simp
  then have "mysql_ok ?r1" "mysql_current ?r1 = Some row"
    by (simp_all add: mysql_ok_def mysql_current_def)
  then have "mysql_cell_at i ?r1 = mysql_cell_at i r" for i
    using assms by (simp add: mysql_cursor.get_current)
  then show ?thesis
    by (simp add: realm_row_step_def update_realms_row_def rs_getString_def rs_getUint8_def
        rs_getUint16_def rs_getUint32_def rs_getFloat_def mysql_getUint8_def mysql_getUint16_def
        mysql_getUint32_def mysql_getFloat_def mysql_get_cell mysql_getString_cell)
qed

lemma mysql_loop_fold:
  assumes "\<And>r row s. mysql_ok r \<Longrightarrow> mysql_current r = Some row \<Longrightarrow> body (RS_MySQL r) s = step row s"
    and "mysql_ok m"
  shows "rs_while body (RS_MySQL m) s = ofold step (m_pending m) s"
proof (rule mysql_cursor.loop_fold [where loop = "\<lambda>r. rs_while body (RS_MySQL r)"
      and body = "\<lambda>r. body (RS_MySQL r)", OF _ _ assms(2)])
  fix r s
  show "rs_while body (RS_MySQL r) s =
      (case Inr (mysql_next r) of Inl e \<Rightarrow> Inl e
       | Inr (avail, r') \<Rightarrow> if avail then obind (body (RS_MySQL r') s) (rs_while body (RS_MySQL r')) else Inr s)"
    by (subst rs_while.simps) (simp add: rs_next_def split: prod.splits)
qed (rule assms(1))

lemma MySQLPreparedResultSet_ok:
  assumes "MySQLPreparedResultSet mysql_time columns rows = Inr m"
    and "\<forall>row\<in>set rows. length row = length columns" and "length columns < 2 ^ 32" "length rows < 2 ^ 32"
  shows "mysql_ok m" and "m_pending m = rows"
proof -
  have "length lens = length columns" if "fillBindResult mysql_time columns = Inr lens" for lens
    using that by (induction mysql_time columns arbitrary: lens rule: fillBindResult.induct)
      (auto simp: obind_eq_Inr)
  with assms show "mysql_ok m" "m_pending m = rows"
    by (auto simp: MySQLPreparedResultSet_def obind_eq_Inr mysql_ok_def unat_of_nat_small)
qed

text \<open>Loading the realm list through the MySQL driver stores every row under its id, in the
  order of the query, discards the proxies known so far and asks the event channel for the
  proxies of each realm of the resulting table.  Ids are cut to eight bits, so two rows whose ids
  agree modulo 256 share an entry.\<close>

theorem realm_list_loaded:
  assumes "MySQLPreparedResultSet mysql_time columns (map realm_row rs) = Inr m"
    and "length columns = 8" and "length rs < 2 ^ 32"
  shows "update_realms (Some (RS_MySQL m)) s =
           (let table = fold (\<lambda>(ident, r). om_update (ucast ident) r) rs (realm_map s)
            in Inr \<lparr>realm_map = table, proxies = [],
                    pushed = pushed s @ map (\<lambda>e. Proxy_Request (ucast (fst e))) table\<rparr>)"
proof -
  have ok: "mysql_ok m" "m_pending m = map realm_row rs"
    using assms by (auto intro!: MySQLPreparedResultSet_ok [OF assms(1)] simp: realm_row_def)
  have "rs_while update_realms_row (RS_MySQL m) s = ofold realm_row_step (map realm_row rs) s"
    unfolding ok(2) [symmetric] by (rule mysql_loop_fold [OF _ ok(1)]) (rule update_realms_row_current)
  also have "ofold realm_row_step (map realm_row rs) t =
      Inr (t\<lparr>realm_map := fold (\<lambda>(ident, r). om_update (ucast ident) r) rs (realm_map t)\<rparr>)" for t
    by (induction rs arbitrary: t) (auto simp: realm_row_step_eq)
  finally show ?thesis
    by (simp add: update_realms_def request_proxies_eq Let_def)
qed

theorem realm_list_loaded_witness:
  "update_realms (Some (RS_MySQL \<lparr>m_rowPosition = 0, m_numRows = 1, m_numFields = 8,
       m_bindResult = replicate 8 (Some ([0, 0, 0, 0], 0)),
       m_pending = [realm_row (263, realm_default\<lparr>r_name := [77]\<rparr>)]\<rparr>)) demo_service =
     (let table = fold (\<lambda>(ident, r). om_update (ucast ident) r)
                    [(263 :: u32, realm_default\<lparr>r_name := [77]\<rparr>)] (realm_map demo_service)
      in Inr \<lparr>realm_map = table, proxies = [],
              pushed = pushed demo_service @ map (\<lambda>e. Proxy_Request (ucast (fst e))) table\<rparr>)"
proof (rule realm_list_loaded [where mysql_time = 4 and columns = "replicate 8 (MYSQL_TYPE_LONG, 4)"])
  show "MySQLPreparedResultSet 4 (replicate 8 (MYSQL_TYPE_LONG, 4))
      (map realm_row [(263, realm_default\<lparr>r_name := [77]\<rparr>)]) =
    Inr \<lparr>m_rowPosition = 0, m_numRows = 1, m_numFields = 8,
       m_bindResult = replicate 8 (Some ([0, 0, 0, 0], 0)),
       m_pending = [realm_row (263, realm_default\<lparr>r_name := [77]\<rparr>)]\<rparr>"
    by (simp add: MySQLPreparedResultSet_def typeToSize_def numeral_eq_Suc)
qed simp_all

end
