(* ===== verification/Byte_Buffer.thy ===== *)
theory Byte_Buffer
  imports Prelude
begin

text \<open>
  The serialisation layer: \<open>Utils::ByteConverter\<close> and the \<open>EndianConvert\<close> pair
  (src/common/Util.h), \<open>ByteBuffer\<close> with its read and write cursors, and the packet
  classes \<open>ClientPkt\<close> and \<open>ServerPkt\<close> (src/common/ByteBuffer.h).

  The host byte order is a parameter \<open>h\<close> of every typed access, since the code
  converts between host and wire order: a value is first laid out as the host's memory
  would hold it (\<open>obj_bytes\<close>), then converted.  \<open>float\<close> and \<open>double\<close> values are their
  32-bit and 64-bit patterns, which is all the buffer sees of them.  A failed
  \<open>ASSERT\<close> is the fault \<open>Assert_failed\<close>.  Sizes and positions are natural numbers:
  no buffer comes near \<open>2 ^ 64\<close> bytes, as appending to one of ten million bytes or more
  already fails an assertion.
\<close>

section \<open>Byte order\<close>

datatype endian = Little | Big

definition swap_bytes :: "nat \<Rightarrow> nat \<Rightarrow> bytes \<Rightarrow> bytes" where
  "swap_bytes i j m = m[i := m ! j, j := m ! i]"

text \<open>\<open>ByteConverter::convert<T>(val)\<close>, with \<open>val\<close> at offset \<open>p\<close> of the object.\<close>

fun bc_convert :: "nat \<Rightarrow> nat \<Rightarrow> bytes \<Rightarrow> bytes" where
  "bc_convert 0 p m = m"
| "bc_convert (Suc 0) p m = m"
| "bc_convert (Suc (Suc T)) p m = bc_convert T (Suc p) (swap_bytes p (p + Suc T) m)"

definition bc_apply :: "bytes \<Rightarrow> bytes" where
  "bc_apply m = bc_convert (length m) 0 m"

definition EndianConvert :: "endian \<Rightarrow> bytes \<Rightarrow> bytes" where
  "EndianConvert h m = (case h of Big \<Rightarrow> bc_apply m | Little \<Rightarrow> m)"

definition EndianConvertReverse :: "endian \<Rightarrow> bytes \<Rightarrow> bytes" where
  "EndianConvertReverse h m = (case h of Big \<Rightarrow> m | Little \<Rightarrow> bc_apply m)"

text \<open>The object representation of a machine word on a host, and its inverse.\<close>

definition size_of :: "'a::len word itself \<Rightarrow> nat" where
  "size_of t = LENGTH('a) div 8"

definition obj_bytes :: "endian \<Rightarrow> 'a::len word \<Rightarrow> bytes" where
  "obj_bytes h w = (let bs = le_bytes (size_of TYPE('a word)) w
                    in case h of Little \<Rightarrow> bs | Big \<Rightarrow> rev bs)"

definition obj_value :: "endian \<Rightarrow> bytes \<Rightarrow> 'a::len word" where
  "obj_value h bs = of_le (case h of Little \<Rightarrow> bs | Big \<Rightarrow> rev bs)"

lemma length_swap_bytes [simp]: "length (swap_bytes i j m) = length m"
  by (simp add: swap_bytes_def)

lemma length_bc_convert [simp]: "length (bc_convert T p m) = length m"
  by (induction T p m rule: bc_convert.induct) auto

lemma swap_bytes_ends:
  "swap_bytes (length xs) (length xs + Suc (length ys)) (xs @ a # ys @ c # zs)
     = xs @ c # ys @ a # zs"
proof -
  have 1: "(xs @ a # ys @ c # zs) ! (length xs + Suc (length ys)) = c"
    by (simp add: nth_append)
  have 2: "(xs @ a # ys @ c # zs) ! length xs = a"
    by simp
  show ?thesis
    unfolding swap_bytes_def 1 2 by (simp add: list_update_append)
qed

text \<open>Swapping outside in reverses the object, whatever its size.\<close>

lemma bc_convert_rev:
  "T = length ys \<Longrightarrow> p = length xs \<Longrightarrow> bc_convert T p (xs @ ys @ zs) = xs @ rev ys @ zs"
proof (induction T p "xs @ ys @ zs" arbitrary: xs ys zs rule: bc_convert.induct)
  case (1 p)
  then show ?case by simp
next
  case (2 p)
  then show ?case by (cases ys) auto
next
  case (3 T p)
  obtain a mid c where ys: "ys = a # mid @ [c]"
    using "3.prems"(1) by (cases ys; cases "tl ys" rule: rev_cases) auto
  with "3.prems" have T: "T = length mid" and p: "p = length xs" by auto
  have "swap_bytes p (p + Suc T) (xs @ ys @ zs) = (xs @ [c]) @ mid @ (a # zs)"
    using swap_bytes_ends [of xs mid a c zs] by (simp add: ys T p)
  then have "bc_convert T (Suc p) (swap_bytes p (p + Suc T) (xs @ ys @ zs))
               = (xs @ [c]) @ rev mid @ (a # zs)"
    using "3.hyps" [of "xs @ [c]" mid "a # zs"] by (simp add: T p)
  then show ?case by (simp add: ys)
qed

lemma bc_apply_rev: "bc_apply m = rev m"
  using bc_convert_rev [of "length m" m 0 "[]" "[]"] by (simp add: bc_apply_def)

lemma EndianConvert_simps [simp]:
  "EndianConvert Little m = m" "EndianConvert Big m = rev m"
  by (simp_all add: EndianConvert_def bc_apply_rev)

lemma EndianConvertReverse_simps [simp]:
  "EndianConvertReverse Little m = rev m" "EndianConvertReverse Big m = m"
  by (simp_all add: EndianConvertReverse_def bc_apply_rev)

lemma size_of_simps [simp]:
  "size_of TYPE(8 word) = 1" "size_of TYPE(16 word) = 2"
  "size_of TYPE(32 word) = 4" "size_of TYPE(64 word) = 8"
  by (simp_all add: size_of_def)

lemma length_obj_bytes [simp]: "length (obj_bytes h (w :: 'a::len word)) = size_of TYPE('a word)"
  by (cases h) (auto simp: obj_bytes_def)

text \<open>The bytes a value has on the wire: its little-endian encoding.\<close>

definition wire :: "'a::len word \<Rightarrow> bytes" where
  "wire w = le_bytes (size_of TYPE('a word)) w"

lemma length_wire [simp]: "length (wire (w :: 'a::len word)) = size_of TYPE('a word)"
  by (simp add: wire_def)

lemma EndianConvert_obj_bytes [simp]: "EndianConvert h (obj_bytes h w) = wire w"
  by (cases h) (auto simp: obj_bytes_def wire_def)

lemma wire_byte [simp]: "wire (b :: byte) = [b]"
  by (simp add: wire_def)

section \<open>ByteBuffer\<close>

record byte_buffer =
  rpos :: nat
  wpos :: nat
  storage :: bytes

definition bb_new :: byte_buffer where
  "bb_new = \<lparr>rpos = 0, wpos = 0, storage = []\<rparr>"

definition bb_clear :: "byte_buffer \<Rightarrow> byte_buffer" where
  "bb_clear b = b\<lparr>storage := [], rpos := 0, wpos := 0\<rparr>"

definition bb_size :: "byte_buffer \<Rightarrow> nat" where
  "bb_size b = length (storage b)"

definition bb_set_rpos :: "nat \<Rightarrow> byte_buffer \<Rightarrow> byte_buffer" where
  "bb_set_rpos p b = b\<lparr>rpos := p\<rparr>"

definition bb_set_wpos :: "nat \<Rightarrow> byte_buffer \<Rightarrow> byte_buffer" where
  "bb_set_wpos p b = b\<lparr>wpos := p\<rparr>"

text \<open>\<open>std::vector::resize\<close>: cut, or fill up with zero bytes.\<close>

definition vec_resize :: "nat \<Rightarrow> bytes \<Rightarrow> bytes" where
  "vec_resize n xs = take n xs @ replicate (n - length xs) 0"

definition bb_resize :: "nat \<Rightarrow> byte_buffer \<Rightarrow> byte_buffer" where
  "bb_resize n b = b\<lparr>storage := vec_resize n (storage b), rpos := 0, wpos := n\<rparr>"

subsection \<open>Writing\<close>

definition append_limit :: nat where
  "append_limit = 10000000"

definition bb_append :: "bytes \<Rightarrow> byte_buffer \<Rightarrow> byte_buffer outcome" where
  "bb_append src b =
     (if src = [] then Inr b
      else if \<not> bb_size b < append_limit then Inl Assert_failed
      else
        let st = (if bb_size b < wpos b + length src
                  then vec_resize (wpos b + length src) (storage b) else storage b)
        in Inr (b\<lparr>storage := splice_at (wpos b) src st, wpos := wpos b + length src\<rparr>))"

definition bb_append_val :: "endian \<Rightarrow> 'a::len word \<Rightarrow> byte_buffer \<Rightarrow> byte_buffer outcome" where
  "bb_append_val h v b = bb_append (EndianConvert h (obj_bytes h v)) b"

text \<open>The typed stream operators all call \<open>append<T>\<close>; one definition serves them.\<close>

definition bb_out :: "endian \<Rightarrow> 'a::len word \<Rightarrow> byte_buffer \<Rightarrow> byte_buffer outcome" where
  "bb_out h v b = bb_append_val h v b"

definition bb_out_string :: "endian \<Rightarrow> bytes \<Rightarrow> byte_buffer \<Rightarrow> byte_buffer outcome" where
  "bb_out_string h s b = obind (bb_append s b) (bb_append_val h (0 :: byte))"

text \<open>\<open>operator<<(const char* str)\<close>: a null pointer writes the empty string; the copy
  stops at the first zero byte (\<open>strlen\<close>).\<close>

definition bb_out_cstr :: "endian \<Rightarrow> bytes option \<Rightarrow> byte_buffer \<Rightarrow> byte_buffer outcome" where
  "bb_out_cstr h s b =
     obind (bb_append (case s of None \<Rightarrow> [] | Some cs \<Rightarrow> takeWhile (\<lambda>c. c \<noteq> 0) cs) b)
       (bb_append_val h (0 :: byte))"

definition bb_append_string :: "bytes \<Rightarrow> byte_buffer \<Rightarrow> byte_buffer outcome" where
  "bb_append_string s b = bb_append (s @ [0]) b"

definition bb_append_buffer :: "byte_buffer \<Rightarrow> byte_buffer \<Rightarrow> byte_buffer outcome" where
  "bb_append_buffer c b = (if bb_size c \<noteq> 0 then bb_append (storage c) b else Inr b)"

definition bb_put :: "nat \<Rightarrow> bytes \<Rightarrow> byte_buffer \<Rightarrow> byte_buffer outcome" where
  "bb_put pos src b =
     (if pos + length src \<le> bb_size b
      then Inr (b\<lparr>storage := splice_at pos src (storage b)\<rparr>)
      else Inl Assert_failed)"

definition bb_put_val :: "endian \<Rightarrow> nat \<Rightarrow> 'a::len word \<Rightarrow> byte_buffer \<Rightarrow> byte_buffer outcome" where
  "bb_put_val h pos v b = bb_put pos (EndianConvert h (obj_bytes h v)) b"

text \<open>A run of stream insertions, left to right.\<close>

fun bb_seq :: "(byte_buffer \<Rightarrow> byte_buffer outcome) list \<Rightarrow> byte_buffer \<Rightarrow> byte_buffer outcome" where
  "bb_seq [] b = Inr b"
| "bb_seq (f # fs) b = obind (f b) (bb_seq fs)"

text \<open>The loop body of \<open>appendPackGUID\<close>: byte \<open>i\<close> of the guid.\<close>

definition pack_guid_step ::
    "endian \<Rightarrow> nat \<Rightarrow> nat \<Rightarrow> u64 \<times> byte_buffer \<Rightarrow> (u64 \<times> byte_buffer) outcome" where
  "pack_guid_step h mask_position i = (\<lambda>(guid, b).
     if guid AND 0xFF \<noteq> 0
     then
       let b' = b\<lparr>storage := (storage b)[mask_position :=
                  storage b ! mask_position OR push_bit i 1]\<rparr>
       in obind (bb_out h (ucast (guid AND 0xFF) :: byte) b')
            (\<lambda>b''. Inr (drop_bit 8 guid, b''))
     else Inr (drop_bit 8 guid, b))"

fun pack_guid_loop ::
    "endian \<Rightarrow> nat \<Rightarrow> nat list \<Rightarrow> u64 \<times> byte_buffer \<Rightarrow> (u64 \<times> byte_buffer) outcome" where
  "pack_guid_loop h mp [] s = Inr s"
| "pack_guid_loop h mp (i # is) s = obind (pack_guid_step h mp i s) (pack_guid_loop h mp is)"

definition bb_appendPackGUID :: "endian \<Rightarrow> u64 \<Rightarrow> byte_buffer \<Rightarrow> byte_buffer outcome" where
  "bb_appendPackGUID h guid b =
     (let mask_position = wpos b
      in obind (bb_out h (0 :: byte) b)
           (\<lambda>b'. obind (pack_guid_loop h mask_position [0..<8] (guid, b')) (\<lambda>(_, b''). Inr b'')))"

subsection \<open>Reading\<close>

definition bb_read_at :: "endian \<Rightarrow> nat \<Rightarrow> byte_buffer \<Rightarrow> 'a::len word outcome" where
  "bb_read_at h pos b =
     (if pos + size_of TYPE('a word) \<le> bb_size b
      then Inr (obj_value h (EndianConvert h (take (size_of TYPE('a word)) (drop pos (storage b)))))
      else Inl Assert_failed)"

definition bb_read :: "endian \<Rightarrow> byte_buffer \<Rightarrow> ('a::len word \<times> byte_buffer) outcome" where
  "bb_read h b = obind (bb_read_at h (rpos b) b)
     (\<lambda>r :: 'a word. Inr (r, b\<lparr>rpos := rpos b + size_of TYPE('a word)\<rparr>))"

definition bb_read_bytes :: "nat \<Rightarrow> byte_buffer \<Rightarrow> (bytes \<times> byte_buffer) outcome" where
  "bb_read_bytes len b =
     (if rpos b + len \<le> bb_size b
      then Inr (take len (drop (rpos b) (storage b)), b\<lparr>rpos := rpos b + len\<rparr>)
      else Inl Assert_failed)"

text \<open>\<open>read\<close> into the buffer's own \<open>contents()\<close>: the block at the read position moves
  to the front of the storage.\<close>

definition bb_read_to_front :: "nat \<Rightarrow> byte_buffer \<Rightarrow> byte_buffer outcome" where
  "bb_read_to_front len b =
     obind (bb_read_bytes len b)
       (\<lambda>(bs, b'). Inr (b'\<lparr>storage := splice_at 0 bs (storage b')\<rparr>))"

definition bb_index :: "endian \<Rightarrow> nat \<Rightarrow> byte_buffer \<Rightarrow> byte outcome" where
  "bb_index h pos b = bb_read_at h pos b"

text \<open>\<open>operator>>(bool&)\<close> reads a (signed) \<open>char\<close> and tests it for positive.\<close>

definition bb_in_bool :: "endian \<Rightarrow> byte_buffer \<Rightarrow> (bool \<times> byte_buffer) outcome" where
  "bb_in_bool h b = obind (bb_read h b) (\<lambda>(c :: byte, b'). Inr (0 < sint c, b'))"

lemma bb_read_Inr:
  "bb_read h b = Inr (v :: 'a::len word, b') \<Longrightarrow>
     b' = b\<lparr>rpos := rpos b + size_of TYPE('a word)\<rparr> \<and>
     rpos b + size_of TYPE('a word) \<le> bb_size b"
  by (auto simp: bb_read_def bb_read_at_def split: if_splits)

text \<open>\<open>operator>>(std::string&)\<close>: up to a zero byte or the end of the buffer.\<close>

function bb_in_string_loop :: "endian \<Rightarrow> bytes \<Rightarrow> byte_buffer \<Rightarrow> (bytes \<times> byte_buffer) outcome" where
  "bb_in_string_loop h value b =
     (if rpos b < bb_size b
      then obind (bb_read h b) (\<lambda>(c :: byte, b').
             if c = 0 then Inr (value, b') else bb_in_string_loop h (value @ [c]) b')
      else Inr (value, b))"
  by pat_completeness auto
termination
  by (relation "measure (\<lambda>(h, v, b). bb_size b - rpos b)")
     (auto simp: bb_size_def dest!: bb_read_Inr)

declare bb_in_string_loop.simps [simp del]

definition bb_in_string :: "endian \<Rightarrow> byte_buffer \<Rightarrow> (bytes \<times> byte_buffer) outcome" where
  "bb_in_string h b = bb_in_string_loop h [] b"

subsection \<open>Containers\<close>

text \<open>\<open>std::vector\<close> and \<open>std::list\<close> have the same operators; \<open>f\<close> writes or reads an element.\<close>

definition bb_out_vector ::
    "endian \<Rightarrow> ('a \<Rightarrow> byte_buffer \<Rightarrow> byte_buffer outcome) \<Rightarrow> 'a list \<Rightarrow> byte_buffer \<Rightarrow> byte_buffer outcome" where
  "bb_out_vector h f v b =
     obind (bb_out h (of_nat (length v) :: u32) b) (bb_seq (map f v))"

fun bb_in_elems ::
    "(byte_buffer \<Rightarrow> ('a \<times> byte_buffer) outcome) \<Rightarrow> nat \<Rightarrow> 'a list \<Rightarrow> byte_buffer \<Rightarrow>
     ('a list \<times> byte_buffer) outcome" where
  "bb_in_elems f 0 v b = Inr (v, b)"
| "bb_in_elems f (Suc n) v b = obind (f b) (\<lambda>(t, b'). bb_in_elems f n (v @ [t]) b')"

definition bb_in_vector ::
    "endian \<Rightarrow> (byte_buffer \<Rightarrow> ('a \<times> byte_buffer) outcome) \<Rightarrow> byte_buffer \<Rightarrow> ('a list \<times> byte_buffer) outcome" where
  "bb_in_vector h f b = obind (bb_read h b) (\<lambda>(vsize :: u32, b'). bb_in_elems f (unat vsize) [] b')"

definition bb_out_map ::
    "endian \<Rightarrow> ('k \<Rightarrow> byte_buffer \<Rightarrow> byte_buffer outcome) \<Rightarrow> ('v \<Rightarrow> byte_buffer \<Rightarrow> byte_buffer outcome) \<Rightarrow>
     ('k \<times> 'v) list \<Rightarrow> byte_buffer \<Rightarrow> byte_buffer outcome" where
  "bb_out_map h f g m b =
     bb_out_vector h (\<lambda>(k, v) b. obind (f k b) (g v)) m b"

fun bb_in_entries ::
    "(byte_buffer \<Rightarrow> ('k::linorder \<times> byte_buffer) outcome) \<Rightarrow>
     (byte_buffer \<Rightarrow> ('v \<times> byte_buffer) outcome) \<Rightarrow> nat \<Rightarrow> ('k \<times> 'v) list \<Rightarrow> byte_buffer \<Rightarrow>
     (('k \<times> 'v) list \<times> byte_buffer) outcome" where
  "bb_in_entries f g 0 m b = Inr (m, b)"
| "bb_in_entries f g (Suc n) m b =
     obind (f b) (\<lambda>(k, b'). obind (g b') (\<lambda>(v, b''). bb_in_entries f g n (om_insert k v m) b''))"

definition bb_in_map ::
    "endian \<Rightarrow> (byte_buffer \<Rightarrow> ('k::linorder \<times> byte_buffer) outcome) \<Rightarrow>
     (byte_buffer \<Rightarrow> ('v \<times> byte_buffer) outcome) \<Rightarrow> byte_buffer \<Rightarrow>
     (('k \<times> 'v) list \<times> byte_buffer) outcome" where
  "bb_in_map h f g b =
     obind (bb_read h b) (\<lambda>(msize :: u32, b'). bb_in_entries f g (unat msize) [] b')"

section \<open>Packets\<close>

definition ClientPkt_new :: byte_buffer where
  "ClientPkt_new = bb_new\<lparr>rpos := 6\<rparr>"

definition PeekOpcode :: "endian \<Rightarrow> byte_buffer \<Rightarrow> (u32 \<times> byte_buffer) outcome" where
  "PeekOpcode h b =
     (let tmp = rpos b
      in obind (bb_read h (b\<lparr>rpos := 2\<rparr>)) (\<lambda>(ret, b'). Inr (ret, b'\<lparr>rpos := tmp\<rparr>)))"

definition PeekSize :: "endian \<Rightarrow> byte_buffer \<Rightarrow> (u16 \<times> byte_buffer) outcome" where
  "PeekSize h b =
     (let tmp = rpos b
      in obind (bb_read h (b\<lparr>rpos := 0\<rparr>)) (\<lambda>(ret, b'). Inr (ret, b'\<lparr>rpos := tmp\<rparr>)))"

definition CheckSize :: "endian \<Rightarrow> nat \<Rightarrow> byte_buffer \<Rightarrow> (bool \<times> byte_buffer) outcome" where
  "CheckSize h siz b = obind (PeekSize h b) (\<lambda>(n, b'). Inr (siz \<le> unat n, b'))"

text \<open>\<open>SetOpcode\<close> converts the opcode and hands the converted value to \<open>append\<close>, which
  converts again.\<close>

definition SetOpcode :: "endian \<Rightarrow> u16 \<Rightarrow> byte_buffer \<Rightarrow> byte_buffer outcome" where
  "SetOpcode h op b =
     (let tmp = wpos b;
          op' = obj_value h (EndianConvert h (obj_bytes h op)) :: u16
      in obind (bb_append_val h op' (b\<lparr>wpos := 2\<rparr>)) (\<lambda>b'. Inr (b'\<lparr>wpos := tmp\<rparr>)))"

definition Opcode :: "endian \<Rightarrow> byte_buffer \<Rightarrow> (u16 \<times> byte_buffer) outcome" where
  "Opcode h b =
     (let tmp = rpos b
      in obind (bb_read h (b\<lparr>rpos := 2\<rparr>)) (\<lambda>(ret, b'). Inr (ret, b'\<lparr>rpos := tmp\<rparr>)))"

definition SetSize :: "endian \<Rightarrow> u16 \<Rightarrow> byte_buffer \<Rightarrow> byte_buffer outcome" where
  "SetSize h sz b =
     (let size2 = sz + 2;
          tmp = wpos b;
          size' = obj_value h (EndianConvertReverse h (obj_bytes h size2)) :: u16
      in obind (bb_append_val h size' (b\<lparr>wpos := 0\<rparr>)) (\<lambda>b'. Inr (b'\<lparr>wpos := tmp\<rparr>)))"

definition Size :: "endian \<Rightarrow> byte_buffer \<Rightarrow> (u16 \<times> byte_buffer) outcome" where
  "Size h b =
     (let tmp = rpos b
      in obind (bb_read h (b\<lparr>rpos := 0\<rparr>))
           (\<lambda>(ret :: u16, b').
              Inr (obj_value h (EndianConvertReverse h (obj_bytes h ret)), b'\<lparr>rpos := tmp\<rparr>)))"

text \<open>\<open>ServerPkt(size_t)\<close> and \<open>ServerPkt()\<close> differ in reserved capacity only.\<close>

definition ServerPkt_new :: byte_buffer where
  "ServerPkt_new = bb_new\<lparr>wpos := 4\<rparr>"

definition ServerPkt_op :: "endian \<Rightarrow> u16 \<Rightarrow> nat \<Rightarrow> byte_buffer outcome" where
  "ServerPkt_op h op siz =
     obind (SetOpcode h op (bb_new\<lparr>wpos := 4\<rparr>)) (SetSize h (of_nat siz))"

end
