(* ===== verification/Buffer_Laws.thy ===== *)
theory Buffer_Laws
  imports Byte_Buffer
begin

text \<open>
  The laws of \<^theory_text>\<open>Byte_Buffer\<close>.  A buffer whose write cursor stands at its end grows by
  the bytes written (\<open>bb_extend\<close>); a read consumes the bytes at the read cursor
  (\<open>bb_rest\<close>).  The locale \<open>bb_codec\<close> is the interface between a pair of stream
  operators and the code that uses them: what a write appends, what a read of those bytes
  returns.  It is interpreted on the operators for machine words and for strings;
  containers of codable values are handled once, inside the locale.
\<close>

section \<open>Growing and consuming\<close>

definition at_end :: "byte_buffer \<Rightarrow> bool" where
  "at_end b \<longleftrightarrow> wpos b = bb_size b"

definition bb_extend :: "bytes \<Rightarrow> byte_buffer \<Rightarrow> byte_buffer" where
  "bb_extend xs b = b\<lparr>storage := storage b @ xs, wpos := wpos b + length xs\<rparr>"

definition bb_rest :: "byte_buffer \<Rightarrow> bytes" where
  "bb_rest b = drop (rpos b) (storage b)"

definition bb_advance :: "nat \<Rightarrow> byte_buffer \<Rightarrow> byte_buffer" where
  "bb_advance n b = b\<lparr>rpos := rpos b + n\<rparr>"

named_theorems buffer_simps \<open>evaluating buffer operations\<close>

lemma bb_extend_simps [simp, buffer_simps]:
  "storage (bb_extend xs b) = storage b @ xs"
  "rpos (bb_extend xs b) = rpos b"
  "wpos (bb_extend xs b) = wpos b + length xs"
  "bb_size (bb_extend xs b) = bb_size b + length xs"
  by (simp_all add: bb_extend_def bb_size_def)

lemma bb_extend_extend [simp, buffer_simps]:
  "bb_extend ys (bb_extend xs b) = bb_extend (xs @ ys) b"
  by (simp add: bb_extend_def)

lemma bb_extend_Nil [simp]: "bb_extend [] b = b"
  by (simp add: bb_extend_def)

lemma at_end_extend [simp, intro]: "at_end b \<Longrightarrow> at_end (bb_extend xs b)"
  by (simp add: at_end_def)

lemma at_end_new [simp]: "at_end bb_new" "bb_size bb_new = 0" "storage bb_new = []"
  by (simp_all add: at_end_def bb_new_def bb_size_def)

lemma bb_advance_simps [simp, buffer_simps]:
  "storage (bb_advance n b) = storage b"
  "wpos (bb_advance n b) = wpos b"
  "rpos (bb_advance n b) = rpos b + n"
  "bb_advance m (bb_advance n b) = bb_advance (n + m) b"
  "bb_size (bb_advance n b) = bb_size b"
  by (simp_all add: bb_advance_def bb_size_def add.assoc)

lemma bb_advance_0 [simp]: "bb_advance 0 b = b"
  by (simp add: bb_advance_def)

lemma bb_rest_advance [simp]: "bb_rest (bb_advance n b) = drop n (bb_rest b)"
  by (simp add: bb_rest_def add.commute)

lemma bb_rest_extend: "rpos b = bb_size b \<Longrightarrow> bb_rest (bb_extend xs b) = xs"
  by (simp add: bb_rest_def bb_size_def)

lemma bb_rest_fits: "bb_rest b = xs @ ys \<Longrightarrow> xs \<noteq> [] \<Longrightarrow> rpos b + length xs \<le> bb_size b"
proof -
  assume a: "bb_rest b = xs @ ys" and ne: "xs \<noteq> []"
  have "length (bb_rest b) = bb_size b - rpos b"
    by (simp add: bb_rest_def bb_size_def)
  then have le: "length xs + length ys = bb_size b - rpos b"
    by (simp add: a)
  moreover from ne have "0 < length xs" by simp
  ultimately show ?thesis by linarith
qed

text \<open>Appending at the end, below the ten-million-byte limit.\<close>

lemma bb_append_at_end:
  assumes "at_end b" and "bb_size b < append_limit"
  shows "bb_append src b = Inr (bb_extend src b)"
proof (cases "src = []")
  case True
  then show ?thesis by (simp add: bb_append_def)
next
  case False
  with assms show ?thesis
    by (simp add: bb_append_def bb_extend_def at_end_def bb_size_def vec_resize_def
        splice_at_def Let_def)
qed

lemma bb_out_at_end:
  "at_end b \<Longrightarrow> bb_size b < append_limit \<Longrightarrow> bb_out h v b = Inr (bb_extend (wire v) b)"
  by (simp add: bb_out_def bb_append_val_def bb_append_at_end)

text \<open>Below the limit nothing else can go wrong; at the limit every append aborts.\<close>

lemma bb_append_limit:
  "src \<noteq> [] \<Longrightarrow> append_limit \<le> bb_size b \<Longrightarrow> bb_append src b = Inl Assert_failed"
  by (simp add: bb_append_def)

section \<open>Writers\<close>

text \<open>\<open>writes f xs\<close>: the operation \<open>f\<close> appends exactly \<open>xs\<close>.\<close>

definition writes :: "(byte_buffer \<Rightarrow> byte_buffer outcome) \<Rightarrow> bytes \<Rightarrow> bool" where
  "writes f xs \<longleftrightarrow> (\<forall>b. at_end b \<longrightarrow> bb_size b + length xs < append_limit \<longrightarrow>
                      f b = Inr (bb_extend xs b))"

named_theorems writes_intros \<open>what each stream operator appends\<close>

lemma writesI:
  "(\<And>b. at_end b \<Longrightarrow> bb_size b + length xs < append_limit \<Longrightarrow> f b = Inr (bb_extend xs b)) \<Longrightarrow>
     writes f xs"
  by (simp add: writes_def)

lemma writesD:
  "writes f xs \<Longrightarrow> at_end b \<Longrightarrow> bb_size b + length xs < append_limit \<Longrightarrow> f b = Inr (bb_extend xs b)"
  by (simp add: writes_def)

lemma writes_obind:
  "writes f xs \<Longrightarrow> writes g ys \<Longrightarrow> writes (\<lambda>b. obind (f b) g) (xs @ ys)"
  by (rule writesI) (simp add: writesD)

lemma writes_append [writes_intros]: "writes (bb_append src) src"
  by (rule writesI) (simp add: bb_append_at_end)

lemma writes_out [writes_intros]: "writes (bb_out h v) (wire v)"
  by (rule writesI) (simp add: bb_out_at_end)

lemma writes_append_val [writes_intros]: "writes (bb_append_val h v) (wire v)"
  using writes_out [of h v] by (simp add: bb_out_def [abs_def])

lemma writes_out_string [writes_intros]: "writes (bb_out_string h s) (s @ [0])"
  unfolding bb_out_string_def
  using writes_obind [OF writes_append writes_append_val, of s h "0 :: byte"] by simp

lemma writes_append_buffer [writes_intros]: "writes (bb_append_buffer c) (storage c)"
  by (rule writesI) (auto simp: bb_append_buffer_def bb_append_at_end bb_size_def)

lemma writes_seq_Nil [writes_intros]: "writes (bb_seq []) []"
  by (rule writesI) simp

lemma writes_seq_Cons [writes_intros]:
  "writes f xs \<Longrightarrow> writes (bb_seq fs) ys \<Longrightarrow> writes (bb_seq (f # fs)) (xs @ ys)"
  by (rule writesI) (simp add: writesD)

lemma bb_seq_append: "bb_seq (fs @ gs) b = obind (bb_seq fs b) (bb_seq gs)"
proof (induction fs arbitrary: b)
  case (Cons f fs)
  then show ?case by (cases "f b") auto
qed simp

lemma writes_seq_append:
  "writes (bb_seq fs) xs \<Longrightarrow> writes (bb_seq gs) ys \<Longrightarrow> writes (bb_seq (fs @ gs)) (xs @ ys)"
  by (rule writesI) (simp add: bb_seq_append writesD)

lemma writes_seq_concat:
  "(\<And>x. x \<in> set vs \<Longrightarrow> writes (f x) (img x)) \<Longrightarrow> writes (bb_seq (map f vs)) (concat (map img vs))"
  by (induction vs) (auto intro: writes_intros)

lemma writes_seq_concat_map:
  "(\<And>x. x \<in> set vs \<Longrightarrow> writes (bb_seq (f x)) (img x)) \<Longrightarrow>
     writes (bb_seq (concat (map f vs))) (concat (map img vs))"
  by (induction vs) (auto intro: writes_intros writes_seq_append)

lemma writes_new: "writes f xs \<Longrightarrow> length xs < append_limit \<Longrightarrow> f bb_new = Inr (bb_extend xs bb_new)"
  by (simp add: writesD)

section \<open>Readers\<close>

lemma obj_value_wire [simp]:
  "8 dvd LENGTH('a) \<Longrightarrow> obj_value h (EndianConvert h (wire v)) = (v :: 'a::len word)"
  by (cases h) (simp_all add: obj_value_def wire_def size_of_def)

lemma size_of_pos: "8 dvd LENGTH('a) \<Longrightarrow> 0 < size_of TYPE('a::len word)"
  using len_gt_0 [where 'a = 'a] by (auto simp: size_of_def dvd_def simp del: len_gt_0)

lemma bb_read_wire:
  fixes v :: "'a::len word"
  assumes "8 dvd LENGTH('a)" and rest: "bb_rest b = wire v @ ys"
  shows "bb_read h b = Inr (v, bb_advance (size_of TYPE('a word)) b)"
proof -
  have "wire v \<noteq> []"
    using size_of_pos [OF assms(1)] by (metis length_wire length_greater_0_conv)
  with rest have fits: "rpos b + size_of TYPE('a word) \<le> bb_size b"
    using bb_rest_fits [OF rest] by simp
  have "take (size_of TYPE('a word)) (drop (rpos b) (storage b)) = wire v"
    using rest by (simp add: bb_rest_def)
  with fits assms(1) show ?thesis
    by (simp add: bb_read_def bb_read_at_def bb_advance_def)
qed

lemma bb_read_img:
  "8 dvd LENGTH('a) \<Longrightarrow> bb_rest b = wire (v :: 'a::len word) @ ys \<Longrightarrow>
     bb_read h b = Inr (v, bb_advance (length (wire v)) b)"
  by (simp add: bb_read_wire)

lemma bb_read_byte: "bb_rest b = c # ys \<Longrightarrow> bb_read h b = Inr (c, bb_advance 1 b)"
  using bb_read_wire [of b c ys h] by simp

lemma bb_rest_empty_iff: "bb_rest b = [] \<longleftrightarrow> bb_size b \<le> rpos b"
  by (simp add: bb_rest_def bb_size_def)

text \<open>A typed read fails exactly when fewer bytes are left than the type needs.\<close>

lemma bb_read_short:
  "bb_size b < rpos b + size_of TYPE('a word) \<Longrightarrow>
     (bb_read h b :: ('a::len word \<times> byte_buffer) outcome) = Inl Assert_failed"
  by (simp add: bb_read_def bb_read_at_def)

text \<open>The string loop stops after the first zero byte or at the end of the buffer.\<close>

lemma bb_in_string_loop_eq:
  "bb_in_string_loop h acc b =
     (let s = takeWhile (\<lambda>c. c \<noteq> 0) (bb_rest b)
      in Inr (acc @ s, bb_advance (min (Suc (length s)) (length (bb_rest b))) b))"
proof (induction h acc b rule: bb_in_string_loop.induct)
  case (1 h acc b)
  show ?case
  proof (cases "bb_rest b")
    case Nil
    then have "\<not> rpos b < bb_size b"
      using bb_rest_empty_iff [of b] by simp
    with Nil show ?thesis
      by (subst bb_in_string_loop.simps) (simp add: Let_def)
  next
    case (Cons c cs)
    then have lt: "rpos b < bb_size b"
      using bb_rest_empty_iff [of b] by simp
    have rd: "bb_read h b = Inr (c, bb_advance 1 b)"
      using Cons by (rule bb_read_byte)
    show ?thesis
    proof (cases "c = 0")
      case True
      with lt rd Cons show ?thesis
        by (subst bb_in_string_loop.simps) (simp add: Let_def)
    next
      case False
      have tl: "bb_rest (bb_advance 1 b) = cs" by (simp add: Cons)
      from "1.IH" [OF lt rd refl False] False lt rd Cons tl show ?thesis
        by (subst bb_in_string_loop.simps) (simp add: Let_def)
    qed
  qed
qed

lemma bb_in_string_rest:
  "bb_rest b = s @ [0] @ ys \<Longrightarrow> 0 \<notin> set s \<Longrightarrow>
     bb_in_string h b = Inr (s, bb_advance (Suc (length s)) b)"
  by (simp add: bb_in_string_def bb_in_string_loop_eq Let_def)

section \<open>The codec interface\<close>

locale bb_codec =
  fixes enc :: "'a \<Rightarrow> byte_buffer \<Rightarrow> byte_buffer outcome"
    and dec :: "byte_buffer \<Rightarrow> ('a \<times> byte_buffer) outcome"
    and img :: "'a \<Rightarrow> bytes"
    and ok :: "'a \<Rightarrow> bool"
  assumes enc_writes: "ok v \<Longrightarrow> writes (enc v) (img v)"
    and dec_img: "ok v \<Longrightarrow> bb_rest b = img v @ ys \<Longrightarrow> dec b = Inr (v, bb_advance (length (img v)) b)"
begin

lemma roundtrip:
  assumes "ok v" "at_end b" "rpos b = bb_size b" "bb_size b + length (img v) < append_limit"
  shows "\<exists>b'. enc v b = Inr b' \<and> dec b' = Inr (v, b'\<lparr>rpos := bb_size b'\<rparr>)"
proof -
  have "enc v b = Inr (bb_extend (img v) b)"
    using enc_writes [OF assms(1)] assms(2,4) by (rule writesD)
  moreover have "dec (bb_extend (img v) b) = Inr (v, bb_advance (length (img v)) (bb_extend (img v) b))"
    using assms(1,3) by (intro dec_img [where ys = "[]"]) (simp_all add: bb_rest_extend)
  ultimately show ?thesis
    using assms(3) by (simp add: bb_advance_def)
qed

lemma enc_all: "\<forall>v\<in>set vs. ok v \<Longrightarrow> writes (bb_seq (map enc vs)) (concat (map img vs))"
  by (intro writes_seq_concat enc_writes) simp

lemma dec_all:
  "\<forall>v\<in>set vs. ok v \<Longrightarrow> bb_rest b = concat (map img vs) @ ys \<Longrightarrow>
     bb_in_elems dec (length vs) acc b = Inr (acc @ vs, bb_advance (length (concat (map img vs))) b)"
proof (induction vs arbitrary: acc b)
  case Nil
  then show ?case by simp
next
  case (Cons v vs)
  let ?b = "bb_advance (length (img v)) b"
  have "dec b = Inr (v, ?b)"
    using Cons.prems by (intro dec_img [where ys = "concat (map img vs) @ ys"]) simp_all
  moreover have "bb_rest ?b = concat (map img vs) @ ys"
    using Cons.prems by simp
  ultimately show ?case
    using Cons.IH [of ?b "acc @ [v]"] Cons.prems by simp
qed

definition vector_img :: "'a list \<Rightarrow> bytes" where
  "vector_img vs = wire (of_nat (length vs) :: u32) @ concat (map img vs)"

lemma vector_enc: "\<forall>v\<in>set vs. ok v \<Longrightarrow> writes (bb_out_vector h enc vs) (vector_img vs)"
  unfolding bb_out_vector_def vector_img_def
  by (intro writes_obind writes_out enc_all)

lemma vector_dec:
  assumes "\<forall>v\<in>set vs. ok v" and len: "length vs < 2 ^ 32"
    and rest: "bb_rest b = vector_img vs @ ys"
  shows "bb_in_vector h dec b = Inr (vs, bb_advance (length (vector_img vs)) b)"
proof -
  let ?n = "of_nat (length vs) :: u32"
  have "bb_read h b = Inr (?n, bb_advance 4 b)"
    using rest bb_read_wire [of b ?n "concat (map img vs) @ ys" h]
    by (simp add: vector_img_def)
  moreover have "unat ?n = length vs"
    using len by (simp add: unat_of_nat_small)
  moreover have "bb_rest (bb_advance 4 b) = concat (map img vs) @ ys"
    using rest by (simp add: vector_img_def)
  ultimately show ?thesis
    using dec_all [OF assms(1), of "bb_advance 4 b" ys "[]"]
    by (simp add: bb_in_vector_def vector_img_def)
qed

end

text \<open>Two codecs give one for maps, written and read entry by entry.\<close>

locale bb_map_codec =
  key: bb_codec kenc kdec kimg kok + val: bb_codec venc vdec vimg vok
  for kenc :: "'k::linorder \<Rightarrow> byte_buffer \<Rightarrow> byte_buffer outcome"
    and kdec kimg kok
    and venc :: "'v \<Rightarrow> byte_buffer \<Rightarrow> byte_buffer outcome"
    and vdec vimg vok
begin

definition entry_img :: "'k \<times> 'v \<Rightarrow> bytes" where
  "entry_img e = kimg (fst e) @ vimg (snd e)"

definition entry_ok :: "'k \<times> 'v \<Rightarrow> bool" where
  "entry_ok e \<longleftrightarrow> kok (fst e) \<and> vok (snd e)"

lemma entry_pair [simp]:
  "entry_img (k, v) = kimg k @ vimg v" "entry_ok (k, v) \<longleftrightarrow> kok k \<and> vok v"
  by (simp_all add: entry_img_def entry_ok_def)

definition map_img :: "('k \<times> 'v) list \<Rightarrow> bytes" where
  "map_img m = wire (of_nat (length m) :: u32) @ concat (map entry_img m)"

lemma map_enc: "\<forall>e\<in>set m. entry_ok e \<Longrightarrow> writes (bb_out_map h kenc venc m) (map_img m)"
  unfolding bb_out_map_def [abs_def] bb_out_vector_def map_img_def
  by (intro writes_obind writes_out writes_seq_concat)
     (auto simp: entry_img_def entry_ok_def split_beta intro!: writes_obind key.enc_writes val.enc_writes)

lemma om_insert_snoc:
  "om_sorted (m @ (k, v) # m') \<Longrightarrow> om_insert k v m = m @ [(k, v)]"
proof -
  assume s: "om_sorted (m @ (k, v) # m')"
  then have less: "\<forall>e\<in>set m. fst e < k"
    by (auto simp: om_sorted_def sorted_wrt_append)
  then have "om_update k v m = m @ [(k, v)]"
    by (induction m) (auto dest: less_asym)
  with less show ?thesis by (auto simp: om_insert_def)
qed

lemma map_dec_loop:
  "\<forall>e\<in>set m. entry_ok e \<Longrightarrow> om_sorted (acc @ m) \<Longrightarrow> bb_rest b = concat (map entry_img m) @ ys \<Longrightarrow>
     bb_in_entries kdec vdec (length m) acc b =
       Inr (acc @ m, bb_advance (length (concat (map entry_img m))) b)"
proof (induction m arbitrary: acc b)
  case Nil
  then show ?case by simp
next
  case (Cons e m)
  obtain k v where e: "e = (k, v)" by (cases e)
  let ?b1 = "bb_advance (length (kimg k)) b"
  let ?b2 = "bb_advance (length (vimg v)) ?b1"
  let ?r = "concat (map entry_img m) @ ys"
  have oks: "kok k" "vok v" using Cons.prems(1) by (auto simp: e)
  have rest: "bb_rest b = kimg k @ vimg v @ ?r"
    using Cons.prems(3) by (simp add: e)
  have "kdec b = Inr (k, ?b1)"
    using oks(1) rest by (rule key.dec_img)
  moreover have "vdec ?b1 = Inr (v, ?b2)"
    using oks(2) rest by (intro val.dec_img [where ys = ?r]) simp_all
  moreover have "om_insert k v acc = acc @ [(k, v)]"
    using Cons.prems(2) by (intro om_insert_snoc [where m' = m]) (simp add: e)
  moreover have "bb_rest ?b2 = ?r" by (simp add: rest)
  ultimately show ?case
    using Cons.IH [of "acc @ [(k, v)]" ?b2] Cons.prems
    by (simp add: e add.assoc)
qed

lemma map_dec:
  assumes "\<forall>e\<in>set m. entry_ok e" and "om_sorted m" and "length m < 2 ^ 32"
    and rest: "bb_rest b = map_img m @ ys"
  shows "bb_in_map h kdec vdec b = Inr (m, bb_advance (length (map_img m)) b)"
proof -
  let ?n = "of_nat (length m) :: u32"
  have "bb_read h b = Inr (?n, bb_advance 4 b)"
    using rest bb_read_wire [of b ?n "concat (map entry_img m) @ ys" h]
    by (simp add: map_img_def)
  moreover have "unat ?n = length m"
    using assms(3) by (simp add: unat_of_nat_small)
  moreover have "bb_rest (bb_advance 4 b) = concat (map entry_img m) @ ys"
    using rest by (simp add: map_img_def)
  ultimately show ?thesis
    using map_dec_loop [OF assms(1), of "[]" "bb_advance 4 b" ys] assms(2)
    by (simp add: bb_in_map_def map_img_def)
qed

end

text \<open>The program's own operators are codecs.\<close>

interpretation byte_codec: bb_codec "bb_out h" "bb_read h'" wire "\<lambda>_ :: u8. True"
  for h h'
  by unfold_locales (rule writes_out, rule bb_read_img, simp_all)

interpretation short_codec: bb_codec "bb_out h" "bb_read h'" wire "\<lambda>_ :: u16. True"
  for h h'
  by unfold_locales (rule writes_out, rule bb_read_img, simp_all)

interpretation int_codec: bb_codec "bb_out h" "bb_read h'" wire "\<lambda>_ :: u32. True"
  for h h'
  by unfold_locales (rule writes_out, rule bb_read_img, simp_all)

interpretation long_codec: bb_codec "bb_out h" "bb_read h'" wire "\<lambda>_ :: u64. True"
  for h h'
  by unfold_locales (rule writes_out, rule bb_read_img, simp_all)

interpretation string_codec: bb_codec "bb_out_string h" "bb_in_string h'" "\<lambda>s. s @ [0]" "\<lambda>s. 0 \<notin> set s"
  for h h'
  by unfold_locales (auto intro: writes_out_string simp: bb_in_string_rest)

interpretation dict_codec: bb_map_codec "bb_out h" "bb_read h'" wire "\<lambda>_ :: u32. True"
    "bb_out_string h" "bb_in_string h'" "\<lambda>s. s @ [0]" "\<lambda>s. 0 \<notin> set s"
  for h h'
  by unfold_locales

end
