(* ===== verification/Realm_Socket.thy ===== *)
theory Realm_Socket
  imports Realm_Service Buffer_Laws
begin

text \<open>
  A connection of the realm daemon (src/realmd/Realm_Socket.h and .cpp): the reactor's upcalls,
  the handlers of the five client commands, the callbacks from the database observers, and the
  packets they build.  A handler is a function from the connection to the connection, or a
  fault where the code would leave defined behaviour.

  The record holds the members of \<open>Realm_Socket\<close> and, for what the handlers do outside the
  object, the database requests made (\<open>db_ops\<close>), the reactor masks the handler is registered
  for, whether the peer's stream is open and what has been written to it (\<open>sent\<close>).
  \<open>raw_buf\<close> is cleared and filled by every \<open>handle_input\<close>, so it is an argument of the
  handlers.  The host is little-endian.

  The environment \<open>E\<close> gives what is not the connection's own: OpenSSL, the configuration, the
  realm and proxy tables, the random numbers that \<open>BN_rand\<close> returns, and the bytes left in
  memory that the code reads without having written them (\<open>stale_S\<close> for \<open>S_buff\<close>,
  \<open>stale_16\<close> and \<open>stale_40\<close> for the blocks \<open>new\<close> returns).
\<close>

section \<open>State\<close>

datatype ConnectionState =
    STATUS_CONNECTED | STATUS_NEED_PROOF | STATUS_AUTHED | STATUS_NEED_RPROOF | STATUS_CLOSING

record realm_socket =
  acct :: account
  sess_k :: nat
  realm_char_amount :: "(u8 \<times> u8) list"
  out_active :: bool
  state :: ConnectionState
  client_build :: u16
  login :: bytes
  ip :: bytes
  packet_queue :: "byte_buffer list"
  bn_s :: nat
  bn_v :: nat
  bn_g :: nat
  bn_N :: nat
  bn_b :: nat
  bn_B :: nat
  reconnect_proof :: nat
  ptr_live :: bool
  db_ops :: "realm_op list"
  read_mask :: bool
  write_mask :: bool
  peer_open :: bool
  sent :: bytes

record realm_env =
  ssl :: openssl
  WrongPassBan :: bool
  WrongPassAmnt :: int
  WrongPassBanType :: bytes
  tables :: realm_service
  stale_S :: bytes
  stale_16 :: bytes
  stale_40 :: bytes
  rand_b :: nat
  rand_unk :: nat
  rand_rp :: nat

section \<open>Constants\<close>

definition BUILD_1_12 :: u16 where "BUILD_1_12 = 5875"
definition BUILD_2_43 :: u16 where "BUILD_2_43 = 8606"
definition BUILD_3_13 :: u16 where "BUILD_3_13 = 9947"
definition BUILD_3_20 :: u16 where "BUILD_3_20 = 10505"

definition isSupportedClientBuild :: "u16 \<Rightarrow> bool" where
  "isSupportedClientBuild build \<longleftrightarrow> build \<in> {BUILD_1_12, BUILD_2_43, BUILD_3_20, BUILD_3_13}"

definition AUTH_LOGON_CHALLENGE :: byte where "AUTH_LOGON_CHALLENGE = 0"
definition AUTH_LOGON_PROOF :: byte where "AUTH_LOGON_PROOF = 1"
definition AUTH_RECONNECT_CHALLENGE :: byte where "AUTH_RECONNECT_CHALLENGE = 2"
definition AUTH_RECONNECT_PROOF :: byte where "AUTH_RECONNECT_PROOF = 3"
definition REALM_LIST :: byte where "REALM_LIST = 0x10"

definition REALM_AUTH_SUCCESS :: byte where "REALM_AUTH_SUCCESS = 0"
definition REALM_AUTH_ACCOUNT_BANNED :: byte where "REALM_AUTH_ACCOUNT_BANNED = 3"
definition REALM_AUTH_NO_MATCH :: byte where "REALM_AUTH_NO_MATCH = 4"
definition REALM_AUTH_WRONG_BUILD_NUMBER :: byte where "REALM_AUTH_WRONG_BUILD_NUMBER = 9"
definition REALM_AUTH_ACCOUNT_LOCKED :: byte where "REALM_AUTH_ACCOUNT_LOCKED = 16"
definition LOGIN_OK :: byte where "LOGIN_OK = 0"

lemmas realm_consts = AUTH_LOGON_CHALLENGE_def AUTH_LOGON_PROOF_def AUTH_RECONNECT_CHALLENGE_def
  AUTH_RECONNECT_PROOF_def REALM_LIST_def REALM_AUTH_SUCCESS_def REALM_AUTH_ACCOUNT_BANNED_def
  REALM_AUTH_NO_MATCH_def REALM_AUTH_WRONG_BUILD_NUMBER_def REALM_AUTH_ACCOUNT_LOCKED_def LOGIN_OK_def

lemmas build_defs = BUILD_1_12_def BUILD_2_43_def BUILD_3_13_def BUILD_3_20_def

section \<open>Client packets\<close>

text \<open>The packed structures of the client packets, by the offsets of their members.\<close>

definition slice :: "nat \<Rightarrow> nat \<Rightarrow> bytes \<Rightarrow> bytes" where
  "slice off len raw = take len (drop off raw)"

definition challenge_build :: "bytes \<Rightarrow> u16" where
  "challenge_build raw = of_le (slice 11 2 raw)"

definition challenge_I_len :: "bytes \<Rightarrow> byte" where
  "challenge_I_len raw = raw ! 33"

definition challenge_I :: "nat \<Rightarrow> bytes \<Rightarrow> bytes" where
  "challenge_I len raw = slice 34 len raw"

definition proof_A :: "bytes \<Rightarrow> bytes" where
  "proof_A raw = slice 1 32 raw"

definition proof_M1 :: "bytes \<Rightarrow> bytes" where
  "proof_M1 raw = slice 33 20 raw"

definition reconnect_R1 :: "bytes \<Rightarrow> bytes" where
  "reconnect_R1 raw = slice 1 16 raw"

definition reconnect_R2 :: "bytes \<Rightarrow> bytes" where
  "reconnect_R2 raw = slice 17 20 raw"

section \<open>Lifetime, queue and output\<close>

definition N_hex :: bytes where
  "N_hex = str ''894B645E89E1535BBDAD5B8B290650530801B18EBFBF5E8FAB3C82872A3E9BB7''"

text \<open>The constructor; \<open>rand_s\<close> is the number \<open>BN_rand\<close> returns, \<open>acct0\<close> and \<open>build0\<close> are what
  the members that the constructor leaves uninitialised happen to hold.\<close>

definition Realm_Socket_new ::
    "openssl \<Rightarrow> nat \<Rightarrow> account \<Rightarrow> u16 \<Rightarrow> realm_socket outcome" where
  "Realm_Socket_new L rand_s acct0 build0 = (case hex2bn L N_hex of
       None \<Rightarrow> Inl Null_pointer
     | Some N \<Rightarrow> Inr \<lparr>
         acct = acct0\<lparr>sha_pass := [], last_ip := []\<rparr>,
         sess_k = 3, realm_char_amount = [], out_active = False, state = STATUS_CONNECTED,
         client_build = build0, login = [], ip = [], packet_queue = [],
         bn_s = rand_s, bn_v = 0, bn_g = 7, bn_N = N, bn_b = 0, bn_B = 0, reconnect_proof = 0,
         ptr_live = True, db_ops = [], read_mask = False, write_mask = False, peer_open = True,
         sent = []\<rparr>)"

text \<open>\<open>open\<close>; \<open>addr\<close> is the peer's address if it can be had, \<open>reg\<close> whether the reactor accepts
  the handler.\<close>

definition rs_open :: "bytes option \<Rightarrow> bool \<Rightarrow> realm_socket \<Rightarrow> int \<times> realm_socket" where
  "rs_open addr reg s = (case addr of
       None \<Rightarrow> (- 1, s)
     | Some a \<Rightarrow> if \<not> reg then (- 1, s) else (0, s\<lparr>read_mask := True, ip := ip s @ a\<rparr>))"

definition die :: "realm_socket \<Rightarrow> realm_socket" where
  "die s = s\<lparr>state := STATUS_CLOSING, read_mask := False, write_mask := False, peer_open := False,
             ptr_live := False\<rparr>"

definition rs_close :: "realm_socket \<Rightarrow> int \<times> realm_socket" where
  "rs_close s = (0, die s)"

definition handle_close :: "bool \<Rightarrow> realm_socket \<Rightarrow> int \<times> realm_socket" where
  "handle_close is_write_mask s = (if is_write_mask then (0, s) else (0, die s))"

text \<open>The reactor accepts a registration for a handle that is still open.\<close>

definition send :: "byte_buffer \<Rightarrow> realm_socket \<Rightarrow> realm_socket" where
  "send pkt s =
     (let s' = s\<lparr>packet_queue := packet_queue s @ [pkt]\<rparr>
      in if \<not> out_active s' then s'\<lparr>write_mask := peer_open s', out_active := True\<rparr> else s')"

definition enqueue :: "realm_op \<Rightarrow> realm_socket \<Rightarrow> realm_socket" where
  "enqueue op s = s\<lparr>db_ops := db_ops s @ [op]\<rparr>"

datatype out_end = Drained | Blocked | Send_failed

text \<open>The loop of \<open>handle_output\<close>; \<open>res i\<close> is the result of the \<open>i\<close>-th call of \<open>peer().send\<close>, and
  what the peer received is appended to \<open>out\<close>.  The blocks that \<open>read\<close> copies overlap; the model
  copies them as \<open>memmove\<close> would.\<close>

fun out_loop ::
    "(nat \<Rightarrow> int) \<Rightarrow> nat \<Rightarrow> byte_buffer list \<Rightarrow> bytes \<Rightarrow> (out_end \<times> byte_buffer list \<times> bytes) outcome" where
  "out_loop res i [] out = Inr (Drained, [], out)"
| "out_loop res i (b # q) out =
     (let sent_bytes = res i
      in if 0 < sent_bytes \<and> sent_bytes < int (bb_size b)
         then
           let n = nat sent_bytes
           in obind (bb_read_to_front (bb_size b - n) (bb_set_rpos (n - 1) b))
                (\<lambda>b'. Inr (Blocked, bb_resize (bb_size b' - n) b' # q, out @ take n (storage b)))
         else if sent_bytes = - 1 then Inr (Send_failed, b # q, out)
         else out_loop res (Suc i) q (out @ take (nat sent_bytes) (storage b)))"

definition handle_output :: "(nat \<Rightarrow> int) \<Rightarrow> realm_socket \<Rightarrow> (int \<times> realm_socket) outcome" where
  "handle_output res s =
     (if \<not> out_active s then Inr (0, s)
      else obind (out_loop res 0 (packet_queue s) (sent s)) (\<lambda>(e, q, out).
        let s' = s\<lparr>packet_queue := q, sent := out\<rparr>
        in case e of
             Send_failed \<Rightarrow> Inr (- 1, s')
           | Blocked \<Rightarrow> Inr (1, s')
           | Drained \<Rightarrow> Inr (0, s'\<lparr>write_mask := False, out_active := False\<rparr>)))"

section \<open>Packets\<close>

abbreviation o8 :: "byte \<Rightarrow> byte_buffer \<Rightarrow> byte_buffer outcome" where
  "o8 v \<equiv> bb_out Little v"

abbreviation o16 :: "u16 \<Rightarrow> byte_buffer \<Rightarrow> byte_buffer outcome" where
  "o16 v \<equiv> bb_out Little v"

abbreviation o32 :: "u32 \<Rightarrow> byte_buffer \<Rightarrow> byte_buffer outcome" where
  "o32 v \<equiv> bb_out Little v"

abbreviation o64 :: "u64 \<Rightarrow> byte_buffer \<Rightarrow> byte_buffer outcome" where
  "o64 v \<equiv> bb_out Little v"

text \<open>Build a packet by a run of insertions and send it.\<close>

definition send_pkt ::
    "(byte_buffer \<Rightarrow> byte_buffer outcome) list \<Rightarrow> realm_socket \<Rightarrow> realm_socket outcome" where
  "send_pkt fs s = obind (bb_seq fs bb_new) (\<lambda>pkt. Inr (send pkt s))"

definition list_size :: "u16 \<Rightarrow> (u8 \<times> realm) list \<Rightarrow> u16" where
  "list_size build realms = of_nat (length (filter (\<lambda>e. r_build (snd e) = build) realms))"

text \<open>\<open>color\<close> with the mark for an offline realm.\<close>

definition shown_color :: "bytes \<Rightarrow> realm \<Rightarrow> byte" where
  "shown_color address r = (if address = [] then 2 else r_color r)"

definition realm_entry ::
    "realm_service \<Rightarrow> (u8 \<times> u8) list \<Rightarrow> u8 \<times> realm \<Rightarrow> (byte_buffer \<Rightarrow> byte_buffer outcome) list" where
  "realm_entry T amnt e = (case e of (rid, r) \<Rightarrow>
     let address = get_proxy_for_realm rid T
     in [o8 (r_icon r), o8 (shown_color address r), bb_out_string Little (r_name r),
         bb_out_string Little address, o32 (r_population r),
         o8 (case map_of amnt rid of Some n \<Rightarrow> n | None \<Rightarrow> 0), o8 (r_timezone r), o8 0])"

definition wrap_realm_list :: "byte_buffer \<Rightarrow> byte_buffer outcome" where
  "wrap_realm_list pkt =
     bb_seq [o8 REALM_LIST, o16 (of_nat (bb_size pkt)), bb_append_buffer pkt] bb_new"

definition build_realm_packet :: "realm_env \<Rightarrow> realm_socket \<Rightarrow> byte_buffer outcome" where
  "build_realm_packet E s =
     (let realms = realm_map (tables E);
          listSize = list_size (client_build s) realms;
          shown = filter (\<lambda>e. r_build (snd e) = client_build s) realms
      in obind (bb_seq ([o32 0, o8 (ucast listSize)] @
                        (if listSize > 0
                         then concat (map (realm_entry (tables E) (realm_char_amount s)) shown) else []) @
                        [o8 0, o8 2]) bb_new)
           wrap_realm_list)"

definition expansion_realm_entry ::
    "realm_service \<Rightarrow> u8 \<Rightarrow> (u8 \<times> u8) list \<Rightarrow> u8 \<times> realm \<Rightarrow>
     (byte_buffer \<Rightarrow> byte_buffer outcome) list" where
  "expansion_realm_entry T level amnt e = (case e of (rid, r) \<Rightarrow>
     let address = get_proxy_for_realm rid T
     in [o8 (r_icon r), o8 (if r_allowedSecurityLevel r > level then 1 else 0),
         o8 (shown_color address r), bb_out_string Little (r_name r),
         bb_out_string Little address, o32 (r_population r),
         o8 (case map_of amnt rid of Some n \<Rightarrow> n | None \<Rightarrow> 0), o8 (r_timezone r), o8 0])"

text \<open>\<open>realm_char_amount[id]\<close> inserts the keys it does not find.\<close>

definition build_expansion_realm_packet ::
    "realm_env \<Rightarrow> realm_socket \<Rightarrow> (byte_buffer \<times> realm_socket) outcome" where
  "build_expansion_realm_packet E s =
     (let realms = realm_map (tables E);
          listSize = list_size (client_build s) realms;
          shown = (if listSize > 0
                   then filter (\<lambda>e. r_build (snd e) = client_build s) realms else [])
      in obind (bb_seq ([o32 0, o16 listSize] @
                        concat (map (expansion_realm_entry (tables E) (gmlevel (acct s))
                                       (realm_char_amount s)) shown) @
                        [o8 0x10, o8 0]) bb_new)
           (\<lambda>pkt. obind (wrap_realm_list pkt)
             (\<lambda>data. Inr (data, s\<lparr>realm_char_amount :=
                fold (\<lambda>e. om_insert (fst e) 0) shown (realm_char_amount s)\<rparr>))))"

definition build_logon_proof_packet :: "bytes \<Rightarrow> (byte_buffer \<Rightarrow> byte_buffer outcome) list" where
  "build_logon_proof_packet hamk_fin =
     [o8 AUTH_LOGON_PROOF, o8 0, bb_append hamk_fin, o32 0]"

definition build_expansion_logon_proof_packet ::
    "bytes \<Rightarrow> (byte_buffer \<Rightarrow> byte_buffer outcome) list" where
  "build_expansion_logon_proof_packet hamk_fin =
     [o8 AUTH_LOGON_PROOF, o8 LOGIN_OK, bb_append hamk_fin, o32 0x00800000, o32 0, o16 0]"

end
