(* ===== verification/Realm_Handlers.thy ===== *)
theory Realm_Handlers
  imports Realm_Socket
begin

text \<open>
  The command handlers of \<open>Realm_Socket\<close>, the callbacks from the database and the dispatch of
  the reactor's events (src/realmd/Realm_Socket.cpp).  The numbers of the SRP6 exchange are
  computed as the code computes them, through OpenSSL and fixed buffers that are reversed in
  place; an intermediate buffer is a value here.
\<close>

section \<open>Number buffers\<close>

text \<open>A number in a zeroed 32-byte buffer, turned to little-endian order.\<close>

definition le32_buffer :: "openssl \<Rightarrow> nat \<Rightarrow> bytes outcome" where
  "le32_buffer L n = obind (bn2bin_into L n (replicate 32 0)) (\<lambda>bs. Inr (rev bs))"

text \<open>The even and the odd bytes of \<open>S_buff\<close>, and the two digests interleaved into \<open>K_buff\<close>.\<close>

definition even_bytes :: "bytes \<Rightarrow> bytes" where
  "even_bytes S_buff = map (\<lambda>i. S_buff ! (i * 2)) [0..<16]"

definition odd_bytes :: "bytes \<Rightarrow> bytes" where
  "odd_bytes S_buff = map (\<lambda>i. S_buff ! (i * 2 + 1)) [0..<16]"

definition interleave :: "bytes \<Rightarrow> bytes \<Rightarrow> bytes" where
  "interleave xs ys = concat (map (\<lambda>i. [xs ! i, ys ! i]) [0..<20])"

definition session_key :: "openssl \<Rightarrow> bytes \<Rightarrow> bytes" where
  "session_key L S_buff = interleave (sha1 L (even_bytes S_buff)) (sha1 L (odd_bytes S_buff))"

definition xor_bytes :: "bytes \<Rightarrow> bytes \<Rightarrow> bytes" where
  "xor_bytes xs ys = map2 (XOR) xs ys"

section \<open>SRP6\<close>

definition set_vs :: "realm_env \<Rightarrow> realm_socket \<Rightarrow> realm_socket outcome" where
  "set_vs E s =
     (let L = ssl E
      in obind (fix_sv (login s)) (\<lambda>op1.
         let s1 = enqueue op1 s
         in obind (le32_buffer L (bn_s s)) (\<lambda>s_ch.
         case hex2bn L (sha_pass (acct s)) of
           None \<Rightarrow> Inl Null_pointer
         | Some I \<Rightarrow>
             obind (bn2bin_into L I (replicate 20 0)) (\<lambda>p_ch.
             let x = bin2bn L (rev (sha1 L (s_ch @ p_ch)));
                 v = bn_mod_exp L (bn_g s) x (bn_N s)
             in obind (set_sv (login s) (bn2hex L (bn_s s)) (bn2hex L v)) (\<lambda>op2.
                Inr (enqueue op2 (s1\<lparr>bn_v := v\<rparr>)))))))"

text \<open>What the proof handler computes from the client's \<open>A\<close>: the proof it expects, and the key.\<close>

definition scrambler :: "openssl \<Rightarrow> bytes \<Rightarrow> bytes \<Rightarrow> nat" where
  "scrambler L A B_buff = bin2bn L (rev (sha1 L (A @ B_buff)))"

definition premaster :: "openssl \<Rightarrow> realm_socket \<Rightarrow> bytes \<Rightarrow> bytes \<Rightarrow> nat" where
  "premaster L s A B_buff =
     (let a = bin2bn L (rev A);
          u = scrambler L A B_buff;
          temp = bn_mod_exp L (bn_v s) u (bn_N s)
      in bn_mod_exp L (bn_mul L a temp) (bn_b s) (bn_N s))"

definition client_proof :: "openssl \<Rightarrow> bytes \<Rightarrow> bytes \<Rightarrow> bytes \<Rightarrow> bytes \<Rightarrow> bytes \<Rightarrow> bytes \<Rightarrow> bytes" where
  "client_proof L user N_buff s_buff A B_buff K_buff =
     (let HNxorHg = xor_bytes (sha1 L N_buff) (sha1 L [7]);
          I_hash = sha1 L user
      in sha1 L (HNxorHg @ I_hash @ s_buff @ A @ B_buff @ K_buff))"

definition expected_proof :: "realm_env \<Rightarrow> realm_socket \<Rightarrow> bytes \<Rightarrow> (bytes \<times> bytes) outcome" where
  "expected_proof E s A =
     (let L = ssl E
      in obind (le32_buffer L (bn_B s)) (\<lambda>B_buff.
         obind (bn2bin_into L (premaster L s A B_buff) (stale_S E)) (\<lambda>S_be.
         let K_buff = session_key L (rev S_be)
         in obind (le32_buffer L (bn_N s)) (\<lambda>N_buff.
            obind (le32_buffer L (bn_s s)) (\<lambda>s_buff.
            Inr (client_proof L (login s) N_buff s_buff A B_buff K_buff, K_buff))))))"

section \<open>Callbacks\<close>

definition account_refused :: "byte \<Rightarrow> realm_socket \<Rightarrow> realm_socket outcome" where
  "account_refused reason s = send_pkt [o8 AUTH_LOGON_CHALLENGE, o8 0, o8 reason] s"

text \<open>The branch for an existing account that is not locked to another address.  \<open>tmp\<close> holds
  \<open>B\<close>, \<open>N\<close>, \<open>s\<close> and a random number in turn and is not cleared in between.\<close>

definition send_challenge :: "realm_env \<Rightarrow> realm_socket \<Rightarrow> realm_socket outcome" where
  "send_challenge E s =
     obind (set_vs E s) (\<lambda>s1.
       let L = ssl E;
           b = rand_b E;
           temp = bn_mod_exp L (bn_g s1) b (bn_N s1);
           temp2 = bn_add L (bn_mul L (bn_v s1) (sess_k s1)) temp;
           B = bn_mod L temp2 (bn_N s1);
           s2 = s1\<lparr>bn_b := b, bn_B := B\<rparr>
       in obind (bn2bin_into L B (replicate 32 0)) (\<lambda>t1.
          let B_le = rev t1
          in obind (bn2bin_into L (bn_N s2) B_le) (\<lambda>t2.
          let N_le = rev t2
          in obind (bn2bin_into L (bn_s s2) N_le) (\<lambda>t3.
          let s_le = rev t3
          in obind (bn2bin_into L (rand_unk E) s_le) (\<lambda>t4.
          send_pkt [o8 AUTH_LOGON_CHALLENGE, o8 0, o8 REALM_AUTH_SUCCESS, bb_append B_le,
                    o8 1, o8 7, o8 32, bb_append N_le, bb_append s_le,
                    bb_append (take 16 t4), o8 0] s2)))))"

definition account_checked :: "realm_env \<Rightarrow> AccountState \<Rightarrow> realm_socket \<Rightarrow> realm_socket outcome" where
  "account_checked E st s = (case st of
       ACCOUNT_BANNED \<Rightarrow> account_refused REALM_AUTH_ACCOUNT_BANNED s
     | ACCOUNT_NOTFOUND \<Rightarrow> account_refused REALM_AUTH_NO_MATCH s
     | ACCOUNT_EXISTS \<Rightarrow>
         if locked (acct s) \<and> ip s \<noteq> last_ip (acct s)
         then account_refused REALM_AUTH_ACCOUNT_LOCKED s
         else send_challenge E s)"

text \<open>\<open>RealmDB\<close> ignores a request for a connection whose pointer has been released.\<close>

definition ip_ban_checked :: "realm_env \<Rightarrow> bool \<Rightarrow> realm_socket \<Rightarrow> realm_socket outcome" where
  "ip_ban_checked E result s =
     (if result then account_checked E ACCOUNT_BANNED s
      else if \<not> ptr_live s then Inr s
      else obind (get_account (login s)) (\<lambda>op. Inr (enqueue op s)))"

definition get_char_amount :: "realm_env \<Rightarrow> (u8 \<times> u8) list \<Rightarrow> realm_socket \<Rightarrow> realm_socket outcome" where
  "get_char_amount E amnt s =
     (let s1 = s\<lparr>realm_char_amount := amnt\<rparr>
      in if client_build s1 = BUILD_1_12
         then obind (build_realm_packet E s1) (\<lambda>data. set_vs E (send data s1))
         else if client_build s1 \<in> {BUILD_2_43, BUILD_3_13, BUILD_3_20}
         then obind (build_expansion_realm_packet E s1) (\<lambda>(data, s2). set_vs E (send data s2))
         else Inr (die s1))"

definition get_sessionkey :: "realm_env \<Rightarrow> bool \<Rightarrow> realm_socket \<Rightarrow> realm_socket outcome" where
  "get_sessionkey E result s =
     (if \<not> result then Inr (die s)
      else
        let rp = rand_rp E
        in obind (bn2bin_into (ssl E) rp (stale_16 E)) (\<lambda>rpr.
           obind (send_pkt [o8 AUTH_RECONNECT_CHALLENGE, o8 0, bb_append rpr, o64 0, o64 0]
                    (s\<lparr>reconnect_proof := rp\<rparr>))
             (\<lambda>s'. Inr (s'\<lparr>state := STATUS_NEED_RPROOF\<rparr>))))"

section \<open>Command handlers\<close>

definition handle_auth_logon_challenge :: "bytes \<Rightarrow> realm_socket \<Rightarrow> realm_socket outcome" where
  "handle_auth_logon_challenge raw s =
     (if state s \<noteq> STATUS_CONNECTED then Inr (die s)
      else
        let s1 = s\<lparr>login := login s @ challenge_I (unat (challenge_I_len raw)) raw,
                   client_build := challenge_build raw\<rparr>
        in if \<not> isSupportedClientBuild (client_build s1)
           then send_pkt [o8 AUTH_LOGON_CHALLENGE, o8 0, o8 REALM_AUTH_WRONG_BUILD_NUMBER] s1
           else obind (if ptr_live s1 then obind (check_ip_ban (ip s1)) (\<lambda>op. Inr (enqueue op s1))
                       else Inr s1)
                  (\<lambda>s2. Inr (s2\<lparr>state := STATUS_NEED_PROOF\<rparr>)))"

definition handle_failed_login :: "realm_env \<Rightarrow> realm_socket \<Rightarrow> realm_socket outcome" where
  "handle_failed_login E s =
     obind
       (if WrongPassBan E then
          let s1 = s\<lparr>acct := (acct s)\<lparr>failed_logins := failed_logins (acct s) + 1\<rparr>\<rparr>
          in obind (increment_failed_logins (acct_id (acct s1))) (\<lambda>op.
             let s2 = enqueue op s1
             in if uint (failed_logins (acct s2)) > WrongPassAmnt E
                then obind (if WrongPassBanType E \<noteq> str ''ip''
                            then ban_failed_logins_id (acct_id (acct s2))
                            else ban_failed_logins_ip (ip s2))
                       (\<lambda>ban. Inr (enqueue ban s2))
                else Inr s2)
        else Inr s)
       (account_checked E ACCOUNT_NOTFOUND)"

definition handle_auth_logon_proof :: "realm_env \<Rightarrow> bytes \<Rightarrow> realm_socket \<Rightarrow> realm_socket outcome" where
  "handle_auth_logon_proof E raw s =
     (if state s \<noteq> STATUS_NEED_PROOF then Inr (die s)
      else
        let L = ssl E; A = proof_A raw
        in obind (expected_proof E s A) (\<lambda>(M_buff, K_buff).
           if proof_M1 raw = M_buff then
             let hamk_fin = sha1 L (A @ M_buff @ K_buff)
             in obind (update_account L (login s) (ip s) K_buff) (\<lambda>op.
                let s1 = enqueue op s
                in if client_build s1 = BUILD_1_12
                   then obind (send_pkt (build_logon_proof_packet hamk_fin) s1)
                          (\<lambda>s2. Inr (s2\<lparr>state := STATUS_AUTHED\<rparr>))
                   else if client_build s1 \<in> {BUILD_2_43, BUILD_3_13, BUILD_3_20}
                   then obind (send_pkt (build_expansion_logon_proof_packet hamk_fin) s1)
                          (\<lambda>s2. Inr (s2\<lparr>state := STATUS_AUTHED\<rparr>))
                   else Inr (die s1))
           else handle_failed_login E s))"

definition handle_realm_list :: "realm_env \<Rightarrow> realm_socket \<Rightarrow> realm_socket outcome" where
  "handle_realm_list E s =
     (if state s \<noteq> STATUS_AUTHED then Inr (die s)
      else if realm_char_amount s \<noteq> [] then
        if client_build s = BUILD_1_12
        then obind (build_realm_packet E s) (\<lambda>data. Inr (send data s))
        else if client_build s \<in> {BUILD_2_43, BUILD_3_13, BUILD_3_20}
        then obind (build_expansion_realm_packet E s) (\<lambda>(data, s1). Inr (send data s1))
        else Inr (die s)
      else if \<not> ptr_live s then Inr s
      else obind (db_get_char_amount (acct_id (acct s))) (\<lambda>op. Inr (enqueue op s)))"

text \<open>The login is read up to a zero byte, wherever that is.\<close>

definition handle_auth_reconnect_challenge :: "bytes \<Rightarrow> realm_socket \<Rightarrow> realm_socket outcome" where
  "handle_auth_reconnect_challenge raw s =
     (if state s \<noteq> STATUS_CONNECTED then Inr (die s)
      else if 0 \<notin> set (drop 34 raw) then Inl Out_of_bounds
      else
        let s1 = s\<lparr>client_build := challenge_build raw,
                   login := takeWhile (\<lambda>c. c \<noteq> 0) (drop 34 raw)\<rparr>
        in obind (if ptr_live s1 then obind (db_get_sessionkey (login s1)) (\<lambda>op. Inr (enqueue op s1))
                  else Inr s1)
             (\<lambda>s2. Inr (s2\<lparr>state := STATUS_NEED_RPROOF\<rparr>)))"

definition expected_rproof :: "realm_env \<Rightarrow> realm_socket \<Rightarrow> bytes \<Rightarrow> bytes outcome" where
  "expected_rproof E s R1 =
     obind (bn2bin_into (ssl E) (reconnect_proof s) (stale_16 E)) (\<lambda>rp.
     obind (bn2bin_into (ssl E) (sess_k s) (stale_40 E)) (\<lambda>k.
     Inr (sha1 (ssl E) (login s @ R1 @ rp @ k))))"

definition handle_auth_reconnect_proof :: "realm_env \<Rightarrow> bytes \<Rightarrow> realm_socket \<Rightarrow> realm_socket outcome" where
  "handle_auth_reconnect_proof E raw s =
     (if state s \<noteq> STATUS_NEED_RPROOF then Inr (die s)
      else obind (expected_rproof E s (reconnect_R1 raw)) (\<lambda>hash.
        if hash = reconnect_R2 raw
        then obind (send_pkt [o8 AUTH_RECONNECT_PROOF, o8 0, o16 0] s)
               (\<lambda>s1. Inr (s1\<lparr>state := STATUS_AUTHED\<rparr>))
        else Inr (die s)))"

section \<open>Events\<close>

text \<open>\<open>raw_buf\<close> cleared and filled by \<open>recv(raw_buf, 4096)\<close>.\<close>

definition padded :: "bytes \<Rightarrow> bytes" where
  "padded bs = take 4096 bs @ replicate (4096 - length (take 4096 bs)) 0"

text \<open>\<open>handle_input\<close>; \<open>received\<close> is what \<open>recv\<close> delivers, \<open>None\<close> an error.\<close>

definition handle_input :: "realm_env \<Rightarrow> bytes option \<Rightarrow> realm_socket \<Rightarrow> (int \<times> realm_socket) outcome" where
  "handle_input E received s =
     (if state s = STATUS_CLOSING then Inr (- 1, s)
      else case received of
        None \<Rightarrow> Inr (- 1, s)
      | Some bs \<Rightarrow>
          if bs = [] then Inr (- 1, s)
          else
            let raw_buf = padded bs;
                cmd = hd raw_buf;
                ok = (\<lambda>r. obind r (\<lambda>s'. Inr (0, s')))
            in if cmd = AUTH_LOGON_CHALLENGE then ok (handle_auth_logon_challenge raw_buf s)
               else if cmd = AUTH_LOGON_PROOF then ok (handle_auth_logon_proof E raw_buf s)
               else if cmd = AUTH_RECONNECT_CHALLENGE then ok (handle_auth_reconnect_challenge raw_buf s)
               else if cmd = AUTH_RECONNECT_PROOF then ok (handle_auth_reconnect_proof E raw_buf s)
               else if cmd = REALM_LIST then ok (handle_realm_list E s)
               else Inr (- 1, s))"

text \<open>The observers' callbacks into the connection.\<close>

definition on_result :: "realm_env \<Rightarrow> realm_obs \<Rightarrow> result_set \<Rightarrow> realm_socket \<Rightarrow> realm_socket outcome" where
  "on_result E obs res s = (case obs of
       checkIpBan \<Rightarrow> obind (checkIpBanObsv res) (\<lambda>r. ip_ban_checked E r s)
     | checkAcct \<Rightarrow> obind (checkAcctObsv res) (\<lambda>(st, a).
         account_checked E st (case a of None \<Rightarrow> s | Some acc \<Rightarrow> s\<lparr>acct := acc\<rparr>))
     | getCharAmnt \<Rightarrow> obind (getCharAmntObsv res) (\<lambda>calls. ofold (get_char_amount E) calls s)
     | getSessionKey \<Rightarrow> obind (getSessionKeyObsv (ssl E) res (sess_k s)) (\<lambda>(r, k).
         get_sessionkey E r (s\<lparr>sess_k := k\<rparr>))
     | getRealmList \<Rightarrow> Inr s)"

text \<open>The reactor: a negative result removes the handler for that event and calls
  \<open>handle_close\<close> with its mask.\<close>

datatype realm_event =
    Readable "bytes option"
  | Writable "nat \<Rightarrow> int"
  | Result realm_obs result_set

definition realm_dispatch :: "realm_env \<Rightarrow> realm_event \<Rightarrow> realm_socket \<Rightarrow> realm_socket outcome" where
  "realm_dispatch E e s = (case e of
       Readable received \<Rightarrow>
         if \<not> read_mask s then Inr s
         else obind (handle_input E received s) (\<lambda>(r, s').
           if r < 0 then Inr (snd (handle_close False (s'\<lparr>read_mask := False\<rparr>))) else Inr s')
     | Writable res \<Rightarrow>
         if \<not> write_mask s then Inr s
         else obind (handle_output res s) (\<lambda>(r, s').
           if r < 0 then Inr (snd (handle_close True (s'\<lparr>write_mask := False\<rparr>))) else Inr s')
     | Result obs res \<Rightarrow> on_result E obs res s)"

section \<open>Instances\<close>

text \<open>Concrete instances: the stand-in for OpenSSL, an account whose digest is twenty bytes 1, a
  salt of full length and the modulus of the constructor.\<close>

definition demo_env :: realm_env where
  "demo_env = \<lparr>ssl = demo_openssl, WrongPassBan = True, WrongPassAmnt = 2, WrongPassBanType = str ''ip'',
     tables = demo_service, stale_S = replicate 32 9, stale_16 = replicate 16 9, stale_40 = replicate 40 9,
     rand_b = 90, rand_unk = 5, rand_rp = 2 ^ 127 + 1\<rparr>"

definition demo_digest20 :: bytes where
  "demo_digest20 = replicate 20 1"

definition demo_N :: nat where
  "demo_N = 0x894B645E89E1535BBDAD5B8B290650530801B18EBFBF5E8FAB3C82872A3E9BB7"

definition demo_account :: account where
  "demo_account = \<lparr>sha_pass = str ''0101010101010101010101010101010101010101'', acct_id = 4,
     locked = False, last_ip = [], gmlevel = 0, failed_logins = 0\<rparr>"

definition demo_socket :: realm_socket where
  "demo_socket = \<lparr>acct = demo_account, sess_k = 3, realm_char_amount = [], out_active = False,
     state = STATUS_NEED_PROOF, client_build = 8606, login = [65], ip = [49], packet_queue = [],
     bn_s = 2 ^ 255 + 1, bn_v = 0, bn_g = 7, bn_N = demo_N, bn_b = 0, bn_B = 0, reconnect_proof = 0,
     ptr_live = True, db_ops = [], read_mask = True, write_mask = False, peer_open = True, sent = []\<rparr>"

end
