(* ===== verification/Realm_Session.thy ===== *)
theory Realm_Session
  imports Realm_Handlers
begin

text \<open>
  The life of a connection to the realm daemon as a whole: which events change its state,
  what every event keeps of its output queue and of its database requests, and what a failed
  send does.  The locale \<open>realm_inv\<close> is the interface between an invariant and the handlers:
  an invariant that survives sending, dying and well-formed requests survives every event but
  writing, and it is shown once for all invariants that every handler is built from those.
\<close>

section \<open>Invariants of the handlers\<close>

text \<open>The part of a connection that only \<open>send\<close>, \<open>die\<close>, \<open>enqueue\<close> and \<open>handle_output\<close> touch.\<close>

definition io_part ::
    "realm_socket \<Rightarrow> byte_buffer list \<times> bool \<times> bool \<times> bool \<times> bytes \<times> realm_op list" where
  "io_part s = (packet_queue s, out_active s, write_mask s, peer_open s, sent s, db_ops s)"

lemma io_part_simps [simp]:
  "io_part (s\<lparr>acct := a\<rparr>) = io_part s" "io_part (s\<lparr>sess_k := n\<rparr>) = io_part s"
  "io_part (s\<lparr>realm_char_amount := m\<rparr>) = io_part s" "io_part (s\<lparr>state := st\<rparr>) = io_part s"
  "io_part (s\<lparr>client_build := u\<rparr>) = io_part s" "io_part (s\<lparr>login := l\<rparr>) = io_part s"
  "io_part (s\<lparr>bn_v := n\<rparr>) = io_part s" "io_part (s\<lparr>bn_b := n\<rparr>) = io_part s"
  "io_part (s\<lparr>bn_B := n\<rparr>) = io_part s" "io_part (s\<lparr>reconnect_proof := n\<rparr>) = io_part s"
  "io_part (s\<lparr>read_mask := r\<rparr>) = io_part s"
  by (simp_all add: io_part_def)

locale realm_inv =
  fixes P :: "realm_socket \<Rightarrow> bool"
  assumes keep_die: "P s \<Longrightarrow> P (die s)"
    and keep_send: "P s \<Longrightarrow> P (send pkt s)"
    and keep_enqueue: "P s \<Longrightarrow> realm_op_ok op \<Longrightarrow> P (enqueue op s)"
    and keep_frame: "P s \<Longrightarrow> io_part s' = io_part s \<Longrightarrow> P s'"
begin

lemma keep_updates:
  "P s \<Longrightarrow> P (s\<lparr>acct := a\<rparr>)" "P s \<Longrightarrow> P (s\<lparr>sess_k := n\<rparr>)"
  "P s \<Longrightarrow> P (s\<lparr>realm_char_amount := m\<rparr>)" "P s \<Longrightarrow> P (s\<lparr>state := st\<rparr>)"
  "P s \<Longrightarrow> P (s\<lparr>client_build := u\<rparr>)" "P s \<Longrightarrow> P (s\<lparr>login := l\<rparr>)"
  "P s \<Longrightarrow> P (s\<lparr>bn_v := n\<rparr>)" "P s \<Longrightarrow> P (s\<lparr>bn_b := n\<rparr>)"
  "P s \<Longrightarrow> P (s\<lparr>bn_B := n\<rparr>)" "P s \<Longrightarrow> P (s\<lparr>reconnect_proof := n\<rparr>)"
  "P s \<Longrightarrow> P (s\<lparr>read_mask := r\<rparr>)"
  by (erule keep_frame, simp)+

lemma keep_send_pkt: "send_pkt fs s = Inr s' \<Longrightarrow> P s \<Longrightarrow> P s'"
  by (auto simp: send_pkt_def obind_eq_Inr intro: keep_send)

lemma keep_set_vs: "set_vs E s = Inr s' \<Longrightarrow> P s \<Longrightarrow> P s'"
  by (auto simp: set_vs_def Let_def obind_eq_Inr intro!: keep_enqueue keep_updates intro: requests_ok
      split: option.splits)

lemmas keep_basics = keep_die keep_send keep_enqueue keep_updates keep_send_pkt requests_ok

lemma keep_send_challenge: "send_challenge E s = Inr s' \<Longrightarrow> P s \<Longrightarrow> P s'"
  by (auto simp: send_challenge_def Let_def obind_eq_Inr; blast intro: keep_basics keep_set_vs)

lemma keep_account_checked: "account_checked E st s = Inr s' \<Longrightarrow> P s \<Longrightarrow> P s'"
  by (auto simp: account_checked_def account_refused_def split: AccountState.splits if_splits;
      blast intro: keep_send_pkt keep_send_challenge)

lemma keep_ip_ban_checked: "ip_ban_checked E r s = Inr s' \<Longrightarrow> P s \<Longrightarrow> P s'"
  by (auto simp: ip_ban_checked_def obind_eq_Inr split: if_splits;
      blast intro: keep_basics keep_account_checked)

lemma keep_expansion: "build_expansion_realm_packet E s = Inr (data, s') \<Longrightarrow> P s \<Longrightarrow> P s'"
  by (auto simp: build_expansion_realm_packet_def Let_def obind_eq_Inr; blast intro: keep_updates)

lemma keep_get_char_amount: "get_char_amount E m s = Inr s' \<Longrightarrow> P s \<Longrightarrow> P s'"
  by (auto simp: get_char_amount_def Let_def obind_eq_Inr split: if_splits;
      blast intro: keep_basics keep_set_vs keep_expansion)

lemma keep_get_sessionkey: "get_sessionkey E r s = Inr s' \<Longrightarrow> P s \<Longrightarrow> P s'"
  by (auto simp: get_sessionkey_def Let_def obind_eq_Inr split: if_splits; blast intro: keep_basics)

lemma keep_logon_challenge: "handle_auth_logon_challenge raw s = Inr s' \<Longrightarrow> P s \<Longrightarrow> P s'"
  by (auto simp: handle_auth_logon_challenge_def Let_def obind_eq_Inr split: if_splits;
      blast intro: keep_basics)

lemma keep_failed_login: "handle_failed_login E s = Inr s' \<Longrightarrow> P s \<Longrightarrow> P s'"
  by (auto simp: handle_failed_login_def Let_def obind_eq_Inr split: if_splits;
      blast intro: keep_basics keep_account_checked)

lemma keep_logon_proof: "handle_auth_logon_proof E raw s = Inr s' \<Longrightarrow> P s \<Longrightarrow> P s'"
  by (auto simp: handle_auth_logon_proof_def Let_def obind_eq_Inr split: if_splits;
      blast intro: keep_basics keep_failed_login)

lemma keep_realm_list: "handle_realm_list E s = Inr s' \<Longrightarrow> P s \<Longrightarrow> P s'"
  by (auto simp: handle_realm_list_def Let_def obind_eq_Inr split: if_splits;
      blast intro: keep_basics keep_expansion)

lemma keep_reconnect_challenge: "handle_auth_reconnect_challenge raw s = Inr s' \<Longrightarrow> P s \<Longrightarrow> P s'"
  by (auto simp: handle_auth_reconnect_challenge_def Let_def obind_eq_Inr split: if_splits;
      blast intro: keep_basics)

lemma keep_reconnect_proof: "handle_auth_reconnect_proof E raw s = Inr s' \<Longrightarrow> P s \<Longrightarrow> P s'"
  by (auto simp: handle_auth_reconnect_proof_def Let_def obind_eq_Inr split: if_splits;
      blast intro: keep_basics)

lemma keep_input: "handle_input E received s = Inr (r, s') \<Longrightarrow> P s \<Longrightarrow> P s'"
  by (auto simp: handle_input_def Let_def obind_eq_Inr split: if_splits option.splits;
      blast intro: keep_logon_challenge keep_logon_proof keep_realm_list keep_reconnect_challenge
        keep_reconnect_proof)

lemma keep_calls: "ofold (get_char_amount E) calls s = Inr s' \<Longrightarrow> P s \<Longrightarrow> P s'"
  by (induction calls arbitrary: s) (auto simp: obind_eq_Inr dest: keep_get_char_amount)

lemma keep_result: "on_result E obs res s = Inr s' \<Longrightarrow> P s \<Longrightarrow> P s'"
  by (auto simp: on_result_def obind_eq_Inr split: realm_obs.splits option.splits;
      blast intro: keep_ip_ban_checked keep_account_checked keep_calls keep_get_sessionkey keep_updates)

text \<open>Every event but writing keeps the invariant.\<close>

lemma keep_dispatch:
  assumes "P s" and "realm_dispatch E e s = Inr s'" and "\<And>res. e \<noteq> Writable res"
  shows "P s'"
proof (cases e)
  case (Readable received)
  with assms(1,2) show ?thesis
    by (auto simp: realm_dispatch_def obind_eq_Inr handle_close_def split: if_splits;
        blast intro: keep_die keep_updates keep_input)
next
  case (Writable res)
  with assms(3) [of res] show ?thesis by simp
next
  case (Result obs res)
  with assms(1,2) show ?thesis by (auto simp: realm_dispatch_def intro: keep_result)
qed

end

section \<open>Database requests\<close>

definition requests_wf :: "realm_socket \<Rightarrow> bool" where
  "requests_wf s \<longleftrightarrow> (\<forall>op\<in>set (db_ops s). realm_op_ok op)"

interpretation requests: realm_inv requests_wf
proof unfold_locales
  show "requests_wf (die s)" if "requests_wf s" for s
    using that by (simp add: requests_wf_def die_def)
  show "requests_wf (send pkt s)" if "requests_wf s" for s pkt
    using that by (simp add: requests_wf_def send_def Let_def)
  show "requests_wf (enqueue op s)" if "requests_wf s" "realm_op_ok op" for s op
    using that by (simp add: requests_wf_def enqueue_def)
  show "requests_wf s'" if "requests_wf s" "io_part s' = io_part s" for s s'
    using that by (simp add: requests_wf_def io_part_def)
qed

lemma handle_output_cases:
  assumes "handle_output res s = Inr (r, s')"
  obtains (idle) "\<not> out_active s" "r = 0" "s' = s"
    | (failed) q out where "out_active s" "out_loop res 0 (packet_queue s) (sent s) = Inr (Send_failed, q, out)"
        "r = - 1" "s' = s\<lparr>packet_queue := q, sent := out\<rparr>"
    | (blocked) q out where "out_active s" "out_loop res 0 (packet_queue s) (sent s) = Inr (Blocked, q, out)"
        "r = 1" "s' = s\<lparr>packet_queue := q, sent := out\<rparr>"
    | (drained) q out where "out_active s" "out_loop res 0 (packet_queue s) (sent s) = Inr (Drained, q, out)"
        "r = 0" "s' = s\<lparr>packet_queue := q, sent := out, write_mask := False, out_active := False\<rparr>"
proof (cases "out_active s")
  case False
  show ?thesis
    by (rule that(1) [OF False]) (use assms False in \<open>simp_all add: handle_output_def\<close>)
next
  case True
  then obtain e q out where l: "out_loop res 0 (packet_queue s) (sent s) = Inr (e, q, out)"
    using assms by (auto simp: handle_output_def obind_eq_Inr)
  show ?thesis
  proof (cases e)
    case Drained
    show ?thesis
      by (rule that(4) [OF True l [unfolded Drained]])
         (use assms True l Drained in \<open>simp_all add: handle_output_def\<close>)
  next
    case Blocked
    show ?thesis
      by (rule that(3) [OF True l [unfolded Blocked]])
         (use assms True l Blocked in \<open>simp_all add: handle_output_def\<close>)
  next
    case Send_failed
    show ?thesis
      by (rule that(2) [OF True l [unfolded Send_failed]])
         (use assms True l Send_failed in \<open>simp_all add: handle_output_def\<close>)
  qed
qed

lemma handle_output_db: "handle_output res s = Inr (r, s') \<Longrightarrow> db_ops s' = db_ops s"
  by (erule handle_output_cases) simp_all

lemma writable_db: "realm_dispatch E (Writable res) s = Inr s' \<Longrightarrow> db_ops s' = db_ops s"
  by (cases "handle_output res s")
     (auto simp: realm_dispatch_def handle_close_def split: if_splits; metis handle_output_db)+

text \<open>C15. Whatever a client sends and whatever the database answers, every request a connection
  hands to the database layer is for a statement that \<open>RealmDatabaseConnection::open\<close> has
  prepared, and it carries exactly one value for each placeholder of the statement's text.\<close>

theorem requests_match_statements:
  assumes "realm_dispatch E e s = Inr s'" and "\<forall>op\<in>set (db_ops s). realm_op_ok op"
  shows "\<forall>op\<in>set (db_ops s'). realm_op_ok op"
proof (cases e)
  case (Writable res)
  with assms show ?thesis by (simp add: writable_db)
qed (use assms requests.keep_dispatch [of s E e s'] in \<open>simp_all add: requests_wf_def\<close>)

theorem requests_match_statements_witness:
  "\<exists>s'. realm_dispatch demo_env (Result checkIpBan (RS_SQLite (SQLiteResultSet 1 []))) demo_socket = Inr s' \<and>
     length (db_ops s') = 1 \<and> (\<forall>op\<in>set (db_ops s'). realm_op_ok op)"
proof -
  obtain s' where s': "realm_dispatch demo_env (Result checkIpBan (RS_SQLite (SQLiteResultSet 1 []))) demo_socket = Inr s'"
    and "length (db_ops s') = 1"
    by (simp add: realm_dispatch_def on_result_def checkIpBanObsv_def rs_next_def sqlite_next_def
        SQLiteResultSet_def rs_rowsCount_def sqlite_rowsCount_def ip_ban_checked_def realm_requests_eval
        enqueue_def demo_socket_def)
  moreover have "\<forall>op\<in>set (db_ops s'). realm_op_ok op"
    by (rule requests_match_statements [OF s']) (simp add: demo_socket_def)
  ultimately show ?thesis by blast
qed

section \<open>The output queue\<close>

text \<open>A connection is \<open>awake\<close> when a packet in the queue implies that the reactor will call
  \<open>handle_output\<close>.\<close>

definition awake :: "realm_socket \<Rightarrow> bool" where
  "awake s \<longleftrightarrow> (packet_queue s \<noteq> [] \<longrightarrow> out_active s) \<and> (out_active s \<and> peer_open s \<longrightarrow> write_mask s)"

text \<open>A connection is \<open>stalled\<close> when packets wait, no event will write them and \<open>send\<close> will not
  ask for one.\<close>

definition stalled :: "bytes \<Rightarrow> realm_socket \<Rightarrow> bool" where
  "stalled out s \<longleftrightarrow> packet_queue s \<noteq> [] \<and> out_active s \<and> \<not> write_mask s \<and> sent s = out"

interpretation awake_inv: realm_inv awake
proof unfold_locales
  show "awake (die s)" if "awake s" for s
    using that by (simp add: awake_def die_def)
  show "awake (send pkt s)" if "awake s" for s pkt
    using that by (simp add: awake_def send_def Let_def)
  show "awake (enqueue op s)" if "awake s" "realm_op_ok op" for s op
    using that by (simp add: awake_def enqueue_def)
  show "awake s'" if "awake s" "io_part s' = io_part s" for s s'
    using that by (simp add: awake_def io_part_def)
qed

interpretation stalled_inv: realm_inv "stalled out" for out
proof unfold_locales
  show "stalled out (die s)" if "stalled out s" for s
    using that by (simp add: stalled_def die_def)
  show "stalled out (send pkt s)" if "stalled out s" for s pkt
    using that by (simp add: stalled_def send_def Let_def)
  show "stalled out (enqueue op s)" if "stalled out s" "realm_op_ok op" for s op
    using that by (simp add: stalled_def enqueue_def)
  show "stalled out s'" if "stalled out s" "io_part s' = io_part s" for s s'
    using that by (simp add: stalled_def io_part_def)
qed

lemma out_loop_drained: "out_loop res i q out = Inr (Drained, q', out') \<Longrightarrow> q' = []"
  by (induction res i q out rule: out_loop.induct)
     (auto simp: Let_def obind_eq_Inr split: if_splits)

lemma out_loop_failed:
  "out_loop res i q out = Inr (Send_failed, q', out') \<Longrightarrow> q' \<noteq> [] \<and> (\<exists>j\<ge>i. res j = - 1)"
proof (induction res i q out rule: out_loop.induct)
  case (1 res i out)
  then show ?case by simp
next
  case (2 res i b q out)
  show ?case
  proof (cases "0 < res i \<and> res i < int (bb_size b)")
    case True
    with 2(2) show ?thesis by (auto simp: Let_def obind_eq_Inr)
  next
    case False
    with 2 show ?thesis
      by (auto simp: Let_def split: if_splits; meson Suc_leD)
  qed
qed

text \<open>C17. No wakeup is lost: as long as no call of \<open>send\<close> on the socket fails, an open connection
  with packets in its queue is registered for write events after every event.\<close>

theorem no_lost_wakeup:
  assumes "realm_dispatch E e s = Inr s'" and "awake s" and "\<forall>res i. e = Writable res \<longrightarrow> res i \<noteq> - 1"
  shows "awake s'"
proof (cases e)
  case (Writable res)
  show ?thesis
  proof (cases "write_mask s \<and> out_active s")
    case False
    with assms(1,2) Writable show ?thesis
      by (auto simp: realm_dispatch_def handle_output_def split: if_splits)
  next
    case True
    then obtain en q out where l: "out_loop res 0 (packet_queue s) (sent s) = Inr (en, q, out)"
      using assms(1) Writable
      by (auto simp: realm_dispatch_def handle_output_def obind_eq_Inr)
    with assms(3) Writable have "en \<noteq> Send_failed" by (auto dest!: out_loop_failed)
    with l assms(1,2) Writable True out_loop_drained [of res 0 "packet_queue s" "sent s" q out] show ?thesis
      by (cases en) (auto simp: realm_dispatch_def handle_output_def awake_def)
  qed
qed (use assms awake_inv.keep_dispatch [of s E e s'] in simp_all)

theorem no_lost_wakeup_witness:
  "\<exists>s'. realm_dispatch demo_env (Result checkAcct (RS_SQLite (SQLiteResultSet 6 []))) demo_socket = Inr s' \<and>
     length (packet_queue s') = 1 \<and> awake s'"
proof -
  obtain s' where s': "realm_dispatch demo_env (Result checkAcct (RS_SQLite (SQLiteResultSet 6 []))) demo_socket = Inr s'"
    and "length (packet_queue s') = 1"
    by (simp add: realm_dispatch_def on_result_def checkAcctObsv_def rs_next_def sqlite_next_def
        SQLiteResultSet_def rs_rowsCount_def sqlite_rowsCount_def account_checked_def account_refused_def
        send_pkt_def bb_out_at_end append_limit_def send_def demo_socket_def)
  moreover have "awake s'"
    by (rule no_lost_wakeup [OF s']) (simp_all add: awake_def demo_socket_def)
  ultimately show ?thesis by blast
qed

text \<open>After a failed send nothing is ever written again: \<open>handle_output\<close> returns -1, the
  reactor drops the write registration, \<open>handle_close\<close> ignores the write mask and \<open>out_active\<close>
  stays set, so no later event and no later \<open>send\<close> of a packet changes what the peer received.\<close>

theorem failed_send_stalls:
  assumes "stalled out s" and "realm_dispatch E e s = Inr s'"
  shows "stalled out s' \<and> sent s' = out"
proof (cases e)
  case (Writable res)
  with assms show ?thesis by (auto simp: realm_dispatch_def stalled_def)
qed (use assms stalled_inv.keep_dispatch [of out s E e s'] in \<open>auto simp: stalled_def\<close>)

lemma failed_send_enters_stall:
  assumes "write_mask s" "out_active s" and "out_loop res 0 (packet_queue s) (sent s) = Inr (Send_failed, q, out)"
  shows "\<exists>s'. realm_dispatch E (Writable res) s = Inr s' \<and> stalled out s'"
  using assms out_loop_failed [OF assms(3)]
  by (simp add: realm_dispatch_def handle_output_def handle_close_def stalled_def)

theorem failed_send_stalls_witness:
  "\<exists>s'. realm_dispatch demo_env (Writable (\<lambda>_. 5))
       (demo_socket\<lparr>packet_queue := [bb_extend [1, 2] bb_new], out_active := True\<rparr>) = Inr s' \<and>
     stalled [] s' \<and> sent s' = []"
proof -
  let ?s = "demo_socket\<lparr>packet_queue := [bb_extend [1, 2] bb_new], out_active := True\<rparr>"
  obtain s' where s': "realm_dispatch demo_env (Writable (\<lambda>_. 5)) ?s = Inr s'"
    by (simp add: realm_dispatch_def demo_socket_def)
  have "stalled [] ?s" by (simp add: stalled_def demo_socket_def)
  from failed_send_stalls [OF this s'] s' show ?thesis by blast
qed

end
