(* ===== verification/Realm_Auth.thy ===== *)
theory Realm_Auth
  imports Realm_Session
begin

text \<open>
  Authentication against the realm daemon.  The SRP6 client is specified here independently of
  the server code, from the packets it receives; the theorems relate the two.
\<close>

section \<open>Numbers and buffers\<close>

definition le_of_nat :: "nat \<Rightarrow> nat \<Rightarrow> bytes" where
  "le_of_nat k n = map (\<lambda>i. of_nat (n div 256 ^ i)) [0..<k]"

lemma length_le_of_nat [simp]: "length (le_of_nat k n) = k"
  by (simp add: le_of_nat_def)

lemma le_of_nat_Suc: "le_of_nat (Suc k) n = of_nat n # le_of_nat k (n div 256)"
proof -
  have "le_of_nat (Suc k) n = map (\<lambda>i. of_nat (n div 256 ^ i)) (0 # map Suc [0..<k])"
    by (simp add: le_of_nat_def upt_conv_Cons map_Suc_upt del: upt_Suc)
  then show ?thesis
    by (simp add: le_of_nat_def o_def div_mult2_eq)
qed

lemma nat_of_le_Cons: "nat_of_le (c # cs) = nat_of_le cs * 256 + unat c"
  by (simp add: nat_of_le_def)

lemma nat_of_le_of_nat: "n < 256 ^ k \<Longrightarrow> nat_of_le (le_of_nat k n) = n"
proof (induction k arbitrary: n)
  case 0
  then show ?case by (simp add: le_of_nat_def nat_of_le_def)
next
  case (Suc k)
  then have "n div 256 < 256 ^ k" by (simp add: less_mult_imp_div_less mult.commute)
  with Suc.IH [OF this] show ?case
    by (simp add: le_of_nat_Suc nat_of_le_Cons unsigned_of_nat take_bit_eq_mod)
qed

lemma nat_of_le_less: "nat_of_le bs < 256 ^ length bs"
  using nat_of_be_less [of "rev bs"] by (simp add: nat_of_le_def)

lemma nat_of_le_inject: "length as = length bs \<Longrightarrow> nat_of_le as = nat_of_le bs \<Longrightarrow> as = bs"
  using nat_of_be_inject [of "rev as" "rev bs"] by (simp add: nat_of_le_def)

text \<open>A number that fills the 32 bytes goes through \<open>BN_bn2bin\<close> and \<open>std::reverse\<close> unharmed,
  whatever the buffer held.\<close>

definition full32 :: "nat \<Rightarrow> bool" where
  "full32 n \<longleftrightarrow> 256 ^ 31 \<le> n \<and> n < 256 ^ 32"

lemma full32_length: "openssl_ok L \<Longrightarrow> full32 n \<Longrightarrow> length (bn2bin L n) = 32"
  using length_bn2bin_eq [of L n 31] by (simp add: full32_def)

lemma rev_bn2bin_full: "openssl_ok L \<Longrightarrow> full32 n \<Longrightarrow> rev (bn2bin L n) = le_of_nat 32 n"
  by (rule nat_of_le_inject)
     (simp_all add: full32_length nat_of_le_def [of "rev (bn2bin L n)"] openssl_simps,
      simp add: nat_of_le_of_nat full32_def)

lemma bn2bin_into_full32:
  "openssl_ok L \<Longrightarrow> full32 n \<Longrightarrow> length buf = 32 \<Longrightarrow> bn2bin_into L n buf = Inr (rev (le_of_nat 32 n))"
  by (simp add: bn2bin_into_full full32_length flip: rev_bn2bin_full)

lemma le32_buffer_full: "openssl_ok L \<Longrightarrow> full32 n \<Longrightarrow> le32_buffer L n = Inr (le_of_nat 32 n)"
  by (simp add: le32_buffer_def bn2bin_into_full32)

section \<open>The client\<close>

text \<open>The client's side of SRP6 with generator \<open>g\<close> and multiplier 3: its public value, the key
  both sides should share, and its proof.  \<open>P\<close> is the digest of name and password, \<open>a\<close> the
  client's secret.\<close>

definition client_A :: "nat \<Rightarrow> nat \<Rightarrow> nat \<Rightarrow> nat" where
  "client_A g N a = g ^ a mod N"

definition client_x :: "openssl \<Rightarrow> bytes \<Rightarrow> bytes \<Rightarrow> nat" where
  "client_x L salt P = nat_of_le (sha1 L (salt @ P))"

definition client_S :: "nat \<Rightarrow> nat \<Rightarrow> nat \<Rightarrow> nat \<Rightarrow> nat \<Rightarrow> nat \<Rightarrow> nat" where
  "client_S g N B a x u = nat (((int B - 3 * int g ^ x) mod int N) ^ (a + u * x) mod int N)"

text \<open>What the client sends in reply to a challenge packet with fields \<open>B_bytes\<close>, \<open>N_bytes\<close> and
  \<open>salt\<close>, and the key it keeps.\<close>

definition client_key :: "openssl \<Rightarrow> bytes \<Rightarrow> bytes \<Rightarrow> bytes \<Rightarrow> bytes \<Rightarrow> nat \<Rightarrow> bytes" where
  "client_key L P B_bytes N_bytes salt a =
     (let N = nat_of_le N_bytes;
          A_bytes = le_of_nat 32 (client_A 7 N a);
          u = nat_of_le (sha1 L (A_bytes @ B_bytes))
      in session_key L (le_of_nat 32
           (client_S 7 N (nat_of_le B_bytes) a (client_x L salt P) u)))"

definition client_message ::
    "openssl \<Rightarrow> bytes \<Rightarrow> bytes \<Rightarrow> bytes \<Rightarrow> bytes \<Rightarrow> bytes \<Rightarrow> nat \<Rightarrow> bytes" where
  "client_message L user P B_bytes N_bytes salt a =
     (let A_bytes = le_of_nat 32 (client_A 7 (nat_of_le N_bytes) a);
          K = client_key L P B_bytes N_bytes salt a
      in 1 # A_bytes @ client_proof L user N_bytes salt A_bytes B_bytes K)"

text \<open>The two sides compute the same number.\<close>

lemma client_base:
  assumes "0 < N" and "B = (g ^ x mod N * 3 + g ^ b mod N) mod N"
  shows "(int B - 3 * int g ^ x) mod int N = int (g ^ b mod N)"
proof -
  let ?G = "int g ^ x" and ?H = "int g ^ b"
  have "int B = (?G mod int N * 3 + ?H mod int N) mod int N"
    by (simp add: assms(2) of_nat_mod)
  also have "\<dots> = (?G * 3 + ?H) mod int N"
    by (rule mod_add_cong) (simp_all add: mod_mult_left_eq)
  finally have "(int B - 3 * ?G) mod int N = ((?G * 3 + ?H) mod int N - 3 * ?G) mod int N"
    by simp
  also have "\<dots> = (?G * 3 + ?H - 3 * ?G) mod int N"
    by (rule mod_diff_left_eq)
  finally show ?thesis by (simp add: of_nat_mod)
qed

lemma srp_agree:
  assumes "0 < N" and "B = (g ^ x mod N * 3 + g ^ b mod N) mod N"
  shows "client_S g N B a x u = (g ^ a mod N * ((g ^ x mod N) ^ u mod N)) ^ b mod N"
proof -
  have "client_S g N B a x u = nat (int (g ^ b mod N) ^ (a + u * x) mod int N)"
    by (simp add: client_S_def client_base [OF assms])
  also have "\<dots> = (g ^ b mod N) ^ (a + u * x) mod N"
    by (simp only: of_nat_power [symmetric] of_nat_mod [symmetric] nat_int)
  also have "\<dots> = (g ^ b) ^ (a + u * x) mod N"
    by (rule power_mod)
  also have "(g ^ b) ^ (a + u * x) = (g ^ a * (g ^ x) ^ u) ^ b"
    by (simp add: algebra_simps flip: power_mult power_add)
  also have "\<dots> mod N = (g ^ a * (g ^ x) ^ u mod N) ^ b mod N"
    by (rule power_mod [symmetric])
  also have "g ^ a * (g ^ x) ^ u mod N = g ^ a mod N * ((g ^ x mod N) ^ u mod N) mod N"
    by (simp only: power_mod mod_mult_eq)
  also have "\<dots> ^ b mod N = (g ^ a mod N * ((g ^ x mod N) ^ u mod N)) ^ b mod N"
    by (rule power_mod)
  finally show ?thesis .
qed

section \<open>The challenge\<close>

text \<open>A connection about to challenge a client whose password digest is \<open>P\<close>: the constants of
  the constructor, a salt and a modulus of full length, and a digest without leading zero.\<close>

definition srp_setup :: "realm_env \<Rightarrow> realm_socket \<Rightarrow> bytes \<Rightarrow> bool" where
  "srp_setup E s P \<longleftrightarrow>
     openssl_ok (ssl E) \<and> full32 (bn_N s) \<and> full32 (bn_s s) \<and> bn_g s = 7 \<and> sess_k s = 3 \<and>
     hex2bn (ssl E) (sha_pass (acct s)) = Some (nat_of_be P) \<and> length P = 20 \<and> hd P \<noteq> 0 \<and>
     rand_unk E < 256 ^ 16 \<and> length (stale_S E) = 32"

definition salt_bytes :: "realm_socket \<Rightarrow> bytes" where
  "salt_bytes s = le_of_nat 32 (bn_s s)"

definition server_v :: "realm_env \<Rightarrow> realm_socket \<Rightarrow> bytes \<Rightarrow> nat" where
  "server_v E s P = 7 ^ client_x (ssl E) (salt_bytes s) P mod bn_N s"

definition server_B :: "realm_env \<Rightarrow> realm_socket \<Rightarrow> bytes \<Rightarrow> nat" where
  "server_B E s P = (server_v E s P * 3 + 7 ^ rand_b E mod bn_N s) mod bn_N s"

lemma full32_gt_1: "full32 n \<Longrightarrow> Suc 0 < n"
  by (simp add: full32_def)

lemma bn2bin_exact:
  assumes "openssl_ok L" and "P \<noteq> []" and "hd P \<noteq> 0"
  shows "bn2bin L (nat_of_be P) = P"
proof -
  obtain c cs where P: "P = c # cs" using assms(2) by (cases P) auto
  have "0 < unat c" using assms(3) P by (simp add: unat_gt_0)
  then have "1 \<le> unat c" by simp
  then have "(256 :: nat) ^ length cs \<le> unat c * 256 ^ length cs" by simp
  then have "256 ^ length cs \<le> nat_of_be P"
    unfolding P nat_of_be_Cons by linarith
  moreover have "nat_of_be P < 256 ^ Suc (length cs)"
    using nat_of_be_less [of P] by (simp add: P)
  ultimately have "length (bn2bin L (nat_of_be P)) = length P"
    using length_bn2bin_eq [OF assms(1)] P by simp
  then show ?thesis
    by (rule nat_of_be_inject) (simp add: openssl_simps(7) [OF assms(1)])
qed

text \<open>The two requests of \<open>set_vs\<close>: the columns are cleared and filled again.\<close>

definition sv_requests :: "realm_env \<Rightarrow> realm_socket \<Rightarrow> bytes \<Rightarrow> realm_op list" where
  "sv_requests E s P =
     [(sql_request REALMD_DB_FIX_SV)\<lparr>statement_data := [slot_string (login s)], op_priority := PRIORITY_HIGH\<rparr>,
      (sql_request REALMD_DB_SET_S_V)\<lparr>statement_data := [slot_string (bn2hex (ssl E) (server_v E s P)),
         slot_string (bn2hex (ssl E) (bn_s s)), slot_string (login s)]\<rparr>]"

lemma set_vs_eval:
  assumes "srp_setup E s P"
  shows "set_vs E s = Inr (s\<lparr>bn_v := server_v E s P, db_ops := db_ops s @ sv_requests E s P\<rparr>)"
proof -
  let ?L = "ssl E"
  have L: "openssl_ok ?L" using assms by (simp add: srp_setup_def)
  have "P \<noteq> []" using assms by (auto simp: srp_setup_def)
  with assms L have p: "bn2bin_into ?L (nat_of_be P) (replicate 20 0) = Inr P"
    by (simp add: bn2bin_into_full bn2bin_exact srp_setup_def)
  have "bn_mod_exp ?L 7 y (bn_N s) = 7 ^ y mod bn_N s" for y
    using assms by (simp add: srp_setup_def full32_gt_1 openssl_simps(3) [OF L])
  with assms L p show ?thesis
    by (simp add: set_vs_def realm_requests_eval Let_def srp_setup_def le32_buffer_full enqueue_def sv_requests_def
        openssl_simps server_v_def client_x_def salt_bytes_def nat_of_le_def)
qed

lemma send_pkt_eval:
  "writes (bb_seq fs) xs \<Longrightarrow> length xs < append_limit \<Longrightarrow> send_pkt fs s = Inr (send (bb_extend xs bb_new) s)"
  using writes_new [of "bb_seq fs" xs] by (simp add: send_pkt_def)

definition challenge_packet :: "bytes \<Rightarrow> bytes \<Rightarrow> bytes \<Rightarrow> bytes \<Rightarrow> bytes" where
  "challenge_packet B_bytes N_bytes salt unk =
     [0, 0, 0] @ B_bytes @ [1, 7, 32] @ N_bytes @ salt @ unk @ [0]"

lemma challenge_eval:
  assumes "srp_setup E s P" and "full32 (server_B E s P)"
    and "\<not> (locked (acct s) \<and> ip s \<noteq> last_ip (acct s))"
  shows "\<exists>unk. length unk = 16 \<and>
    account_checked E ACCOUNT_EXISTS s =
      Inr (send (bb_extend (challenge_packet (le_of_nat 32 (server_B E s P)) (le_of_nat 32 (bn_N s))
                              (salt_bytes s) unk) bb_new)
            (s\<lparr>bn_v := server_v E s P, db_ops := db_ops s @ sv_requests E s P, bn_b := rand_b E, bn_B := server_B E s P\<rparr>))"
proof -
  let ?L = "ssl E"
  have L: "openssl_ok ?L" and N: "full32 (bn_N s)" and S: "full32 (bn_s s)"
    using assms(1) by (simp_all add: srp_setup_def)
  note v = set_vs_eval [OF assms(1)]
  have B: "bn_mod ?L (bn_add ?L (bn_mul ?L (server_v E s P) 3) (bn_mod_exp ?L 7 (rand_b E) (bn_N s))) (bn_N s)
      = server_B E s P"
    using L full32_gt_1 [OF N] by (simp add: openssl_simps server_B_def)
  have "length (bn2bin ?L (rand_unk E)) \<le> 16"
    using assms(1) by (intro length_bn2bin_le) (simp_all add: srp_setup_def)
  then obtain t where t: "bn2bin_into ?L (rand_unk E) (le_of_nat 32 (bn_s s)) = Inr t" "length t = 32"
    by (simp add: bn2bin_into_def)
  let ?xs = "challenge_packet (le_of_nat 32 (server_B E s P)) (le_of_nat 32 (bn_N s)) (salt_bytes s) (take 16 t)"
  let ?fs = "[o8 AUTH_LOGON_CHALLENGE, o8 0, o8 REALM_AUTH_SUCCESS,
      bb_append (le_of_nat 32 (server_B E s P)), o8 1, o8 7, o8 32, bb_append (le_of_nat 32 (bn_N s)),
      bb_append (le_of_nat 32 (bn_s s)), bb_append (take 16 t), o8 0]"
  have "writes (bb_seq ?fs) ([0] @ [0] @ [0] @ le_of_nat 32 (server_B E s P) @ [1] @ [7] @ [32] @
      le_of_nat 32 (bn_N s) @ le_of_nat 32 (bn_s s) @ take 16 t @ [0] @ [])"
    unfolding realm_consts wire_byte [symmetric] by (intro writes_intros)
  then have w: "writes (bb_seq ?fs) ?xs"
    by (simp add: challenge_packet_def salt_bytes_def)
  have "length ?xs < append_limit"
    using t(2) by (simp add: challenge_packet_def salt_bytes_def append_limit_def)
  moreover have "account_checked E ACCOUNT_EXISTS s = send_challenge E s"
    using assms(3) by (auto simp: account_checked_def)
  ultimately show ?thesis
    using assms(1,2) v B L N S t w
    by (intro exI [of _ "take 16 t"])
       (simp add: send_challenge_def Let_def bn2bin_into_full32 srp_setup_def
         send_pkt_eval)
qed

section \<open>The proof\<close>

text \<open>The connection after the challenge, as far as the proof handler looks at it.\<close>

definition challenged :: "realm_env \<Rightarrow> realm_socket \<Rightarrow> bytes \<Rightarrow> realm_socket \<Rightarrow> bool" where
  "challenged E s P s1 \<longleftrightarrow>
     state s1 = state s \<and> login s1 = login s \<and> ip s1 = ip s \<and> client_build s1 = client_build s \<and>
     bn_s s1 = bn_s s \<and> bn_N s1 = bn_N s \<and> bn_g s1 = bn_g s \<and>
     bn_v s1 = server_v E s P \<and> bn_b s1 = rand_b E \<and> bn_B s1 = server_B E s P"

definition client_u :: "openssl \<Rightarrow> bytes \<Rightarrow> bytes \<Rightarrow> nat" where
  "client_u L A_bytes B_bytes = nat_of_le (sha1 L (A_bytes @ B_bytes))"

text \<open>The shared secret as the client computes it.\<close>

definition shared_S :: "realm_env \<Rightarrow> realm_socket \<Rightarrow> bytes \<Rightarrow> nat \<Rightarrow> nat" where
  "shared_S E s P a =
     (let N = bn_N s; A_bytes = le_of_nat 32 (client_A 7 N a);
          u = client_u (ssl E) A_bytes (le_of_nat 32 (server_B E s P))
      in client_S 7 N (server_B E s P) a (client_x (ssl E) (salt_bytes s) P) u)"

lemma client_A_less: "full32 N \<Longrightarrow> client_A g N a < 256 ^ 32"
proof -
  assume N: "full32 N"
  have "g ^ a mod N < N" using full32_gt_1 [OF N] by (intro mod_less_divisor) simp
  also have "N < 256 ^ 32" using N by (simp add: full32_def)
  finally show ?thesis by (simp add: client_A_def)
qed

lemma full32_le: "full32 n \<Longrightarrow> nat_of_le (le_of_nat 32 n) = n"
  by (rule nat_of_le_of_nat) (simp add: full32_def)

lemma premaster_shared:
  assumes "srp_setup E s P" and "challenged E s P s1" and "full32 (server_B E s P)"
  shows "premaster (ssl E) s1 (le_of_nat 32 (client_A 7 (bn_N s) a)) (le_of_nat 32 (server_B E s P))
           = shared_S E s P a"
proof -
  let ?L = "ssl E" and ?N = "bn_N s"
  let ?A = "le_of_nat 32 (client_A 7 ?N a)" and ?x = "client_x (ssl E) (salt_bytes s) P"
  let ?u = "client_u ?L ?A (le_of_nat 32 (server_B E s P))"
  have L: "openssl_ok ?L" and N: "full32 ?N" using assms(1) by (simp_all add: srp_setup_def)
  have me: "bn_mod_exp ?L y n ?N = y ^ n mod ?N" for y n
    using full32_gt_1 [OF N] by (simp add: openssl_simps(3) [OF L])
  have A: "bin2bn ?L (rev ?A) = client_A 7 ?N a"
    using nat_of_le_of_nat [OF client_A_less [OF N]] by (simp add: openssl_simps [OF L] nat_of_le_def)
  have u: "scrambler ?L ?A (le_of_nat 32 (server_B E s P)) = ?u"
    by (simp add: scrambler_def client_u_def openssl_simps [OF L] nat_of_le_def)
  have "premaster ?L s1 ?A (le_of_nat 32 (server_B E s P))
      = (client_A 7 ?N a * (server_v E s P ^ ?u mod ?N)) ^ rand_b E mod ?N"
    using assms(2) by (simp add: premaster_def Let_def A u me challenged_def openssl_simps(4) [OF L])
  also have "\<dots> = (7 ^ a mod ?N * ((7 ^ ?x mod ?N) ^ ?u mod ?N)) ^ rand_b E mod ?N"
    by (simp only: client_A_def server_v_def)
  also have "\<dots> = client_S 7 ?N (server_B E s P) a ?x ?u"
    using full32_gt_1 [OF N]
    by (intro srp_agree [symmetric]) (simp_all add: server_B_def server_v_def)
  finally show ?thesis by (simp add: shared_S_def Let_def)
qed

lemma expected_proof_eval:
  assumes "srp_setup E s P" and "challenged E s P s1" and "full32 (server_B E s P)"
    and "full32 (shared_S E s P a)"
  defines "B_bytes \<equiv> le_of_nat 32 (server_B E s P)" and "N_bytes \<equiv> le_of_nat 32 (bn_N s)"
    and "A_bytes \<equiv> le_of_nat 32 (client_A 7 (bn_N s) a)"
  defines "K \<equiv> client_key (ssl E) P B_bytes N_bytes (salt_bytes s) a"
  shows "expected_proof E s1 A_bytes =
           Inr (client_proof (ssl E) (login s) N_bytes (salt_bytes s) A_bytes B_bytes K, K)"
proof -
  have L: "openssl_ok (ssl E)" and N: "full32 (bn_N s)" and S: "full32 (bn_s s)"
    and st: "length (stale_S E) = 32"
    using assms(1) by (simp_all add: srp_setup_def)
  have K: "session_key (ssl E) (le_of_nat 32 (shared_S E s P a)) = K"
    by (simp add: K_def client_key_def B_bytes_def N_bytes_def full32_le [OF N] full32_le [OF assms(3)]
        shared_S_def client_u_def Let_def)
  have "premaster (ssl E) s1 A_bytes B_bytes = shared_S E s P a"
    unfolding A_bytes_def B_bytes_def by (rule premaster_shared [OF assms(1-3)])
  moreover have "le32_buffer (ssl E) (bn_B s1) = Inr B_bytes" "le32_buffer (ssl E) (bn_N s1) = Inr N_bytes"
    "le32_buffer (ssl E) (bn_s s1) = Inr (salt_bytes s)"
    using assms(2,3) L N S
    by (simp_all add: challenged_def le32_buffer_full B_bytes_def N_bytes_def salt_bytes_def)
  moreover have "login s1 = login s" using assms(2) by (simp add: challenged_def)
  ultimately show ?thesis
    using L st assms(4) by (simp add: expected_proof_def Let_def bn2bin_into_full32 K)
qed

lemma length_client_proof: "openssl_ok L \<Longrightarrow> length (client_proof L user Nb sb A B K) = 20"
  by (simp add: client_proof_def Let_def openssl_simps)

text \<open>Both variants of the reply start with the command, a zero and the server's proof.\<close>

lemma proof_packet_parts:
  assumes "length h = 20"
  shows "\<exists>t1 t2.
    (\<forall>s. send_pkt (build_logon_proof_packet h) s = Inr (send (bb_extend ([1, 0] @ h @ t1) bb_new) s)) \<and>
    (\<forall>s. send_pkt (build_expansion_logon_proof_packet h) s = Inr (send (bb_extend ([1, 0] @ h @ t2) bb_new) s))"
proof -
  have "writes (bb_seq (build_logon_proof_packet h)) ([1] @ [0] @ h @ wire (0 :: u32) @ [])"
    unfolding build_logon_proof_packet_def AUTH_LOGON_PROOF_def wire_byte [symmetric]
    by (intro writes_intros)
  with assms have a: "send_pkt (build_logon_proof_packet h) s =
      Inr (send (bb_extend ([1, 0] @ h @ wire (0 :: u32)) bb_new) s)" for s
    by (auto dest!: send_pkt_eval [of _ _ s] simp: append_limit_def)
  have "writes (bb_seq (build_expansion_logon_proof_packet h))
      ([1] @ [0] @ h @ wire (0x00800000 :: u32) @ wire (0 :: u32) @ wire (0 :: u16) @ [])"
    unfolding build_expansion_logon_proof_packet_def AUTH_LOGON_PROOF_def LOGIN_OK_def wire_byte [symmetric]
    by (intro writes_intros)
  with assms have b: "send_pkt (build_expansion_logon_proof_packet h) s =
      Inr (send (bb_extend ([1, 0] @ h @ wire (0x00800000 :: u32) @ wire (0 :: u32) @ wire (0 :: u16)) bb_new) s)"
    for s
    by (auto dest!: send_pkt_eval [of _ _ s] simp: append_limit_def)
  from a b show ?thesis by blast
qed

lemma hd_padded: "bs \<noteq> [] \<Longrightarrow> hd (padded bs) = hd bs"
  by (cases bs) (simp_all add: padded_def)

lemma handle_input_cmd:
  assumes "state s \<noteq> STATUS_CLOSING" and "bs \<noteq> []" and "hd bs = AUTH_LOGON_PROOF"
  shows "handle_input E (Some bs) s =
           obind (handle_auth_logon_proof E (padded bs) s) (\<lambda>s'. Inr (0, s'))"
  using assms by (simp add: handle_input_def hd_padded Let_def realm_consts)

lemma padded_message:
  assumes "length A = 32" and "length M = 20"
  shows "proof_A (padded (1 # A @ M @ rest)) = A" and "proof_M1 (padded (1 # A @ M @ rest)) = M"
  using assms by (simp_all add: padded_def proof_A_def proof_M1_def slice_def)

text \<open>The reply the client waits for.\<close>

definition client_expects :: "openssl \<Rightarrow> bytes \<Rightarrow> bytes \<Rightarrow> bytes \<Rightarrow> bytes \<Rightarrow> bytes \<Rightarrow> nat \<Rightarrow> bytes" where
  "client_expects L user P B_bytes N_bytes salt a =
     (let A_bytes = le_of_nat 32 (client_A 7 (nat_of_le N_bytes) a);
          K = client_key L P B_bytes N_bytes salt a
      in sha1 L (A_bytes @ client_proof L user N_bytes salt A_bytes B_bytes K @ K))"

lemma send_queue [simp]:
  "packet_queue (send pkt s) = packet_queue s @ [pkt]"
  "state (send pkt s) = state s" "login (send pkt s) = login s" "ip (send pkt s) = ip s"
  "client_build (send pkt s) = client_build s" "bn_s (send pkt s) = bn_s s" "bn_N (send pkt s) = bn_N s"
  "bn_g (send pkt s) = bn_g s" "bn_v (send pkt s) = bn_v s" "bn_b (send pkt s) = bn_b s"
  "bn_B (send pkt s) = bn_B s" "db_ops (send pkt s) = db_ops s"
  "sess_k (send pkt s) = sess_k s" "acct (send pkt s) = acct s" "reconnect_proof (send pkt s) = reconnect_proof s"
  "realm_char_amount (send pkt s) = realm_char_amount s"
  by (simp_all add: send_def Let_def)

lemma proof_matched:
  assumes "openssl_ok (ssl E)" and "expected_proof E s (proof_A raw) = Inr (M, K)" and "proof_M1 raw = M"
    and "state s = STATUS_NEED_PROOF" and "isSupportedClientBuild (client_build s)"
  shows "\<exists>s2 tail op. handle_auth_logon_proof E raw s = Inr s2 \<and> state s2 = STATUS_AUTHED \<and>
           storage (last (packet_queue s2)) = [1, 0] @ sha1 (ssl E) (proof_A raw @ M @ K) @ tail \<and>
           update_account (ssl E) (login s) (ip s) K = Inr op \<and> db_ops s2 = db_ops s @ [op]"
proof -
  let ?h = "sha1 (ssl E) (proof_A raw @ M @ K)"
  obtain op where op: "update_account (ssl E) (login s) (ip s) K = Inr op"
    by (simp add: realm_requests_eval)
  have "length ?h = 20" by (simp add: openssl_simps(1) [OF assms(1)])
  then obtain t1 t2 where
    t1: "\<And>s. send_pkt (build_logon_proof_packet ?h) s = Inr (send (bb_extend ([1, 0] @ ?h @ t1) bb_new) s)" and
    t2: "\<And>s. send_pkt (build_expansion_logon_proof_packet ?h) s = Inr (send (bb_extend ([1, 0] @ ?h @ t2) bb_new) s)"
    using proof_packet_parts by blast
  consider "client_build s = BUILD_1_12" | "client_build s \<noteq> BUILD_1_12"
      "client_build s \<in> {BUILD_2_43, BUILD_3_13, BUILD_3_20}"
    using assms(5) by (auto simp: isSupportedClientBuild_def)
  then show ?thesis
  proof cases
    case 1
    with assms(2-4) show ?thesis
      by (intro exI [of _ "(send (bb_extend ([1, 0] @ ?h @ t1) bb_new) (enqueue op s))\<lparr>state := STATUS_AUTHED\<rparr>"]
            exI [of _ t1] exI [of _ op])
         (simp add: handle_auth_logon_proof_def op t1 enqueue_def Let_def)
  next
    case 2
    with assms(2-4) show ?thesis
      by (intro exI [of _ "(send (bb_extend ([1, 0] @ ?h @ t2) bb_new) (enqueue op s))\<lparr>state := STATUS_AUTHED\<rparr>"]
            exI [of _ t2] exI [of _ op])
         (simp add: handle_auth_logon_proof_def op t2 enqueue_def Let_def)
  qed
qed

lemma proof_accepted:
  assumes "srp_setup E s P" and "challenged E s P s1" and "full32 (server_B E s P)"
    and "full32 (shared_S E s P a)" and "state s = STATUS_NEED_PROOF"
    and "isSupportedClientBuild (client_build s)"
  defines "B_bytes \<equiv> le_of_nat 32 (server_B E s P)" and "N_bytes \<equiv> le_of_nat 32 (bn_N s)"
  shows "\<exists>s2 tail op.
    handle_input E (Some (client_message (ssl E) (login s) P B_bytes N_bytes (salt_bytes s) a @ rest)) s1
      = Inr (0, s2) \<and>
    state s2 = STATUS_AUTHED \<and>
    storage (last (packet_queue s2)) =
      [1, 0] @ client_expects (ssl E) (login s) P B_bytes N_bytes (salt_bytes s) a @ tail \<and>
    update_account (ssl E) (login s) (ip s)
      (client_key (ssl E) P B_bytes N_bytes (salt_bytes s) a) = Inr op \<and>
    db_ops s2 = db_ops s1 @ [op]"
proof -
  let ?L = "ssl E"
  have L: "openssl_ok ?L" and N: "full32 (bn_N s)" using assms(1) by (simp_all add: srp_setup_def)
  let ?A = "le_of_nat 32 (client_A 7 (bn_N s) a)"
  let ?K = "client_key ?L P B_bytes N_bytes (salt_bytes s) a"
  let ?M = "client_proof ?L (login s) N_bytes (salt_bytes s) ?A B_bytes ?K"
  let ?h = "sha1 ?L (?A @ ?M @ ?K)"
  have nN: "nat_of_le N_bytes = bn_N s" unfolding N_bytes_def by (rule full32_le [OF N])
  have msg: "client_message ?L (login s) P B_bytes N_bytes (salt_bytes s) a @ rest = 1 # ?A @ ?M @ rest"
    by (simp add: client_message_def Let_def nN)
  have expects: "client_expects ?L (login s) P B_bytes N_bytes (salt_bytes s) a = ?h"
    by (simp add: client_expects_def Let_def nN)
  let ?raw = "padded (1 # ?A @ ?M @ rest)"
  have slices: "proof_A ?raw = ?A" "proof_M1 ?raw = ?M"
    by (simp_all add: padded_message length_client_proof [OF L])
  have exp: "expected_proof E s1 ?A = Inr (?M, ?K)"
    unfolding B_bytes_def N_bytes_def by (rule expected_proof_eval [OF assms(1-4)])
  have st: "state s1 = STATUS_NEED_PROOF" "login s1 = login s" "ip s1 = ip s" "client_build s1 = client_build s"
    using assms(2,5) by (simp_all add: challenged_def)
  have input: "handle_input E (Some (1 # ?A @ ?M @ rest)) s1 =
      obind (handle_auth_logon_proof E ?raw s1) (\<lambda>s'. Inr (0, s'))"
    by (rule handle_input_cmd) (simp_all add: st AUTH_LOGON_PROOF_def)
  have "expected_proof E s1 (proof_A ?raw) = Inr (?M, ?K)" using exp slices by simp
  from proof_matched [OF L this slices(2) st(1)] assms(6)
  obtain s2 tail op where
    "handle_auth_logon_proof E ?raw s1 = Inr s2" "state s2 = STATUS_AUTHED"
    "storage (last (packet_queue s2)) = [1, 0] @ ?h @ tail"
    "update_account ?L (login s) (ip s) ?K = Inr op" "db_ops s2 = db_ops s1 @ [op]"
    unfolding slices st by blast
  with input msg expects show ?thesis by auto
qed

text \<open>The run of both steps, with all requests it makes.\<close>

lemma logon_run:
  assumes "srp_setup E s P" and "full32 (server_B E s P)" and "full32 (shared_S E s P a)"
    and "state s = STATUS_NEED_PROOF" and "isSupportedClientBuild (client_build s)"
    and "\<not> (locked (acct s) \<and> ip s \<noteq> last_ip (acct s))"
  defines "B_bytes \<equiv> le_of_nat 32 (server_B E s P)" and "N_bytes \<equiv> le_of_nat 32 (bn_N s)"
  shows "\<exists>s1 s2 unk tail op. length unk = 16 \<and>
    account_checked E ACCOUNT_EXISTS s = Inr s1 \<and>
    storage (last (packet_queue s1)) = challenge_packet B_bytes N_bytes (salt_bytes s) unk \<and>
    handle_input E (Some (client_message (ssl E) (login s) P B_bytes N_bytes (salt_bytes s) a @ rest)) s1 = Inr (0, s2) \<and>
    state s2 = STATUS_AUTHED \<and>
    storage (last (packet_queue s2)) =
      [1, 0] @ client_expects (ssl E) (login s) P B_bytes N_bytes (salt_bytes s) a @ tail \<and>
    update_account (ssl E) (login s) (ip s) (client_key (ssl E) P B_bytes N_bytes (salt_bytes s) a) = Inr op \<and>
    db_ops s2 = db_ops s @ sv_requests E s P @ [op]"
proof -
  from challenge_eval [OF assms(1,2,6)] obtain unk where unk: "length unk = 16" and
    chal: "account_checked E ACCOUNT_EXISTS s =
      Inr (send (bb_extend (challenge_packet B_bytes N_bytes (salt_bytes s) unk) bb_new)
        (s\<lparr>bn_v := server_v E s P, db_ops := db_ops s @ sv_requests E s P, bn_b := rand_b E, bn_B := server_B E s P\<rparr>))"
    (is "_ = Inr ?s1") unfolding B_bytes_def N_bytes_def by blast
  have "challenged E s P ?s1" by (simp add: challenged_def)
  from proof_accepted [OF assms(1) this assms(2-5), of rest] obtain s2 tail op where
    "handle_input E (Some (client_message (ssl E) (login s) P B_bytes N_bytes (salt_bytes s) a @ rest)) ?s1 = Inr (0, s2)"
    "state s2 = STATUS_AUTHED"
    "storage (last (packet_queue s2)) = [1, 0] @ client_expects (ssl E) (login s) P B_bytes N_bytes (salt_bytes s) a @ tail"
    "update_account (ssl E) (login s) (ip s) (client_key (ssl E) P B_bytes N_bytes (salt_bytes s) a) = Inr op"
    "db_ops s2 = db_ops ?s1 @ [op]"
    unfolding B_bytes_def N_bytes_def by blast
  moreover have "storage (last (packet_queue ?s1)) = challenge_packet B_bytes N_bytes (salt_bytes s) unk"
    by simp
  moreover have "db_ops ?s1 @ ops = db_ops s @ sv_requests E s P @ ops" for ops by simp
  ultimately show ?thesis using chal unk by metis
qed


lemma of_nat_byte_mod: "(of_nat n :: byte) = of_nat (n mod 256)"
  by (rule word_unat_eq_iff [THEN iffD2]) (simp add: unsigned_of_nat take_bit_eq_mod)

lemma le_of_nat_numeral:
  "le_of_nat (numeral k) n = of_nat (n mod 256) # le_of_nat (pred_numeral k) (n div 256)"
  "le_of_nat (Suc 0) n = [of_nat (n mod 256)]" "le_of_nat 0 n = []"
proof -
  show "le_of_nat 0 n = []" for n by (simp add: le_of_nat_def)
  then show "le_of_nat (Suc 0) n = [of_nat (n mod 256)]"
    by (simp only: le_of_nat_Suc of_nat_byte_mod [symmetric])
  show "le_of_nat (numeral k) n = of_nat (n mod 256) # le_of_nat (pred_numeral k) (n div 256)"
    by (simp only: numeral_eq_Suc [of k] le_of_nat_Suc of_nat_byte_mod [symmetric])
qed

lemma replicate_numeral: "replicate (numeral k) x = x # replicate (pred_numeral k) x"
  by (simp add: numeral_eq_Suc)

lemma demo_salt: "take 20 (salt_bytes demo_socket) = 1 # replicate 19 0"
  by (simp add: salt_bytes_def demo_socket_def le_of_nat_numeral replicate_numeral)

lemma demo_sha: "20 \<le> length x \<Longrightarrow> sha1 demo_openssl x = take 20 x"
  by (simp add: demo_openssl_def demo_digest_def)

lemma demo_x: "client_x demo_openssl (salt_bytes demo_socket) P = 1"
proof -
  have "length (salt_bytes demo_socket) = 32" by (simp add: salt_bytes_def)
  then have "sha1 demo_openssl (salt_bytes demo_socket @ P) = 1 # replicate 19 0"
    by (simp add: demo_sha demo_salt)
  moreover have "nat_of_le (1 # replicate 19 0) = 1"
    by (simp add: nat_of_le_def flip: replicate_append_same)
  ultimately show ?thesis by (simp add: client_x_def)
qed

lemma demo_B: "server_B demo_env demo_socket demo_digest20 = 7 ^ 90 + 21"
proof -
  have "ssl demo_env = demo_openssl" "rand_b demo_env = 90" "bn_N demo_socket = demo_N"
    by (simp_all add: demo_env_def demo_socket_def)
  then show ?thesis
    by (simp add: server_B_def server_v_def demo_x) (simp add: demo_N_def)
qed

lemma demo_S: "full32 (shared_S demo_env demo_socket demo_digest20 0)"
proof -
  have r: "ssl demo_env = demo_openssl" "bn_N demo_socket = demo_N"
    by (simp_all add: demo_env_def demo_socket_def)
  have A: "le_of_nat 32 (client_A 7 demo_N 0) = 1 # replicate 31 0"
    by (simp add: client_A_def demo_N_def le_of_nat_numeral replicate_numeral)
  have u: "client_u demo_openssl (1 # replicate 31 0) bs = 1" for bs
  proof -
    have "sha1 demo_openssl ((1 # replicate 31 0) @ bs) = 1 # replicate 19 0"
      by (simp add: demo_sha)
    moreover have "nat_of_le (1 # replicate 19 0) = 1"
      by (simp add: nat_of_le_def flip: replicate_append_same)
    ultimately show ?thesis by (simp add: client_u_def)
  qed
  have "shared_S demo_env demo_socket demo_digest20 0 = client_S 7 demo_N (7 ^ 90 + 21) 0 1 1"
    by (simp only: shared_S_def r Let_def A u demo_B demo_x)
  also have "full32 \<dots>"
    by (simp add: client_S_def demo_N_def full32_def)
  finally show ?thesis .
qed

lemma demo_setup: "srp_setup demo_env demo_socket demo_digest20"
proof -
  have "is_hex (sha_pass demo_account)"
    by (simp add: demo_account_def is_hex_def str_def hex_digit_def)
  then have "hex2bn demo_openssl (sha_pass demo_account) = Some (nat_of_hex (sha_pass demo_account))"
    by (rule openssl_okD(11) [OF openssl_ok_demo])
  also have "nat_of_hex (sha_pass demo_account) = nat_of_be demo_digest20"
    by (simp add: demo_account_def str_def nat_of_hex_def hex_digit_def nat_of_be_def demo_digest20_def replicate_numeral)
  finally show ?thesis
    using openssl_ok_demo
    by (simp add: srp_setup_def demo_env_def demo_socket_def full32_def demo_N_def demo_digest20_def)
qed


end
