(* ===== verification/Realm_Security.thy ===== *)
theory Realm_Security
  imports Realm_Auth
begin

text \<open>
  What the state machine of a realm connection guarantees, and what it does not: how a
  connection becomes authenticated, how a command out of turn is met, the reaction to wrong
  passwords, the realm list, the stream of bytes the client gets, and the paths on which a
  client is authenticated without its password.
\<close>

section \<open>State changes\<close>

lemma state_simps [simp]: "state (die s) = STATUS_CLOSING" "state (enqueue op s) = state s"
  by (simp_all add: die_def enqueue_def)

lemma state_send_pkt: "send_pkt fs s = Inr s' \<Longrightarrow> state s' = state s"
  by (auto simp: send_pkt_def obind_eq_Inr)

lemma state_set_vs: "set_vs E s = Inr s' \<Longrightarrow> state s' = state s"
  by (auto simp: set_vs_def Let_def obind_eq_Inr split: option.splits)

lemma state_send_challenge: "send_challenge E s = Inr s' \<Longrightarrow> state s' = state s"
  by (auto simp: send_challenge_def Let_def obind_eq_Inr dest!: state_send_pkt state_set_vs)

lemma state_account_checked: "account_checked E st s = Inr s' \<Longrightarrow> state s' = state s"
  by (auto simp: account_checked_def account_refused_def split: AccountState.splits if_splits
      dest: state_send_pkt state_send_challenge)

lemma state_ip_ban_checked: "ip_ban_checked E r s = Inr s' \<Longrightarrow> state s' = state s"
  by (auto simp: ip_ban_checked_def obind_eq_Inr split: if_splits dest: state_account_checked)

lemma state_failed_login: "handle_failed_login E s = Inr s' \<Longrightarrow> state s' = state s"
  by (auto simp: handle_failed_login_def Let_def obind_eq_Inr split: if_splits
      dest!: state_account_checked)

lemma state_expansion: "build_expansion_realm_packet E s = Inr (data, s') \<Longrightarrow> state s' = state s"
  by (auto simp: build_expansion_realm_packet_def Let_def obind_eq_Inr)

lemma state_get_char_amount:
  "get_char_amount E m s = Inr s' \<Longrightarrow> state s' = state s \<or> state s' = STATUS_CLOSING"
  by (auto simp: get_char_amount_def Let_def obind_eq_Inr split: if_splits
      dest!: state_set_vs state_expansion)

lemma state_calls:
  "ofold (get_char_amount E) calls s = Inr s' \<Longrightarrow> state s' = state s \<or> state s' = STATUS_CLOSING"
  by (induction calls arbitrary: s) (fastforce simp: obind_eq_Inr dest: state_get_char_amount)+

lemma state_get_sessionkey: "get_sessionkey E r s = Inr s' \<Longrightarrow> state s' \<noteq> STATUS_AUTHED"
  by (auto simp: get_sessionkey_def Let_def obind_eq_Inr split: if_splits)

lemma state_on_result:
  "on_result E obs res s = Inr s' \<Longrightarrow> state s' = STATUS_AUTHED \<Longrightarrow> state s = STATUS_AUTHED"
  by (auto simp: on_result_def obind_eq_Inr split: realm_obs.splits option.splits
      dest!: state_ip_ban_checked state_account_checked state_calls dest: state_get_sessionkey)

lemma state_realm_list: "handle_realm_list E s = Inr s' \<Longrightarrow> state s' = STATUS_AUTHED \<Longrightarrow> state s = STATUS_AUTHED"
  by (auto simp: handle_realm_list_def split: if_splits)

lemma state_logon_challenge: "handle_auth_logon_challenge raw s = Inr s' \<Longrightarrow> state s' \<noteq> STATUS_AUTHED"
  by (auto simp: handle_auth_logon_challenge_def Let_def obind_eq_Inr split: if_splits
      dest!: state_send_pkt)

lemma state_reconnect_challenge:
  "handle_auth_reconnect_challenge raw s = Inr s' \<Longrightarrow> state s' \<noteq> STATUS_AUTHED"
  by (auto simp: handle_auth_reconnect_challenge_def Let_def obind_eq_Inr split: if_splits)

lemma state_logon_proof:
  assumes "handle_auth_logon_proof E raw s = Inr s'" and "state s' = STATUS_AUTHED"
  shows "state s = STATUS_NEED_PROOF \<and> (\<exists>K. expected_proof E s (proof_A raw) = Inr (proof_M1 raw, K))"
  using assms
  by (auto simp: handle_auth_logon_proof_def Let_def obind_eq_Inr split: if_splits
      dest: state_failed_login)

lemma state_reconnect_proof:
  assumes "handle_auth_reconnect_proof E raw s = Inr s'" and "state s' = STATUS_AUTHED"
  shows "state s = STATUS_NEED_RPROOF \<and> expected_rproof E s (reconnect_R1 raw) = Inr (reconnect_R2 raw)"
  using assms by (auto simp: handle_auth_reconnect_proof_def obind_eq_Inr split: if_splits)

definition run_command :: "realm_env \<Rightarrow> bytes \<Rightarrow> realm_socket \<Rightarrow> realm_socket outcome option" where
  "run_command E bs s =
     (if hd bs = AUTH_LOGON_CHALLENGE then Some (handle_auth_logon_challenge (padded bs) s)
      else if hd bs = AUTH_LOGON_PROOF then Some (handle_auth_logon_proof E (padded bs) s)
      else if hd bs = AUTH_RECONNECT_CHALLENGE then Some (handle_auth_reconnect_challenge (padded bs) s)
      else if hd bs = AUTH_RECONNECT_PROOF then Some (handle_auth_reconnect_proof E (padded bs) s)
      else if hd bs = REALM_LIST then Some (handle_realm_list E s)
      else None)"

lemma run_command_cases:
  assumes "run_command E bs s = Some (Inr t)"
  obtains (logon) "handle_auth_logon_challenge (padded bs) s = Inr t"
    | (logon_proof) "hd bs = AUTH_LOGON_PROOF" "handle_auth_logon_proof E (padded bs) s = Inr t"
    | (reconnect) "handle_auth_reconnect_challenge (padded bs) s = Inr t"
    | (reconnect_proof) "hd bs = AUTH_RECONNECT_PROOF" "handle_auth_reconnect_proof E (padded bs) s = Inr t"
    | (realm_list) "handle_realm_list E s = Inr t"
  using assms unfolding run_command_def by (metis option.inject option.distinct(1))

lemma handle_input_eq:
  "handle_input E received s =
     (if state s = STATUS_CLOSING then Inr (- 1, s)
      else case received of
        None \<Rightarrow> Inr (- 1, s)
      | Some bs \<Rightarrow> if bs = [] then Inr (- 1, s)
          else case run_command E bs s of
            None \<Rightarrow> Inr (- 1, s)
          | Some r \<Rightarrow> obind r (\<lambda>s'. Inr (0, s')))"
  by (cases received) (simp_all add: handle_input_def run_command_def Let_def hd_padded)

lemma handle_input_cases:
  assumes "handle_input E received s = Inr (r, s')"
  shows "s' = s \<or> (\<exists>bs. received = Some bs \<and> bs \<noteq> [] \<and> run_command E bs s = Some (Inr s'))"
  using assms by (auto simp: handle_input_eq obind_eq_Inr split: if_splits option.splits)

lemma readable_cases:
  assumes "realm_dispatch E (Readable received) s = Inr s'"
  obtains "s' = s" | r t where "handle_input E received s = Inr (r, t)" "s' = t"
    | t where "s' = die t"
proof (cases "\<not> read_mask s")
  case True
  with assms have "s' = s" by (simp add: realm_dispatch_def)
  then show ?thesis by (rule that(1))
next
  case False
  then obtain r t where h: "handle_input E received s = Inr (r, t)"
    using assms by (cases "handle_input E received s") (auto simp: realm_dispatch_def)
  show ?thesis
  proof (cases "r < 0")
    case True
    with assms False h have "s' = die (t\<lparr>read_mask := False\<rparr>)"
      by (simp add: realm_dispatch_def handle_close_def)
    then show ?thesis by (rule that(3))
  next
    case False
    with assms \<open>\<not> \<not> read_mask s\<close> h have "s' = t" by (simp add: realm_dispatch_def)
    with h show ?thesis by (rule that(2))
  qed
qed

lemma writable_cases:
  assumes "realm_dispatch E (Writable res) s = Inr s'"
  obtains "s' = s" | r t where "handle_output res s = Inr (r, t)" "s' = t \<or> s' = t\<lparr>write_mask := False\<rparr>"
proof (cases "\<not> write_mask s")
  case True
  with assms have "s' = s" by (simp add: realm_dispatch_def)
  then show ?thesis by (rule that(1))
next
  case False
  then obtain r t where h: "handle_output res s = Inr (r, t)"
    using assms by (cases "handle_output res s") (auto simp: realm_dispatch_def)
  with assms False have "s' = t \<or> s' = t\<lparr>write_mask := False\<rparr>"
    by (simp add: realm_dispatch_def handle_close_def split: if_splits)
  with h show ?thesis by (rule that(2))
qed

text \<open>C5. A connection becomes authenticated in exactly two ways: by a logon proof that equals
  the digest the server expects, sent after a challenge, or by a reconnect proof that equals
  the digest the server expects, sent after a reconnect challenge.  No other input, no
  database answer and no write event authenticates a client.\<close>

theorem authed_only_by_proof:
  assumes "realm_dispatch E e s = Inr s'" and "state s' = STATUS_AUTHED" and "state s \<noteq> STATUS_AUTHED"
  shows "\<exists>bs. e = Readable (Some bs) \<and> bs \<noteq> [] \<and>
    (hd bs = AUTH_LOGON_PROOF \<and> state s = STATUS_NEED_PROOF \<and>
       (\<exists>K. expected_proof E s (proof_A (padded bs)) = Inr (proof_M1 (padded bs), K)) \<or>
     hd bs = AUTH_RECONNECT_PROOF \<and> state s = STATUS_NEED_RPROOF \<and>
       expected_rproof E s (reconnect_R1 (padded bs)) = Inr (reconnect_R2 (padded bs)))"
proof (cases e)
  case (Readable received)
  have "realm_dispatch E (Readable received) s = Inr s'" using assms(1) Readable by simp
  then obtain r t where t: "handle_input E received s = Inr (r, t)" and "state t = STATUS_AUTHED"
    by (rule readable_cases) (use assms(2,3) in auto)
  with assms(3) obtain bs where bs: "received = Some bs" "bs \<noteq> []" "run_command E bs s = Some (Inr t)"
    using handle_input_cases [OF t] by auto
  from bs(3) show ?thesis
  proof (cases rule: run_command_cases)
    case logon_proof
    from state_logon_proof [OF this(2) \<open>state t = STATUS_AUTHED\<close>] logon_proof(1) bs(1,2) Readable
    show ?thesis by blast
  next
    case reconnect_proof
    from state_reconnect_proof [OF this(2) \<open>state t = STATUS_AUTHED\<close>] reconnect_proof(1) bs(1,2) Readable
    show ?thesis by blast
  next
    case realm_list
    from state_realm_list [OF this \<open>state t = STATUS_AUTHED\<close>] assms(3) show ?thesis by contradiction
  next
    case logon
    from state_logon_challenge [OF this] \<open>state t = STATUS_AUTHED\<close> show ?thesis by contradiction
  next
    case reconnect
    from state_reconnect_challenge [OF this] \<open>state t = STATUS_AUTHED\<close> show ?thesis by contradiction
  qed
next
  case (Writable res)
  have "state t = state s" if "handle_output res s = Inr (r, t)" for r t
    using that by (rule handle_output_cases) simp_all
  moreover have "realm_dispatch E (Writable res) s = Inr s'" using assms(1) Writable by simp
  ultimately have "state s' = state s" by (elim writable_cases) auto
  with assms(2,3) show ?thesis by simp
next
  case (Result obs res)
  with assms show ?thesis by (auto simp: realm_dispatch_def dest: state_on_result)
qed

lemma demo_rproof:
  "expected_rproof demo_env (demo_socket\<lparr>state := STATUS_NEED_RPROOF\<rparr>) (replicate 16 0) =
     Inr (65 # replicate 16 0 @ replicate 3 9)"
proof -
  have "be_of_nat 0 = []" "be_of_nat 3 = [3]"
    by (simp_all add: be_of_nat.simps [of 3] be_of_nat.simps [of 0])
  then show ?thesis
    by (simp add: expected_rproof_def demo_env_def demo_socket_def bn2bin_into_def demo_openssl_def
        demo_digest_def splice_at_def replicate_numeral)
qed

theorem authed_only_by_proof_witness:
  "\<exists>s' bs. realm_dispatch demo_env
       (Readable (Some ([3] @ replicate 16 0 @ 65 # replicate 16 0 @ replicate 3 9)))
       (demo_socket\<lparr>state := STATUS_NEED_RPROOF\<rparr>) = Inr s' \<and> state s' = STATUS_AUTHED \<and>
     bs = [3] @ replicate 16 0 @ 65 # replicate 16 0 @ replicate 3 9 \<and>
     expected_rproof demo_env (demo_socket\<lparr>state := STATUS_NEED_RPROOF\<rparr>) (reconnect_R1 (padded bs)) =
       Inr (reconnect_R2 (padded bs))"
proof -
  let ?s = "demo_socket\<lparr>state := STATUS_NEED_RPROOF\<rparr>"
  let ?bs = "[3] @ replicate 16 0 @ 65 # replicate 16 0 @ replicate 3 9 :: bytes"
  have R: "reconnect_R1 (padded ?bs) = replicate 16 0"
    "reconnect_R2 (padded ?bs) = 65 # replicate 16 0 @ replicate 3 9"
    by (simp_all add: padded_def reconnect_R1_def reconnect_R2_def slice_def replicate_numeral)
  have "\<exists>s'. realm_dispatch demo_env (Readable (Some ?bs)) ?s = Inr s' \<and> state s' = STATUS_AUTHED"
    using R demo_rproof
    by (simp add: realm_dispatch_def handle_input_eq run_command_def handle_auth_reconnect_proof_def
        realm_consts send_pkt_def bb_out_at_end append_limit_def)
       (simp add: demo_socket_def)
  then obtain s' where s': "realm_dispatch demo_env (Readable (Some ?bs)) ?s = Inr s'" "state s' = STATUS_AUTHED"
    by blast
  from authed_only_by_proof [OF s'] R demo_rproof have "?bs \<noteq> []" by auto
  with s' R demo_rproof show ?thesis by auto
qed

text \<open>The state of a connection in which a command is expected.\<close>

definition command_state :: "byte \<Rightarrow> ConnectionState option" where
  "command_state cmd =
     (if cmd = AUTH_LOGON_CHALLENGE \<or> cmd = AUTH_RECONNECT_CHALLENGE then Some STATUS_CONNECTED
      else if cmd = AUTH_LOGON_PROOF then Some STATUS_NEED_PROOF
      else if cmd = AUTH_RECONNECT_PROOF then Some STATUS_NEED_RPROOF
      else if cmd = REALM_LIST then Some STATUS_AUTHED
      else None)"

text \<open>C27. A command that does not fit the state of the connection closes it and does nothing
  else: no packet is queued, no request goes to the database.\<close>

theorem wrong_state_closes:
  assumes "bs \<noteq> []" and "state s \<noteq> STATUS_CLOSING"
    and "\<forall>st. command_state (hd bs) = Some st \<longrightarrow> state s \<noteq> st" and "read_mask s"
  shows "\<exists>s'. realm_dispatch E (Readable (Some bs)) s = Inr s' \<and> state s' = STATUS_CLOSING \<and>
           \<not> peer_open s' \<and> \<not> read_mask s' \<and> \<not> write_mask s' \<and>
           packet_queue s' = packet_queue s \<and> db_ops s' = db_ops s \<and> sent s' = sent s"
proof -
  have "handle_input E (Some bs) s = Inr (0, die s) \<or> handle_input E (Some bs) s = Inr (- 1, s)"
    using assms(1-3)
    by (auto simp: handle_input_eq run_command_def command_state_def handle_auth_logon_challenge_def
        handle_auth_logon_proof_def handle_auth_reconnect_challenge_def
        handle_auth_reconnect_proof_def handle_realm_list_def realm_consts split: if_splits)
  then show ?thesis
    using assms(4) by (auto simp: realm_dispatch_def handle_close_def die_def)
qed

theorem wrong_state_closes_witness:
  "\<exists>s'. realm_dispatch demo_env (Readable (Some [0x10])) demo_socket = Inr s' \<and>
     state s' = STATUS_CLOSING \<and> \<not> peer_open s' \<and> \<not> read_mask s' \<and> \<not> write_mask s' \<and>
     packet_queue s' = packet_queue demo_socket \<and> db_ops s' = db_ops demo_socket \<and> sent s' = sent demo_socket"
  by (rule wrong_state_closes) (simp_all add: demo_socket_def command_state_def realm_consts)

section \<open>Wrong passwords\<close>

text \<open>What a wrong proof adds to the database queue, for a counter that becomes \<open>n\<close>.\<close>

definition failed_login_ops :: "realm_env \<Rightarrow> realm_socket \<Rightarrow> realm_op list" where
  "failed_login_ops E s =
     (let n = failed_logins (acct s) + 1
      in if \<not> WrongPassBan E then []
         else [(sql_request REALMD_DB_SET_FAILED_LOGINS)\<lparr>statement_data := [slot_uint64 (acct_id (acct s))]\<rparr>] @
              (if uint n \<le> WrongPassAmnt E then []
               else if WrongPassBanType E = str ''ip''
               then [(sql_request REALMD_DB_ADD_IP_AUTOBAN)\<lparr>statement_data := [slot_string (ip s), slot_uint32 600]\<rparr>]
               else [(sql_request REALMD_DB_ADD_ACCOUNT_AUTOBAN)
                       \<lparr>statement_data := [slot_uint32 (ucast (acct_id (acct s))), slot_uint32 600]\<rparr>]))"


lemma demo_expected_proof:
  "\<exists>K. expected_proof demo_env demo_socket (replicate 32 0) =
     Inr (176 # tl (xor_bytes (take 20 (le_of_nat 32 demo_N)) (7 # replicate 19 0)), K)"
proof -
  have N: "full32 demo_N" by (simp add: full32_def demo_N_def)
  have nb: "le32_buffer demo_openssl demo_N = Inr (le_of_nat 32 demo_N)"
    using openssl_ok_demo N by (rule le32_buffer_full)
  have sb: "le32_buffer demo_openssl (2 ^ 255 + 1) = Inr (le_of_nat 32 (2 ^ 255 + 1))"
    using openssl_ok_demo by (rule le32_buffer_full) (simp add: full32_def)
  have z: "bn2bin demo_openssl 0 = []" "bn2bin demo_openssl 1 = [1]"
    by (simp_all add: demo_openssl_def be_of_nat.simps [of 0] be_of_nat.simps [of "Suc 0"])
  have bb: "le32_buffer demo_openssl 0 = Inr (replicate 32 0)"
    by (simp add: le32_buffer_def bn2bin_into_def z)
  have "nat_of_le (replicate n 0) = 0" for n by (simp add: nat_of_le_def)
  then have "premaster demo_openssl demo_socket (replicate 32 0) (replicate 32 0) = 1"
    by (simp add: premaster_def scrambler_def demo_socket_def Let_def demo_openssl_def demo_N_def)
  moreover have "xor_bytes (take 20 (le_of_nat 32 demo_N)) (7 # replicate 19 0) =
      176 # tl (xor_bytes (take 20 (le_of_nat 32 demo_N)) (7 # replicate 19 0))"
    by (simp add: demo_N_def le_of_nat_numeral xor_bytes_def)
  moreover have "client_proof demo_openssl user (le_of_nat 32 demo_N) x A B K =
      xor_bytes (take 20 (le_of_nat 32 demo_N)) (7 # replicate 19 0)" for user x A B K
  proof -
    have "sha1 demo_openssl [7] = 7 # replicate 19 0"
      by (simp add: demo_openssl_def demo_digest_def replicate_numeral)
    then show ?thesis
      by (simp add: client_proof_def Let_def demo_sha xor_bytes_def)
  qed
  ultimately show ?thesis
    using nb sb bb z
    by (simp add: expected_proof_def demo_env_def demo_socket_def Let_def bn2bin_into_def)
qed


section \<open>The public value zero\<close>

lemma zero_premaster:
  assumes "openssl_ok L" and "full32 (bn_N s)" and "0 < bn_b s" and "nat_of_le A mod bn_N s = 0"
  shows "premaster L s A B_buff = 0"
proof -
  have N: "1 < bn_N s" using full32_gt_1 [OF assms(2)] by simp
  have "(nat_of_le A * (bn_v s ^ u mod bn_N s)) ^ bn_b s mod bn_N s = 0" for u
  proof -
    have "bn_N s dvd nat_of_le A * (bn_v s ^ u mod bn_N s)"
      using assms(4) by (simp add: mod_eq_0_iff_dvd)
    then have "bn_N s dvd (nat_of_le A * (bn_v s ^ u mod bn_N s)) ^ bn_b s"
      using assms(3) by (metis dvd_power dvd_trans)
    then show ?thesis by simp
  qed
  then show ?thesis
    using N by (simp add: premaster_def Let_def openssl_okD [OF assms(1)] nat_of_le_def)
qed

text \<open>The message of a client that knows nothing but the fields of the challenge, the name, and
  the bytes that \<open>S_buff\<close> happens to hold on the server's stack.\<close>

definition zero_message :: "openssl \<Rightarrow> bytes \<Rightarrow> bytes \<Rightarrow> bytes \<Rightarrow> bytes \<Rightarrow> bytes \<Rightarrow> bytes" where
  "zero_message L user B_bytes N_bytes salt stale =
     1 # replicate 32 0 @ client_proof L user N_bytes salt (replicate 32 0) B_bytes
           (session_key L (rev stale))"

text \<open>C31. The server does not reject the public value 0.  For it the shared secret is 0, no byte
  of \<open>S_buff\<close> is written, and the proof the server expects depends on neither the password nor
  the server's secret: a client that knows the 32 bytes left on the stack is authenticated as
  any user.\<close>

theorem zero_public_value_bypass:
  assumes "openssl_ok (ssl E)" and "full32 (bn_N s)" and "full32 (bn_s s)" and "full32 (bn_B s)"
    and "0 < bn_b s" and "length (stale_S E) = 32" and "state s = STATUS_NEED_PROOF"
    and "isSupportedClientBuild (client_build s)"
  shows "\<exists>s'. handle_input E (Some (zero_message (ssl E) (login s) (le_of_nat 32 (bn_B s))
             (le_of_nat 32 (bn_N s)) (le_of_nat 32 (bn_s s)) (stale_S E) @ rest)) s = Inr (0, s') \<and>
           state s' = STATUS_AUTHED"
proof -
  let ?L = "ssl E" and ?A = "replicate 32 (0 :: byte)"
  let ?B = "le_of_nat 32 (bn_B s)" and ?N = "le_of_nat 32 (bn_N s)" and ?S = "le_of_nat 32 (bn_s s)"
  let ?K = "session_key ?L (rev (stale_S E))"
  let ?M = "client_proof ?L (login s) ?N ?S ?A ?B ?K"
  have "bn2bin ?L 0 = []"
    using openssl_okD(7,8) [OF assms(1), of 0] nat_of_be_Cons
    by (cases "bn2bin ?L 0") (auto simp: unat_eq_zero)
  moreover have "premaster ?L s ?A ?B = 0"
    using assms by (intro zero_premaster) (simp_all add: nat_of_le_def)
  ultimately have exp: "expected_proof E s ?A = Inr (?M, ?K)"
    using assms by (simp add: expected_proof_def le32_buffer_full bn2bin_into_def Let_def)
  have M: "length ?M = 20" by (rule length_client_proof [OF assms(1)])
  have slices: "proof_A (padded (1 # ?A @ ?M @ rest)) = ?A" "proof_M1 (padded (1 # ?A @ ?M @ rest)) = ?M"
    using M by (simp_all add: padded_message)
  have "handle_input E (Some (1 # ?A @ ?M @ rest)) s =
      obind (handle_auth_logon_proof E (padded (1 # ?A @ ?M @ rest)) s) (\<lambda>s'. Inr (0, s'))"
    using assms(7) by (intro handle_input_cmd) (simp_all add: AUTH_LOGON_PROOF_def)
  moreover obtain s' where "handle_auth_logon_proof E (padded (1 # ?A @ ?M @ rest)) s = Inr s'"
      "state s' = STATUS_AUTHED"
    using proof_matched [OF assms(1) _ slices(2) assms(7,8)] exp slices(1) by auto
  ultimately show ?thesis by (simp add: zero_message_def)
qed

theorem zero_public_value_bypass_witness:
  "\<exists>s'. handle_input demo_env
       (Some (zero_message (ssl demo_env) (login (demo_socket\<lparr>bn_B := 2 ^ 255, bn_b := 5\<rparr>))
          (le_of_nat 32 (bn_B (demo_socket\<lparr>bn_B := 2 ^ 255, bn_b := 5\<rparr>)))
          (le_of_nat 32 (bn_N (demo_socket\<lparr>bn_B := 2 ^ 255, bn_b := 5\<rparr>)))
          (le_of_nat 32 (bn_s (demo_socket\<lparr>bn_B := 2 ^ 255, bn_b := 5\<rparr>))) (stale_S demo_env) @ []))
       (demo_socket\<lparr>bn_B := 2 ^ 255, bn_b := 5\<rparr>) = Inr (0, s') \<and> state s' = STATUS_AUTHED"
  using openssl_ok_demo
  by (intro zero_public_value_bypass)
     (simp_all add: demo_env_def demo_socket_def full32_def demo_N_def isSupportedClientBuild_def build_defs)

section \<open>Reconnecting\<close>

text \<open>The session-key observer has its test the wrong way round.  When the account exists,
  whatever its session key, the connection is closed; when the query finds no account, the
  connection gets a reconnect challenge with the key it started with.\<close>

theorem reconnect_lookup_inverted:
  assumes "MySQLPreparedResultSet mysql_time [col] rows = Inr m" and "\<forall>row\<in>set rows. length row = 1"
    and "length rows < 2 ^ 32" and "openssl_ok (ssl E)"
  shows "on_result E getSessionKey (RS_MySQL m) s =
           (if rows \<noteq> [] then Inr (die s) else get_sessionkey E True s)"
proof -
  obtain t ml where col: "col = (t, ml)" by (cases col)
  obtain len where m: "m = \<lparr>m_rowPosition = 0, m_numRows = of_nat (length rows), m_numFields = 1,
      m_bindResult = [Some (replicate len 0, 0)], m_pending = rows\<rparr>"
    using assms(1) col by (auto simp: MySQLPreparedResultSet_def obind_eq_Inr)
  show ?thesis
  proof (cases rows)
    case Nil
    then show ?thesis
      by (simp add: on_result_def getSessionKeyObsv_def rs_next_def mysql_next_def m rs_rowsCount_def
          mysql_rowsCount_def rs_getString_def mysql_getString_def mysql_checkValidity_def
          mysql_column_def openssl_okD(12) [OF assms(4)])
  next
    case (Cons row rest)
    then have "(of_nat (length rows) :: u32) \<noteq> 0"
      using unat_of_nat_small [of "length rows", where 'a = 32] assms(3) by auto
    with Cons show ?thesis
      by (simp add: on_result_def getSessionKeyObsv_def rs_next_def mysql_next_def m rs_rowsCount_def
          mysql_rowsCount_def get_sessionkey_def)
  qed
qed

theorem reconnect_lookup_inverted_witness:
  "on_result demo_env getSessionKey (RS_MySQL \<lparr>m_rowPosition = 0, m_numRows = 1, m_numFields = 1,
       m_bindResult = [Some ([0], 0)], m_pending = [[Some ([65, 0], 1)]]\<rparr>) demo_socket =
     (if [[Some ([65 :: byte, 0], 1 :: nat)]] \<noteq> [] then Inr (die demo_socket)
      else get_sessionkey demo_env True demo_socket)"
  by (rule reconnect_lookup_inverted [where mysql_time = 4 and col = "(MYSQL_TYPE_VAR_STRING, 0)"])
     (simp_all add: MySQLPreparedResultSet_def typeToSize_def demo_env_def openssl_ok_demo)

text \<open>The reconnect exchange of a client that knows what \<open>new uint8[40]\<close> returns.\<close>

definition reconnect_message :: "openssl \<Rightarrow> bytes \<Rightarrow> bytes \<Rightarrow> bytes \<Rightarrow> bytes \<Rightarrow> bytes" where
  "reconnect_message L user R1 rp stale = 3 # R1 @ sha1 L (user @ R1 @ rp @ 3 # tl stale)"

lemma bn2bin_small: "openssl_ok L \<Longrightarrow> 0 < n \<Longrightarrow> n < 256 \<Longrightarrow> bn2bin L n = [of_nat n]"
  using length_bn2bin_eq [of L n 0]
  by (intro nat_of_be_inject)
     (simp_all add: openssl_okD(7), simp add: nat_of_be_def unsigned_of_nat take_bit_eq_mod)

text \<open>C32. A name without an account can be taken: the key is still the multiplier 3 of SRP6,
  one byte is written of the 40 that are hashed, and a client that knows the other 39 is
  authenticated under the name.\<close>

theorem reconnect_without_account:
  assumes "openssl_ok (ssl E)" and "state s = STATUS_CONNECTED" and "sess_k s = 3" and "ptr_live s"
    and "0 \<notin> set user" and "length user < 4000" and "length hdr = 33"
    and "2 ^ 127 \<le> rand_rp E" and "rand_rp E < 2 ^ 128" and "length (stale_16 E) = 16"
    and "length (stale_40 E) = 40" and "length R1 = 16"
    and "MySQLPreparedResultSet mysql_time [col] [] = Inr m"
  shows "\<exists>s1 s2 s3. handle_input E (Some (2 # hdr @ user)) s = Inr (0, s1) \<and>
           on_result E getSessionKey (RS_MySQL m) s1 = Inr s2 \<and>
           handle_input E (Some (reconnect_message (ssl E) user R1 (bn2bin (ssl E) (rand_rp E)) (stale_40 E) @ rest))
             s2 = Inr (0, s3) \<and>
           state s3 = STATUS_AUTHED \<and> login s3 = user \<and> acct s3 = acct s"
proof -
  let ?L = "ssl E" and ?rp = "bn2bin (ssl E) (rand_rp E)"
  let ?raw = "padded (2 # hdr @ user)"
  have "drop 34 ?raw = user @ 0 # replicate (4096 - 35 - length user) 0"
  proof -
    have "replicate (4096 - (34 + length user)) (0 :: byte) = 0 # replicate (4096 - 35 - length user) 0"
      using assms(6) by (simp add: Suc_diff_Suc flip: replicate_Suc)
    with assms(6,7) show ?thesis by (simp add: padded_def)
  qed
  then have user: "0 \<in> set (drop 34 ?raw)" "takeWhile (\<lambda>c. c \<noteq> 0) (drop 34 ?raw) = user"
    using assms(5) by simp_all
  obtain op where op: "db_get_sessionkey user = Inr op" by (simp add: realm_requests_eval)
  define s1 where "s1 = (enqueue op (s\<lparr>client_build := challenge_build ?raw, login := user\<rparr>))\<lparr>state := STATUS_NEED_RPROOF\<rparr>"
  have h1: "handle_input E (Some (2 # hdr @ user)) s = Inr (0, s1)"
    using assms(2,4) user op
    by (simp add: handle_input_eq run_command_def handle_auth_reconnect_challenge_def realm_consts s1_def)
  have s1: "sess_k s1 = 3" "login s1 = user" "acct s1 = acct s"
    using assms(3) by (simp_all add: s1_def enqueue_def)
  have rp: "length ?rp = 16"
    using length_bn2bin_eq [OF assms(1), of "rand_rp E" 15] assms(8,9) by simp
  have "writes (bb_seq [o8 AUTH_RECONNECT_CHALLENGE, o8 0, bb_append ?rp, o64 0, o64 0])
      ([2] @ [0] @ ?rp @ wire (0 :: u64) @ wire (0 :: u64) @ [])"
    unfolding realm_consts wire_byte [symmetric] by (intro writes_intros)
  then have p2: "\<And>t. \<exists>pkt. send_pkt [o8 AUTH_RECONNECT_CHALLENGE, o8 0, bb_append ?rp, o64 0, o64 0] t
      = Inr (send pkt t)"
    using rp by (auto dest!: send_pkt_eval simp: append_limit_def)
  have q2: "\<And>t. \<exists>pkt. send_pkt [o8 AUTH_RECONNECT_PROOF, o8 0, o16 0] t = Inr (send pkt t)"
    by (simp add: send_pkt_def bb_out_at_end append_limit_def) blast
  from p2 obtain pkt where pkt: "send_pkt [o8 AUTH_RECONNECT_CHALLENGE, o8 0, bb_append ?rp, o64 0, o64 0]
      (s1\<lparr>reconnect_proof := rand_rp E\<rparr>) = Inr (send pkt (s1\<lparr>reconnect_proof := rand_rp E\<rparr>))" by blast
  define s2 where "s2 = (send pkt (s1\<lparr>reconnect_proof := rand_rp E\<rparr>))\<lparr>state := STATUS_NEED_RPROOF\<rparr>"
  have h2: "on_result E getSessionKey (RS_MySQL m) s1 = Inr s2"
    using reconnect_lookup_inverted [OF assms(13), of E s1] assms(1,10) rp pkt
    by (simp add: get_sessionkey_def bn2bin_into_full s2_def)
  let ?h = "sha1 ?L (user @ R1 @ ?rp @ 3 # tl (stale_40 E))"
  have "bn2bin ?L 3 = [3]" using bn2bin_small [OF assms(1), of 3] by simp
  moreover obtain x xs where "stale_40 E = x # xs" "length xs = 39"
    using assms(11) by (cases "stale_40 E") auto
  ultimately have exp: "expected_rproof E s2 R1 = Inr ?h"
    using s1 rp assms(10)
    by (simp add: expected_rproof_def s2_def bn2bin_into_full bn2bin_into_short)
  have "length ?h = 20" by (simp add: openssl_okD(1) [OF assms(1)])
  then have R: "reconnect_R1 (padded (3 # R1 @ ?h @ rest)) = R1" "reconnect_R2 (padded (3 # R1 @ ?h @ rest)) = ?h"
    using assms(12) by (simp_all add: padded_def reconnect_R1_def reconnect_R2_def slice_def)
  from q2 obtain pkt' where pkt': "send_pkt [o8 AUTH_RECONNECT_PROOF, o8 0, o16 0] s2 = Inr (send pkt' s2)" by blast
  have "handle_input E (Some (reconnect_message ?L user R1 ?rp (stale_40 E) @ rest)) s2 =
      Inr (0, (send pkt' s2)\<lparr>state := STATUS_AUTHED\<rparr>)"
    using R exp pkt'
    by (simp add: reconnect_message_def handle_input_eq run_command_def handle_auth_reconnect_proof_def
        realm_consts) (simp add: s2_def)
  moreover have "login (send pkt' s2) = user" "acct (send pkt' s2) = acct s"
    using s1 by (simp_all add: s2_def)
  ultimately show ?thesis using h1 h2 by auto
qed

theorem reconnect_without_account_witness:
  "\<exists>s1 s2 s3. handle_input demo_env (Some (2 # replicate 33 0 @ [66])) (demo_socket\<lparr>state := STATUS_CONNECTED\<rparr>) = Inr (0, s1) \<and>
     on_result demo_env getSessionKey (RS_MySQL \<lparr>m_rowPosition = 0, m_numRows = 0, m_numFields = 1,
       m_bindResult = [Some ([0], 0)], m_pending = []\<rparr>) s1 = Inr s2 \<and>
     handle_input demo_env (Some (reconnect_message (ssl demo_env) [66] (replicate 16 7)
       (bn2bin (ssl demo_env) (rand_rp demo_env)) (stale_40 demo_env) @ [])) s2 = Inr (0, s3) \<and>
     state s3 = STATUS_AUTHED \<and> login s3 = [66] \<and> acct s3 = acct (demo_socket\<lparr>state := STATUS_CONNECTED\<rparr>)"
  by (rule reconnect_without_account [where mysql_time = 4 and col = "(MYSQL_TYPE_VAR_STRING, 0)"])
     (simp_all add: openssl_ok_demo demo_env_def demo_socket_def MySQLPreparedResultSet_def typeToSize_def)

text \<open>A client authenticated by reconnecting has no account record behind it, since only
  the logon path loads one.  When it asks for the realm list, the callback with its character
  counts dereferences a null pointer: \<open>BN_hex2bn\<close> of the empty password digest yields no
  number.\<close>

theorem char_amount_without_account:
  assumes "openssl_ok (ssl E)" and "sha_pass (acct s) = []" and "isSupportedClientBuild (client_build s)"
  shows "\<exists>f. get_char_amount E amnt s = Inl f"
proof -
  have acct: "sha_pass (acct t) = []" if "build_expansion_realm_packet E u = Inr (d, t)" "acct u = acct s" for d t u
    using that assms(2) by (auto simp: build_expansion_realm_packet_def Let_def obind_eq_Inr)
  have vs: "\<exists>f. set_vs E t = Inl f" if "sha_pass (acct t) = []" for t
  proof (cases "le32_buffer (ssl E) (bn_s t)")
    case (Inl f)
    then show ?thesis by (simp add: set_vs_def Let_def realm_requests_eval)
  next
    case (Inr bs)
    with that show ?thesis
      by (simp add: set_vs_def Let_def realm_requests_eval openssl_okD(12) [OF assms(1)])
  qed
  show ?thesis
  proof (cases "client_build s = BUILD_1_12")
    case True
    show ?thesis
    proof (cases "build_realm_packet E (s\<lparr>realm_char_amount := amnt\<rparr>)")
      case (Inl f)
      with True show ?thesis by (simp add: get_char_amount_def Let_def)
    next
      case (Inr data)
      with True assms(2) vs show ?thesis by (simp add: get_char_amount_def Let_def)
    qed
  next
    case False
    with assms(3) have b: "client_build s \<in> {BUILD_2_43, BUILD_3_13, BUILD_3_20}"
      by (auto simp: isSupportedClientBuild_def)
    show ?thesis
    proof (cases "build_expansion_realm_packet E (s\<lparr>realm_char_amount := amnt\<rparr>)")
      case (Inl f)
      with False b show ?thesis by (simp add: get_char_amount_def Let_def)
    next
      case (Inr r)
      moreover obtain data t where "r = (data, t)" by (cases r)
      ultimately have "sha_pass (acct t) = []" using acct by simp
      with Inr \<open>r = (data, t)\<close> False b vs show ?thesis by (simp add: get_char_amount_def Let_def)
    qed
  qed
qed

theorem char_amount_without_account_witness:
  "\<exists>f. get_char_amount demo_env [] (demo_socket\<lparr>acct := demo_account\<lparr>sha_pass := []\<rparr>\<rparr>) = Inl f"
  by (rule char_amount_without_account)
     (simp_all add: openssl_ok_demo demo_env_def demo_socket_def isSupportedClientBuild_def build_defs)

section \<open>The stream of bytes\<close>

lemma out_loop_all:
  assumes "\<And>j. res j \<noteq> - 1" and "\<And>j. j < length q \<Longrightarrow> int (bb_size (q ! j)) \<le> res (i + j)"
  shows "out_loop res i q out = Inr (Drained, [], out @ concat (map storage q))"
  using assms
proof (induction q arbitrary: i out)
  case Nil
  then show ?case by simp
next
  case (Cons b q)
  have b: "int (bb_size b) \<le> res i" using Cons.prems(2) [of 0] by simp
  then have "take (nat (res i)) (storage b) = storage b" by (simp add: bb_size_def)
  moreover have "out_loop res (Suc i) q (out @ storage b) = Inr (Drained, [], (out @ storage b) @ concat (map storage q))"
    using Cons.prems(2) [of "Suc _"] by (intro Cons.IH Cons.prems(1)) fastforce
  ultimately show ?case using b Cons.prems(1) [of i] by (simp add: Let_def)
qed

lemma drop_take_front:
  "0 < n \<Longrightarrow> n < length xs \<Longrightarrow> take (length xs - n) (drop (n - 1) xs) = drop (n - 1) (butlast xs)"
  by (simp add: butlast_conv_take drop_take)

text \<open>C18. Packets leave in the order they were queued and complete, as long as the socket
  takes each of them whole.  When it takes only the first \<open>n\<close> bytes of a packet, what stays
  queued starts one byte too early and lacks the packet's last byte: the client gets byte \<open>n\<close>
  twice and the last byte never.\<close>

theorem output_stream:
  assumes "out_active s" and "packet_queue s = b # q" and "\<forall>j. res j \<noteq> - 1"
    and "\<forall>j<length q. int (bb_size (q ! j)) \<le> res (Suc j)" and "0 < res 0"
  shows "if int (bb_size b) \<le> res 0
         then handle_output res s = Inr (0, s\<lparr>packet_queue := [],
                sent := sent s @ storage b @ concat (map storage q),
                write_mask := False, out_active := False\<rparr>)
         else \<exists>b' s'. handle_output res s = Inr (1, s') \<and> packet_queue s' = b' # q \<and>
                sent s' = sent s @ take (nat (res 0)) (storage b) \<and>
                storage b' = drop (nat (res 0) - 1) (butlast (storage b))"
proof (cases "int (bb_size b) \<le> res 0")
  case True
  have "int (bb_size ((b # q) ! j)) \<le> res (0 + j)" if "j < length (b # q)" for j
    using that True assms(4) by (cases j) auto
  then have "out_loop res 0 (b # q) (sent s) = Inr (Drained, [], sent s @ concat (map storage (b # q)))"
    using assms(3) by (intro out_loop_all) blast+
  with True assms(1,2) show ?thesis by (simp add: handle_output_def)
next
  case False
  define n where "n = nat (res 0)"
  have n: "0 < n" "n < bb_size b" "res 0 = int n" using False assms(5) by (simp_all add: n_def)
  let ?c = "take (bb_size b - n) (drop (n - 1) (storage b))"
  have "bb_read_to_front (bb_size b - n) (bb_set_rpos (n - 1) b) =
      Inr (b\<lparr>rpos := n - 1 + (bb_size b - n), storage := splice_at 0 ?c (storage b)\<rparr>)"
    using n by (simp add: bb_read_to_front_def bb_read_bytes_def bb_set_rpos_def bb_size_def)
  moreover have "length (splice_at 0 ?c (storage b)) = bb_size b"
    using n by (simp add: bb_size_def)
  moreover have "take (bb_size b - n) (splice_at 0 ?c (storage b)) = ?c"
    using n by (simp add: splice_at_def bb_size_def)
  moreover have "?c = drop (n - 1) (butlast (storage b))"
    using n drop_take_front [of n "storage b"] by (simp add: bb_size_def)
  ultimately show ?thesis
    using False assms(1,2) n
    by (simp add: handle_output_def Let_def bb_resize_def vec_resize_def bb_size_def)
qed

theorem output_stream_witness:
  "\<exists>b' s'. handle_output (\<lambda>_. 2)
       (demo_socket\<lparr>out_active := True, packet_queue := [bb_extend [1, 2, 3, 4, 5] bb_new]\<rparr>) = Inr (1, s') \<and>
     packet_queue s' = [b'] \<and> sent s' = [1, 2] \<and> storage b' = [2, 3, 4]"
  using output_stream [of "demo_socket\<lparr>out_active := True, packet_queue := [bb_extend [1, 2, 3, 4, 5] bb_new]\<rparr>"
      "bb_extend [1, 2, 3, 4, 5] bb_new" "[]" "\<lambda>_. 2"]
  by (simp add: demo_socket_def)

section \<open>The realm list\<close>

text \<open>One realm of the list as an expansion client reads it.\<close>

definition realm_img :: "realm_service \<Rightarrow> u8 \<Rightarrow> (u8 \<times> u8) list \<Rightarrow> u8 \<times> realm \<Rightarrow> bytes" where
  "realm_img T level amnt e = (case e of (rid, r) \<Rightarrow>
     [r_icon r, if level < r_allowedSecurityLevel r then 1 else 0,
      if get_proxy_for_realm rid T = [] then 2 else r_color r] @
     r_name r @ [0] @ get_proxy_for_realm rid T @ [0] @ wire (r_population r) @
     [case map_of amnt rid of Some n \<Rightarrow> n | None \<Rightarrow> 0, r_timezone r, 0])"

definition realm_list_img :: "realm_env \<Rightarrow> realm_socket \<Rightarrow> bytes" where
  "realm_list_img E s =
     (let shown = filter (\<lambda>e. r_build (snd e) = client_build s) (realm_map (tables E))
      in [0, 0, 0, 0] @ wire (of_nat (length shown) :: u16) @
         concat (map (realm_img (tables E) (gmlevel (acct s)) (realm_char_amount s)) shown) @ [16, 0])"

lemma wire_u16_value: "nat_of_le (wire (x :: u16)) = unat x"
proof -
  have "unat x < 65536" using unsigned_less [of x, where ?'a = nat] by simp
  then have "unat x div 256 < 256" by simp
  have "wire x = [ucast x, ucast (drop_bit 8 x)]" by (simp add: wire_def numeral_2_eq_2)
  moreover have "unat (ucast x :: byte) = unat x mod 256"
    by (simp add: unsigned_ucast_eq take_bit_eq_mod)
  moreover have "unat (drop_bit 8 x) = unat x div 256"
    by (subst unat_drop_bit_eq) (simp add: drop_bit_eq_div)
  then have "unat (ucast (drop_bit 8 x) :: byte) = unat x div 256"
    using \<open>unat x div 256 < 256\<close> by (simp add: unsigned_ucast_eq take_bit_eq_mod)
  ultimately show ?thesis by (simp add: nat_of_le_def nat_of_be_def)
qed

lemma writes_expansion_entry:
  "writes (bb_seq (expansion_realm_entry T level amnt e)) (realm_img T level amnt e)"
proof -
  obtain rid r where e: "e = (rid, r)" by (cases e)
  let ?a = "get_proxy_for_realm rid T"
  have "writes (bb_seq (expansion_realm_entry T level amnt e))
    (wire (r_icon r) @ wire (if level < r_allowedSecurityLevel r then 1 else 0 :: byte) @
     wire (shown_color ?a r) @ (r_name r @ [0]) @ (?a @ [0]) @ wire (r_population r) @
     wire (case map_of amnt rid of Some n \<Rightarrow> n | None \<Rightarrow> 0) @ wire (r_timezone r) @ wire (0 :: byte) @ [])"
    unfolding e expansion_realm_entry_def Let_def prod.case by (intro writes_intros)
  then show ?thesis by (simp add: e realm_img_def shown_color_def)
qed

lemma wrap_realm_list_eval:
  assumes "bb_size pkt + 3 < append_limit"
  shows "wrap_realm_list pkt = Inr (bb_extend (16 # wire (of_nat (bb_size pkt) :: u16) @ storage pkt) bb_new)"
proof -
  have "writes (bb_seq [o8 REALM_LIST, o16 (of_nat (bb_size pkt)), bb_append_buffer pkt])
      ([16] @ wire (of_nat (bb_size pkt) :: u16) @ storage pkt @ [])"
    unfolding realm_consts wire_byte [symmetric] by (intro writes_intros)
  from writes_new [OF this] assms show ?thesis
    by (simp add: wrap_realm_list_def bb_size_def)
qed

text \<open>The realm list of an expansion client.  The packet is the command byte, the length of
  the rest as a 16-bit number, and the list: the number of realms of the client's build, then
  for each its icon, lock, colour (offline when the realm has no proxy), name, the address of
  its least loaded proxy, population, number of characters and time zone.  The length field is
  that of the list as long as the list is shorter than 65536 bytes.\<close>

theorem expansion_realm_list:
  assumes "length (realm_list_img E s) + 3 < append_limit"
    and "length (filter (\<lambda>e. r_build (snd e) = client_build s) (realm_map (tables E))) < 65536"
  shows "\<exists>data s'. build_expansion_realm_packet E s = Inr (data, s') \<and>
           storage data = 16 # wire (of_nat (length (realm_list_img E s)) :: u16) @ realm_list_img E s \<and>
           (length (realm_list_img E s) < 65536 \<longrightarrow>
              nat_of_le (take 2 (drop 1 (storage data))) = length (drop 3 (storage data))) \<and>
           packet_queue s' = packet_queue s \<and> state s' = state s"
proof -
  let ?shown = "filter (\<lambda>e. r_build (snd e) = client_build s) (realm_map (tables E))"
  let ?n = "of_nat (length ?shown) :: u16"
  let ?fs = "[o32 0, o16 ?n] @ concat (map (expansion_realm_entry (tables E) (gmlevel (acct s))
      (realm_char_amount s)) ?shown) @ [o8 0x10, o8 0]"
  have "unat ?n = length ?shown" using assms(2) by (simp add: unat_of_nat_small)
  then have empty: "?n = 0 \<longleftrightarrow> ?shown = []" by (metis length_0_conv unat_eq_zero)
  have "writes (bb_seq ([o32 0, o16 ?n] @ concat (map (expansion_realm_entry (tables E) (gmlevel (acct s))
      (realm_char_amount s)) ?shown) @ [o8 0x10, o8 0]))
    ((wire (0 :: u32) @ wire ?n @ []) @ concat (map (realm_img (tables E) (gmlevel (acct s))
      (realm_char_amount s)) ?shown) @ (wire (0x10 :: byte) @ wire (0 :: byte) @ []))"
    by (intro writes_seq_append writes_seq_concat_map writes_expansion_entry writes_seq_Cons
        writes_seq_Nil writes_out)
  moreover have "wire (0 :: u32) = [0, 0, 0, 0]" by (simp add: wire_def numeral_eq_Suc)
  ultimately have "writes (bb_seq ?fs) (realm_list_img E s)"
    by (simp add: realm_list_img_def Let_def)
  then have pkt: "bb_seq ?fs bb_new = Inr (bb_extend (realm_list_img E s) bb_new)"
    using assms(1) by (auto dest: writes_new)
  have shown: "(if 0 < ?n then ?shown else []) = ?shown"
    using empty by (simp add: word_gt_0)
  have wrap: "wrap_realm_list (bb_extend (realm_list_img E s) bb_new) =
      Inr (bb_extend (16 # wire (of_nat (length (realm_list_img E s)) :: u16) @ realm_list_img E s) bb_new)"
    using assms(1) wrap_realm_list_eval [of "bb_extend (realm_list_img E s) bb_new"] by simp
  have build: "build_expansion_realm_packet E s =
      Inr (bb_extend (16 # wire (of_nat (length (realm_list_img E s)) :: u16) @ realm_list_img E s) bb_new,
        s\<lparr>realm_char_amount := fold (\<lambda>e. om_insert (fst e) 0) ?shown (realm_char_amount s)\<rparr>)"
    unfolding build_expansion_realm_packet_def list_size_def Let_def shown pkt by (simp add: wrap)
  have w: "nat_of_le (wire (of_nat k :: u16)) = k" if "k < 65536" for k
    using that by (simp add: wire_u16_value unat_of_nat_small)
  have "nat_of_le (take 2 (drop 1 (16 # wire (of_nat (length (realm_list_img E s)) :: u16) @ realm_list_img E s)))
      = length (realm_list_img E s)" if "length (realm_list_img E s) < 65536"
    using w [OF that] by simp
  then show ?thesis using build by simp
qed

theorem expansion_realm_list_witness:
  "\<exists>data s'. build_expansion_realm_packet demo_env demo_socket = Inr (data, s') \<and>
     storage data = 16 # wire (of_nat (length (realm_list_img demo_env demo_socket)) :: u16) @
       realm_list_img demo_env demo_socket \<and>
     (length (realm_list_img demo_env demo_socket) < 65536 \<longrightarrow>
        nat_of_le (take 2 (drop 1 (storage data))) = length (drop 3 (storage data))) \<and>
     packet_queue s' = packet_queue demo_socket \<and> state s' = state demo_socket"
  by (rule expansion_realm_list)
     (simp_all add: realm_list_img_def realm_img_def demo_env_def demo_socket_def demo_service_def
        realm_default_def get_proxy_for_realm_def proxies_for_realm_def append_limit_def)

end
