(* ===== verification/Proxy_Crypto.thy ===== *)
theory Proxy_Crypto
  imports Openssl
begin

text \<open>
  The header cipher of the Burning Crusade protocol (src/proxyd/tbc/Proxy_Crypto.cpp,
  src/proxyd/Crypto_Keys.h).  A cipher state has two independent halves: the stream of the
  headers that are sent and the stream of the headers that are received.  Each half is a
  position in the key (\<open>i\<close>) and the last byte of the stream (\<open>j\<close>).
\<close>

section \<open>State\<close>

record proxy_crypto =
  crypto_key :: bytes
  is_initialised :: bool
  send_i :: u8
  send_j :: u8
  recv_i :: u8
  recv_j :: u8

definition CRYPTED_SEND_LEN :: nat where "CRYPTED_SEND_LEN = 4"
definition CRYPTED_RECV_LEN :: nat where "CRYPTED_RECV_LEN = 6"

definition tbc_encryption_key :: bytes where
  "tbc_encryption_key = [0x38, 0xA7, 0x83, 0x15, 0xF8, 0x92, 0x25, 0x30,
                         0x71, 0x98, 0x67, 0xB1, 0x8C, 0x04, 0xE2, 0xAA]"

definition Proxy_Crypto_new :: proxy_crypto where
  "Proxy_Crypto_new = \<lparr>crypto_key = replicate 20 0, is_initialised = False,
     send_i = 0, send_j = 0, recv_i = 0, recv_j = 0\<rparr>"

text \<open>\<open>set_key\<close>: the key of the stream is a keyed digest of the session key, least significant
  byte first.  The positions of the streams are left alone.\<close>

definition set_key :: "openssl \<Rightarrow> nat \<Rightarrow> proxy_crypto \<Rightarrow> proxy_crypto" where
  "set_key L K c = c\<lparr>crypto_key := hmac_sha1 L tbc_encryption_key (rev (bn2bin L K)), is_initialised := True\<rparr>"

section \<open>The streams\<close>

text \<open>One byte of the loops of \<open>encrypt\<close> and \<open>decrypt\<close>, from position and last byte to the byte
  and the new ones.\<close>

definition encrypt_byte :: "bytes \<Rightarrow> u8 \<times> u8 \<Rightarrow> byte \<Rightarrow> byte \<times> u8 \<times> u8" where
  "encrypt_byte k st d =
     (let i = fst st mod 20;
          x = (d XOR k ! unat i) + snd st
      in (x, i + 1, x))"

definition decrypt_byte :: "bytes \<Rightarrow> u8 \<times> u8 \<Rightarrow> byte \<Rightarrow> byte \<times> u8 \<times> u8" where
  "decrypt_byte k st d =
     (let i = fst st mod 20;
          x = (d - snd st) XOR k ! unat i
      in (x, i + 1, d))"

fun run_stream :: "(u8 \<times> u8 \<Rightarrow> byte \<Rightarrow> byte \<times> u8 \<times> u8) \<Rightarrow> bytes \<Rightarrow> u8 \<times> u8 \<Rightarrow> bytes \<times> u8 \<times> u8" where
  "run_stream f [] st = ([], st)"
| "run_stream f (d # ds) st =
     (let (x, st') = f st d; (xs, st'') = run_stream f ds st' in (x # xs, st''))"

text \<open>\<open>encrypt\<close> and \<open>decrypt\<close> work in place on the header at the front of \<open>data\<close>, whatever the
  length they are given.\<close>

definition encrypt :: "bytes \<Rightarrow> proxy_crypto \<Rightarrow> (bytes \<times> proxy_crypto) outcome" where
  "encrypt data c =
     (if \<not> is_initialised c then Inr (data, c)
      else if length data < CRYPTED_SEND_LEN then Inl Out_of_bounds
      else
        let (xs, i, j) = run_stream (encrypt_byte (crypto_key c)) (take CRYPTED_SEND_LEN data) (send_i c, send_j c)
        in Inr (splice_at 0 xs data, c\<lparr>send_i := i, send_j := j\<rparr>))"

definition decrypt :: "bytes \<Rightarrow> proxy_crypto \<Rightarrow> (bytes \<times> proxy_crypto) outcome" where
  "decrypt data c =
     (if \<not> is_initialised c then Inr (data, c)
      else if length data < CRYPTED_RECV_LEN then Inl Out_of_bounds
      else
        let (xs, i, j) = run_stream (decrypt_byte (crypto_key c)) (take CRYPTED_RECV_LEN data) (recv_i c, recv_j c)
        in Inr (splice_at 0 xs data, c\<lparr>recv_i := i, recv_j := j\<rparr>))"

section \<open>Laws of the streams\<close>

lemma length_run_stream [simp]: "length (fst (run_stream f ds st)) = length ds"
  by (induction f ds st rule: run_stream.induct) (auto simp: Let_def split: prod.splits)

lemma run_stream_append:
  "run_stream f (xs @ ys) st =
     (let (us, st') = run_stream f xs st; (vs, st'') = run_stream f ys st' in (us @ vs, st''))"
  by (induction f xs st rule: run_stream.induct) (auto simp: Let_def split: prod.splits)

text \<open>A cipher for the locale: what one side does to a byte the other side undoes, and both
  sides reach the same state.\<close>

locale stream_pair =
  fixes enc dec :: "u8 \<times> u8 \<Rightarrow> byte \<Rightarrow> byte \<times> u8 \<times> u8"
  assumes undo: "enc st d = (x, st') \<Longrightarrow> dec st x = (d, st')"
begin

lemma stream_undo:
  "run_stream enc ds st = (xs, st') \<Longrightarrow> run_stream dec xs st = (ds, st')"
proof (induction ds arbitrary: st xs)
  case Nil
  then show ?case by simp
next
  case (Cons d ds)
  obtain x st1 where x: "enc st d = (x, st1)" by (cases "enc st d")
  obtain ys st2 where ys: "run_stream enc ds st1 = (ys, st2)" by (cases "run_stream enc ds st1")
  from Cons.prems x ys have eq: "xs = x # ys" "st2 = st'" by auto
  with undo [OF x] Cons.IH [of st1 ys] ys show ?case by simp
qed

end

interpretation tbc_server: stream_pair "encrypt_byte k" "decrypt_byte k" for k
  by unfold_locales (auto simp: encrypt_byte_def decrypt_byte_def Let_def xor.assoc)

text \<open>The client's end of both streams: it enciphers what it sends with the step of
  \<open>encrypt_byte\<close> and deciphers with \<open>decrypt_byte\<close>, under the same key.  \<open>send_headers\<close> is
  the server sending a list of headers, \<open>client_reads\<close> what the client makes of the bytes.\<close>

fun send_headers :: "bytes list \<Rightarrow> proxy_crypto \<Rightarrow> (bytes list \<times> proxy_crypto) outcome" where
  "send_headers [] c = Inr ([], c)"
| "send_headers (h # hs) c =
     obind (encrypt h c) (\<lambda>(x, c'). obind (send_headers hs c') (\<lambda>(xs, c''). Inr (x # xs, c'')))"

fun receive_headers :: "bytes list \<Rightarrow> proxy_crypto \<Rightarrow> (bytes list \<times> proxy_crypto) outcome" where
  "receive_headers [] c = Inr ([], c)"
| "receive_headers (h # hs) c =
     obind (decrypt h c) (\<lambda>(x, c'). obind (receive_headers hs c') (\<lambda>(xs, c''). Inr (x # xs, c'')))"

lemma encrypt_header:
  "is_initialised c \<Longrightarrow> length h = 4 \<Longrightarrow>
     encrypt h c = (let (xs, i, j) = run_stream (encrypt_byte (crypto_key c)) h (send_i c, send_j c)
                    in Inr (xs, c\<lparr>send_i := i, send_j := j\<rparr>))"
  using length_run_stream [of "encrypt_byte (crypto_key c)" h "(send_i c, send_j c)"]
  by (cases "run_stream (encrypt_byte (crypto_key c)) h (send_i c, send_j c)") (auto simp: encrypt_def CRYPTED_SEND_LEN_def splice_at_def split: prod.splits)

lemma decrypt_header:
  "is_initialised c \<Longrightarrow> length h = 6 \<Longrightarrow>
     decrypt h c = (let (xs, i, j) = run_stream (decrypt_byte (crypto_key c)) h (recv_i c, recv_j c)
                    in Inr (xs, c\<lparr>recv_i := i, recv_j := j\<rparr>))"
  using length_run_stream [of "decrypt_byte (crypto_key c)" h "(recv_i c, recv_j c)"]
  by (cases "run_stream (decrypt_byte (crypto_key c)) h (recv_i c, recv_j c)") (auto simp: decrypt_def CRYPTED_RECV_LEN_def splice_at_def split: prod.splits)

lemma send_headers_stream:
  assumes "is_initialised c" and "\<forall>h\<in>set hs. length h = 4"
    and "run_stream (encrypt_byte (crypto_key c)) (concat hs) (send_i c, send_j c) = (xs, i, j)"
  shows "\<exists>ys. send_headers hs c = Inr (ys, c\<lparr>send_i := i, send_j := j\<rparr>) \<and> concat ys = xs"
  using assms
proof (induction hs arbitrary: c xs)
  case Nil
  then show ?case by auto
next
  case (Cons h hs)
  obtain us i1 j1 where h: "run_stream (encrypt_byte (crypto_key c)) h (send_i c, send_j c) = (us, i1, j1)"
    using prod_cases3 by blast
  let ?c = "c\<lparr>send_i := i1, send_j := j1\<rparr>"
  obtain vs where vs: "run_stream (encrypt_byte (crypto_key c)) (concat hs) (i1, j1) = (vs, i, j)" "xs = us @ vs"
    using Cons.prems(3) h by (auto simp: run_stream_append split: prod.splits)
  have "encrypt h c = Inr (us, ?c)"
    using encrypt_header [of c h] Cons.prems(1,2) h by simp
  moreover obtain ys where "send_headers hs ?c = Inr (ys, ?c\<lparr>send_i := i, send_j := j\<rparr>)" "concat ys = vs"
    using Cons.IH [of ?c vs] Cons.prems(1,2) vs by auto
  ultimately show ?case using vs(2) by simp
qed

lemma receive_headers_stream:
  assumes "is_initialised c" and "\<forall>h\<in>set hs. length h = 6"
    and "run_stream (decrypt_byte (crypto_key c)) (concat hs) (recv_i c, recv_j c) = (xs, i, j)"
  shows "\<exists>ys. receive_headers hs c = Inr (ys, c\<lparr>recv_i := i, recv_j := j\<rparr>) \<and> concat ys = xs \<and>
           (\<forall>y\<in>set ys. length y = 6)"
  using assms
proof (induction hs arbitrary: c xs)
  case Nil
  then show ?case by auto
next
  case (Cons h hs)
  obtain us i1 j1 where h: "run_stream (decrypt_byte (crypto_key c)) h (recv_i c, recv_j c) = (us, i1, j1)"
    using prod_cases3 by blast
  let ?c = "c\<lparr>recv_i := i1, recv_j := j1\<rparr>"
  obtain vs where vs: "run_stream (decrypt_byte (crypto_key c)) (concat hs) (i1, j1) = (vs, i, j)" "xs = us @ vs"
    using Cons.prems(3) h by (auto simp: run_stream_append split: prod.splits)
  have us: "length us = 6"
    using length_run_stream [of "decrypt_byte (crypto_key c)" h "(recv_i c, recv_j c)"] h Cons.prems(2) by simp
  have "decrypt h c = Inr (us, ?c)"
    using decrypt_header [of c h] Cons.prems(1,2) h by simp
  moreover obtain ys where "receive_headers hs ?c = Inr (ys, ?c\<lparr>recv_i := i, recv_j := j\<rparr>)" "concat ys = vs"
      "\<forall>y\<in>set ys. length y = 6"
    using Cons.IH [of ?c vs] Cons.prems(1,2) vs by auto
  ultimately show ?case using vs(2) us by simp
qed

lemma concat_inject_len:
  "length xs = length ys \<Longrightarrow> \<forall>x\<in>set xs. length x = n \<Longrightarrow> \<forall>y\<in>set ys. length y = n \<Longrightarrow>
     concat xs = concat ys \<Longrightarrow> xs = ys"
proof (induction xs arbitrary: ys)
  case Nil
  then show ?case by simp
next
  case (Cons x xs)
  then show ?case by (cases ys) auto
qed

section \<open>Round trips\<close>

text \<open>Once the key is set, the bytes of the headers the server sends, taken as one stream,
  are turned back by a client that runs the inverse step under the same key, however many
  headers were sent before: both ends stay synchronised.\<close>

theorem sent_headers_recovered:
  assumes "is_initialised c" and "\<forall>h\<in>set hs. length h = 4"
  shows "\<exists>ys c'. send_headers hs c = Inr (ys, c') \<and>
           run_stream (decrypt_byte (crypto_key c)) (concat ys) (send_i c, send_j c)
             = (concat hs, send_i c', send_j c') \<and>
           recv_i c' = recv_i c \<and> recv_j c' = recv_j c \<and> crypto_key c' = crypto_key c"
proof -
  obtain xs i j where xs: "run_stream (encrypt_byte (crypto_key c)) (concat hs) (send_i c, send_j c) = (xs, i, j)"
    using prod_cases3 by blast
  from send_headers_stream [OF assms xs] obtain ys
    where ys: "send_headers hs c = Inr (ys, c\<lparr>send_i := i, send_j := j\<rparr>)" "concat ys = xs" by blast
  with tbc_server.stream_undo [OF xs] show ?thesis by auto
qed

theorem sent_headers_recovered_witness:
  "\<exists>ys c'. send_headers [[0, 6, 0xEC, 1], [0, 3, 0xEE, 1]] (set_key demo_openssl 5 Proxy_Crypto_new) = Inr (ys, c') \<and>
     run_stream (decrypt_byte (crypto_key (set_key demo_openssl 5 Proxy_Crypto_new))) (concat ys)
       (send_i (set_key demo_openssl 5 Proxy_Crypto_new), send_j (set_key demo_openssl 5 Proxy_Crypto_new))
       = (concat [[0, 6, 0xEC, 1], [0, 3, 0xEE, 1]], send_i c', send_j c') \<and>
     recv_i c' = recv_i (set_key demo_openssl 5 Proxy_Crypto_new) \<and>
     recv_j c' = recv_j (set_key demo_openssl 5 Proxy_Crypto_new) \<and>
     crypto_key c' = crypto_key (set_key demo_openssl 5 Proxy_Crypto_new)"
  by (rule sent_headers_recovered) (simp_all add: set_key_def)

text \<open>The headers a client enciphers under the same key, one stream of six bytes per packet,
  are deciphered by the server one by one to the headers the client meant, and its sending
  half is not touched.\<close>

theorem received_headers_recovered:
  assumes "is_initialised c" and "\<forall>h\<in>set hs. length h = 6" and "\<forall>x\<in>set xs. length x = 6"
    and "length xs = length hs"
    and "concat xs = fst (run_stream (encrypt_byte (crypto_key c)) (concat hs) (recv_i c, recv_j c))"
  shows "\<exists>c'. receive_headers xs c = Inr (hs, c') \<and> send_i c' = send_i c \<and> send_j c' = send_j c \<and>
           crypto_key c' = crypto_key c"
proof -
  obtain i j where e: "run_stream (encrypt_byte (crypto_key c)) (concat hs) (recv_i c, recv_j c) = (concat xs, i, j)"
    using assms(5) by (metis prod.collapse)
  from receive_headers_stream [OF assms(1,3) tbc_server.stream_undo [OF e]] obtain ys
    where ys: "receive_headers xs c = Inr (ys, c\<lparr>recv_i := i, recv_j := j\<rparr>)" "concat ys = concat hs"
      "\<forall>y\<in>set ys. length y = 6" by blast
  have "length ys = length xs" using ys(1)
  proof -
    have "length ws = length zs" if "receive_headers zs d = Inr (ws, d')" for zs ws and d d' :: proxy_crypto
      using that by (induction zs arbitrary: d ws d') (auto simp: obind_eq_Inr)
    with ys(1) show ?thesis by blast
  qed
  then have "ys = hs"
    using concat_inject_len [of ys hs 6] ys(2,3) assms(2,4) by simp
  with ys(1) show ?thesis by auto
qed

theorem received_headers_recovered_witness:
  "\<exists>c'. receive_headers [fst (run_stream (encrypt_byte (crypto_key (set_key demo_openssl 5 Proxy_Crypto_new)))
                           [0, 8, 0xDC, 1, 0, 0] (0, 0))] (set_key demo_openssl 5 Proxy_Crypto_new)
          = Inr ([[0, 8, 0xDC, 1, 0, 0]], c') \<and>
        send_i c' = send_i (set_key demo_openssl 5 Proxy_Crypto_new) \<and>
        send_j c' = send_j (set_key demo_openssl 5 Proxy_Crypto_new) \<and>
        crypto_key c' = crypto_key (set_key demo_openssl 5 Proxy_Crypto_new)"
  by (rule received_headers_recovered)
     (simp_all only: list.set ball_simps length_run_stream, simp_all add: set_key_def Proxy_Crypto_new_def del: run_stream.simps)

end
