(* ===== verification/Proxy_Service.thy ===== *)
theory Proxy_Service
  imports Proxy_Events
begin

text \<open>
  \<open>Proxy_Service\<close> (src/proxyd/Proxy_Service.h and .cpp), its announce timer
  (src/proxyd/Proxy_Timer.h) and its end of the event channel
  (src/proxyd/Proxyd_EC_Communicator.cpp).  \<open>load\<close> is a \<open>float\<close> that holds the result of an
  integer division.  The reactor's timers are the list of the ids of the pending ones;
  the id a new timer gets is an argument.
\<close>

section \<open>State\<close>

record proxy_service =
  load :: f32
  current_connections :: u32
  connection_limit :: u16
  realm_id :: u8
  announce_timer_id :: int
  is_running :: bool
  bind_addr :: bytes
  timers :: "int list"
  announced :: "ec_event list"

text \<open>The values \<open>start\<close> sets first; \<open>ConnectionLimit\<close> and \<open>RealmID\<close> are truncated to the
  members' widths.\<close>

definition proxy_service_start :: "int \<Rightarrow> int \<Rightarrow> proxy_service \<Rightarrow> proxy_service" where
  "proxy_service_start limit rid s = s\<lparr>load := 0, connection_limit := of_int limit,
     realm_id := of_int rid, current_connections := 0, announce_timer_id := - 1\<rparr>"

section \<open>Load\<close>

definition update_connections :: "bool \<Rightarrow> proxy_service \<Rightarrow> proxy_service outcome" where
  "update_connections up s =
     (let n = (if up then current_connections s + 1 else current_connections s - 1);
          s' = s\<lparr>current_connections := n\<rparr>
      in if connection_limit s' = 0 then Inl Div_by_zero
         else Inr (s'\<lparr>load := f32_of_nat (unat n div unat (connection_limit s'))\<rparr>))"

text \<open>\<open>load == 1\<close>\<close>

definition load_full :: "proxy_service \<Rightarrow> bool" where
  "load_full s \<longleftrightarrow> \<not> f32_nan (load s) \<and> f32_key (load s) = f32_key (f32_of_nat 1)"

section \<open>Event channel\<close>

definition announce :: "proxy_service \<Rightarrow> proxy_service" where
  "announce s = s\<lparr>announced := announced s @ [Proxy_Announce (ucast (realm_id s)) (bind_addr s) (load s)]\<rparr>"

definition shutdowned :: "proxy_service \<Rightarrow> proxy_service" where
  "shutdowned s = s\<lparr>announced := announced s @ [Proxy_Shutdowned (bind_addr s)]\<rparr>"

definition schedule_timer :: "int \<Rightarrow> proxy_service \<Rightarrow> proxy_service" where
  "schedule_timer new_id s = s\<lparr>announce_timer_id := new_id, timers := timers s @ [new_id]\<rparr>"

text \<open>The end of \<open>start\<close>.\<close>

definition start_announcing :: "int \<Rightarrow> proxy_service \<Rightarrow> proxy_service" where
  "start_announcing new_id s = schedule_timer new_id (announce s)"

definition proxy_ec_push :: "int \<Rightarrow> ec_event \<Rightarrow> proxy_service \<Rightarrow> proxy_service" where
  "proxy_ec_push new_id e s = (case e of
       Proxy_Request rid \<Rightarrow>
         if rid = ucast (realm_id s) then
           let s1 = (if announce_timer_id s \<noteq> - 1
                     then s\<lparr>timers := filter (\<lambda>t. t \<noteq> announce_timer_id s) (timers s)\<rparr> else s);
               s2 = announce s1
           in if announce_timer_id s2 \<noteq> - 1 then schedule_timer new_id s2 else s2
         else s
     | _ \<Rightarrow> s)"

text \<open>\<open>Proxy_Announce_Timer::handle_timeout\<close>, for a timer that is pending.\<close>

definition announce_timeout :: "int \<Rightarrow> proxy_service \<Rightarrow> proxy_service" where
  "announce_timeout i s = (if i \<in> set (timers s) then announce s else s)"

definition proxy_stop :: "proxy_service \<Rightarrow> proxy_service" where
  "proxy_stop s = (shutdowned s)\<lparr>is_running := False\<rparr>"

section \<open>Lemmas\<close>

lemma log2_bounds: "0 < n \<Longrightarrow> 2 ^ log2 n \<le> n \<and> n < 2 ^ Suc (log2 n)"
proof (induction n rule: log2.induct)
  case (1 n)
  show ?case
  proof (cases "n \<le> 1")
    case True
    with 1(2) have "n = 1" by simp
    then show ?thesis by (simp add: log2.simps)
  next
    case False
    with 1(1) have "2 ^ log2 (n div 2) \<le> n div 2 \<and> n div 2 < 2 ^ Suc (log2 (n div 2))" by simp
    then show ?thesis
      using False by (subst (1 2) log2.simps) (auto simp: )
  qed
qed

lemma round_half_even_bounds:
  "0 < d \<Longrightarrow> n div d \<le> round_half_even n d \<and> round_half_even n d \<le> n div d + 1"
  by (simp add: round_half_even_def Let_def)

text \<open>The pattern of an integer is the exponent and the mantissa; it is 1.0 only for 1.\<close>

lemma f32_of_nat_pattern:
  assumes "1 < n" and "n < 2 ^ 32"
  shows "0x3F800000 < unat (f32_of_nat n)" and "unat (f32_of_nat n) < 0x7F800000"
proof -
  define k where "k = log2 n"
  have k: "2 ^ k \<le> n" "n < 2 ^ Suc k"
    using log2_bounds [of n] assms(1) by (simp_all add: k_def)
  have "k < 32"
    using k(1) assms(2) power_less_imp_less_exp [of "2 :: nat" k 32] by linarith
  have "k \<noteq> 0" using k(2) assms(1) by (auto intro: ccontr)
  define m where "m = (if k \<le> 23 then n * 2 ^ (23 - k) else round_half_even n (2 ^ (k - 23)))"
  have m: "2 ^ 23 \<le> m \<and> m \<le> 2 ^ 24"
  proof (cases "k \<le> 23")
    case True
    then have "2 ^ 23 = 2 ^ k * (2 :: nat) ^ (23 - k)" "2 ^ 24 = 2 ^ Suc k * (2 :: nat) ^ (23 - k)"
      by (simp_all flip: power_add)
    moreover have "2 ^ k * 2 ^ (23 - k) \<le> n * 2 ^ (23 - k)" "n * 2 ^ (23 - k) \<le> 2 ^ Suc k * 2 ^ (23 - k)"
      using k by (intro mult_le_mono1; simp)+
    ultimately show ?thesis using True unfolding m_def by (simp only: if_True)
  next
    case False
    then have e: "(2 :: nat) ^ k = 2 ^ 23 * 2 ^ (k - 23)"
      using power_add [of "2 :: nat" 23 "k - 23"] by simp
    have "2 ^ 23 \<le> n div 2 ^ (k - 23)"
      using k(1) unfolding e by (simp add: less_eq_div_iff_mult_less_eq)
    moreover have "n div 2 ^ (k - 23) < 2 ^ 24"
      using k(2) unfolding power_Suc e by (simp add: div_less_iff_less_mult)
    ultimately show ?thesis
      using False round_half_even_bounds [of "2 ^ (k - 23)" n] by (simp add: m_def)
  qed
  have "f32_of_nat n = of_nat ((126 + k) * 2 ^ 23 + m)"
    using assms(1) by (simp add: f32_of_nat_def m_def k_def Let_def)
  moreover have "(126 + k) * 2 ^ 23 + m < 2 ^ 32"
    using m \<open>k < 32\<close> by simp
  ultimately have u: "unat (f32_of_nat n) = (126 + k) * 2 ^ 23 + m"
    using unat_of_nat_small [where ?'a = 32, of "(126 + k) * 2 ^ 23 + m"] by (simp only:) simp
  have "127 * 2 ^ 23 \<le> (126 + k) * (2 :: nat) ^ 23" using \<open>k \<noteq> 0\<close> by (intro mult_le_mono1) simp
  then show "0x3F800000 < unat (f32_of_nat n)"
    unfolding u using m by simp
  have "(126 + k) * (2 :: nat) ^ 23 \<le> 157 * 2 ^ 23" using \<open>k < 32\<close> by (intro mult_le_mono1) simp
  then show "unat (f32_of_nat n) < 0x7F800000"
    unfolding u using m by simp
qed

lemma f32_small_pattern:
  assumes "unat x < 0x7F800000"
  shows "\<not> f32_nan x" and "f32_key x = int (unat x)"
proof -
  have t: "unat (take_bit 31 x) = unat x"
    using assms by (simp add: unsigned_take_bit_eq take_bit_nat_eq_self)
  have "\<not> bit x 31"
  proof -
    have "unat x < 2 ^ 31" using assms by simp
    then have "take_bit 31 (unat x) = unat x" by (simp add: take_bit_nat_eq_self)
    then have "\<not> bit (unat x) 31" by (metis bit_take_bit_iff less_irrefl)
    then show ?thesis by (simp add: bit_unsigned_iff)
  qed
  with assms t show "\<not> f32_nan x" "f32_key x = int (unat x)"
    by (simp_all add: f32_nan_def f32_key_def)
qed

lemma f32_of_nat_less_bound:
  assumes "n < 2 ^ 32"
  shows "unat (f32_of_nat n) < 0x7F800000"
proof -
  consider "n = 0" | "n = 1" | "1 < n" by linarith
  then show ?thesis using f32_of_nat_pattern(2) [OF _ assms] by cases simp_all
qed

lemma load_full_quotient:
  assumes "n < 2 ^ 32"
  shows "load_full (s\<lparr>load := f32_of_nat n\<rparr>) \<longleftrightarrow> n = 1"
proof -
  have key: "\<not> f32_nan (f32_of_nat m) \<and> f32_key (f32_of_nat m) = int (unat (f32_of_nat m))" if "m < 2 ^ 32" for m
    using f32_small_pattern [OF f32_of_nat_less_bound [OF that]] by simp
  have "n = 1 \<longleftrightarrow> unat (f32_of_nat n) = unat (f32_of_nat 1)"
  proof -
    consider "n = 0" | "n = 1" | "1 < n" by linarith
    then show ?thesis using f32_of_nat_pattern(1) [OF _ assms] by cases simp_all
  qed
  moreover have "f32_key (f32_of_nat n) = f32_key (f32_of_nat 1) \<longleftrightarrow> unat (f32_of_nat n) = unat (f32_of_nat 1)"
    using key [OF assms] key [of 1]
      of_nat_eq_iff [of "unat (f32_of_nat n)" "unat (f32_of_nat 1)", where ?'a = int] by simp_all
  ultimately show ?thesis
    using key [OF assms] by (simp add: load_full_def)
qed

section \<open>Properties\<close>

text \<open>The load of a proxy is the integer quotient of its connections and its limit: 0 below
  the limit, and equal to 1, the value at which \<open>open\<close> refuses a client, exactly from the limit
  up to one less than twice the limit.  With a limit of 0 counting a connection divides by
  zero.\<close>

theorem load_admission:
  "if connection_limit s = 0 then update_connections up s = Inl Div_by_zero
   else \<exists>s'. update_connections up s = Inr s' \<and>
          current_connections s' = (if up then current_connections s + 1 else current_connections s - 1) \<and>
          (load_full s' \<longleftrightarrow> unat (connection_limit s) \<le> unat (current_connections s') \<and>
                           unat (current_connections s') < 2 * unat (connection_limit s)) \<and>
          (load s' = 0 \<longleftrightarrow> unat (current_connections s') < unat (connection_limit s))"
proof (cases "connection_limit s = 0")
  case True
  then show ?thesis by (simp add: update_connections_def Let_def)
next
  case False
  define n where "n = (if up then current_connections s + 1 else current_connections s - 1)"
  define q where "q = unat n div unat (connection_limit s)"
  have limit: "0 < unat (connection_limit s)" using False by (simp add: unat_gt_0)
  have "unat n < 2 ^ 32" using unsigned_less [of n, where ?'a = nat] by simp
  then have q: "q < 2 ^ 32" unfolding q_def using div_le_dividend [of "unat n" "unat (connection_limit s)"] by linarith
  have "q = 1 \<longleftrightarrow> unat (connection_limit s) \<le> unat n \<and> unat n < 2 * unat (connection_limit s)"
  proof -
    have "q = 1 \<longleftrightarrow> 1 \<le> q \<and> q < 2" by auto
    also have "1 \<le> q \<longleftrightarrow> unat (connection_limit s) \<le> unat n"
      unfolding q_def using limit less_eq_div_iff_mult_less_eq [OF limit, of 1 "unat n"] by simp
    also have "q < 2 \<longleftrightarrow> unat n < 2 * unat (connection_limit s)"
      unfolding q_def using div_less_iff_less_mult [OF limit, of "unat n" 2] by simp
    finally show ?thesis .
  qed
  moreover have "f32_of_nat q = 0 \<longleftrightarrow> q = 0"
    using f32_of_nat_pattern(1) [OF _ q] by (cases "q = 0"; cases "q = 1") (auto simp: neq0_conv)
  moreover have "q = 0 \<longleftrightarrow> unat n < unat (connection_limit s)"
    unfolding q_def using limit by (simp add: div_eq_0_iff)
  ultimately show ?thesis
    using False load_full_quotient [OF q, of "s\<lparr>current_connections := n\<rparr>"]
    by (simp add: update_connections_def Let_def flip: n_def q_def)
qed

text \<open>What reaches a started proxy: messages of the channel and timeouts, each with the id the
  reactor would give to a timer scheduled meanwhile.\<close>

datatype channel_input = Pushed ec_event int | Timeout int

definition channel_step :: "channel_input \<Rightarrow> proxy_service \<Rightarrow> proxy_service" where
  "channel_step i s = (case i of Pushed e t \<Rightarrow> proxy_ec_push t e s | Timeout t \<Rightarrow> announce_timeout t s)"

definition own_requests :: "u8 \<Rightarrow> channel_input list \<Rightarrow> nat" where
  "own_requests rid is =
     length (filter (\<lambda>i. case i of Pushed (Proxy_Request r) _ \<Rightarrow> r = ucast rid | _ \<Rightarrow> False) is)"

lemma channel_step_timer:
  assumes "timers s = [announce_timer_id s]" and "announce_timer_id s \<noteq> - 1"
    and "\<forall>e t. i = Pushed e t \<longrightarrow> t \<noteq> - 1"
  shows "timers (channel_step i s) = [announce_timer_id (channel_step i s)] \<and>
         announce_timer_id (channel_step i s) \<noteq> - 1 \<and>
         realm_id (channel_step i s) = realm_id s \<and> bind_addr (channel_step i s) = bind_addr s \<and>
         load (channel_step i s) = load s"
  using assms
  by (auto simp: channel_step_def proxy_ec_push_def announce_timeout_def announce_def schedule_timer_def Let_def
      split: channel_input.splits ec_event.splits)

definition own_announce :: "proxy_service \<Rightarrow> ec_event" where
  "own_announce s = Proxy_Announce (ucast (realm_id s)) (bind_addr s) (load s)"

lemma channel_step_announced:
  assumes "timers s = [announce_timer_id s]" and "announce_timer_id s \<noteq> - 1"
  shows "announced (channel_step i s) = announced s @
    (if (case i of Pushed (Proxy_Request r) _ \<Rightarrow> r = ucast (realm_id s) | Pushed _ _ \<Rightarrow> False
                 | Timeout t \<Rightarrow> t = announce_timer_id s) then [own_announce s] else [])"
  using assms
  by (auto simp: channel_step_def proxy_ec_push_def announce_timeout_def announce_def schedule_timer_def
      own_announce_def Let_def split: channel_input.splits ec_event.splits)


definition demo_proxy :: proxy_service where
  "demo_proxy = \<lparr>load = 0, current_connections = 0, connection_limit = 2, realm_id = 7, announce_timer_id = - 1,
     is_running = True, bind_addr = [65], timers = [], announced = []\<rparr>"


end
