(* ===== verification/Object_Mgr.thy ===== *)
theory Object_Mgr
  imports Float_Bits
begin

text \<open>
  \<open>ObjectMgr\<close> (src/game/ObjectMgr.h): where new characters start, by race and class, and the
  next free guid of each kind of object (src/game/SharedDefines.h).
\<close>

record create_info =
  map_id :: u32
  zone_id :: u32
  position_x :: f32
  position_y :: f32
  position_z :: f32

definition RACE_MAX :: nat where "RACE_MAX = 12"
definition CLASS_MAX :: nat where "CLASS_MAX = 12"
definition GUID_CHAR :: u8 where "GUID_CHAR = 0"
definition GUID_MAX :: nat where "GUID_MAX = 1"

record object_mgr =
  playerCreateInfo :: "create_info list list"
  max_guids :: "u32 list"

text \<open>The two arrays have their declared sizes; the constructor does not initialise them.\<close>

definition object_mgr_wf :: "object_mgr \<Rightarrow> bool" where
  "object_mgr_wf m \<longleftrightarrow>
     length (playerCreateInfo m) = RACE_MAX \<and>
     list_all (\<lambda>r. length r = CLASS_MAX) (playerCreateInfo m) \<and>
     length (max_guids m) = GUID_MAX"

text \<open>\<open>race - 1\<close> and \<open>pclass - 1\<close> are computed as \<open>int\<close>: 0 gives the index -1.\<close>

definition create_index :: "u8 \<Rightarrow> u8 \<Rightarrow> (nat \<times> nat) outcome" where
  "create_index race pclass =
     (let i = uint race - 1; j = uint pclass - 1
      in if 0 \<le> i \<and> i < int RACE_MAX \<and> 0 \<le> j \<and> j < int CLASS_MAX then Inr (nat i, nat j)
         else Inl Out_of_bounds)"

definition set_player_create_info :: "u8 \<Rightarrow> u8 \<Rightarrow> create_info \<Rightarrow> object_mgr \<Rightarrow> object_mgr outcome" where
  "set_player_create_info race pclass info m =
     obind (create_index race pclass) (\<lambda>(i, j).
       Inr (m\<lparr>playerCreateInfo := (playerCreateInfo m)[i := (playerCreateInfo m ! i)[j := info]]\<rparr>))"

definition get_player_create_info :: "u8 \<Rightarrow> u8 \<Rightarrow> object_mgr \<Rightarrow> create_info outcome" where
  "get_player_create_info race pclass m =
     obind (create_index race pclass) (\<lambda>(i, j). Inr (playerCreateInfo m ! i ! j))"

definition get_max_guid :: "u8 \<Rightarrow> object_mgr \<Rightarrow> (u32 \<times> object_mgr) outcome" where
  "get_max_guid type m =
     (let t = unat type
      in if t < length (max_guids m)
         then Inr (max_guids m ! t, m\<lparr>max_guids := (max_guids m)[t := max_guids m ! t + 1]\<rparr>)
         else Inl Out_of_bounds)"

section \<open>Lemmas\<close>

lemma create_index_Inr:
  "create_index race pclass = Inr (i, j) \<longleftrightarrow>
     race \<noteq> 0 \<and> pclass \<noteq> 0 \<and> i = unat race - 1 \<and> j = unat pclass - 1 \<and> i < 12 \<and> j < 12"
proof -
  define a b where ab: "a = unat race" "b = unat pclass"
  have u: "uint race = int a" "uint pclass = int b" by (simp_all add: ab)
  have z: "race \<noteq> 0 \<longleftrightarrow> 0 < a" "pclass \<noteq> 0 \<longleftrightarrow> 0 < b"
    by (simp_all add: ab unat_gt_0)
  show ?thesis
    unfolding create_index_def Let_def RACE_MAX_def CLASS_MAX_def u z ab(1) [symmetric] ab(2) [symmetric]
    by (cases a; cases b) auto
qed

lemma create_index_cases:
  obtains (ok) i j where "create_index race pclass = Inr (i, j)" "i < 12" "j < 12"
      "i = unat race - 1" "j = unat pclass - 1" "race \<noteq> 0" "pclass \<noteq> 0"
    | (bad) "create_index race pclass = Inl Out_of_bounds"
      "race = 0 \<or> pclass = 0 \<or> 12 < unat race \<or> 12 < unat pclass"
proof (cases "create_index race pclass")
  case (Inl e)
  then have "e = Out_of_bounds" by (auto simp: create_index_def Let_def split: if_splits)
  moreover have "\<not> (race \<noteq> 0 \<and> pclass \<noteq> 0 \<and> unat race - 1 < 12 \<and> unat pclass - 1 < 12)"
    using Inl create_index_Inr [of race pclass "unat race - 1" "unat pclass - 1"] by auto
  moreover have "0 < unat race \<or> race = 0" "0 < unat pclass \<or> pclass = 0" by (auto simp: unat_gt_0)
  ultimately have "create_index race pclass = Inl Out_of_bounds"
    and "race = 0 \<or> pclass = 0 \<or> 12 < unat race \<or> 12 < unat pclass"
    using Inl by (simp, linarith)
  then show ?thesis by (rule bad)
next
  case (Inr p)
  then show ?thesis using ok by (cases p) (auto simp: create_index_Inr)
qed

lemma set_player_create_info_wf:
  "object_mgr_wf m \<Longrightarrow> set_player_create_info race pclass info m = Inr m' \<Longrightarrow> object_mgr_wf m'"
  by (cases rule: create_index_cases [of race pclass])
     (auto simp: set_player_create_info_def object_mgr_wf_def RACE_MAX_def list_all_length nth_list_update)

lemma get_max_guid_wf: "object_mgr_wf m \<Longrightarrow> get_max_guid t m = Inr (g, m') \<Longrightarrow> object_mgr_wf m'"
  by (auto simp: get_max_guid_def object_mgr_wf_def Let_def split: if_splits)

fun take_guids :: "nat \<Rightarrow> object_mgr \<Rightarrow> (u32 list \<times> object_mgr) outcome" where
  "take_guids 0 m = Inr ([], m)"
| "take_guids (Suc n) m =
     obind (get_max_guid GUID_CHAR m) (\<lambda>(g, m1).
     obind (take_guids n m1) (\<lambda>(gs, m2). Inr (g # gs, m2)))"

lemma take_guids_eq:
  "object_mgr_wf m \<Longrightarrow>
     take_guids n m = Inr (map (\<lambda>i. max_guids m ! 0 + of_nat i) [0..<n],
                           m\<lparr>max_guids := [max_guids m ! 0 + of_nat n]\<rparr>)"
proof (induction n arbitrary: m)
  case 0
  then have "max_guids m = [max_guids m ! 0]"
    by (cases "max_guids m") (auto simp: object_mgr_wf_def GUID_MAX_def)
  then show ?case by simp
next
  case (Suc n)
  obtain g where g: "max_guids m = [g]"
    using Suc.prems by (cases "max_guids m") (auto simp: object_mgr_wf_def GUID_MAX_def)
  let ?m = "m\<lparr>max_guids := [g + 1]\<rparr>"
  have "get_max_guid GUID_CHAR m = Inr (g, ?m)"
    by (simp add: get_max_guid_def GUID_CHAR_def g)
  moreover have "object_mgr_wf ?m" using Suc.prems by (simp add: object_mgr_wf_def GUID_MAX_def)
  ultimately show ?case
    using Suc.IH [of ?m] by (simp add: g map_upt_Suc algebra_simps del: upt_Suc)
qed

section \<open>Properties\<close>

text \<open>The guids handed out are consecutive and pairwise different for the first \<open>2 ^ 32\<close>
  characters; the next one is then the first guid again.\<close>

theorem guids_distinct:
  assumes "object_mgr_wf m" and "n \<le> 2 ^ 32"
  shows "\<exists>gs m'. take_guids n m = Inr (gs, m') \<and> length gs = n \<and> distinct gs \<and>
           max_guids m' = [max_guids m ! 0 + of_nat n] \<and>
           (n = 2 ^ 32 \<longrightarrow> max_guids m' = max_guids m)"
proof -
  obtain g where g: "max_guids m = [g]"
    using assms(1) by (cases "max_guids m") (auto simp: object_mgr_wf_def GUID_MAX_def)
  have "inj_on (\<lambda>i. g + of_nat i) (set [0..<n])"
  proof (rule inj_onI)
    fix i j assume ij: "i \<in> set [0..<n]" "j \<in> set [0..<n]" "g + of_nat i = g + (of_nat j :: u32)"
    then have "unat (of_nat i :: u32) = unat (of_nat j :: u32)" by simp
    moreover have "unat (of_nat i :: u32) = i" "unat (of_nat j :: u32) = j"
      using ij(1,2) assms(2) by (auto intro!: unat_of_nat_small)
    ultimately show "i = j" by simp
  qed
  then have "distinct (map (\<lambda>i. g + of_nat i) [0..<n])"
    by (simp add: distinct_map)
  moreover have "(of_nat (2 ^ 32) :: u32) = 0" by simp
  ultimately show ?thesis
    using take_guids_eq [OF assms(1), of n] g by auto
qed

definition demo_mgr :: object_mgr where
  "demo_mgr = \<lparr>playerCreateInfo = replicate 12 (replicate 12
      \<lparr>map_id = 0, zone_id = 12, position_x = 0, position_y = 0, position_z = 0\<rparr>), max_guids = [5]\<rparr>"

lemma demo_mgr_wf: "object_mgr_wf demo_mgr"
  by (simp add: object_mgr_wf_def demo_mgr_def RACE_MAX_def CLASS_MAX_def GUID_MAX_def list_all_iff)

theorem guids_distinct_witness:
  "\<exists>gs m'. take_guids 3 demo_mgr = Inr (gs, m') \<and> length gs = 3 \<and> distinct gs \<and>
     max_guids m' = [max_guids demo_mgr ! 0 + of_nat 3] \<and>
     (3 = (2 ^ 32 :: nat) \<longrightarrow> max_guids m' = max_guids demo_mgr)"
  by (rule guids_distinct [OF demo_mgr_wf]) simp

text \<open>The table of starting places: reading a place after storing one gives the stored place
  for that race and class and the old one for the others, for races and classes from 1 to 12;
  race or class 0 and numbers above 12 address memory outside the table.\<close>

theorem create_info_lookup:
  assumes "object_mgr_wf m"
  shows "if race \<in> {1..12} \<and> pclass \<in> {1..12}
         then \<exists>m'. set_player_create_info race pclass info m = Inr m' \<and> object_mgr_wf m' \<and>
                get_player_create_info race pclass m' = Inr info \<and>
                list_all (\<lambda>(r, c). (r, c) = (race, pclass) \<or>
                  get_player_create_info r c m' = get_player_create_info r c m) rcs
         else set_player_create_info race pclass info m = Inl Out_of_bounds \<and>
              get_player_create_info race pclass m = Inl Out_of_bounds"
proof (cases rule: create_index_cases [of race pclass])
  case (ok i j)
  let ?T = "playerCreateInfo m"
  let ?m = "m\<lparr>playerCreateInfo := ?T[i := (?T ! i)[j := info]]\<rparr>"
  have len: "length ?T = 12" "length (?T ! i) = 12"
    using assms ok(2) by (auto simp: object_mgr_wf_def RACE_MAX_def CLASS_MAX_def list_all_length)
  have range: "race \<in> {1..12} \<and> pclass \<in> {1..12}"
  proof -
    have "1 \<le> unat race" "1 \<le> unat pclass" using ok(6,7) by (simp_all add: Suc_le_eq unat_gt_0)
    moreover have "unat race \<le> 12" "unat pclass \<le> 12" using ok(2-5) by linarith+
    ultimately show ?thesis by (simp add: word_le_nat_alt)
  qed
  have m': "set_player_create_info race pclass info m = Inr ?m"
    by (simp add: set_player_create_info_def ok(1))
  have new: "get_player_create_info race pclass ?m = Inr info"
    using len ok(2,3) by (simp add: get_player_create_info_def ok(1))
  have old: "get_player_create_info r c ?m = get_player_create_info r c m" if "(r, c) \<noteq> (race, pclass)" for r c
  proof (cases rule: create_index_cases [of r c])
    case (ok k l)
    have "unat r \<noteq> unat race \<or> unat c \<noteq> unat pclass" using that by (simp add: word_unat_eq_iff)
    moreover have "0 < unat r" "0 < unat race" "0 < unat c" "0 < unat pclass"
      using ok(6,7) \<open>race \<noteq> 0\<close> \<open>pclass \<noteq> 0\<close> by (simp_all add: unat_gt_0)
    ultimately have "k \<noteq> i \<or> l \<noteq> j"
      using ok(4,5) \<open>i = unat race - 1\<close> \<open>j = unat pclass - 1\<close> by linarith
    then show ?thesis
      using ok(2,3) len \<open>i < 12\<close> by (auto simp: get_player_create_info_def ok(1) nth_list_update)
  qed (simp add: get_player_create_info_def)
  show ?thesis
    using range m' new old set_player_create_info_wf [OF assms m'] by (auto simp: list_all_iff)
next
  case bad
  have "\<not> (race \<in> {1..12} \<and> pclass \<in> {1..12})"
    using bad(2) by (auto simp: word_le_nat_alt)
  with bad(1) show ?thesis
    by (simp only: if_False) (simp add: set_player_create_info_def get_player_create_info_def)
qed

theorem create_info_lookup_witness:
  "if (1 :: u8) \<in> {1..12} \<and> (0 :: u8) \<in> {1..12}
   then \<exists>m'. set_player_create_info 1 0 \<lparr>map_id = 1, zone_id = 2, position_x = 0, position_y = 0, position_z = 0\<rparr> demo_mgr
                 = Inr m' \<and> object_mgr_wf m' \<and>
          get_player_create_info 1 0 m' = Inr \<lparr>map_id = 1, zone_id = 2, position_x = 0, position_y = 0, position_z = 0\<rparr> \<and>
          list_all (\<lambda>(r, c). (r, c) = (1, 0) \<or> get_player_create_info r c m' = get_player_create_info r c demo_mgr) [(1, 1)]
   else set_player_create_info 1 0 \<lparr>map_id = 1, zone_id = 2, position_x = 0, position_y = 0, position_z = 0\<rparr> demo_mgr
          = Inl Out_of_bounds \<and> get_player_create_info 1 0 demo_mgr = Inl Out_of_bounds"
  by (rule create_info_lookup [OF demo_mgr_wf])

end
