(* ===== verification/Proxy_Database.thy ===== *)
theory Proxy_Database
  imports Sql_Operation Result_Set Object_Mgr
begin

text \<open>
  The database of the proxy daemon (src/proxyd/Proxy_Database.h, Proxy_Database.cpp): the
  statements each connection prepares, the requests and their observers, and the two callers
  of it under src/game/: \<open>ObjectMgr::init_max_guids\<close> and \<open>Player::create\<close>.
\<close>

section \<open>Records\<close>

text \<open>\<open>Account\<close> and \<open>Character\<close> of src/proxyd/Proxy_Socket.h.\<close>

record proxy_account =
  pa_id :: u32
  pa_gmlevel :: u8
  pa_sessionkey :: bytes
  pa_sha_pass_hash :: bytes
  pa_v :: bytes
  pa_s :: bytes
  pa_expansion :: u8

record character =
  ch_guid :: u64
  ch_race :: u8
  ch_pclass :: u8
  ch_gender :: u8
  ch_bytes :: u32
  ch_bytes2 :: u8
  ch_level :: u8
  ch_name :: bytes
  ch_x :: f32
  ch_y :: f32
  ch_z :: f32
  ch_map :: u32
  ch_zone :: u32

section \<open>Statements\<close>

datatype proxy_stmt =
    PROXYD_DB_GET_ACCT | PROXYD_DB_GET_CHAR | PROXYD_DB_GET_PLR_GUID_FROM_NAME
  | PROXYD_DB_GET_CHAR_COUNT | PROXYD_DB_GET_NUMCHAR | PROXYD_DB_INCR_NUMCHAR | PROXYD_DB_INS_CHAR
  | PROXYD_DB_LOAD_PLR_CREATEINFO | PROXYD_DB_GET_CHAR_MAX_GUID

text \<open>\<open>ProxyDatabaseConnection::open\<close>; the names of the other databases come from the configuration.\<close>

definition proxy_statements :: "bytes \<Rightarrow> bytes \<Rightarrow> (proxy_stmt \<times> bytes) list" where
  "proxy_statements realmdb worlddb = [
     (PROXYD_DB_GET_ACCT, str ''SELECT id, gmlevel, sessionkey, sha_pass_hash, v, s, expansion FROM ''
        @ realmdb @ str ''.account WHERE username = ?''),
     (PROXYD_DB_GET_CHAR, str ''SELECT guid, name, race, class, gender, level, playerBytes, playerBytes2, position_x, position_y, position_z, map, zone FROM characters WHERE account = ?''),
     (PROXYD_DB_GET_PLR_GUID_FROM_NAME, str ''SELECT guid FROM characters WHERE name = ?''),
     (PROXYD_DB_GET_CHAR_COUNT, str ''SELECT COUNT(guid) FROM characters WHERE account = ?''),
     (PROXYD_DB_GET_NUMCHAR, str ''SELECT CAST(SUM(numchars) AS unsigned) FROM ''
        @ realmdb @ str ''.realmcharacters WHERE acctid = ?''),
     (PROXYD_DB_INCR_NUMCHAR, str ''UPDATE '' @ realmdb
        @ str ''.realmcharacters SET numchars = numchars + 1 WHERE realmid = ? AND acctid = ?''),
     (PROXYD_DB_INS_CHAR, str ''INSERT INTO characters (guid, account, name, race, class, gender, level, playerBytes, playerBytes2, zone, map, position_x, position_y, position_z) VALUES (?, ?, ?, ?, ?, ?, ?, ?, ?, ?, ?, ?, ?, ?)''),
     (PROXYD_DB_LOAD_PLR_CREATEINFO, str ''SELECT race, class, map, zone, position_x, position_y, position_z FROM ''
        @ worlddb @ str ''.player_createinfo''),
     (PROXYD_DB_GET_CHAR_MAX_GUID, str ''SELECT MAX(guid) FROM characters'')]"

definition proxy_placeholders :: "bytes \<Rightarrow> nat" where
  "proxy_placeholders sql = length (filter (\<lambda>c. c = 63) sql)"

section \<open>Requests\<close>

text \<open>Who gets the result: an observer, or the caller that waits for it.\<close>

datatype proxy_obs = getAcct | getChars | loadPlayerCreateInfo | Synch

type_synonym proxy_op = "(proxy_stmt, proxy_obs) sql_op"

text \<open>What is in the queue of the worker threads.\<close>

datatype proxy_job = Request proxy_op | Transaction "proxy_op list"

definition px_get_account :: "bytes \<Rightarrow> proxy_op outcome" where
  "px_get_account login = add_string 1 login (sql_request_res PROXYD_DB_GET_ACCT getAcct)"

definition get_chars :: "u32 \<Rightarrow> proxy_op outcome" where
  "get_chars acct_id = add_uint64 1 (ucast acct_id) (sql_request_res PROXYD_DB_GET_CHAR getChars)"

definition load_player_createinfo :: proxy_op where
  "load_player_createinfo = sql_request_res PROXYD_DB_LOAD_PLR_CREATEINFO loadPlayerCreateInfo"

text \<open>\<open>enqueue_synch_query\<close>: the request gets a future of its own if it has none, goes into the
  queue, and the caller waits.  \<open>answer\<close> is the result the future will hold; \<open>None\<close> when it is
  never set.\<close>

definition enqueue_synch_query ::
    "(proxy_op \<Rightarrow> result_set option) \<Rightarrow> proxy_op \<Rightarrow> proxy_job list \<Rightarrow>
       (result_set \<times> proxy_job list) outcome" where
  "enqueue_synch_query answer op jobs =
     (let op' = (if has_result op then op else op\<lparr>observer := Some Synch\<rparr>)
      in case answer op' of None \<Rightarrow> Inl Hangs | Some res \<Rightarrow> Inr (res, jobs @ [Request op']))"

section \<open>Observers\<close>

text \<open>\<open>getAcctObsv::update\<close>: the account it stores in the connection, and the callback's argument.\<close>

definition getAcctObsv :: "result_set \<Rightarrow> (bool \<times> proxy_account option) outcome" where
  "getAcctObsv res =
     (if rs_rowsCount res = 0 then Inr (False, None)
      else obind (rs_next res) (\<lambda>(_, r).
        obind (rs_getUint32 1 r) (\<lambda>ident.
        obind (rs_getUint8 2 r) (\<lambda>gmlevel.
        obind (rs_getString 3 r) (\<lambda>sessionkey.
        obind (rs_getString 4 r) (\<lambda>hash.
        obind (rs_getString 5 r) (\<lambda>v.
        obind (rs_getString 6 r) (\<lambda>s.
        obind (rs_getUint8 7 r) (\<lambda>expansion.
          Inr (True, Some \<lparr>pa_id = ident, pa_gmlevel = gmlevel, pa_sessionkey = sessionkey,
                 pa_sha_pass_hash = hash, pa_v = v, pa_s = s, pa_expansion = expansion\<rparr>))))))))))"

definition character_row :: "result_set \<Rightarrow> character list \<Rightarrow> character list outcome" where
  "character_row r chars =
     obind (rs_getUint64 1 r) (\<lambda>guid.
     obind (rs_getString 2 r) (\<lambda>name.
     obind (rs_getUint8 3 r) (\<lambda>race.
     obind (rs_getUint8 4 r) (\<lambda>pclass.
     obind (rs_getUint8 5 r) (\<lambda>gender.
     obind (rs_getUint8 6 r) (\<lambda>level.
     obind (rs_getUint32 7 r) (\<lambda>b1.
     obind (rs_getUint8 8 r) (\<lambda>b2.
     obind (rs_getFloat 9 r) (\<lambda>x.
     obind (rs_getFloat 10 r) (\<lambda>y.
     obind (rs_getFloat 11 r) (\<lambda>z.
     obind (rs_getUint32 12 r) (\<lambda>mp.
     obind (rs_getUint32 13 r) (\<lambda>zone.
       Inr (chars @ [\<lparr>ch_guid = guid, ch_race = race, ch_pclass = pclass, ch_gender = gender,
         ch_bytes = b1, ch_bytes2 = b2, ch_level = level, ch_name = name, ch_x = x, ch_y = y, ch_z = z,
         ch_map = mp, ch_zone = zone\<rparr>]))))))))))))))"

definition getCharsObsv :: "result_set \<Rightarrow> (bool \<times> character list option) outcome" where
  "getCharsObsv res =
     (if rs_rowsCount res = 0 then Inr (False, None)
      else obind (rs_while character_row res []) (\<lambda>chars. Inr (True, Some chars)))"

definition create_info_row :: "result_set \<Rightarrow> object_mgr \<Rightarrow> object_mgr outcome" where
  "create_info_row r m =
     obind (rs_getUint8 1 r) (\<lambda>race.
     obind (rs_getUint8 2 r) (\<lambda>pclass.
     obind (rs_getUint32 3 r) (\<lambda>mid.
     obind (rs_getUint32 4 r) (\<lambda>zid.
     obind (rs_getFloat 5 r) (\<lambda>x.
     obind (rs_getFloat 6 r) (\<lambda>y.
     obind (rs_getFloat 7 r) (\<lambda>z.
       set_player_create_info race pclass
         \<lparr>map_id = mid, zone_id = zid, position_x = x, position_y = y, position_z = z\<rparr> m)))))))"

text \<open>Its callback only prints the number of rows.\<close>

definition loadPlayerCreateInfoObsv :: "result_set \<Rightarrow> object_mgr \<Rightarrow> object_mgr outcome" where
  "loadPlayerCreateInfoObsv res m =
     (if rs_rowsCount res = 0 then Inr m else rs_while create_info_row res m)"

section \<open>Guids and new characters\<close>

definition init_max_guids ::
    "(proxy_op \<Rightarrow> result_set option) \<Rightarrow> object_mgr \<times> proxy_job list \<Rightarrow> (object_mgr \<times> proxy_job list) outcome" where
  "init_max_guids answer mj =
     obind (enqueue_synch_query answer (sql_request PROXYD_DB_GET_CHAR_MAX_GUID) (snd mj)) (\<lambda>(res, jobs).
     obind (rs_next res) (\<lambda>(_, r).
     obind (rs_getUint32 1 r) (\<lambda>g.
       let m = fst mj; t = unat GUID_CHAR
       in Inr (m\<lparr>max_guids := (max_guids m)[t := g + 1]\<rparr>, jobs))))"

definition player_bytes :: "u8 \<Rightarrow> u8 \<Rightarrow> u8 \<Rightarrow> u8 \<Rightarrow> u32" where
  "player_bytes skin face hair_style hair_color =
     ucast skin OR push_bit 8 (ucast face) OR push_bit 16 (ucast hair_style) OR push_bit 24 (ucast hair_color)"

definition player_bytes2 :: "u8 \<Rightarrow> u32" where
  "player_bytes2 facial_hair =
     ucast facial_hair OR push_bit 8 0x00 OR push_bit 16 0x00 OR push_bit 24 0x02"

text \<open>\<open>Player::create\<close>: the request it appends to the transaction.\<close>

definition Player_create ::
    "object_mgr \<Rightarrow> u32 \<Rightarrow> u32 \<Rightarrow> bytes \<Rightarrow> u8 \<Rightarrow> u8 \<Rightarrow> u8 \<Rightarrow> u8 \<Rightarrow> u8 \<Rightarrow> u8 \<Rightarrow> u8 \<Rightarrow> u8 \<Rightarrow> u8 \<Rightarrow>
       proxy_op list \<Rightarrow> proxy_op list outcome" where
  "Player_create m low_guid account name race pclass gender skin face hair_style hair_color
     facial_hair outfit_id txn =
     obind (add_uint32 1 low_guid (sql_request PROXYD_DB_INS_CHAR)) (\<lambda>op.
     obind (add_uint32 2 account op) (\<lambda>op.
     obind (add_string 3 name op) (\<lambda>op.
     obind (add_uint8 4 race op) (\<lambda>op.
     obind (add_uint8 5 pclass op) (\<lambda>op.
     obind (add_uint8 6 gender op) (\<lambda>op.
     obind (add_uint32 7 1 op) (\<lambda>op.
     obind (add_uint32 8 (player_bytes skin face hair_style hair_color) op) (\<lambda>op.
     obind (add_uint32 9 (player_bytes2 facial_hair) op) (\<lambda>op.
     obind (get_player_create_info race pclass m) (\<lambda>pci.
     obind (add_uint32 10 (zone_id pci) op) (\<lambda>op.
     obind (add_uint32 11 (map_id pci) op) (\<lambda>op.
     obind (add_float 12 (position_x pci) op) (\<lambda>op.
     obind (add_float 13 (position_y pci) op) (\<lambda>op.
     obind (add_float 14 (position_z pci) op) (\<lambda>op.
       Inr (txn @ [op]))))))))))))))))"

section \<open>Lemmas\<close>

lemma proxy_requests_eval:
  "px_get_account login = Inr ((sql_request_res PROXYD_DB_GET_ACCT getAcct)\<lparr>statement_data := [slot_string login]\<rparr>)"
  "get_chars i = Inr ((sql_request_res PROXYD_DB_GET_CHAR getChars)\<lparr>statement_data := [slot_uint64 (ucast i)]\<rparr>)"
  by (simp_all add: px_get_account_def get_chars_def sql_simps)

lemma Player_create_eval:
  "Player_create m low_guid account name race pclass gender skin face hair_style hair_color
     facial_hair outfit_id txn =
   obind (get_player_create_info race pclass m) (\<lambda>pci.
     Inr (txn @ [(sql_request PROXYD_DB_INS_CHAR)\<lparr>statement_data :=
       [slot_uint32 low_guid, slot_uint32 account, slot_string name, slot_uint8 race, slot_uint8 pclass,
        slot_uint8 gender, slot_uint32 1, slot_uint32 (player_bytes skin face hair_style hair_color),
        slot_uint32 (player_bytes2 facial_hair), slot_uint32 (zone_id pci), slot_uint32 (map_id pci),
        slot_float (position_x pci), slot_float (position_y pci), slot_float (position_z pci)]\<rparr>]))"
  by (cases "get_player_create_info race pclass m") (simp_all add: Player_create_def sql_simps)

definition proxy_op_ok :: "bytes \<Rightarrow> bytes \<Rightarrow> proxy_op \<Rightarrow> bool" where
  "proxy_op_ok realmdb worlddb op \<longleftrightarrow>
     (\<exists>sql. map_of (proxy_statements realmdb worlddb) (statement op) = Some sql \<and>
            length (statement_data op) = proxy_placeholders sql)"

lemma proxy_placeholders_append [simp]:
  "proxy_placeholders (xs @ ys) = proxy_placeholders xs + proxy_placeholders ys"
  by (simp add: proxy_placeholders_def)

lemma proxy_placeholders_prepared:
  assumes "proxy_placeholders realmdb = 0" and "proxy_placeholders worlddb = 0"
  shows "map_option proxy_placeholders (map_of (proxy_statements realmdb worlddb) s) = Some (case s of
       PROXYD_DB_GET_ACCT \<Rightarrow> 1 | PROXYD_DB_GET_CHAR \<Rightarrow> 1 | PROXYD_DB_GET_PLR_GUID_FROM_NAME \<Rightarrow> 1
     | PROXYD_DB_GET_CHAR_COUNT \<Rightarrow> 1 | PROXYD_DB_GET_NUMCHAR \<Rightarrow> 1 | PROXYD_DB_INCR_NUMCHAR \<Rightarrow> 2
     | PROXYD_DB_INS_CHAR \<Rightarrow> 14 | PROXYD_DB_LOAD_PLR_CREATEINFO \<Rightarrow> 0 | PROXYD_DB_GET_CHAR_MAX_GUID \<Rightarrow> 0)"
  by (cases s; simp add: proxy_statements_def assms; simp add: proxy_placeholders_def str_def)

lemma player_bytes_fields:
  "ucast (player_bytes skin face hs hc) = skin"
  "ucast (drop_bit 8 (player_bytes skin face hs hc)) = face"
  "ucast (drop_bit 16 (player_bytes skin face hs hc)) = hs"
  "ucast (drop_bit 24 (player_bytes skin face hs hc)) = hc"
  "ucast (player_bytes2 facial_hair) AND 0xFF = facial_hair"
proof -
  have ff: "(0xFF :: u8) = mask 8" by (simp add: mask_eq_exp_minus_1)
  show "ucast (player_bytes skin face hs hc) = skin"
    "ucast (drop_bit 8 (player_bytes skin face hs hc)) = face"
    "ucast (drop_bit 16 (player_bytes skin face hs hc)) = hs"
    "ucast (drop_bit 24 (player_bytes skin face hs hc)) = hc"
    by (rule bit_word_eqI, auto simp: player_bytes_def bit_simps dest: bit_imp_le_length)+
  show "ucast (player_bytes2 facial_hair) AND 0xFF = facial_hair"
  proof -
    have "ucast (ucast facial_hair OR push_bit 8 a OR push_bit 16 b OR push_bit 24 c) AND mask 8 = facial_hair"
      for a b c :: u32
      by (rule bit_word_eqI) (auto simp: bit_simps dest: bit_imp_le_length)
    then show ?thesis unfolding player_bytes2_def ff .
  qed
qed

end
