(* ===== verification/Dbc_File.thy ===== *)
theory Dbc_File
  imports Float_Bits
begin

text \<open>
  Reading the client's data files (src/common/dbc/DBC_File.h and .cpp).  The \<open>std::ifstream\<close> is
  its contents, its read position and its fail state: once a read has hit the end of the
  file, reads deliver nothing and seeks have no effect.  The variables that a failed read leaves
  unset hold \<open>junk_word\<close> and \<open>junk_char\<close>.  The host is little-endian; the code does not convert.
\<close>

section \<open>State\<close>

record dbc_file =
  dbc_data :: bytes
  getp :: nat
  failed :: bool
  dbc_records :: u32
  dbc_record_size :: u32
  dbc_field_size :: u32
  dbc_fields :: u32
  dbc_data_size :: u32
  dbc_string_block_size :: u32
  junk_word :: u32
  junk_char :: byte

section \<open>The stream\<close>

text \<open>\<open>read(p, 4)\<close>: a short read stores what there is.\<close>

definition read_word :: "dbc_file \<Rightarrow> u32 \<times> dbc_file" where
  "read_word f =
     (if failed f then (junk_word f, f)
      else
        let bs = take 4 (drop (getp f) (dbc_data f))
        in if length bs = 4 then (of_le bs, f\<lparr>getp := getp f + 4\<rparr>)
           else (of_le (bs @ drop (length bs) (le_bytes 4 (junk_word f))),
                 f\<lparr>getp := getp f + length bs, failed := True\<rparr>))"

definition read_uint32 :: "dbc_file \<Rightarrow> u32 \<times> dbc_file" where
  "read_uint32 f = read_word f"

definition read_float :: "dbc_file \<Rightarrow> f32 \<times> dbc_file" where
  "read_float f = read_word f"

definition seekg :: "nat \<Rightarrow> dbc_file \<Rightarrow> dbc_file" where
  "seekg p f = (if failed f then f else f\<lparr>getp := p\<rparr>)"

definition tellg :: "dbc_file \<Rightarrow> u32" where
  "tellg f = (if failed f then - 1 else of_nat (getp f))"

definition skip_field :: "dbc_file \<Rightarrow> dbc_file" where
  "skip_field f = seekg (getp f + unat (dbc_field_size f)) f"

text \<open>The loop of \<open>read_string\<close> over the rest of the file: at the end \<open>c\<close> keeps its value, and
  the loop ends only if that is zero.\<close>

fun string_loop :: "byte \<Rightarrow> bytes \<Rightarrow> bytes \<Rightarrow> (bytes \<times> nat \<times> bool) outcome" where
  "string_loop c [] ret = (if c = 0 then Inr (ret, 0, True) else Inl Hangs)"
| "string_loop c (d # rest) ret =
     (if d = 0 then Inr (ret, length rest, False) else string_loop d rest (ret @ [d]))"

definition dbc_msg :: "string \<Rightarrow> fault" where
  "dbc_msg s = Thrown (str s)"

definition read_string :: "dbc_file \<Rightarrow> (bytes \<times> dbc_file) outcome" where
  "read_string f =
     (if dbc_string_block_size f \<le> 1 then Inl (dbc_msg ''DBC doesn't have string block.'')
      else
        let (offset, f1) = read_uint32 f;
            get_ptr = tellg f1;
            f2 = seekg (unat (dbc_data_size f1 + offset)) f1
        in if failed f2
           then (if junk_char f2 = 0 then Inr ([], seekg (unat get_ptr) f2) else Inl Hangs)
           else obind (string_loop (junk_char f2) (drop (getp f2) (dbc_data f2)) []) (\<lambda>(ret, left, eof).
             Inr (ret, seekg (unat get_ptr) (f2\<lparr>getp := length (dbc_data f2) - left, failed := eof\<rparr>))))"

text \<open>The constructor; \<open>contents\<close> is \<open>None\<close> if the file cannot be opened.\<close>

definition DBC_File :: "u32 \<Rightarrow> byte \<Rightarrow> bytes option \<Rightarrow> dbc_file outcome" where
  "DBC_File jw jc contents = (case contents of
       None \<Rightarrow> Inl (dbc_msg ''Could not open file!'')
     | Some bs \<Rightarrow>
         let f0 = \<lparr>dbc_data = bs, getp = 0, failed = False, dbc_records = jw, dbc_record_size = jw,
                   dbc_field_size = jw, dbc_fields = jw, dbc_data_size = jw, dbc_string_block_size = jw,
                   junk_word = jw, junk_char = jc\<rparr>;
             (magic, f1) = read_uint32 f0
         in if magic \<noteq> 0x43424457 then Inl (dbc_msg ''File is not a valid DBC store.'')
            else
              let (r, f2) = read_uint32 f1; (n, f3) = read_uint32 f2;
                  (rs, f4) = read_uint32 f3; (sb, f5) = read_uint32 f4
              in if n = 0 then Inl Div_by_zero
                 else Inr (f5\<lparr>dbc_records := r, dbc_fields := n, dbc_record_size := rs,
                              dbc_string_block_size := sb,
                              dbc_field_size := of_nat (unat rs div unat n),
                              dbc_data_size := r * rs + 20\<rparr>))"

section \<open>Well-formed files\<close>

text \<open>A file with rows of \<open>nf\<close> four-byte fields and a string block, as it is laid out on disk.\<close>

definition word_bytes :: "u32 \<Rightarrow> bytes" where
  "word_bytes w = le_bytes 4 w"

definition dbc_image :: "nat \<Rightarrow> u32 list list \<Rightarrow> bytes \<Rightarrow> bytes" where
  "dbc_image nf rows strings =
     concat (map word_bytes [0x43424457, of_nat (length rows), of_nat nf, of_nat (4 * nf), of_nat (length strings)]) @
     concat (map word_bytes (concat rows)) @ strings"

definition dbc_image_ok :: "nat \<Rightarrow> u32 list list \<Rightarrow> bytes \<Rightarrow> bool" where
  "dbc_image_ok nf rows strings \<longleftrightarrow>
     0 < nf \<and> list_all (\<lambda>r. length r = nf) rows \<and> 1 < length strings \<and>
     4 * nf < 2 ^ 32 \<and> 20 + 4 * nf * length rows + length strings < 2 ^ 32"

text \<open>The string at an offset of the string block.\<close>

definition block_string :: "bytes \<Rightarrow> u32 \<Rightarrow> bytes" where
  "block_string strings offset = takeWhile (\<lambda>c. c \<noteq> 0) (drop (unat offset) strings)"

definition offset_ok :: "bytes \<Rightarrow> u32 \<Rightarrow> bool" where
  "offset_ok strings offset \<longleftrightarrow> 0 \<in> set (drop (unat offset) strings)"

section \<open>Laws\<close>

lemma unat_u32: "n < 2 ^ 32 \<Longrightarrow> unat (of_nat n :: u32) = n"
  by (rule unat_of_nat_small) simp

lemma length_word_bytes [simp]: "length (word_bytes w) = 4"
  by (simp add: word_bytes_def)

lemma of_le_word_bytes [simp]: "of_le (word_bytes w) = w"
  by (simp add: word_bytes_def)

lemma length_concat_words [simp]: "length (concat (map word_bytes ws)) = 4 * length ws"
  by (induction ws) simp_all

text \<open>The file is positioned before the fields \<open>ws\<close>: the relation that reading preserves.\<close>

definition at_fields :: "u32 list \<Rightarrow> dbc_file \<Rightarrow> bool" where
  "at_fields ws f \<longleftrightarrow> \<not> failed f \<and>
     (\<exists>tail. drop (getp f) (dbc_data f) = concat (map word_bytes ws) @ tail)"

lemma at_fields_read:
  assumes "at_fields (w # ws) f"
  shows "read_uint32 f = (w, f\<lparr>getp := getp f + 4\<rparr>)" and "at_fields ws (f\<lparr>getp := getp f + 4\<rparr>)"
proof -
  obtain tail where t: "\<not> failed f" "drop (getp f) (dbc_data f) = word_bytes w @ concat (map word_bytes ws) @ tail"
    using assms by (auto simp: at_fields_def)
  then show "read_uint32 f = (w, f\<lparr>getp := getp f + 4\<rparr>)"
    by (simp add: read_uint32_def read_word_def)
  have "drop (getp f + 4) (dbc_data f) = concat (map word_bytes ws) @ tail"
    using arg_cong [OF t(2), of "drop 4"] by (simp add: add.commute)
  with t(1) show "at_fields ws (f\<lparr>getp := getp f + 4\<rparr>)" by (auto simp: at_fields_def)
qed

lemma at_fields_skip:
  assumes "at_fields (w # ws) f" and "dbc_field_size f = 4"
  shows "skip_field f = f\<lparr>getp := getp f + 4\<rparr>" and "at_fields ws (f\<lparr>getp := getp f + 4\<rparr>)"
  using assms at_fields_read(2) [OF assms(1)]
  by (auto simp: skip_field_def seekg_def at_fields_def)

lemma string_loop_ends:
  "0 \<in> set rest \<Longrightarrow>
     string_loop c rest ret = Inr (ret @ takeWhile (\<lambda>d. d \<noteq> 0) rest, length rest - Suc (length (takeWhile (\<lambda>d. d \<noteq> 0) rest)), False)"
  by (induction rest arbitrary: c ret) auto

lemma string_loop_unended:
  "0 \<notin> set rest \<Longrightarrow> rest \<noteq> [] \<or> c \<noteq> 0 \<Longrightarrow> string_loop c rest ret = Inl Hangs"
  by (induction rest arbitrary: c ret) auto

text \<open>Where the string block of a file starts and what it holds.\<close>

definition string_block :: "bytes \<Rightarrow> dbc_file \<Rightarrow> bool" where
  "string_block strings f \<longleftrightarrow> 1 < dbc_string_block_size f \<and>
     drop (unat (dbc_data_size f)) (dbc_data f) = strings \<and>
     unat (dbc_data_size f) + length strings < 2 ^ 32"

lemma at_fields_string:
  assumes "at_fields (w # ws) f" and "string_block strings f" and "offset_ok strings w"
    and "length (dbc_data f) < 2 ^ 32"
  shows "read_string f = Inr (block_string strings w, f\<lparr>getp := getp f + 4\<rparr>)"
    and "at_fields ws (f\<lparr>getp := getp f + 4\<rparr>)"
proof -
  note r = at_fields_read [OF assms(1)]
  show "at_fields ws (f\<lparr>getp := getp f + 4\<rparr>)" by (rule r(2))
  have nf: "\<not> failed f" using assms(1) by (simp add: at_fields_def)
  have "unat w < length strings"
    using assms(3) by (metis drop_all empty_iff empty_set leI offset_ok_def)
  then have off: "unat (dbc_data_size f + w) = unat (dbc_data_size f) + unat w"
    using assms(2) by (simp add: string_block_def unat_word_ariths)
  have str: "drop (unat (dbc_data_size f + w)) (dbc_data f) = drop (unat w) strings"
    using assms(2) unfolding off by (auto simp: string_block_def drop_drop add.commute)
  have "getp f + 4 \<le> length (dbc_data f)"
  proof -
    obtain tail where "drop (getp f) (dbc_data f) = word_bytes w @ concat (map word_bytes ws) @ tail"
      using assms(1) by (auto simp: at_fields_def)
    from arg_cong [OF this, of length] show ?thesis by simp
  qed
  then have ptr: "unat (of_nat (getp f + 4) :: u32) = getp f + 4"
    using assms(4) by (intro unat_of_nat_small) simp
  have loop: "string_loop c (drop (unat w) strings) []
      = Inr (block_string strings w, length (drop (unat w) strings) - Suc (length (block_string strings w)), False)" for c
    using string_loop_ends [of "drop (unat w) strings" c "[]"] assms(3)
    by (simp add: block_string_def offset_ok_def)
  show "read_string f = Inr (block_string strings w, f\<lparr>getp := getp f + 4\<rparr>)"
    using assms(2) nf ptr
    by (simp add: read_string_def r(1) seekg_def tellg_def str loop string_block_def not_le [symmetric] Let_def)
qed

end
