(* ===== verification/Dbc_Store.thy ===== *)
theory Dbc_Store
  imports Dbc_File
begin

text \<open>
  The stores of the data files (src/common/dbc/DBC_Store.h and .cpp): the four loaders, each a
  loop over the records of its file.  An unordered map is a partial function.  The \<open>name\<close>
  members keep pointers into strings that are gone by then, so that only the reading of the
  names is modelled.
\<close>

section \<open>Entries\<close>

record item_entry =
  display_id :: u32
  inventory_type :: u32
  sheath :: u32

record enchantment_entry =
  ench_type :: "u32 list"
  ench_amount :: "u32 list"
  ench_spell_id :: "u32 list"
  ench_desc :: bytes
  aura_id :: u32
  ench_slot :: u32
  gem_id :: u32
  enchantment_condition :: u32

record chr_races_entry =
  race_id :: u32
  faction_id :: u32
  model_m :: u32
  model_f :: u32
  team_id :: u32
  startmovie :: u32
  race_addon :: u32

record chr_classes_entry =
  class_id :: u32
  powertype :: u32
  spellfamily :: u32

record dbc_store =
  dbc_path :: bytes
  items :: "u32 \<Rightarrow> item_entry option"
  spell_item_enchantments :: "u32 \<Rightarrow> enchantment_entry option"
  chr_races :: "u32 \<Rightarrow> chr_races_entry option"
  chr_classes :: "u32 \<Rightarrow> chr_classes_entry option"

text \<open>\<open>open\<close>: \<open>dbc\<close> is the configured directory, \<open>exists\<close> whether a directory can be opened.\<close>

definition dbc_open :: "bytes \<Rightarrow> (bytes \<Rightarrow> bool) \<Rightarrow> dbc_store \<Rightarrow> dbc_store outcome" where
  "dbc_open dbc exists d =
     (let p = (if dbc \<noteq> [] \<and> last dbc \<noteq> 47 then dbc @ [47] else dbc)
      in if exists p then Inr (d\<lparr>dbc_path := p\<rparr>) else Inl (Thrown p))"

section \<open>Reading records\<close>

fun skip_fields :: "nat \<Rightarrow> dbc_file \<Rightarrow> dbc_file" where
  "skip_fields 0 f = f"
| "skip_fields (Suc n) f = skip_fields n (skip_field f)"

fun read_strings :: "nat \<Rightarrow> dbc_file \<Rightarrow> dbc_file outcome" where
  "read_strings 0 f = Inr f"
| "read_strings (Suc n) f = obind (read_string f) (\<lambda>(_, f'). read_strings n f')"

text \<open>The bodies of the loops.\<close>

definition item_record :: "dbc_file \<Rightarrow> dbc_store \<Rightarrow> (dbc_file \<times> dbc_store) outcome" where
  "item_record f d =
     (let (entry, f) = read_uint32 f; (did, f) = read_uint32 f; (itype, f) = read_uint32 f;
          (sh, f) = read_uint32 f
      in Inr (f, d\<lparr>items := (items d)(entry \<mapsto> \<lparr>display_id = did, inventory_type = itype, sheath = sh\<rparr>)\<rparr>))"

definition enchantment_record :: "dbc_file \<Rightarrow> dbc_store \<Rightarrow> (dbc_file \<times> dbc_store) outcome" where
  "enchantment_record f d =
     (let (entry, f) = read_uint32 f;
          (t0, f) = read_uint32 f; (t1, f) = read_uint32 f; (t2, f) = read_uint32 f;
          (a0, f) = read_uint32 f; (a1, f) = read_uint32 f; (a2, f) = read_uint32 f;
          f = skip_fields 3 f;
          (s0, f) = read_uint32 f; (s1, f) = read_uint32 f; (s2, f) = read_uint32 f
      in obind (read_string f) (\<lambda>(desc, f).
         let f = skip_fields 16 f;
             (aura, f) = read_uint32 f; (slot, f) = read_uint32 f; (gem, f) = read_uint32 f;
             (cond, f) = read_uint32 f
         in Inr (f, d\<lparr>spell_item_enchantments := (spell_item_enchantments d)(entry \<mapsto>
              \<lparr>ench_type = [t0, t1, t2], ench_amount = [a0, a1, a2], ench_spell_id = [s0, s1, s2],
               ench_desc = desc, aura_id = aura, ench_slot = slot, gem_id = gem,
               enchantment_condition = cond\<rparr>)\<rparr>)))"

definition chr_races_record :: "dbc_file \<Rightarrow> dbc_store \<Rightarrow> (dbc_file \<times> dbc_store) outcome" where
  "chr_races_record f d =
     (let (entry, f) = read_uint32 f;
          f = skip_field f;
          (faction, f) = read_uint32 f;
          f = skip_field f;
          (mm, f) = read_uint32 f; (mf, f) = read_uint32 f;
          f = skip_field (skip_field f);
          (team, f) = read_uint32 f;
          f = skip_fields 4 f;
          (movie, f) = read_uint32 f
      in obind (read_strings 16 f) (\<lambda>f.
         let f = skip_fields 38 f;
             (addon, f) = read_uint32 f
         in Inr (f, d\<lparr>chr_races := (chr_races d)(entry \<mapsto>
              \<lparr>race_id = entry, faction_id = faction, model_m = mm, model_f = mf, team_id = team,
               startmovie = movie, race_addon = addon\<rparr>)\<rparr>)))"

definition chr_classes_record :: "dbc_file \<Rightarrow> dbc_store \<Rightarrow> (dbc_file \<times> dbc_store) outcome" where
  "chr_classes_record f d =
     (let (entry, f) = read_uint32 f;
          f = skip_field f;
          (power, f) = read_uint32 f;
          f = skip_field f
      in obind (read_strings 16 f) (\<lambda>f.
         let f = skip_fields 36 f;
             (family, f) = read_uint32 f;
             f = skip_field f
         in Inr (f, d\<lparr>chr_classes := (chr_classes d)(entry \<mapsto>
              \<lparr>class_id = entry, powertype = power, spellfamily = family\<rparr>)\<rparr>)))"

fun load_records ::
    "(dbc_file \<Rightarrow> 'd \<Rightarrow> (dbc_file \<times> 'd) outcome) \<Rightarrow> nat \<Rightarrow> dbc_file \<Rightarrow> 'd \<Rightarrow> 'd outcome" where
  "load_records body 0 f d = Inr d"
| "load_records body (Suc n) f d = obind (body f d) (\<lambda>(f', d'). load_records body n f' d')"

text \<open>The loaders.  \<open>fs\<close> is the file system, \<open>jw\<close> and \<open>jc\<close> the contents of unset variables.\<close>

definition load_dbc ::
    "u32 \<Rightarrow> byte \<Rightarrow> (bytes \<Rightarrow> bytes option) \<Rightarrow> string \<Rightarrow>
     (dbc_file \<Rightarrow> dbc_store \<Rightarrow> (dbc_file \<times> dbc_store) outcome) \<Rightarrow> dbc_store \<Rightarrow> dbc_store outcome" where
  "load_dbc jw jc fs name body d =
     obind (DBC_File jw jc (fs (dbc_path d @ str name))) (\<lambda>f.
       load_records body (unat (dbc_records f)) f d)"

definition load_item_dbc :: "u32 \<Rightarrow> byte \<Rightarrow> (bytes \<Rightarrow> bytes option) \<Rightarrow> dbc_store \<Rightarrow> dbc_store outcome" where
  "load_item_dbc jw jc fs = load_dbc jw jc fs ''Item.dbc'' item_record"

definition load_spell_item_enchantments_dbc ::
    "u32 \<Rightarrow> byte \<Rightarrow> (bytes \<Rightarrow> bytes option) \<Rightarrow> dbc_store \<Rightarrow> dbc_store outcome" where
  "load_spell_item_enchantments_dbc jw jc fs =
     load_dbc jw jc fs ''SpellItemEnchantment.dbc'' enchantment_record"

definition load_chr_races_dbc :: "u32 \<Rightarrow> byte \<Rightarrow> (bytes \<Rightarrow> bytes option) \<Rightarrow> dbc_store \<Rightarrow> dbc_store outcome" where
  "load_chr_races_dbc jw jc fs = load_dbc jw jc fs ''ChrRaces.dbc'' chr_races_record"

definition load_chr_classes_dbc :: "u32 \<Rightarrow> byte \<Rightarrow> (bytes \<Rightarrow> bytes option) \<Rightarrow> dbc_store \<Rightarrow> dbc_store outcome" where
  "load_chr_classes_dbc jw jc fs = load_dbc jw jc fs ''ChrClasses.dbc'' chr_classes_record"

section \<open>Loading well-formed files\<close>

text \<open>A loader's body as a locale: on a file positioned before a row it consumes the row and
  stores what the row means.\<close>

locale record_loader =
  fixes body :: "dbc_file \<Rightarrow> dbc_store \<Rightarrow> (dbc_file \<times> dbc_store) outcome"
    and width :: nat
    and row_ok :: "bytes \<Rightarrow> u32 list \<Rightarrow> bool"
    and store :: "bytes \<Rightarrow> u32 list \<Rightarrow> dbc_store \<Rightarrow> dbc_store"
  assumes row_read: "at_fields (row @ ws) f \<Longrightarrow> length row = width \<Longrightarrow> dbc_field_size f = 4 \<Longrightarrow>
      string_block strings f \<Longrightarrow> length (dbc_data f) < 2 ^ 32 \<Longrightarrow> row_ok strings row \<Longrightarrow>
      body f d = Inr (f\<lparr>getp := getp f + 4 * width\<rparr>, store strings row d) \<and>
      at_fields ws (f\<lparr>getp := getp f + 4 * width\<rparr>)"
begin

lemma rows_loaded:
  "at_fields (concat rows) f \<Longrightarrow> \<forall>r\<in>set rows. length r = width \<and> row_ok strings r \<Longrightarrow>
   dbc_field_size f = 4 \<Longrightarrow> string_block strings f \<Longrightarrow> length (dbc_data f) < 2 ^ 32 \<Longrightarrow>
     load_records body (length rows) f d = Inr (fold (store strings) rows d)"
proof (induction rows arbitrary: f d)
  case Nil
  then show ?case by simp
next
  case (Cons r rows)
  let ?f = "f\<lparr>getp := getp f + 4 * width\<rparr>"
  have r: "body f d = Inr (?f, store strings r d)" "at_fields (concat rows) ?f"
    using row_read [of r "concat rows" f strings d] Cons.prems by auto
  have "string_block strings ?f" using Cons.prems(4) by (simp add: string_block_def)
  then show ?case
    using Cons.IH [OF r(2), of "store strings r d"] r(1) Cons.prems by simp
qed

end

lemma DBC_File_image:
  assumes "dbc_image_ok nf rows strings"
  shows "\<exists>f. DBC_File jw jc (Some (dbc_image nf rows strings)) = Inr f \<and>
           unat (dbc_records f) = length rows \<and> dbc_field_size f = 4 \<and> at_fields (concat rows) f \<and>
           string_block strings f \<and> length (dbc_data f) < 2 ^ 32"
proof -
  define r n w b :: u32 where h: "r = of_nat (length rows)" "n = of_nat nf" "w = of_nat (4 * nf)" "b = of_nat (length strings)"
  let ?bs = "dbc_image nf rows strings"
  have "length (concat rows) = nf * length rows" if "list_all (\<lambda>r. length r = nf) rows" for rows :: "u32 list list"
    using that by (induction rows) simp_all
  then have rows: "length (concat rows) = nf * length rows"
    using assms by (simp add: dbc_image_ok_def)
  have pos: "0 < nf" "1 < length strings" and bound: "4 * nf < 2 ^ 32"
      "20 + 4 * nf * length rows + length strings < 2 ^ 32"
    using assms by (auto simp: dbc_image_ok_def)
  have "length rows \<le> nf * length rows" using pos(1) by (cases nf) auto
  then have "length rows < 2 ^ 32" "nf < 2 ^ 32" "length strings < 2 ^ 32"
    using bound by linarith+
  then have u: "unat r = length rows" "unat n = nf" "unat w = 4 * nf" "unat b = length strings"
    unfolding h using bound(1) by (simp_all only: unat_u32)
  have len: "length ?bs = 20 + 4 * nf * length rows + length strings"
    by (simp add: dbc_image_def rows)
  define f0 where "f0 = \<lparr>dbc_data = ?bs, getp = 0, failed = False, dbc_records = jw, dbc_record_size = jw,
                   dbc_field_size = jw, dbc_fields = jw, dbc_data_size = jw, dbc_string_block_size = jw,
                   junk_word = jw, junk_char = jc\<rparr>"
  have at0: "at_fields ([0x43424457, r, n, w, b] @ concat rows) f0"
    unfolding at_fields_def f0_def dbc_image_def h by (simp add: exI [of _ strings])
  have g0: "getp f0 = 0" by (simp add: f0_def)
  let ?f5 = "f0\<lparr>getp := 20\<rparr>"
  note r0 = at_fields_read [OF at0 [unfolded append_Cons append_Nil], unfolded g0 add_0]
  note r1 = at_fields_read [OF r0(2)]
  have s1: "read_uint32 (f0\<lparr>getp := 4\<rparr>) = (r, f0\<lparr>getp := 8\<rparr>)"
      "at_fields (n # w # b # concat rows) (f0\<lparr>getp := 8\<rparr>)"
    using r1 by simp_all
  have s2: "read_uint32 (f0\<lparr>getp := 8\<rparr>) = (n, f0\<lparr>getp := 12\<rparr>)"
      "at_fields (w # b # concat rows) (f0\<lparr>getp := 12\<rparr>)"
    using at_fields_read [OF s1(2)] by simp_all
  have s3: "read_uint32 (f0\<lparr>getp := 12\<rparr>) = (w, f0\<lparr>getp := 16\<rparr>)"
      "at_fields (b # concat rows) (f0\<lparr>getp := 16\<rparr>)"
    using at_fields_read [OF s2(2)] by simp_all
  have s4: "read_uint32 (f0\<lparr>getp := 16\<rparr>) = (b, ?f5)" "at_fields (concat rows) ?f5"
    using at_fields_read [OF s3(2)] by simp_all
  define f where "f = ?f5\<lparr>dbc_records := r, dbc_fields := n, dbc_record_size := w, dbc_string_block_size := b,
               dbc_field_size := of_nat (unat w div unat n), dbc_data_size := r * w + 20\<rparr>"
  have n0: "n \<noteq> 0" using u(2) pos(1) by auto
  have img: "DBC_File jw jc (Some ?bs) = Inr f"
    unfolding DBC_File_def option.case Let_def f0_def [symmetric] r0(1) s1(1) s2(1) s3(1) s4(1) prod.case f_def
    using n0 by simp
  have data: "dbc_data f = ?bs" by (simp add: f_def f0_def)
  have "dbc_field_size f = of_nat (unat w div unat n)" by (simp add: f_def)
  also have "unat w div unat n = 4" using u(2,3) pos(1) by simp
  finally have four: "dbc_field_size f = 4" by simp
  have fields: "at_fields (concat rows) f"
    using s4(2) unfolding at_fields_def f_def by simp
  have "unat r * unat w < 2 ^ 32" using u(1,3) bound(2) by (simp add: mult.commute mult.left_commute)
  then have rw: "unat (r * w) = 4 * nf * length rows"
    by (simp add: unat_word_ariths(2) u(1,3))
  have "unat (r * w) + unat (20 :: u32) < 2 ^ 32" unfolding rw using bound(2) by simp
  then have "unat (r * w + 20) = unat (r * w) + unat (20 :: u32)"
    by (simp add: unat_word_ariths(1))
  then have size: "unat (dbc_data_size f) = 20 + 4 * nf * length rows"
    unfolding rw by (simp add: f_def)
  have "drop (20 + 4 * nf * length rows) ?bs = strings"
    by (simp add: dbc_image_def rows)
  moreover have "1 < dbc_string_block_size f"
    using u(4) pos(2) by (simp add: f_def word_less_nat_alt)
  ultimately have block: "string_block strings f"
    unfolding string_block_def size data using bound(2) by blast
  have "unat (dbc_records f) = length rows" using u(1) by (simp add: f_def)
  moreover have "length (dbc_data f) < 2 ^ 32" unfolding data len by (rule bound(2))
  ultimately show ?thesis using img four fields block by blast
qed

lemma length_rows: "dbc_image_ok nf rows strings \<Longrightarrow> r \<in> set rows \<Longrightarrow> length r = nf"
  by (auto simp: dbc_image_ok_def list_all_iff)

context record_loader
begin

lemma image_loaded:
  assumes "dbc_image_ok width rows strings" and "\<forall>r\<in>set rows. row_ok strings r"
    and "fs (dbc_path d @ str name) = Some (dbc_image width rows strings)"
  shows "load_dbc jw jc fs name body d = Inr (fold (store strings) rows d)"
proof -
  from DBC_File_image [OF assms(1)] obtain f where
    f: "DBC_File jw jc (Some (dbc_image width rows strings)) = Inr f" "unat (dbc_records f) = length rows"
      "dbc_field_size f = 4" "at_fields (concat rows) f" "string_block strings f" "length (dbc_data f) < 2 ^ 32"
    by blast
  have "\<forall>r\<in>set rows. length r = width \<and> row_ok strings r"
    using assms(2) length_rows [OF assms(1)] by blast
  from rows_loaded [OF f(4) this f(3,5,6)] show ?thesis
    by (simp add: load_dbc_def assms(3) f(1,2))
qed

end

section \<open>What the four loaders store\<close>

text \<open>The file \<open>k\<close> fields on.\<close>

definition ahead :: "dbc_file \<Rightarrow> nat \<Rightarrow> dbc_file" where
  "ahead f k = f\<lparr>getp := getp f + 4 * k\<rparr>"

lemma ahead_simps [simp]:
  "failed (ahead f k) = failed f" "dbc_field_size (ahead f k) = dbc_field_size f"
  "string_block strings (ahead f k) = string_block strings f" "dbc_data (ahead f k) = dbc_data f"
  "ahead f 0 = f"
  by (simp_all add: ahead_def string_block_def)

lemma at_row:
  "at_fields (drop k row @ ws) f \<Longrightarrow> k < length row \<Longrightarrow> at_fields (row ! k # drop (Suc k) row @ ws) f"
  by (metis Cons_nth_drop_Suc append_Cons)

lemma at_fields_ahead:
  "at_fields (row @ ws) f \<Longrightarrow> k \<le> length row \<Longrightarrow> at_fields (drop k row @ ws) (ahead f k)"
proof (induction k)
  case 0
  then show ?case by simp
next
  case (Suc k)
  then have "at_fields (drop k row @ ws) (ahead f k)" by simp
  from at_fields_read(2) [OF at_row [OF this]] Suc.prems(2) show ?case by (simp add: ahead_def algebra_simps)
qed

lemma read_ahead:
  assumes "at_fields (row @ ws) f" and "k < length row"
  shows "read_uint32 (ahead f k) = (row ! k, ahead f (k + 1))"
  using at_fields_read(1) [OF at_row [OF at_fields_ahead [OF assms(1)]]] assms(2) by (simp add: ahead_def)

lemma string_ahead:
  assumes "at_fields (row @ ws) f" and "k < length row" and "string_block strings f"
    and "length (dbc_data f) < 2 ^ 32" and "offset_ok strings (row ! k)"
  shows "read_string (ahead f k) = Inr (block_string strings (row ! k), ahead f (k + 1))"
  using at_fields_string(1) [OF at_row [OF at_fields_ahead [OF assms(1)]], of k strings] assms(2-5)
  by (simp add: ahead_def string_block_def)

lemma skip_ahead:
  assumes "\<not> failed f" and "dbc_field_size f = 4"
  shows "skip_field (ahead f k) = ahead f (k + 1)" and "skip_fields n (ahead f k) = ahead f (k + n)"
proof -
  have step: "skip_field (ahead f k) = ahead f (k + 1)" for k
    using assms by (simp add: skip_field_def seekg_def) (simp add: ahead_def)
  then show "skip_field (ahead f k) = ahead f (k + 1)" .
  show "skip_fields n (ahead f k) = ahead f (k + n)"
    by (induction n arbitrary: k) (simp_all add: step)
qed

lemma strings_ahead:
  assumes "at_fields (row @ ws) f" and "string_block strings f" and "length (dbc_data f) < 2 ^ 32"
  shows "k + n \<le> length row \<Longrightarrow> \<forall>i\<in>{k..<k + n}. offset_ok strings (row ! i) \<Longrightarrow>
           read_strings n (ahead f k) = Inr (ahead f (k + n))"
proof (induction n arbitrary: k)
  case 0
  then show ?case by simp
next
  case (Suc n)
  then show ?case
    using string_ahead [OF assms(1) _ assms(2,3), of k] Suc.IH [of "Suc k"] by simp
qed

text \<open>What a row of each file means.\<close>

definition store_item :: "bytes \<Rightarrow> u32 list \<Rightarrow> dbc_store \<Rightarrow> dbc_store" where
  "store_item strings row d = d\<lparr>items := (items d)(row ! 0 \<mapsto>
     \<lparr>display_id = row ! 1, inventory_type = row ! 2, sheath = row ! 3\<rparr>)\<rparr>"

definition store_enchantment :: "bytes \<Rightarrow> u32 list \<Rightarrow> dbc_store \<Rightarrow> dbc_store" where
  "store_enchantment strings row d = d\<lparr>spell_item_enchantments := (spell_item_enchantments d)(row ! 0 \<mapsto>
     \<lparr>ench_type = [row ! 1, row ! 2, row ! 3], ench_amount = [row ! 4, row ! 5, row ! 6],
      ench_spell_id = [row ! 10, row ! 11, row ! 12], ench_desc = block_string strings (row ! 13),
      aura_id = row ! 30, ench_slot = row ! 31, gem_id = row ! 32, enchantment_condition = row ! 33\<rparr>)\<rparr>"

definition store_race :: "bytes \<Rightarrow> u32 list \<Rightarrow> dbc_store \<Rightarrow> dbc_store" where
  "store_race strings row d = d\<lparr>chr_races := (chr_races d)(row ! 0 \<mapsto>
     \<lparr>race_id = row ! 0, faction_id = row ! 2, model_m = row ! 4, model_f = row ! 5, team_id = row ! 8,
      startmovie = row ! 13, race_addon = row ! 68\<rparr>)\<rparr>"

definition store_class :: "bytes \<Rightarrow> u32 list \<Rightarrow> dbc_store \<Rightarrow> dbc_store" where
  "store_class strings row d = d\<lparr>chr_classes := (chr_classes d)(row ! 0 \<mapsto>
     \<lparr>class_id = row ! 0, powertype = row ! 2, spellfamily = row ! 56\<rparr>)\<rparr>"

lemma ahead_width: "f\<lparr>getp := getp f + 4 * width\<rparr> = ahead f width"
  by (simp add: ahead_def)

lemma at_fields_end:
  "at_fields (row @ ws) f \<Longrightarrow> length row = n \<Longrightarrow> at_fields ws (ahead f n)"
  using at_fields_ahead [of row ws f n] by simp

lemma at_fields_not_failed: "at_fields ws f \<Longrightarrow> \<not> failed f"
  by (simp add: at_fields_def)

interpretation item_loader: record_loader item_record 4 "\<lambda>strings row. True" store_item
proof unfold_locales
  fix row ws f strings d
  assume at: "at_fields (row @ ws) f" and len: "length row = 4"
  note r = read_ahead [OF at, unfolded len]
  have "item_record f d = item_record (ahead f 0) d" by simp
  also have "\<dots> = Inr (ahead f 4, store_item strings row d)"
    unfolding item_record_def Let_def by (simp add: r store_item_def del: ahead_simps(5) One_nat_def)
  finally show "item_record f d = Inr (f\<lparr>getp := getp f + 4 * 4\<rparr>, store_item strings row d) \<and>
      at_fields ws (f\<lparr>getp := getp f + 4 * 4\<rparr>)"
    unfolding ahead_width using at_fields_end [OF at len] by simp
qed

interpretation enchantment_loader:
  record_loader enchantment_record 34 "\<lambda>strings row. offset_ok strings (row ! 13)" store_enchantment
proof unfold_locales
  fix row ws f strings d
  assume at: "at_fields (row @ ws) f" and len: "length row = 34" and four: "dbc_field_size f = 4"
    and blk: "string_block strings f" "length (dbc_data f) < 2 ^ 32" and ok: "offset_ok strings (row ! 13)"
  note r = read_ahead [OF at, unfolded len]
  note sk = skip_ahead [OF at_fields_not_failed [OF at] four]
  note st = string_ahead [OF at _ blk ok, unfolded len]
  have "enchantment_record f d = enchantment_record (ahead f 0) d" by simp
  also have "\<dots> = Inr (ahead f 34, store_enchantment strings row d)"
    unfolding enchantment_record_def Let_def
    by (simp add: r sk st store_enchantment_def del: ahead_simps(5) One_nat_def)
  finally show "enchantment_record f d = Inr (f\<lparr>getp := getp f + 4 * 34\<rparr>, store_enchantment strings row d) \<and>
      at_fields ws (f\<lparr>getp := getp f + 4 * 34\<rparr>)"
    unfolding ahead_width using at_fields_end [OF at len] by simp
qed

interpretation race_loader:
  record_loader chr_races_record 69 "\<lambda>strings row. \<forall>i\<in>{14..<30}. offset_ok strings (row ! i)" store_race
proof unfold_locales
  fix row ws f strings d
  assume at: "at_fields (row @ ws) f" and len: "length row = 69" and four: "dbc_field_size f = 4"
    and blk: "string_block strings f" "length (dbc_data f) < 2 ^ 32"
    and ok: "\<forall>i\<in>{14..<30}. offset_ok strings (row ! i)"
  note r = read_ahead [OF at, unfolded len]
  note sk = skip_ahead [OF at_fields_not_failed [OF at] four]
  have st: "read_strings 16 (ahead f 14) = Inr (ahead f 30)"
    using strings_ahead [OF at blk, of 14 16] ok len by simp
  have "chr_races_record f d = chr_races_record (ahead f 0) d" by simp
  also have "\<dots> = Inr (ahead f 69, store_race strings row d)"
    unfolding chr_races_record_def Let_def
    by (simp add: r sk st store_race_def del: ahead_simps(5) One_nat_def)
  finally show "chr_races_record f d = Inr (f\<lparr>getp := getp f + 4 * 69\<rparr>, store_race strings row d) \<and>
      at_fields ws (f\<lparr>getp := getp f + 4 * 69\<rparr>)"
    unfolding ahead_width using at_fields_end [OF at len] by simp
qed

interpretation class_loader:
  record_loader chr_classes_record 58 "\<lambda>strings row. \<forall>i\<in>{4..<20}. offset_ok strings (row ! i)" store_class
proof unfold_locales
  fix row ws f strings d
  assume at: "at_fields (row @ ws) f" and len: "length row = 58" and four: "dbc_field_size f = 4"
    and blk: "string_block strings f" "length (dbc_data f) < 2 ^ 32"
    and ok: "\<forall>i\<in>{4..<20}. offset_ok strings (row ! i)"
  note r = read_ahead [OF at, unfolded len]
  note sk = skip_ahead [OF at_fields_not_failed [OF at] four]
  have st: "read_strings 16 (ahead f 4) = Inr (ahead f 20)"
    using strings_ahead [OF at blk, of 4 16] ok len by simp
  have "chr_classes_record f d = chr_classes_record (ahead f 0) d" by simp
  also have "\<dots> = Inr (ahead f 58, store_class strings row d)"
    unfolding chr_classes_record_def Let_def
    by (simp add: r sk st store_class_def del: ahead_simps(5) One_nat_def)
  finally show "chr_classes_record f d = Inr (f\<lparr>getp := getp f + 4 * 58\<rparr>, store_class strings row d) \<and>
      at_fields ws (f\<lparr>getp := getp f + 4 * 58\<rparr>)"
    unfolding ahead_width using at_fields_end [OF at len] by simp
qed

section \<open>Properties\<close>


text \<open>A directory with two files of one row, and an empty store.\<close>

definition demo_store :: dbc_store where
  "demo_store = \<lparr>dbc_path = [], items = (\<lambda>_. None), spell_item_enchantments = (\<lambda>_. None),
     chr_races = (\<lambda>_. None), chr_classes = (\<lambda>_. None)\<rparr>"

definition demo_dir :: "string \<Rightarrow> nat \<Rightarrow> string \<Rightarrow> nat \<Rightarrow> bytes \<Rightarrow> bytes option" where
  "demo_dir n1 w1 n2 w2 p =
     (if p = str n1 then Some (dbc_image w1 [replicate w1 1] [0, 65, 0])
      else if p = str n2 then Some (dbc_image w2 [replicate w2 1] [0, 65, 0]) else None)"


text \<open>The same for the files of items and of item enchantments, whose descriptions are
  strings of the block.\<close>

theorem items_and_enchantments_loaded:
  assumes "fs (dbc_path d @ str ''Item.dbc'') = Some (dbc_image 4 rows istrings)"
    and "fs (dbc_path d @ str ''SpellItemEnchantment.dbc'') = Some (dbc_image 34 enchs strings)"
    and "dbc_image_ok 4 rows istrings" and "dbc_image_ok 34 enchs strings"
    and "list_all (\<lambda>row. offset_ok strings (row ! 13)) enchs"
  shows "load_item_dbc jw jc fs d = Inr (fold (store_item istrings) rows d) \<and>
         load_spell_item_enchantments_dbc jw jc fs d = Inr (fold (store_enchantment strings) enchs d)"
  unfolding load_item_dbc_def load_spell_item_enchantments_dbc_def
  using item_loader.image_loaded [where fs = fs and d = d and name = "''Item.dbc''", OF assms(3) _ assms(1)]
    enchantment_loader.image_loaded [where fs = fs and d = d and name = "''SpellItemEnchantment.dbc''", OF assms(4) _ assms(2)] assms(5)
  by (simp add: list_all_iff)

theorem items_and_enchantments_loaded_witness:
  "load_item_dbc 0 0 (demo_dir ''Item.dbc'' 4 ''SpellItemEnchantment.dbc'' 34) demo_store
     = Inr (fold (store_item [0, 65, 0]) [replicate 4 1] demo_store) \<and>
   load_spell_item_enchantments_dbc 0 0 (demo_dir ''Item.dbc'' 4 ''SpellItemEnchantment.dbc'' 34) demo_store
     = Inr (fold (store_enchantment [0, 65, 0]) [replicate 34 1] demo_store)"
  by (rule items_and_enchantments_loaded)
     (simp_all add: demo_dir_def demo_store_def str_def dbc_image_ok_def offset_ok_def list_all_iff)


definition demo_open_file :: dbc_file where
  "demo_open_file = \<lparr>dbc_data = [1, 0, 0, 0, 7, 65], getp = 0, failed = False, dbc_records = 1,
     dbc_record_size = 4, dbc_field_size = 4, dbc_fields = 1, dbc_data_size = 4, dbc_string_block_size = 2,
     junk_word = 0, junk_char = 0\<rparr>"


end
