(* ===== verification/Proxy_Socket.thy ===== *)
theory Proxy_Socket
  imports Byte_Buffer Proxy_Crypto Proxy_Service Proxy_Database Dbc_Store
begin

text \<open>
  A client's connection to the proxy daemon (src/proxyd/Proxy_Socket.h and .cpp): receiving and
  deciphering packets, the output queue, the life of the object, and the handlers that need no
  database.  The host is little-endian.

  The object owns a reference to itself (\<open>px_live\<close>) and every observer of a pending database
  request holds another (\<open>px_pending\<close>); it is destroyed with the last one, and its base class
  then closes the peer and removes it from the reactor.  The singletons \<open>sProxy\<close>,
  \<open>sObjectMgr\<close> and the database queue are a second component of the state.
\<close>

section \<open>State\<close>

text \<open>\<open>in_packet\<close> is a pointer: null, to a packet, or to one that has been deleted.\<close>

datatype packet_ptr = No_packet | Packet byte_buffer | Deleted

record proxy_socket =
  px_crypto :: proxy_crypto
  expected_data :: u64
  raw_buf :: bytes
  px_seed :: u32
  in_packet :: packet_ptr
  px_acct :: proxy_account
  px_login :: bytes
  client_digest :: "bytes option"
  client_seed :: u32
  characters :: "character list"
  px_queue :: "byte_buffer list"
  px_out_active :: bool
  continue_send :: bool
  px_live :: bool
  px_pending :: nat
  px_read_mask :: bool
  px_write_mask :: bool
  px_open :: bool
  px_sent :: bytes

record proxyd =
  service :: proxy_service
  objmgr :: object_mgr
  jobs :: "proxy_job list"

type_synonym proxy_state = "proxyd \<times> proxy_socket"

text \<open>What the code uses that is not its own: OpenSSL, the answers of the database to queries that
  are waited for, the data files, and the contents of unset variables.\<close>

record proxy_env =
  px_ssl :: openssl
  db_answer :: "proxy_op \<Rightarrow> result_set option"
  dbc :: dbc_store
  unset_wchar :: "nat \<Rightarrow> int"

section \<open>Opcodes\<close>

definition CMSG_CHAR_CREATE :: u32 where "CMSG_CHAR_CREATE = 0x036"
definition CMSG_CHAR_ENUM :: u32 where "CMSG_CHAR_ENUM = 0x037"
definition SMSG_CHAR_CREATE :: u16 where "SMSG_CHAR_CREATE = 0x03A"
definition SMSG_CHAR_ENUM :: u16 where "SMSG_CHAR_ENUM = 0x03B"
definition CMSG_PLAYED_TIME :: u32 where "CMSG_PLAYED_TIME = 0x1CC"
definition SMSG_PLAYED_TIME :: u16 where "SMSG_PLAYED_TIME = 0x1CD"
definition CMSG_PING :: u32 where "CMSG_PING = 0x1DC"
definition SMSG_PONG :: u16 where "SMSG_PONG = 0x1DD"
definition SMSG_AUTH_CHALLENGE :: u16 where "SMSG_AUTH_CHALLENGE = 0x1EC"
definition CMSG_AUTH_SESSION :: u32 where "CMSG_AUTH_SESSION = 0x1ED"
definition SMSG_AUTH_RESPONSE :: u16 where "SMSG_AUTH_RESPONSE = 0x1EE"
definition SMSG_REALM_SPLIT :: u16 where "SMSG_REALM_SPLIT = 0x38B"
definition CMSG_REALM_SPLIT :: u32 where "CMSG_REALM_SPLIT = 0x38C"

lemmas opcodes = CMSG_CHAR_CREATE_def CMSG_CHAR_ENUM_def SMSG_CHAR_CREATE_def SMSG_CHAR_ENUM_def
  CMSG_PLAYED_TIME_def SMSG_PLAYED_TIME_def CMSG_PING_def SMSG_PONG_def SMSG_AUTH_CHALLENGE_def
  CMSG_AUTH_SESSION_def SMSG_AUTH_RESPONSE_def SMSG_REALM_SPLIT_def CMSG_REALM_SPLIT_def

section \<open>Life of the object\<close>

text \<open>The constructor; \<open>rnd\<close> is the result of \<open>urand32\<close>, \<open>a0\<close> and \<open>cs0\<close> are what the members
  hold that it does not set.\<close>

definition Proxy_Socket_new :: "u32 \<Rightarrow> proxy_account \<Rightarrow> u32 \<Rightarrow> proxy_socket" where
  "Proxy_Socket_new rnd a0 cs0 = \<lparr>px_crypto = Proxy_Crypto_new, expected_data = 0,
     raw_buf = replicate 4096 0, px_seed = rnd, in_packet = No_packet,
     px_acct = a0\<lparr>pa_sessionkey := [], pa_sha_pass_hash := [], pa_v := [], pa_s := []\<rparr>,
     px_login = [], client_digest = None, client_seed = cs0, characters = [], px_queue = [],
     px_out_active = False, continue_send = False, px_live = True, px_pending = 0,
     px_read_mask = False, px_write_mask = False, px_open = True, px_sent = []\<rparr>"

text \<open>The destruction of an object without references.\<close>

definition reap :: "proxy_socket \<Rightarrow> proxy_socket" where
  "reap s = (if \<not> px_live s \<and> px_pending s = 0
             then s\<lparr>px_read_mask := False, px_write_mask := False, px_open := False\<rparr> else s)"

definition px_send :: "byte_buffer \<Rightarrow> proxy_socket \<Rightarrow> proxy_socket" where
  "px_send pkt s =
     (let s' = s\<lparr>px_queue := px_queue s @ [pkt]\<rparr>
      in if \<not> px_out_active s' then s'\<lparr>px_write_mask := px_open s', px_out_active := True\<rparr> else s')"

text \<open>A packet filled by a run of insertions and sent.\<close>

definition px_send_pkt ::
    "u16 \<Rightarrow> nat \<Rightarrow> (byte_buffer \<Rightarrow> byte_buffer outcome) list \<Rightarrow> proxy_socket \<Rightarrow> proxy_socket outcome" where
  "px_send_pkt op siz fs s =
     obind (ServerPkt_op Little op siz) (\<lambda>b. obind (bb_seq fs b) (\<lambda>pkt. Inr (px_send pkt s)))"

definition px_die :: "proxy_state \<Rightarrow> proxy_state outcome" where
  "px_die = (\<lambda>(w, s).
     obind (update_connections False (service w)) (\<lambda>sv.
       Inr (w\<lparr>service := sv\<rparr>, reap (s\<lparr>px_live := False\<rparr>))))"

definition px_close :: "proxy_state \<Rightarrow> (int \<times> proxy_state) outcome" where
  "px_close st = obind (px_die st) (\<lambda>st'. Inr (0, st'))"

definition px_handle_close :: "bool \<Rightarrow> proxy_state \<Rightarrow> (int \<times> proxy_state) outcome" where
  "px_handle_close is_write_mask st =
     (if is_write_mask then Inr (0, st) else obind (px_die st) (\<lambda>st'. Inr (0, st')))"

text \<open>\<open>open\<close>; \<open>reg\<close>: whether the reactor accepts the handler.\<close>

definition px_open_handler :: "bool \<Rightarrow> proxy_state \<Rightarrow> (int \<times> proxy_state) outcome" where
  "px_open_handler reg = (\<lambda>(w, s).
     if load_full (service w) then Inr (- 1, (w, s))
     else obind (update_connections True (service w)) (\<lambda>sv.
       let w' = w\<lparr>service := sv\<rparr>
       in if \<not> reg then Inr (- 1, (w', s))
          else obind (px_send_pkt SMSG_AUTH_CHALLENGE 4 [bb_out Little (px_seed s)] (s\<lparr>px_read_mask := True\<rparr>))
                 (\<lambda>s'. Inr (0, (w', s')))))"

section \<open>Output\<close>

datatype px_out_end = Px_drained | Px_partial | Px_failed

text \<open>The loop of \<open>handle_output\<close>; \<open>res i\<close> is the result of the \<open>i\<close>-th call of \<open>peer().send\<close>.\<close>

fun px_out_loop ::
    "(nat \<Rightarrow> int) \<Rightarrow> nat \<Rightarrow> byte_buffer list \<Rightarrow> proxy_socket \<Rightarrow> (px_out_end \<times> proxy_socket) outcome" where
  "px_out_loop res i [] s = Inr (Px_drained, s\<lparr>px_queue := []\<rparr>)"
| "px_out_loop res i (b # q) s =
     obind (SetSize Little (of_nat (bb_size b) - 4) b) (\<lambda>b1.
     obind (if \<not> continue_send s
            then obind (encrypt (storage b1) (px_crypto s)) (\<lambda>(data, c).
                   Inr (b1\<lparr>storage := data\<rparr>, s\<lparr>px_crypto := c\<rparr>))
            else Inr (b1, s)) (\<lambda>(b2, s1).
     let s2 = s1\<lparr>continue_send := False\<rparr>;
         sent_bytes = res i
     in if 0 < sent_bytes \<and> sent_bytes < int (bb_size b2)
        then
          let n = nat sent_bytes
          in obind (bb_read_to_front (bb_size b2 - n) (bb_set_rpos (n - 1) b2)) (\<lambda>b3.
               Inr (Px_partial, s2\<lparr>px_queue := bb_resize (bb_size b3 - n) b3 # q, continue_send := True,
                      px_sent := px_sent s2 @ take n (storage b2)\<rparr>))
        else if sent_bytes = - 1 then Inr (Px_failed, s2\<lparr>px_queue := b2 # q\<rparr>)
        else px_out_loop res (Suc i) q (s2\<lparr>px_sent := px_sent s2 @ take (nat sent_bytes) (storage b2)\<rparr>)))"

definition px_handle_output :: "(nat \<Rightarrow> int) \<Rightarrow> proxy_socket \<Rightarrow> (int \<times> proxy_socket) outcome" where
  "px_handle_output res s =
     obind (px_out_loop res 0 (px_queue s) s) (\<lambda>(e, s'). case e of
         Px_failed \<Rightarrow> Inr (- 1, s')
       | Px_partial \<Rightarrow> Inr (1, s')
       | Px_drained \<Rightarrow> Inr (0, s'\<lparr>px_write_mask := False, px_out_active := False\<rparr>))"

section \<open>Handlers without database\<close>

text \<open>The handlers dereference \<open>in_packet\<close>.\<close>

definition with_packet :: "(byte_buffer \<Rightarrow> 'a outcome) \<Rightarrow> proxy_socket \<Rightarrow> 'a outcome" where
  "with_packet f s = (case in_packet s of
       No_packet \<Rightarrow> Inl Null_pointer | Deleted \<Rightarrow> Inl Dangling | Packet b \<Rightarrow> f b)"

definition handle_cmsg_ping :: "proxy_socket \<Rightarrow> proxy_socket outcome" where
  "handle_cmsg_ping s = with_packet (\<lambda>b.
     obind (bb_read Little b) (\<lambda>(sq :: u32, b').
       px_send_pkt SMSG_PONG 4 [bb_out Little sq] (s\<lparr>in_packet := Packet b'\<rparr>))) s"

definition handle_cmsg_realm_split :: "proxy_socket \<Rightarrow> proxy_socket outcome" where
  "handle_cmsg_realm_split s = with_packet (\<lambda>b.
     obind (bb_read Little b) (\<lambda>(unk :: u32, b').
       let date = str ''01/01/01''
       in px_send_pkt SMSG_REALM_SPLIT (4 + 4 + length date + 1)
            [bb_out Little unk, bb_out Little (0 :: u32), bb_out_string Little date]
            (s\<lparr>in_packet := Packet b'\<rparr>))) s"

definition handle_cmsg_played_time :: "proxy_socket \<Rightarrow> proxy_socket outcome" where
  "handle_cmsg_played_time s =
     px_send_pkt SMSG_PLAYED_TIME 8 [bb_out Little (0 :: u32), bb_out Little (0 :: u32)] s"

end
