(* ===== verification/Util_Strings.thy ===== *)
theory Util_Strings
  imports Prelude
begin

text \<open>
  The string helpers of src/common/Util.h: splitting, letter case, the hexadecimal conversions
  and the checks of a player name.  The program never calls \<open>setlocale\<close>, so the character
  functions of the C library are those of the \<open>C\<close> locale: \<open>toupper\<close> and \<open>tolower\<close> change the
  letters of ASCII and \<open>mbstowcs\<close> converts the bytes of ASCII only.  A variable that a failed
  conversion leaves unset has an arbitrary value, an argument of the definitions.
\<close>

section \<open>Splitting\<close>

text \<open>The loop of \<open>StrSplit\<close>: \<open>r\<close> holds the finished parts, \<open>s\<close> the current one.\<close>

fun split_loop :: "bytes \<Rightarrow> bytes \<Rightarrow> bytes list \<Rightarrow> bytes \<Rightarrow> bytes list \<times> bytes" where
  "split_loop sep [] r s = (r, s)"
| "split_loop sep (c # cs) r s =
     (if c \<in> set sep then split_loop sep cs (if s \<noteq> [] then r @ [s] else r) []
      else split_loop sep cs r (s @ [c]))"

definition StrSplit :: "bytes \<Rightarrow> bytes \<Rightarrow> bytes list" where
  "StrSplit src sep = (let (r, s) = split_loop sep src [] [] in if s \<noteq> [] then r @ [s] else r)"

section \<open>Letter case\<close>

definition toupper :: "byte \<Rightarrow> byte" where
  "toupper c = (if 97 \<le> c \<and> c \<le> 122 then c - 32 else c)"

definition tolower :: "byte \<Rightarrow> byte" where
  "tolower c = (if 65 \<le> c \<and> c \<le> 90 then c + 32 else c)"

definition strToLowerCase :: "bytes \<Rightarrow> bytes" where
  "strToLowerCase inString = map tolower inString"

definition strToUpperCase :: "bytes \<Rightarrow> bytes" where
  "strToUpperCase inString = map toupper inString"

section \<open>Hexadecimal strings\<close>

text \<open>\<open>sprintf("%02X")\<close> of one byte.\<close>

definition hex_upper :: "byte \<Rightarrow> byte" where
  "hex_upper d = (if d < 10 then 48 + d else 55 + d)"

definition sprintf_02X :: "byte \<Rightarrow> bytes" where
  "sprintf_02X b = [hex_upper (drop_bit 4 b), hex_upper (b AND 15)]"

definition byteArrayToAsciiString :: "bytes \<Rightarrow> bytes" where
  "byteArrayToAsciiString inArray = concat (map (\<lambda>b. [sprintf_02X b ! 0, sprintf_02X b ! 1]) inArray)"

text \<open>\<open>sstr >> ch\<close> skips white space and leaves \<open>ch\<close> alone at the end of the stream.\<close>

definition isspace :: "byte \<Rightarrow> bool" where
  "isspace c \<longleftrightarrow> c = 32 \<or> 9 \<le> c \<and> c \<le> 13"

definition extract_char :: "byte \<Rightarrow> bytes \<Rightarrow> byte \<times> bytes" where
  "extract_char unset s = (case dropWhile isspace s of [] \<Rightarrow> (unset, []) | c # cs \<Rightarrow> (c, cs))"

definition hex_value :: "byte \<Rightarrow> byte" where
  "hex_value ch =
     (if 48 \<le> ch \<and> ch \<le> 57 then ch - 48
      else if 65 \<le> ch \<and> ch \<le> 70 then ch - 65 + 10
      else if 97 \<le> ch \<and> ch \<le> 102 then ch - 97 + 10
      else 0)"

fun hex_loop :: "byte \<Rightarrow> nat \<Rightarrow> bytes \<Rightarrow> bytes" where
  "hex_loop unset 0 s = []"
| "hex_loop unset (Suc n) s =
     (let (ch1, s1) = extract_char unset s; (ch2, s2) = extract_char unset s1
      in (hex_value ch1 * 16 + hex_value ch2) # hex_loop unset n s2)"

definition asciiHexStringtoByteArray :: "byte \<Rightarrow> bytes \<Rightarrow> bytes \<Rightarrow> bytes outcome" where
  "asciiHexStringtoByteArray unset inString outArray =
     (if length inString mod 2 = 1 then Inr outArray
      else
        let size = length inString div 2
        in if length outArray < size then Inl Out_of_bounds
           else Inr (splice_at 0 (hex_loop unset size inString) outArray))"

text \<open>\<open>snprintf(salt, 8, "%s", noun)\<close> into a zeroed buffer writes at most seven characters.\<close>

definition makeSalt :: "bytes \<Rightarrow> bytes" where
  "makeSalt noun =
     byteArrayToAsciiString (splice_at 0 (take 7 (takeWhile (\<lambda>c. c \<noteq> 0) noun)) (replicate 8 0))"

section \<open>Player names\<close>

text \<open>The result and the name, which is changed in place.\<close>

definition normalizePlayerName :: "bytes \<Rightarrow> bool \<times> bytes" where
  "normalizePlayerName name = (case name of
       [] \<Rightarrow> (False, [])
     | c # cs \<Rightarrow> (True, toupper c # map tolower cs))"

definition isBasicLatinCharacter :: "int \<Rightarrow> bool" where
  "isBasicLatinCharacter c \<longleftrightarrow> 97 \<le> c \<and> c \<le> 122 \<or> 65 \<le> c \<and> c \<le> 90"

definition isExtendedLatinCharacter :: "int \<Rightarrow> bool" where
  "isExtendedLatinCharacter c \<longleftrightarrow>
     isBasicLatinCharacter c \<or>
     0x00C0 \<le> c \<and> c \<le> 0x00D6 \<or> 0x00D8 \<le> c \<and> c \<le> 0x00DF \<or> c = 0x00DF \<or>
     0x00E0 \<le> c \<and> c \<le> 0x00F6 \<or> 0x00F8 \<le> c \<and> c \<le> 0x00FE \<or>
     0x0100 \<le> c \<and> c \<le> 0x012F \<or> c = 0x1E9E"

text \<open>\<open>mbstowcs(&c, &name[i], 1)\<close>: the wide character it stores, if it stores one.\<close>

definition mbstowcs1 :: "byte \<Rightarrow> int option" where
  "mbstowcs1 c = (if c < 128 then Some (uint c) else None)"

definition valid_char :: "int \<Rightarrow> byte \<Rightarrow> bool" where
  "valid_char unset c =
     isExtendedLatinCharacter (case mbstowcs1 c of Some w \<Rightarrow> w | None \<Rightarrow> unset)"

definition isValidName :: "(nat \<Rightarrow> int) \<Rightarrow> bytes \<Rightarrow> bool" where
  "isValidName unset name =
     (if 12 < length name then False
      else list_all (\<lambda>i. valid_char (unset i) (name ! i)) [0..<length name])"

section \<open>Lemmas\<close>

lemma split_loop_concat:
  "split_loop sep src r s = (r', s') \<Longrightarrow>
     concat r' @ s' = concat r @ s @ filter (\<lambda>c. c \<notin> set sep) src"
  by (induction sep src r s rule: split_loop.induct) (auto split: if_splits)

definition clean_part :: "bytes \<Rightarrow> bytes \<Rightarrow> bool" where
  "clean_part sep x \<longleftrightarrow> list_all (\<lambda>c. c \<notin> set sep) x"

lemma clean_part_simps [simp]:
  "clean_part sep []" "clean_part sep (x @ [c]) \<longleftrightarrow> clean_part sep x \<and> c \<notin> set sep"
  by (auto simp: clean_part_def)

lemma split_loop_clean:
  "split_loop sep src r s = (r', s') \<Longrightarrow> \<forall>x\<in>set r. x \<noteq> [] \<and> clean_part sep x \<Longrightarrow> clean_part sep s \<Longrightarrow>
     (\<forall>x\<in>set r'. x \<noteq> [] \<and> clean_part sep x) \<and> clean_part sep s'"
proof (induction sep src r s rule: split_loop.induct)
  case (1 sep r s)
  then show ?case by simp
next
  case (2 sep c cs r s)
  show ?case
  proof (cases "c \<in> set sep")
    case True
    with "2.prems"(1) have "split_loop sep cs (if s \<noteq> [] then r @ [s] else r) [] = (r', s')" by simp
    then show ?thesis
      by (rule "2.IH"(1) [OF True]) (use "2.prems"(2,3) in auto)
  next
    case False
    with "2.prems"(1) have "split_loop sep cs r (s @ [c]) = (r', s')" by simp
    then show ?thesis
      by (rule "2.IH"(2) [OF False]) (use "2.prems"(2,3) False in auto)
  qed
qed

lemma nibble_cases:
  fixes b :: byte
  shows "drop_bit 4 b < 16" "b AND 15 < 16" "drop_bit 4 b * 16 + (b AND 15) = b"
proof -
  have 1: "unat (drop_bit 4 b) = unat b div 16"
    by (simp add: unsigned_drop_bit_eq drop_bit_eq_div [of 4 "unat b"] take_bit_nat_eq_self del: drop_bit_numeral_bit0)
  have 2: "unat (b AND 15) = unat b mod 16"
    using take_bit_eq_mask [of 4 b] unsigned_take_bit_eq [of 4 b, where ?'a = nat]
    by (simp add: mask_eq_exp_minus_1 take_bit_eq_mod)
  have b: "unat b < 256" by simp
  show "drop_bit 4 b < 16" using b by (simp add: word_less_nat_alt 1 less_mult_imp_div_less)
  show "b AND 15 < 16" by (simp add: word_less_nat_alt 2)
  have "unat (drop_bit 4 b * 16 + (b AND 15)) = unat b"
  proof -
    have le: "unat b div 16 * 16 + unat b mod 16 = unat b" by (rule div_mult_mod_eq)
    then have "unat b div 16 * 16 mod 256 = unat b div 16 * 16" using b by (intro mod_less) linarith
    then show ?thesis using le by (simp add: unat_word_ariths 1 2)
  qed
  then show "drop_bit 4 b * 16 + (b AND 15) = b" by (simp add: word_unat_eq_iff)
qed

lemma hex_upper_char:
  fixes d :: byte
  assumes "d < 16"
  shows "hex_value (hex_upper d) = d" and "\<not> isspace (hex_upper d)" and "hex_upper d \<noteq> 0"
proof -
  have "unat d < 16" using assms by (simp add: word_less_nat_alt)
  then have "of_nat (unat d) \<in> (of_nat :: nat \<Rightarrow> byte) ` set [0..<16]"
    by (intro imageI) simp
  then have "d \<in> {0, 1, 2, 3, 4, 5, 6, 7, 8, 9, 10, 11, 12, 13, 14, 15}"
    by (simp add: upt_rec del: set_upt)
  then show "hex_value (hex_upper d) = d" "\<not> isspace (hex_upper d)" "hex_upper d \<noteq> 0"
    by (elim insertE emptyE; simp add: hex_value_def hex_upper_def isspace_def)+
qed

lemma hex_loop_byteArray:
  "hex_loop unset (length bs) (byteArrayToAsciiString bs) = bs"
proof (induction bs)
  case Nil
  then show ?case by simp
next
  case (Cons b bs)
  note b = nibble_cases [of b]
  note chars = hex_upper_char [OF b(1)] hex_upper_char [OF b(2)]
  have "byteArrayToAsciiString (b # bs)
          = hex_upper (drop_bit 4 b) # hex_upper (b AND 15) # byteArrayToAsciiString bs"
    by (simp add: byteArrayToAsciiString_def sprintf_02X_def)
  then show ?case
    using Cons.IH chars b(3) by (simp add: extract_char_def)
qed

lemma length_byteArrayToAsciiString [simp]: "length (byteArrayToAsciiString bs) = 2 * length bs"
  by (induction bs) (simp_all add: byteArrayToAsciiString_def)

section \<open>Properties\<close>

text \<open>\<open>StrSplit\<close> returns non-empty parts without separators, and put together they are the
  source without its separators.\<close>

theorem StrSplit_parts:
  "concat (StrSplit src sep) = filter (\<lambda>c. c \<notin> set sep) src \<and>
   list_all (\<lambda>x. x \<noteq> [] \<and> list_all (\<lambda>c. c \<notin> set sep) x) (StrSplit src sep)"
proof -
  obtain r s where rs: "split_loop sep src [] [] = (r, s)" by (cases "split_loop sep src [] []")
  have "concat r @ s = filter (\<lambda>c. c \<notin> set sep) src"
    using split_loop_concat [OF rs] by simp
  moreover have "(\<forall>x\<in>set r. x \<noteq> [] \<and> clean_part sep x) \<and> clean_part sep s"
    using split_loop_clean [OF rs] by simp
  ultimately show ?thesis
    by (auto simp: StrSplit_def rs list_all_iff clean_part_def)
qed

text \<open>A byte array printed by \<open>byteArrayToAsciiString\<close> is read back unchanged by
  \<open>asciiHexStringtoByteArray\<close> into an array that is long enough, and nothing behind it is
  touched.\<close>

theorem hex_string_roundtrip:
  assumes "length bs \<le> length out"
  shows "asciiHexStringtoByteArray unset (byteArrayToAsciiString bs) out
           = Inr (bs @ drop (length bs) out)"
  using assms by (simp add: asciiHexStringtoByteArray_def hex_loop_byteArray splice_at_def)

theorem hex_string_roundtrip_witness:
  "asciiHexStringtoByteArray 0 (byteArrayToAsciiString [0x1F, 0xA0]) [1, 2, 3]
     = Inr ([0x1F, 0xA0] @ drop (length [0x1F, 0xA0 :: byte]) [1, 2, 3])"
  by (rule hex_string_roundtrip) simp

text \<open>A name of ASCII bytes passes both checks exactly when it is one to twelve letters, and
  what is stored is then a capital letter followed by small ones.\<close>

theorem player_name_checks:
  assumes "list_all (\<lambda>c. c < 128) name"
  shows "(fst (normalizePlayerName name) \<and> isValidName unset (snd (normalizePlayerName name)) \<longleftrightarrow>
            name \<noteq> [] \<and> length name \<le> 12 \<and> list_all (\<lambda>c. isBasicLatinCharacter (uint c)) name) \<and>
         (fst (normalizePlayerName name) \<and> isValidName unset (snd (normalizePlayerName name)) \<longrightarrow>
            (\<exists>c cs. snd (normalizePlayerName name) = c # cs \<and> 65 \<le> c \<and> c \<le> 90 \<and>
               list_all (\<lambda>d. 97 \<le> d \<and> d \<le> 122) cs))"
proof (cases name)
  case Nil
  then show ?thesis by (simp add: normalizePlayerName_def)
next
  case (Cons c cs)
  have up: "toupper d < 128 \<and> (isExtendedLatinCharacter (uint (toupper d)) \<longleftrightarrow> isBasicLatinCharacter (uint d)) \<and>
              (isBasicLatinCharacter (uint d) \<longrightarrow> 65 \<le> toupper d \<and> toupper d \<le> 90)"
    and low: "tolower d < 128 \<and> (isExtendedLatinCharacter (uint (tolower d)) \<longleftrightarrow> isBasicLatinCharacter (uint d)) \<and>
              (isBasicLatinCharacter (uint d) \<longrightarrow> 97 \<le> tolower d \<and> tolower d \<le> 122)"
    if d: "d < 128" for d :: byte
  proof -
    have u: "uint d < 128" "0 \<le> uint d" using d by (simp_all add: word_less_def)
    have le: "(97 \<le> d) = (97 \<le> uint d)" "(d \<le> 122) = (uint d \<le> 122)" "(65 \<le> d) = (65 \<le> uint d)"
      "(d \<le> 90) = (uint d \<le> 90)" by (simp_all add: word_le_def)
    have sub: "uint (d - 32) = uint d - 32" if "97 \<le> uint d"
      using that u by (simp add: uint_word_ariths)
    have add: "uint (d + 32) = uint d + 32" if "uint d \<le> 90"
      using that u by (simp add: uint_word_ariths)
    show "toupper d < 128 \<and> (isExtendedLatinCharacter (uint (toupper d)) \<longleftrightarrow> isBasicLatinCharacter (uint d)) \<and>
              (isBasicLatinCharacter (uint d) \<longrightarrow> 65 \<le> toupper d \<and> toupper d \<le> 90)"
      using u by (auto simp: toupper_def le sub word_less_def word_le_def isExtendedLatinCharacter_def
          isBasicLatinCharacter_def)
    show "tolower d < 128 \<and> (isExtendedLatinCharacter (uint (tolower d)) \<longleftrightarrow> isBasicLatinCharacter (uint d)) \<and>
              (isBasicLatinCharacter (uint d) \<longrightarrow> 97 \<le> tolower d \<and> tolower d \<le> 122)"
      using u by (auto simp: tolower_def le add word_less_def word_le_def isExtendedLatinCharacter_def
          isBasicLatinCharacter_def)
  qed
  let ?n = "toupper c # map tolower cs"
  have c: "c < 128" "\<forall>d\<in>set cs. d < 128" using assms Cons by (auto simp: list_all_iff)
  have n: "isValidName unset ?n \<longleftrightarrow> length ?n \<le> 12 \<and> list_all (\<lambda>d. isExtendedLatinCharacter (uint d)) ?n"
  proof -
    have "d < 128" if "d \<in> set ?n" for d using that up c low by auto
    then have "valid_char (unset i) (?n ! i) = isExtendedLatinCharacter (uint (?n ! i))" if "i < length ?n" for i
      using that nth_mem [OF that] by (simp add: valid_char_def mbstowcs1_def del: nth_Cons_Suc)
    then have "list_all (\<lambda>i. valid_char (unset i) (?n ! i)) [0..<length ?n]
                 = list_all (\<lambda>d. isExtendedLatinCharacter (uint d)) ?n"
      unfolding list_all_length [of _ ?n] by (simp add: list_all_iff Ball_def del: upt_Suc nth_Cons_Suc list.size)
    then show ?thesis by (auto simp: isValidName_def simp del: upt_Suc)
  qed
  show ?thesis
    unfolding normalizePlayerName_def Cons list.case fst_conv snd_conv n
    using up [OF c(1)] low c(2) by (auto simp: list_all_iff)
qed

theorem player_name_checks_witness:
  "(fst (normalizePlayerName [97, 66]) \<and> isValidName (\<lambda>_. 0) (snd (normalizePlayerName [97, 66])) \<longleftrightarrow>
      [97, 66 :: byte] \<noteq> [] \<and> length [97, 66 :: byte] \<le> 12 \<and> list_all (\<lambda>c. isBasicLatinCharacter (uint c)) [97, 66 :: byte]) \<and>
   (fst (normalizePlayerName [97, 66]) \<and> isValidName (\<lambda>_. 0) (snd (normalizePlayerName [97, 66])) \<longrightarrow>
      (\<exists>c cs. snd (normalizePlayerName [97, 66]) = c # cs \<and> 65 \<le> c \<and> c \<le> 90 \<and>
         list_all (\<lambda>d. 97 \<le> d \<and> d \<le> 122) cs))"
  by (rule player_name_checks) simp

end
