(* ===== verification/Proxy_Handlers.thy ===== *)
theory Proxy_Handlers
  imports Proxy_Socket Util_Strings
begin

text \<open>
  The handlers of \<open>Proxy_Socket\<close> that talk to the database (src/proxyd/tbc/Proxy_Handlers.cpp),
  the reception of packets and their dispatch (src/proxyd/Proxy_Socket.cpp), and the events the
  reactor and the acceptor deliver.
\<close>

section \<open>Session\<close>

definition AUTH_OK :: byte where "AUTH_OK = 0x0C"
definition CHAR_CREATE_SUCCESS :: byte where "CHAR_CREATE_SUCCESS = 0x2F"
definition CHAR_CREATE_FAILED :: byte where "CHAR_CREATE_FAILED = 0x31"
definition CHAR_CREATE_NAME_IN_USE :: byte where "CHAR_CREATE_NAME_IN_USE = 0x32"
definition CHAR_CREATE_SERVER_LIMIT :: byte where "CHAR_CREATE_SERVER_LIMIT = 0x35"
definition CHAR_CREATE_ACCOUNT_LIMIT :: byte where "CHAR_CREATE_ACCOUNT_LIMIT = 0x36"
definition CHAR_CREATE_EXPANSION :: byte where "CHAR_CREATE_EXPANSION = 0x39"
definition CHAR_NAME_INVALID_CHARACTER :: byte where "CHAR_NAME_INVALID_CHARACTER = 0x4F"

lemmas response_codes = AUTH_OK_def CHAR_CREATE_SUCCESS_def CHAR_CREATE_FAILED_def
  CHAR_CREATE_NAME_IN_USE_def CHAR_CREATE_SERVER_LIMIT_def CHAR_CREATE_ACCOUNT_LIMIT_def
  CHAR_CREATE_EXPANSION_def CHAR_NAME_INVALID_CHARACTER_def

text \<open>A request whose observer keeps a reference to the connection; requests for a released pointer
  are ignored.\<close>

definition px_request :: "proxy_op outcome \<Rightarrow> proxy_state \<Rightarrow> proxy_state outcome" where
  "px_request mk = (\<lambda>(w, s).
     if \<not> px_live s then Inr (w, s)
     else obind mk (\<lambda>op. Inr (w\<lparr>jobs := jobs w @ [Request op]\<rparr>, s\<lparr>px_pending := px_pending s + 1\<rparr>)))"

definition handle_cmsg_auth_session :: "proxy_state \<Rightarrow> proxy_state outcome" where
  "handle_cmsg_auth_session = (\<lambda>(w, s). with_packet (\<lambda>b.
     obind (CheckSize Little (4 + 4 + 1 + 4 + 20) b) (\<lambda>(ok, b).
     if \<not> ok then Inr (w, s\<lparr>in_packet := Packet b\<rparr>)
     else
       obind (bb_read Little b) (\<lambda>(tmp :: u32, b).
       obind (bb_read Little b) (\<lambda>(tmp :: u32, b).
       obind (bb_in_string Little b) (\<lambda>(name, b).
       obind (bb_read Little b) (\<lambda>(cseed :: u32, b).
       obind (bb_read_bytes 20 b) (\<lambda>(digest, b).
         let s' = s\<lparr>in_packet := Packet b, px_login := name, client_seed := cseed,
                    client_digest := Some digest\<rparr>
         in px_request (px_get_account (px_login s')) (w, s')))))))) s)"

text \<open>\<open>BN_hex2bn\<close> into a fresh number, which stays 0 where there is nothing to parse.\<close>

definition hex2bn_new :: "openssl \<Rightarrow> bytes \<Rightarrow> nat" where
  "hex2bn_new L h = (case hex2bn L h of None \<Rightarrow> 0 | Some n \<Rightarrow> n)"

definition px_N_hex :: bytes where
  "px_N_hex = str ''894B645E89E1535BBDAD5B8B290650530801B18EBFBF5E8FAB3C82872A3E9BB7''"

text \<open>The verifier that the account's password hash and salt give.\<close>

definition stored_verifier :: "openssl \<Rightarrow> proxy_account \<Rightarrow> nat outcome" where
  "stored_verifier L a =
     (let N = hex2bn_new L px_N_hex; I = hex2bn_new L (pa_sha_pass_hash a); s = hex2bn_new L (pa_s a);
          s_bin = rev (bn2bin L s)
      in obind (bn2bin_into L I (replicate 20 0)) (\<lambda>pass_hash.
           let digest = rev (sha1 L (s_bin @ pass_hash))
           in Inr (bn_mod_exp L 7 (bin2bn L digest) N)))"

text \<open>\<open>k_char\<close> has as many bytes as the key; \<open>std::reverse\<close> always takes 40 of them.\<close>

definition reversed_key :: "openssl \<Rightarrow> nat \<Rightarrow> bytes outcome" where
  "reversed_key L K =
     (let k = bn2bin L K
      in if length k < 40 then Inl Out_of_bounds else Inr (rev (take 40 k) @ drop 40 k))"

definition check_digest :: "openssl \<Rightarrow> proxy_socket \<Rightarrow> bytes \<Rightarrow> bytes" where
  "check_digest L s k =
     sha1 L (px_login s @ le_bytes 4 (0 :: u32) @ le_bytes 4 (client_seed s) @ le_bytes 4 (px_seed s) @ k)"

definition account_retrieved :: "proxy_env \<Rightarrow> bool \<Rightarrow> proxy_state \<Rightarrow> proxy_state outcome" where
  "account_retrieved E st = (\<lambda>(w, s).
     if \<not> st then
       obind (px_send_pkt SMSG_AUTH_RESPONSE 1 [bb_out Little (0x15 :: byte)] s) (\<lambda>s'. px_die (w, s'))
     else
       let L = px_ssl E; a = px_acct s
       in obind (stored_verifier L a) (\<lambda>v.
          if bn2hex L v \<noteq> takeWhile (\<lambda>c. c \<noteq> 0) (pa_v a) then px_die (w, s)
          else
            let K = hex2bn_new L (pa_sessionkey a)
            in obind (reversed_key L K) (\<lambda>k. case client_digest s of
                 None \<Rightarrow> Inl Null_pointer
               | Some digest \<Rightarrow>
                   if check_digest L s k \<noteq> digest then px_die (w, s)
                   else obind (px_send_pkt SMSG_AUTH_RESPONSE (1 + 4 + 1 + 4 + 1)
                          [bb_out Little AUTH_OK, bb_out Little (0 :: u32), bb_out Little (0 :: byte),
                           bb_out Little (0 :: u32), bb_out Little (pa_expansion a)]
                          (s\<lparr>px_crypto := set_key L K (px_crypto s)\<rparr>))
                        (\<lambda>s'. Inr (w, s')))))"

section \<open>Characters\<close>

definition handle_cmsg_char_enum :: "proxy_state \<Rightarrow> proxy_state outcome" where
  "handle_cmsg_char_enum = (\<lambda>(w, s). px_request (get_chars (pa_id (px_acct s))) (w, s))"

definition enum_item :: "(byte_buffer \<Rightarrow> byte_buffer outcome) list" where
  "enum_item = [bb_out Little (0 :: u32), bb_out Little (0 :: byte), bb_out Little (0 :: u32)]"

definition enum_entry :: "character \<Rightarrow> (byte_buffer \<Rightarrow> byte_buffer outcome) list" where
  "enum_entry c =
     [bb_out Little (ch_guid c OR push_bit 24 0 OR push_bit 48 0),
      bb_out_string Little (ch_name c),
      bb_out Little (ch_race c), bb_out Little (ch_pclass c), bb_out Little (ch_gender c),
      bb_out Little (ucast (ch_bytes c) :: byte),
      bb_out Little (ucast (drop_bit 8 (ch_bytes c)) :: byte),
      bb_out Little (ucast (drop_bit 16 (ch_bytes c)) :: byte),
      bb_out Little (ucast (drop_bit 24 (ch_bytes c)) :: byte),
      bb_out Little (ch_bytes2 c AND 0xFF),
      bb_out Little (ch_level c), bb_out Little (ch_zone c), bb_out Little (ch_map c),
      bb_out Little (ch_x c), bb_out Little (ch_y c), bb_out Little (ch_z c),
      bb_out Little (0 :: u32), bb_out Little (0 :: u32), bb_out Little (1 :: byte),
      bb_out Little (0 :: u32), bb_out Little (0 :: u32), bb_out Little (0 :: u32)] @
     concat (replicate 19 enum_item) @ enum_item"

definition characters_retrieved :: "bool \<Rightarrow> proxy_socket \<Rightarrow> proxy_socket outcome" where
  "characters_retrieved st s =
     (if \<not> st then px_send_pkt SMSG_CHAR_ENUM 100 [bb_out Little (0 :: byte)] s
      else px_send_pkt SMSG_CHAR_ENUM 100
             (bb_out Little (of_nat (length (characters s)) :: byte) #
              concat (map enum_entry (characters s))) s)"

text \<open>A query of \<open>handle_cmsg_char_create\<close> that is waited for, and its result.\<close>

definition px_query ::
    "proxy_env \<Rightarrow> proxy_op outcome \<Rightarrow> proxyd \<Rightarrow> (result_set \<times> proxyd) outcome" where
  "px_query E mk w =
     obind mk (\<lambda>op. obind (enqueue_synch_query (db_answer E) op (jobs w)) (\<lambda>(res, js).
       Inr (res, w\<lparr>jobs := js\<rparr>)))"

text \<open>\<open>res->next(); res->rowsCount() > 0 && res->getUint8(1) >= n\<close>\<close>

definition count_reaches :: "u8 \<Rightarrow> result_set \<Rightarrow> bool outcome" where
  "count_reaches n res =
     obind (rs_next res) (\<lambda>(_, r).
       if rs_rowsCount r > 0 then obind (rs_getUint8 1 r) (\<lambda>c. Inr (n \<le> c)) else Inr False)"

text \<open>The answer to the client.\<close>

definition char_create_reply :: "byte \<Rightarrow> byte_buffer \<Rightarrow> proxy_state \<Rightarrow> proxy_state outcome" where
  "char_create_reply code b = (\<lambda>(w, s).
     obind (px_send_pkt SMSG_CHAR_CREATE 1 [bb_out Little code] (s\<lparr>in_packet := Packet b\<rparr>))
       (\<lambda>s'. Inr (w, s')))"

definition handle_cmsg_char_create :: "proxy_env \<Rightarrow> proxy_state \<Rightarrow> proxy_state outcome" where
  "handle_cmsg_char_create E = (\<lambda>(w, s). with_packet (\<lambda>b.
     obind (CheckSize Little 10 b) (\<lambda>(ok, b).
     if \<not> ok then Inr (w, s\<lparr>in_packet := Packet b\<rparr>) else
     obind (bb_in_string Little b) (\<lambda>(name, b).
     obind (CheckSize Little (length name + 1 + 9) b) (\<lambda>(ok, b).
     if \<not> ok then Inr (w, s\<lparr>in_packet := Packet b\<rparr>) else
     obind (bb_read Little b) (\<lambda>(race :: u8, b).
     obind (bb_read Little b) (\<lambda>(pclass :: u8, b).
     case (chr_races (dbc E) (ucast race), chr_classes (dbc E) (ucast pclass)) of
       (Some race_entry, Some class_entry) \<Rightarrow>
         if race_addon race_entry > ucast (pa_expansion (px_acct s)) then char_create_reply CHAR_CREATE_EXPANSION b (w, s) else
         let (ok, name) = normalizePlayerName name
         in if \<not> ok then char_create_reply CHAR_NAME_INVALID_CHARACTER b (w, s) else
         if \<not> isValidName (unset_wchar E) name then char_create_reply CHAR_NAME_INVALID_CHARACTER b (w, s) else
         obind (px_query E (add_string 1 name (sql_request PROXYD_DB_GET_PLR_GUID_FROM_NAME)) w) (\<lambda>(res, w).
         if rs_rowsCount res \<noteq> 0 then char_create_reply CHAR_CREATE_NAME_IN_USE b (w, s) else
         obind (px_query E (add_uint32 1 (pa_id (px_acct s)) (sql_request PROXYD_DB_GET_NUMCHAR)) w) (\<lambda>(res, w).
         obind (count_reaches 50 res) (\<lambda>full.
         if full then char_create_reply CHAR_CREATE_ACCOUNT_LIMIT b (w, s) else
         obind (px_query E (add_uint32 1 (pa_id (px_acct s)) (sql_request PROXYD_DB_GET_CHAR_COUNT)) w) (\<lambda>(res, w).
         obind (count_reaches 10 res) (\<lambda>full.
         if full then char_create_reply CHAR_CREATE_SERVER_LIMIT b (w, s) else
         obind (bb_read Little b) (\<lambda>(gender :: u8, b).
         obind (bb_read Little b) (\<lambda>(skin :: u8, b).
         obind (bb_read Little b) (\<lambda>(face :: u8, b).
         obind (bb_read Little b) (\<lambda>(hair_style :: u8, b).
         obind (bb_read Little b) (\<lambda>(hair_color :: u8, b).
         obind (bb_read Little b) (\<lambda>(facial_hair :: u8, b).
         obind (bb_read Little b) (\<lambda>(outfit_id :: u8, b).
         obind (obind (add_uint32 1 (ucast (realm_id (service w))) (sql_request PROXYD_DB_INCR_NUMCHAR))
                  (add_uint32 2 (pa_id (px_acct s)))) (\<lambda>op.
         obind (get_max_guid GUID_CHAR (objmgr w)) (\<lambda>(guid, om).
         obind (Player_create om guid (pa_id (px_acct s)) name race pclass gender skin face
                  hair_style hair_color facial_hair outfit_id [op]) (\<lambda>txn.
           char_create_reply CHAR_CREATE_SUCCESS b (w\<lparr>objmgr := om, jobs := jobs w @ [Transaction txn]\<rparr>, s))))))))))))))))
     | _ \<Rightarrow> char_create_reply CHAR_CREATE_FAILED b (w, s))))))) s)"

section \<open>Reception\<close>

text \<open>The opcode switch, and the deletion of the packet after it.\<close>

definition handle_opcode :: "proxy_env \<Rightarrow> u32 \<Rightarrow> proxy_state \<Rightarrow> proxy_state outcome" where
  "handle_opcode E op = (\<lambda>(w, s).
     let on_sock = (\<lambda>r. obind r (\<lambda>s'. Inr (w, s')))
     in if op = CMSG_AUTH_SESSION then handle_cmsg_auth_session (w, s)
        else if op = CMSG_PING then on_sock (handle_cmsg_ping s)
        else if op = CMSG_REALM_SPLIT then on_sock (handle_cmsg_realm_split s)
        else if op = CMSG_CHAR_ENUM then handle_cmsg_char_enum (w, s)
        else if op = CMSG_CHAR_CREATE then handle_cmsg_char_create E (w, s)
        else if op = CMSG_PLAYED_TIME then on_sock (handle_cmsg_played_time s)
        else Inr (w, s))"

definition process_incoming :: "proxy_env \<Rightarrow> proxy_state \<Rightarrow> proxy_state outcome" where
  "process_incoming E = (\<lambda>(w, s).
     if in_packet s = No_packet then Inr (w, s)
     else obind (with_packet (PeekOpcode Little) s) (\<lambda>(op, b).
       obind (handle_opcode E op (w, s\<lparr>in_packet := Packet b\<rparr>)) (\<lambda>(w', s').
         Inr (w', s'\<lparr>in_packet := Deleted\<rparr>))))"

text \<open>\<open>recv(raw_buf + off, len)\<close>; \<open>r\<close> is what the peer has sent, \<open>None\<close> an error.  The result is a
  \<open>size_t\<close>, so that -1 becomes the largest number.\<close>

definition recv_into :: "nat \<Rightarrow> nat \<Rightarrow> bytes option \<Rightarrow> bytes \<Rightarrow> (u64 \<times> bytes) outcome" where
  "recv_into off len r raw = (case r of
       None \<Rightarrow> Inr (- 1, raw)
     | Some bs \<Rightarrow>
         let got = take len bs
         in if off + length got \<le> length raw then Inr (of_nat (length got), splice_at off got raw)
            else Inl Out_of_bounds)"

text \<open>The conversions of the deciphered header in place, and the size it declares.\<close>

definition convert_header :: "bytes \<Rightarrow> bytes" where
  "convert_header raw =
     EndianConvertReverse Little (take 2 raw) @ EndianConvert Little (take 4 (drop 2 raw)) @ drop 6 raw"

definition declared_size :: "bytes \<Rightarrow> u16" where
  "declared_size raw = of_le (take 2 raw)"

definition px_handle_input ::
    "proxy_env \<Rightarrow> bytes option \<Rightarrow> bytes option \<Rightarrow> proxy_state \<Rightarrow> (int \<times> proxy_state) outcome" where
  "px_handle_input E r1 r2 = (\<lambda>(w, s).
     if expected_data s = 0 then
       obind (recv_into 0 6 r1 (raw_buf s)) (\<lambda>(bytes_read, raw1).
       if bytes_read < 6 then Inr (- 1, (w, s\<lparr>raw_buf := raw1\<rparr>))
       else obind (decrypt raw1 (px_crypto s)) (\<lambda>(raw2, c).
         let raw3 = convert_header raw2;
             len = unat (ucast (declared_size raw3) - 4 :: u64)
         in obind (recv_into 6 len r2 raw3) (\<lambda>(bytes_read, raw4).
            if length raw4 < unat (bytes_read + 6) then Inl Out_of_bounds
            else obind (bb_append (take (unat (bytes_read + 6)) raw4) ClientPkt_new) (\<lambda>pkt.
              obind (PeekSize Little pkt) (\<lambda>(sz, pkt).
              let s' = s\<lparr>raw_buf := raw4, px_crypto := c, in_packet := Packet pkt\<rparr>
              in if bytes_read + 4 \<noteq> ucast sz
                 then Inr (0, (w, s'\<lparr>expected_data := ucast sz - bytes_read - 4\<rparr>))
                 else obind (process_incoming E (w, s')) (\<lambda>st. Inr (0, st)))))))
     else
       obind (recv_into 0 (unat (expected_data s)) r1 (raw_buf s)) (\<lambda>(bytes_read, raw1).
         let s1 = s\<lparr>raw_buf := raw1\<rparr>
         in if bytes_read = - 1 \<or> bytes_read = 0 then Inr (- 1, (w, s1))
            else obind (with_packet (bb_append (take (unat bytes_read) raw1)) s1) (\<lambda>pkt.
              let s2 = s1\<lparr>in_packet := Packet pkt\<rparr>
              in if bytes_read \<noteq> expected_data s2
                 then Inr (0, (w, s2\<lparr>expected_data := expected_data s2 - bytes_read\<rparr>))
                 else obind (process_incoming E (w, s2)) (\<lambda>st. Inr (0, st)))))"

section \<open>Events\<close>

text \<open>A result is delivered by an observer, which then gives up its reference.\<close>

definition px_result :: "proxy_env \<Rightarrow> proxy_obs \<Rightarrow> result_set \<Rightarrow> proxy_state \<Rightarrow> proxy_state outcome" where
  "px_result E obs res = (\<lambda>(w, s).
     obind (case obs of
         getAcct \<Rightarrow> obind (getAcctObsv res) (\<lambda>(r, a).
           account_retrieved E r (w, case a of None \<Rightarrow> s | Some acc \<Rightarrow> s\<lparr>px_acct := acc\<rparr>))
       | getChars \<Rightarrow> obind (getCharsObsv res) (\<lambda>(r, cs).
           obind (characters_retrieved r (case cs of None \<Rightarrow> s | Some l \<Rightarrow> s\<lparr>characters := l\<rparr>))
             (\<lambda>s'. Inr (w, s')))
       | _ \<Rightarrow> Inr (w, s))
     (\<lambda>(w', s'). Inr (w', reap (s'\<lparr>px_pending := px_pending s' - 1\<rparr>))))"

datatype proxy_event =
    Px_readable "bytes option" "bytes option"
  | Px_writable "nat \<Rightarrow> int"
  | Px_result proxy_obs result_set

text \<open>The reactor, as for the realm daemon.\<close>

definition proxy_dispatch :: "proxy_env \<Rightarrow> proxy_event \<Rightarrow> proxy_state \<Rightarrow> proxy_state outcome" where
  "proxy_dispatch E e = (\<lambda>(w, s). case e of
       Px_readable r1 r2 \<Rightarrow>
         if \<not> px_read_mask s then Inr (w, s)
         else obind (px_handle_input E r1 r2 (w, s)) (\<lambda>(r, (w', s')).
           if r < 0 then obind (px_handle_close False (w', s'\<lparr>px_read_mask := False\<rparr>)) (\<lambda>(_, st). Inr st)
           else Inr (w', s'))
     | Px_writable res \<Rightarrow>
         if \<not> px_write_mask s then Inr (w, s)
         else obind (px_handle_output res s) (\<lambda>(r, s').
           if r < 0 then obind (px_handle_close True (w, s'\<lparr>px_write_mask := False\<rparr>)) (\<lambda>(_, st). Inr st)
           else Inr (w, s'))
     | Px_result obs res \<Rightarrow> if px_pending s = 0 then Inr (w, s) else px_result E obs res (w, s))"

text \<open>The acceptor opens the handler of a new connection and closes it if that fails.\<close>

definition proxy_accept :: "bool \<Rightarrow> u32 \<Rightarrow> proxy_account \<Rightarrow> u32 \<Rightarrow> proxyd \<Rightarrow> proxy_state outcome" where
  "proxy_accept reg rnd a0 cs0 w =
     obind (px_open_handler reg (w, Proxy_Socket_new rnd a0 cs0)) (\<lambda>(r, st).
       if r < 0 then obind (px_close st) (\<lambda>(_, st'). Inr st') else Inr st)"

end
