(* ===== verification/Proxy_Session.thy ===== *)
theory Proxy_Session
  imports Proxy_Handlers
begin

text \<open>
  The life of a connection to the proxy daemon as a whole: what every event keeps of its
  references, of the database jobs and of the packet being received.  The locale \<open>proxy_inv\<close> is
  the interface between an invariant and the callbacks of the database, \<open>proxy_packet_inv\<close>
  extends it to the handlers of packets and \<open>proxy_input_inv\<close> to \<open>handle_input\<close>: an invariant
  that survives sending, dying and well-formed jobs survives every event.
\<close>

section \<open>Jobs\<close>

definition proxy_arity :: "proxy_stmt \<Rightarrow> nat" where
  "proxy_arity s = (case s of
       PROXYD_DB_GET_ACCT \<Rightarrow> 1 | PROXYD_DB_GET_CHAR \<Rightarrow> 1 | PROXYD_DB_GET_PLR_GUID_FROM_NAME \<Rightarrow> 1
     | PROXYD_DB_GET_CHAR_COUNT \<Rightarrow> 1 | PROXYD_DB_GET_NUMCHAR \<Rightarrow> 1 | PROXYD_DB_INCR_NUMCHAR \<Rightarrow> 2
     | PROXYD_DB_INS_CHAR \<Rightarrow> 14 | PROXYD_DB_LOAD_PLR_CREATEINFO \<Rightarrow> 0 | PROXYD_DB_GET_CHAR_MAX_GUID \<Rightarrow> 0)"

definition op_fits :: "proxy_op \<Rightarrow> bool" where
  "op_fits op \<longleftrightarrow> length (statement_data op) = proxy_arity (statement op)"

definition job_ops :: "proxy_job \<Rightarrow> proxy_op list" where
  "job_ops j = (case j of Request op \<Rightarrow> [op] | Transaction ops \<Rightarrow> ops)"

definition job_fits :: "proxy_job \<Rightarrow> bool" where
  "job_fits j \<longleftrightarrow> list_all op_fits (job_ops j)"

lemma op_fits_ok:
  assumes "proxy_placeholders realmdb = 0" and "proxy_placeholders worlddb = 0" and "op_fits op"
  shows "proxy_op_ok realmdb worlddb op"
proof -
  have "map_option proxy_placeholders (map_of (proxy_statements realmdb worlddb) (statement op))
          = Some (proxy_arity (statement op))"
    using proxy_placeholders_prepared [OF assms(1,2)] by (simp add: proxy_arity_def)
  with assms(3) show ?thesis by (auto simp: proxy_op_ok_def op_fits_def)
qed

lemma job_fits_request: "job_fits (Request op) \<longleftrightarrow> op_fits op"
  by (simp add: job_fits_def job_ops_def)

lemma requests_fit:
  "px_get_account l = Inr op \<Longrightarrow> op_fits op" "get_chars n = Inr op \<Longrightarrow> op_fits op"
  by (auto simp: px_get_account_def get_chars_def sql_simps op_fits_def proxy_arity_def)

lemma query_fits:
  "add_string 1 name (sql_request PROXYD_DB_GET_PLR_GUID_FROM_NAME) = Inr op \<Longrightarrow> op_fits op"
  "add_uint32 1 i (sql_request PROXYD_DB_GET_NUMCHAR) = Inr op \<Longrightarrow> op_fits op"
  "add_uint32 1 i (sql_request PROXYD_DB_GET_CHAR_COUNT) = Inr op \<Longrightarrow> op_fits op"
  "obind (add_uint32 1 i (sql_request PROXYD_DB_INCR_NUMCHAR)) (add_uint32 2 j) = Inr op \<Longrightarrow> op_fits op"
  by (auto simp: sql_simps op_fits_def proxy_arity_def)

lemma Player_create_fits:
  "Player_create m g a nm rc pc gd sk fc hs hc fh oid txn = Inr txn' \<Longrightarrow> list_all op_fits txn \<Longrightarrow>
     job_fits (Transaction txn')"
  by (auto simp: Player_create_eval obind_eq_Inr job_fits_def job_ops_def op_fits_def proxy_arity_def sql_request_def)

section \<open>Invariants of the handlers\<close>

text \<open>What only the basic operations touch, without and with the packet being received.\<close>

definition px_refs :: "proxy_socket \<Rightarrow> bool \<times> nat \<times> bool \<times> bool \<times> bool \<times> bool \<times> byte_buffer list \<times> bytes" where
  "px_refs s = (px_live s, px_pending s, px_read_mask s, px_write_mask s, px_open s, px_out_active s, px_queue s, px_sent s)"

definition px_receiving :: "proxy_socket \<Rightarrow> packet_ptr \<times> u64 \<times> nat" where
  "px_receiving s = (in_packet s, expected_data s, length (raw_buf s))"

locale proxy_inv =
  fixes P :: "proxy_state \<Rightarrow> bool"
  assumes keep_die: "P st \<Longrightarrow> px_die st = Inr st' \<Longrightarrow> P st'"
    and keep_send: "P (w, s) \<Longrightarrow> P (w, px_send pkt s)"
    and keep_drop: "P (w, s) \<Longrightarrow> P (w, reap (s\<lparr>px_pending := px_pending s - 1\<rparr>))"
    and keep_frame: "P (w, s) \<Longrightarrow> jobs w' = jobs w \<Longrightarrow> px_refs s' = px_refs s \<Longrightarrow>
          px_receiving s' = px_receiving s \<Longrightarrow> P (w', s')"
begin

lemma keep_send_pkt: "px_send_pkt op n fs s = Inr s' \<Longrightarrow> P (w, s) \<Longrightarrow> P (w, s')"
  by (auto simp: px_send_pkt_def obind_eq_Inr intro: keep_send)

lemma keep_account_retrieved:
  "account_retrieved E r (w, s) = Inr st' \<Longrightarrow> P (w, s) \<Longrightarrow> P st'"
proof -
  assume a: "account_retrieved E r (w, s) = Inr st'" and P: "P (w, s)"
  have key: "P (w, s\<lparr>px_crypto := c\<rparr>)" for c
    using P by (rule keep_frame) (simp_all add: px_refs_def px_receiving_def)
  from a P key show ?thesis
    by (auto simp: account_retrieved_def Let_def obind_eq_Inr split: if_splits option.splits;
        blast intro: keep_die keep_send_pkt)
qed

lemma keep_characters_retrieved:
  "characters_retrieved r s = Inr s' \<Longrightarrow> P (w, s) \<Longrightarrow> P (w, s')"
  by (auto simp: characters_retrieved_def split: if_splits intro: keep_send_pkt)

lemma keep_result:
  assumes r: "px_result E obs res (w, s) = Inr st'" and P: "P (w, s)"
  shows "P st'"
proof -
  have acct: "P (w, s\<lparr>px_acct := a\<rparr>)" and chars: "P (w, s\<lparr>characters := cs\<rparr>)" for a cs
    using P by (auto intro: keep_frame simp: px_refs_def px_receiving_def)
  show ?thesis
  proof (cases obs)
    case getAcct
    with r obtain ok a w' s' where "account_retrieved E ok (w, case a of None \<Rightarrow> s | Some acc \<Rightarrow> s\<lparr>px_acct := acc\<rparr>) = Inr (w', s')"
      and st': "st' = (w', reap (s'\<lparr>px_pending := px_pending s' - 1\<rparr>))"
      by (auto simp: px_result_def obind_eq_Inr)
    then have "P (w', s')"
      by (rule_tac keep_account_retrieved) (auto split: option.splits intro: P acct)
    then show ?thesis unfolding st' by (rule keep_drop)
  next
    case getChars
    with r obtain ok cs s' where "characters_retrieved ok (case cs of None \<Rightarrow> s | Some l \<Rightarrow> s\<lparr>characters := l\<rparr>) = Inr s'"
      and st': "st' = (w, reap (s'\<lparr>px_pending := px_pending s' - 1\<rparr>))"
      by (auto simp: px_result_def obind_eq_Inr)
    then have "P (w, s')"
      by (rule_tac keep_characters_retrieved) (auto split: option.splits intro: P chars)
    then show ?thesis unfolding st' by (rule keep_drop)
  qed (use r in \<open>auto simp: px_result_def intro: keep_drop P simp del: One_nat_def\<close>)
qed

end

text \<open>The handlers of packets also store what they receive and enqueue jobs.\<close>

locale proxy_packet_inv = proxy_inv P for P :: "proxy_state \<Rightarrow> bool" +
  assumes keep_receiving: "P (w, s) \<Longrightarrow> jobs w' = jobs w \<Longrightarrow> px_refs s' = px_refs s \<Longrightarrow>
          snd (px_receiving s') = snd (px_receiving s) \<Longrightarrow> P (w', s')"
    and keep_job: "P (w, s) \<Longrightarrow> job_fits j \<Longrightarrow> P (w\<lparr>jobs := jobs w @ [j]\<rparr>, s)"
    and keep_pending: "P (w, s) \<Longrightarrow> px_live s \<Longrightarrow> P (w, s\<lparr>px_pending := px_pending s + 1\<rparr>)"
begin

lemma keep_packet: "P (w, s) \<Longrightarrow> P (w, s\<lparr>in_packet := p\<rparr>)"
  by (erule keep_receiving) (simp_all add: px_refs_def px_receiving_def)

lemma keep_sock: "P (w, s) \<Longrightarrow> px_refs s' = px_refs s \<Longrightarrow> snd (px_receiving s') = snd (px_receiving s) \<Longrightarrow> P (w, s')"
  by (erule keep_receiving) simp_all

lemma keep_request:
  assumes "px_request mk (w, s) = Inr st'" and "\<And>op. mk = Inr op \<Longrightarrow> op_fits op" and "P (w, s)"
  shows "P st'"
proof (cases "px_live s")
  case True
  then obtain op where op: "mk = Inr op" "st' = (w\<lparr>jobs := jobs w @ [Request op]\<rparr>, s\<lparr>px_pending := px_pending s + 1\<rparr>)"
    using assms(1) by (auto simp: px_request_def obind_eq_Inr)
  then show ?thesis
    using keep_job [OF keep_pending [OF assms(3) True], of "Request op"] assms(2)
    by (simp add: job_fits_request)
qed (use assms in \<open>simp add: px_request_def\<close>)

lemma keep_auth_session: "handle_cmsg_auth_session (w, s) = Inr st' \<Longrightarrow> P (w, s) \<Longrightarrow> P st'"
proof -
  assume a: "handle_cmsg_auth_session (w, s) = Inr st'" and P: "P (w, s)"
  have upd: "P (w, s\<lparr>in_packet := p, px_login := l, client_seed := cs, client_digest := d\<rparr>)" for p l cs d
    using P by (rule keep_sock) (simp_all add: px_refs_def px_receiving_def)
  from a show ?thesis
    by (auto simp: handle_cmsg_auth_session_def with_packet_def Let_def obind_eq_Inr
        split: packet_ptr.splits if_splits intro: keep_packet P upd elim!: keep_request requests_fit)
qed

lemma keep_ping: "handle_cmsg_ping s = Inr s' \<Longrightarrow> P (w, s) \<Longrightarrow> P (w, s')"
  by (auto simp: handle_cmsg_ping_def with_packet_def obind_eq_Inr split: packet_ptr.splits
      intro: keep_packet keep_send_pkt)

lemma keep_realm_split: "handle_cmsg_realm_split s = Inr s' \<Longrightarrow> P (w, s) \<Longrightarrow> P (w, s')"
  by (auto simp: handle_cmsg_realm_split_def with_packet_def Let_def obind_eq_Inr split: packet_ptr.splits
      intro: keep_packet keep_send_pkt)

lemma keep_played_time: "handle_cmsg_played_time s = Inr s' \<Longrightarrow> P (w, s) \<Longrightarrow> P (w, s')"
  by (auto simp: handle_cmsg_played_time_def intro: keep_send_pkt)

lemma keep_char_enum: "handle_cmsg_char_enum (w, s) = Inr st' \<Longrightarrow> P (w, s) \<Longrightarrow> P st'"
  by (auto simp: handle_cmsg_char_enum_def elim!: keep_request requests_fit)

lemma keep_reply:
  "px_send_pkt op n fs (s\<lparr>in_packet := p\<rparr>) = Inr s' \<Longrightarrow> P (w, s) \<Longrightarrow> P (w, s')"
  by (erule keep_send_pkt) (rule keep_packet)

lemma keep_query:
  assumes "px_query E mk w = Inr (res, w')" and "\<And>op. mk = Inr op \<Longrightarrow> op_fits op" and "P (w, s)"
  shows "P (w', s)"
proof -
  from assms(1) obtain op op' where op: "mk = Inr op" "op' = op \<or> op' = op\<lparr>observer := Some Synch\<rparr>"
    "w' = w\<lparr>jobs := jobs w @ [Request op']\<rparr>"
    by (auto simp: px_query_def enqueue_synch_query_def obind_eq_Inr Let_def split: option.splits if_splits)
  then have "op_fits op'" using assms(2) [OF op(1)] by (auto simp: op_fits_def)
  with op(3) keep_job [OF assms(3), of "Request op'"] show ?thesis by (simp add: job_fits_request)
qed

lemma keep_creation:
  assumes "obind (add_uint32 1 i (sql_request PROXYD_DB_INCR_NUMCHAR)) (add_uint32 2 j) = Inr op"
    and "Player_create om g a nm rc pc gd sk fc hs hc fh oid [op] = Inr txn" and "P (w, s)"
  shows "P (w\<lparr>objmgr := om', jobs := jobs w @ [Transaction txn]\<rparr>, s)"
proof -
  have "job_fits (Transaction txn)"
    using Player_create_fits [OF assms(2)] query_fits(4) [OF assms(1)] by simp
  then have "P (w\<lparr>jobs := jobs w @ [Transaction txn]\<rparr>, s)" by (rule keep_job [OF assms(3)])
  then show ?thesis by (rule keep_receiving) simp_all
qed

lemma ensures_reply: "P (w, s) \<Longrightarrow> ensures (char_create_reply code b (w, s)) P"
  by (auto simp: ensures_def char_create_reply_def obind_eq_Inr intro: keep_reply)

lemma ensures_packet: "P (w, s) \<Longrightarrow> ensures (Inr (w, s\<lparr>in_packet := p\<rparr>)) P"
  by (rule ensures_Inr) (rule keep_packet)

lemma ensures_query:
  "P (w, s) \<Longrightarrow> (\<And>op. mk = Inr op \<Longrightarrow> op_fits op) \<Longrightarrow>
     (\<And>res w'. P (w', s) \<Longrightarrow> ensures (f res w') Q) \<Longrightarrow>
     ensures (obind (px_query E mk w) (\<lambda>(res, w'). f res w')) Q"
  by (rule ensures_bind) (auto dest: keep_query)

lemma keep_char_create:
  assumes "handle_cmsg_char_create E (w, s) = Inr st'" and P: "P (w, s)"
  shows "P st'"
proof (rule ensuresD [OF assms(1)])
  show "ensures (handle_cmsg_char_create E (w, s)) P"
    unfolding handle_cmsg_char_create_def with_packet_def prod.case Let_def
    apply (cases "in_packet s"; simp only: packet_ptr.case)
    apply ((rule ensures_reply | rule ensures_query | erule query_fits | rule ensures_rules | assumption
        | rule P | rule ensures_packet | erule keep_creation)+)
    done
qed

lemma keep_opcode: "handle_opcode E op (w, s) = Inr st' \<Longrightarrow> P (w, s) \<Longrightarrow> P st'"
  by (auto simp: handle_opcode_def Let_def obind_eq_Inr split: if_splits
      intro: keep_auth_session keep_ping keep_realm_split keep_char_enum keep_char_create keep_played_time)

lemma keep_incoming: "process_incoming E (w, s) = Inr st' \<Longrightarrow> P (w, s) \<Longrightarrow> P st'"
  by (auto simp: process_incoming_def obind_eq_Inr split: if_splits intro: keep_packet dest!: keep_opcode)

lemma ensures_incoming:
  "P (w, s) \<Longrightarrow> ensures (obind (process_incoming E (w, s)) (\<lambda>st. Inr (0 :: int, st))) (\<lambda>(_, st). P st)"
  by (auto simp: ensures_def obind_eq_Inr intro: keep_incoming)

end

text \<open>\<open>handle_input\<close> itself also counts the data it still expects.\<close>

locale proxy_input_inv = proxy_packet_inv P for P :: "proxy_state \<Rightarrow> bool" +
  assumes keep_masked: "P (w, s) \<Longrightarrow> P (w, s\<lparr>px_read_mask := False\<rparr>)"
    and keep_expected: "P (w, s) \<Longrightarrow> P (w, s\<lparr>expected_data := n, raw_buf := buf\<rparr>)"
begin

lemma keep_buffers: "P (w, s) \<Longrightarrow> px_refs s' = px_refs s \<Longrightarrow> P (w, s')"
  by (rule keep_sock [OF keep_expected [where n = "expected_data s'" and buf = "raw_buf s'"]]) (simp_all add: px_refs_def px_receiving_def)

lemma keep_input:
  assumes "px_handle_input E r1 r2 (w, s) = Inr (r, st')" and P: "P (w, s)"
  shows "P st'"
proof -
  have sock: "P (w, s')" if "px_refs s' = px_refs s" for s'
    using P that by (rule keep_buffers)
  have "ensures (px_handle_input E r1 r2 (w, s)) (\<lambda>(_, st). P st)"
    unfolding px_handle_input_def prod.case Let_def
    by (rule ensures_rules ensures_incoming
         | (rule ensures_Inr; simp only: prod.case) | (rule sock; simp add: px_refs_def))+
  from ensuresD [OF assms(1) this] show ?thesis by simp
qed

text \<open>Every event but writing keeps the invariant.\<close>

lemma keep_dispatch:
  assumes "proxy_dispatch E e (w, s) = Inr st'" and P: "P (w, s)" and "\<And>res. e \<noteq> Px_writable res"
  shows "P st'"
proof (cases e)
  case (Px_readable r1 r2)
  show ?thesis
  proof (cases "px_read_mask s")
    case True
    with Px_readable assms(1) obtain r w' s' where i: "px_handle_input E r1 r2 (w, s) = Inr (r, (w', s'))"
      and c: "(if r < 0 then obind (px_handle_close False (w', s'\<lparr>px_read_mask := False\<rparr>)) (\<lambda>(_, st). Inr st)
               else Inr (w', s')) = Inr st'"
      by (auto simp: proxy_dispatch_def obind_eq_Inr)
    from i P have "P (w', s')" by (rule keep_input)
    with c keep_die [OF keep_masked, of w' s'] show ?thesis
      by (auto simp: px_handle_close_def obind_eq_Inr split: if_splits)
  qed (use assms Px_readable in \<open>simp add: proxy_dispatch_def\<close>)
next
  case (Px_result obs res)
  with assms show ?thesis
    by (auto simp: proxy_dispatch_def split: if_splits intro: keep_result)
qed (use assms(3) in simp)

end

section \<open>The database jobs\<close>

definition jobs_fit :: "proxy_state \<Rightarrow> bool" where
  "jobs_fit st \<longleftrightarrow> list_all job_fits (jobs (fst st))"

lemma px_die_eq:
  "px_die (w, s) = Inr st' \<longleftrightarrow>
     (\<exists>sv. update_connections False (service w) = Inr sv \<and> st' = (w\<lparr>service := sv\<rparr>, reap (s\<lparr>px_live := False\<rparr>)))"
  by (auto simp: px_die_def obind_eq_Inr)

interpretation px_jobs: proxy_input_inv jobs_fit
proof unfold_locales
  show "jobs_fit st'" if "jobs_fit st" "px_die st = Inr st'" for st st'
    using that by (cases st) (auto simp: jobs_fit_def px_die_eq)
qed (auto simp: jobs_fit_def)

text \<open>No handler and no callback resets the count of the data still expected.\<close>

definition expects :: "u64 \<times> nat \<Rightarrow> proxy_state \<Rightarrow> bool" where
  "expects n st \<longleftrightarrow> snd (px_receiving (snd st)) = n"

lemma reap_simps [simp]:
  "px_live (reap s) = px_live s" "px_pending (reap s) = px_pending s"
  "px_open (reap s) \<longleftrightarrow> px_open s \<and> (px_live s \<or> 0 < px_pending s)"
  "px_read_mask (reap s) \<longleftrightarrow> px_read_mask s \<and> (px_live s \<or> 0 < px_pending s)"
  "px_write_mask (reap s) \<longleftrightarrow> px_write_mask s \<and> (px_live s \<or> 0 < px_pending s)"
  "raw_buf (reap s) = raw_buf s" "in_packet (reap s) = in_packet s" "expected_data (reap s) = expected_data s"
  by (auto simp: reap_def)

interpretation px_expects: proxy_packet_inv "expects n" for n
proof unfold_locales
  show "expects n st'" if "expects n st" "px_die st = Inr st'" for st st'
    using that by (cases st) (auto simp: expects_def px_die_eq px_receiving_def)
qed (auto simp: expects_def px_send_def Let_def px_receiving_def)

text \<open>What the output loop leaves alone.\<close>

definition px_kept :: "proxy_socket \<Rightarrow> bool \<times> nat \<times> bool \<times> bool \<times> bool \<times> bool \<times> packet_ptr \<times> u64 \<times> nat" where
  "px_kept s = (px_live s, px_pending s, px_read_mask s, px_write_mask s, px_open s, px_out_active s,
     px_receiving s)"

lemma px_out_loop_frame: "ensures (px_out_loop res i q s) (\<lambda>(e, s'). px_kept s' = px_kept s)"
proof (induction q arbitrary: i s)
  case Nil
  then show ?case by (simp add: ensures_def px_kept_def px_receiving_def)
next
  case (Cons b q)
  have rec: "ensures (px_out_loop res (Suc i) q s2) (\<lambda>(e, s'). px_kept s' = px_kept s)"
    if "px_kept s2 = px_kept s" for s2
    using Cons.IH [of "Suc i" s2] that by simp
  have init: "px_kept (snd p) = px_kept s"
    if "(if \<not> continue_send s then obind (encrypt (storage b1) (px_crypto s)) (\<lambda>(data, c).
           Inr (b1\<lparr>storage := data\<rparr>, s\<lparr>px_crypto := c\<rparr>)) else Inr (b1, s)) = Inr p" for b1 p
    using that by (auto simp: px_kept_def px_receiving_def obind_eq_Inr split: if_splits)
  show ?case
    unfolding px_out_loop.simps Let_def
    by (rule ensures_bind ensures_pair ensures_if | (rule ensures_Inr; simp only: prod.case) | rule rec
         | (drule init; simp add: px_kept_def px_receiving_def))+
qed

lemma px_writable:
  assumes "proxy_dispatch E (Px_writable res) (w, s) = Inr st'"
  shows "\<exists>s'. st' = (w, s') \<and> px_live s' = px_live s \<and> px_pending s' = px_pending s \<and>
           px_read_mask s' = px_read_mask s \<and> px_open s' = px_open s \<and> (px_write_mask s' \<longrightarrow> px_write_mask s) \<and>
           px_receiving s' = px_receiving s"
proof (cases "px_write_mask s")
  case True
  with assms obtain e s1 where l: "px_out_loop res 0 (px_queue s) s = Inr (e, s1)"
    by (auto simp: proxy_dispatch_def px_handle_output_def obind_eq_Inr)
  with ensuresD [OF l px_out_loop_frame] assms True show ?thesis
    by (cases e) (auto simp: proxy_dispatch_def px_handle_output_def px_handle_close_def px_kept_def px_receiving_def)
qed (use assms in \<open>auto simp: proxy_dispatch_def\<close>)

text \<open>C14. Whatever clients send and the database answers, every job in the queue of the proxy's
  database is made of requests for statements that \<open>ProxyDatabaseConnection::open\<close> has prepared,
  each with one value for every placeholder of its text, transactions included.  The names of
  the other databases, which are pasted into the texts, must not hold a placeholder.\<close>

theorem proxy_jobs_match:
  assumes "ofold (proxy_dispatch E) es (w, s) = Inr (w', s')"
    and "\<forall>j\<in>set (jobs w). job_fits j"
    and "proxy_placeholders realmdb = 0" and "proxy_placeholders worlddb = 0"
  shows "\<forall>j\<in>set (jobs w'). \<forall>op\<in>set (job_ops j). proxy_op_ok realmdb worlddb op"
proof -
  have "jobs_fit st \<Longrightarrow> ofold (proxy_dispatch E) es st = Inr st' \<Longrightarrow> jobs_fit st'" for st st'
  proof (induction es arbitrary: st)
    case (Cons e es)
    obtain w s where st: "st = (w, s)" by (cases st)
    from Cons.prems(2) obtain st1 where st1: "proxy_dispatch E e (w, s) = Inr st1" "ofold (proxy_dispatch E) es st1 = Inr st'"
      by (auto simp: obind_eq_Inr st)
    have "jobs_fit st1"
    proof (cases e)
      case (Px_writable res)
      with px_writable [of E res w s st1] st1(1) Cons.prems(1) show ?thesis by (auto simp: jobs_fit_def st)
    qed (use st1(1) Cons.prems(1) px_jobs.keep_dispatch [of E e w s st1] in \<open>simp_all add: st\<close>)
    with Cons.IH st1(2) show ?case by simp
  qed simp
  from this [of "(w, s)"] assms(1,2) have "jobs_fit (w', s')"
    by (simp add: jobs_fit_def list_all_iff)
  then show ?thesis
    using op_fits_ok [OF assms(3,4)] by (auto simp: jobs_fit_def job_fits_def list_all_iff)
qed

section \<open>References\<close>

definition owned :: "proxy_state \<Rightarrow> bool" where
  "owned st \<longleftrightarrow> (px_open (snd st) \<longleftrightarrow> px_live (snd st) \<or> 0 < px_pending (snd st)) \<and>
     (px_read_mask (snd st) \<or> px_write_mask (snd st) \<longrightarrow> px_open (snd st))"

interpretation px_owned: proxy_input_inv owned
proof unfold_locales
  show "owned st'" if "owned st" "px_die st = Inr st'" for st st'
    using that by (cases st) (auto simp: owned_def px_die_eq)
  show "owned (w, px_send pkt s)" if "owned (w, s)" for w s pkt
    using that by (auto simp: owned_def px_send_def Let_def)
  show "owned (w, reap (s\<lparr>px_pending := px_pending s - 1\<rparr>))" if "owned (w, s)" for w s
    using that by (auto simp: owned_def)
qed (auto simp: owned_def px_refs_def)

lemma owned_dispatch:
  assumes "owned st" and "proxy_dispatch E e st = Inr st'"
  shows "owned st'"
proof -
  obtain w s where st: "st = (w, s)" by (cases st)
  show ?thesis
  proof (cases e)
    case (Px_writable res)
    with px_writable [of E res w s st'] assms show ?thesis by (auto simp: owned_def st)
  qed (use assms px_owned.keep_dispatch [of E e w s st'] in \<open>simp_all add: st\<close>)
qed

lemma owned_new: "owned (w, Proxy_Socket_new rnd a0 cs0)"
  by (simp add: owned_def Proxy_Socket_new_def)

lemma owned_accept: "proxy_accept reg rnd a0 cs0 w = Inr st \<Longrightarrow> owned st"
proof -
  assume a: "proxy_accept reg rnd a0 cs0 w = Inr st"
  let ?s = "Proxy_Socket_new rnd a0 cs0"
  have "ensures (px_open_handler reg (w, ?s)) (\<lambda>(r, st). owned st)"
  proof -
    have "owned (w', ?s\<lparr>px_read_mask := True\<rparr>)" "owned (w', ?s)" for w'
      by (simp_all add: owned_def Proxy_Socket_new_def)
    then show ?thesis
      by (auto simp: ensures_def px_open_handler_def Let_def obind_eq_Inr split: if_splits
          intro: px_owned.keep_send_pkt)
  qed
  with a show ?thesis
    by (auto simp: proxy_accept_def obind_eq_Inr ensures_def px_close_def split: if_splits
        intro: px_owned.keep_die)
qed

text \<open>C13. From the moment it is accepted a connection is open exactly as long as something refers
  to it, its own pointer or a pending request; once it is closed, no event reaches it: nothing
  is read, written or delivered, and the proxy's state stays as it is.\<close>

theorem connection_lifetime:
  assumes "proxy_accept reg rnd a0 cs0 w = Inr st0" and "ofold (proxy_dispatch E) es st0 = Inr (w', s')"
  shows "(px_open s' \<longleftrightarrow> px_live s' \<or> 0 < px_pending s') \<and>
         (\<not> px_open s' \<longrightarrow> ofold (proxy_dispatch E) es' (w', s') = Inr (w', s'))"
proof -
  have "owned st \<Longrightarrow> ofold (proxy_dispatch E) es st = Inr st' \<Longrightarrow> owned st'" for st st'
    by (induction es arbitrary: st) (auto simp: obind_eq_Inr dest: owned_dispatch)
  then have o: "owned (w', s')" using owned_accept [OF assms(1)] assms(2) by blast
  have "proxy_dispatch E e (w', s') = Inr (w', s')" if "\<not> px_open s'" for e
    using o that by (cases e) (auto simp: proxy_dispatch_def owned_def)
  then have "ofold (proxy_dispatch E) es' (w', s') = Inr (w', s')" if "\<not> px_open s'"
    using that by (induction es') auto
  with o show ?thesis by (simp add: owned_def)
qed

section \<open>Examples\<close>

definition demo_proxyd :: proxyd where
  "demo_proxyd = \<lparr>service = demo_proxy, objmgr = demo_mgr, jobs = []\<rparr>"

definition demo_px_account :: proxy_account where
  "demo_px_account = \<lparr>pa_id = 3, pa_gmlevel = 0, pa_sessionkey = [], pa_sha_pass_hash = [], pa_v = [],
     pa_s = [], pa_expansion = 1\<rparr>"

definition demo_px_env :: proxy_env where
  "demo_px_env = \<lparr>px_ssl = demo_openssl, db_answer = (\<lambda>_. None), dbc = demo_store, unset_wchar = (\<lambda>_. 0)\<rparr>"

definition demo_client :: proxy_socket where
  "demo_client = (Proxy_Socket_new 7 demo_px_account 0)\<lparr>px_read_mask := True\<rparr>"

end
