(* ===== verification/Packet_Laws.thy ===== *)
theory Packet_Laws
  imports Buffer_Laws
begin

text \<open>
  What \<open>ByteBuffer\<close> puts on the wire: containers and strings read back by their own
  operators, the packed guid of \<open>appendPackGUID\<close> against a decoder of the format, and the
  header that \<open>ServerPkt\<close> writes on hosts of either byte order.
\<close>

section \<open>Containers and strings\<close>

text \<open>A \<open>std::map<uint32, std::string>\<close> streamed into a buffer on a host of either byte
  order and streamed out again on a host of either byte order is the same map, and the read
  cursor then stands at the end of the buffer.  The map is any ordered association list of
  fewer than \<open>2^32\<close> entries whose strings hold no zero byte, written below the
  ten-million-byte limit.\<close>

theorem map_stream_roundtrip:
  fixes m :: "(u32 \<times> bytes) list"
  assumes "om_sorted m" and "\<forall>e\<in>set m. 0 \<notin> set (snd e)" and "length m < 2 ^ 32"
    and "at_end b" and "rpos b = bb_size b"
    and "bb_size b + 4 + (\<Sum>e\<leftarrow>m. 5 + length (snd e)) < append_limit"
  shows "\<exists>b'. bb_out_map h (bb_out h) (bb_out_string h) m b = Inr b' \<and>
              bb_in_map h' (bb_read h') (bb_in_string h') b' = Inr (m, b'\<lparr>rpos := bb_size b'\<rparr>)"
proof -
  let ?img = "dict_codec.map_img :: (u32 \<times> bytes) list \<Rightarrow> bytes"
  have ok: "\<forall>e\<in>set m. dict_codec.entry_ok (e :: u32 \<times> bytes)"
    using assms(2) by (auto simp: dict_codec.entry_ok_def)
  have "length (concat (map dict_codec.entry_img m)) = (\<Sum>e\<leftarrow>m. 5 + length (snd e))"
    by (induction m) (auto simp: dict_codec.entry_img_def)
  then have len: "length (?img m) = 4 + (\<Sum>e\<leftarrow>m. 5 + length (snd e))"
    by (simp add: dict_codec.map_img_def)
  have "bb_out_map h (bb_out h) (bb_out_string h) m b = Inr (bb_extend (?img m) b)"
    using writesD [OF dict_codec.map_enc [OF ok] assms(4)] assms(6) len by simp
  moreover have "bb_in_map h' (bb_read h') (bb_in_string h') (bb_extend (?img m) b)
      = Inr (m, bb_advance (length (?img m)) (bb_extend (?img m) b))"
    using ok assms(1,3,5) by (intro dict_codec.map_dec [where ys = "[]"]) (simp_all add: bb_rest_extend)
  ultimately show ?thesis
    using assms(5) by (simp add: bb_advance_def)
qed

theorem map_stream_roundtrip_witness:
  "\<exists>b'. bb_out_map Big (bb_out Big) (bb_out_string Big) [(7 :: u32, [104, 105]), (9, [])] bb_new = Inr b' \<and>
     bb_in_map Little (bb_read Little) (bb_in_string Little) b'
       = Inr ([(7 :: u32, [104, 105]), (9, [])], b'\<lparr>rpos := bb_size b'\<rparr>)"
  by (rule map_stream_roundtrip) (simp_all add: om_sorted_def append_limit_def bb_new_def bb_size_def at_end_def)

text \<open>Reading back a string written with \<open>operator<<\<close> returns it up to its first zero
  byte, and leaves the rest of it in the buffer: a string with an embedded zero is the one
  value the string operators do not preserve.\<close>

theorem string_stream_prefix:
  assumes "at_end b" and "rpos b = bb_size b" and "bb_size b + length s + 1 < append_limit"
  shows "\<exists>b'. bb_out_string h s b = Inr b' \<and>
              bb_in_string h' b' =
                Inr (takeWhile (\<lambda>c. c \<noteq> 0) s,
                     b'\<lparr>rpos := bb_size b + length (takeWhile (\<lambda>c. c \<noteq> 0) s) + 1\<rparr>)"
proof -
  let ?t = "takeWhile (\<lambda>c. c \<noteq> 0) s" and ?b = "bb_extend (s @ [0]) b"
  have "bb_out_string h s b = Inr ?b"
    using assms by (intro writesD [OF writes_out_string]) simp_all
  moreover have "bb_in_string h' ?b = Inr (?t, bb_advance (Suc (length ?t)) ?b)"
  proof -
    have t: "takeWhile (\<lambda>c. c \<noteq> 0) (s @ [0]) = ?t"
      by (induction s) auto
    have "length ?t \<le> length s"
      by (rule length_takeWhile_le)
    with t show ?thesis
      using assms(2) by (simp add: bb_in_string_def bb_in_string_loop_eq bb_rest_extend Let_def)
  qed
  ultimately show ?thesis
    using assms(2) by (simp add: bb_advance_def)
qed

theorem string_stream_prefix_witness:
  "\<exists>b'. bb_out_string Little [79, 0, 75] bb_new = Inr b' \<and>
     bb_in_string Little b' = Inr ([79], b'\<lparr>rpos := Suc (Suc 0)\<rparr>)"
  using string_stream_prefix [of bb_new "[79, 0, 75]" Little Little]
  by (simp add: append_limit_def bb_new_def bb_size_def at_end_def)

section \<open>Packed guids\<close>

text \<open>The format: a mask with a bit for every non-zero byte, then those bytes.\<close>

fun guid_mask :: "nat \<Rightarrow> bytes \<Rightarrow> byte" where
  "guid_mask i [] = 0"
| "guid_mask i (c # cs) = (if c \<noteq> 0 then push_bit i 1 else 0) OR guid_mask (Suc i) cs"

definition packed_guid :: "u64 \<Rightarrow> bytes" where
  "packed_guid guid = guid_mask 0 (wire guid) # filter (\<lambda>c. c \<noteq> 0) (wire guid)"

fun unpack_bytes :: "nat list \<Rightarrow> byte \<Rightarrow> bytes \<Rightarrow> bytes" where
  "unpack_bytes [] m xs = []"
| "unpack_bytes (i # is) m [] = 0 # unpack_bytes is m []"
| "unpack_bytes (i # is) m (x # xs) =
     (if bit m i then x # unpack_bytes is m xs else 0 # unpack_bytes is m (x # xs))"

fun unpack_guid :: "bytes \<Rightarrow> u64" where
  "unpack_guid [] = 0"
| "unpack_guid (m # xs) = of_le (unpack_bytes [0..<8] m xs)"

lemma bit_guid_mask:
  "i + length cs \<le> 8 \<Longrightarrow>
     bit (guid_mask i cs) k \<longleftrightarrow> i \<le> k \<and> k < i + length cs \<and> cs ! (k - i) \<noteq> 0"
proof (induction i cs rule: guid_mask.induct)
  case (1 i)
  then show ?case by simp
next
  case (2 i c cs)
  then have "bit (guid_mask (Suc i) cs) k \<longleftrightarrow> Suc i \<le> k \<and> k < Suc i + length cs \<and> cs ! (k - Suc i) \<noteq> 0"
    by simp
  moreover have "bit (push_bit i (1 :: byte)) k \<longleftrightarrow> k = i"
    using "2.prems" by (auto simp: bit_simps)
  ultimately show ?case
    by (cases "k = i") (auto simp: bit_simps nth_Cons' le_eq_less_or_eq)
qed

lemma unpack_filter:
  "(\<And>j. j < length cs \<Longrightarrow> bit m (i + j) \<longleftrightarrow> cs ! j \<noteq> 0) \<Longrightarrow>
     unpack_bytes [i..<i + length cs] m (filter (\<lambda>c. c \<noteq> 0) cs) = cs"
proof (induction cs arbitrary: i)
  case Nil
  then show ?case by simp
next
  case (Cons c cs)
  have hd: "bit m i \<longleftrightarrow> c \<noteq> 0" using Cons.prems [of 0] by simp
  have "bit m (Suc i + j) \<longleftrightarrow> cs ! j \<noteq> 0" if "j < length cs" for j
    using Cons.prems [of "Suc j"] that by simp
  then have IH: "unpack_bytes [Suc i..<Suc i + length cs] m (filter (\<lambda>c. c \<noteq> 0) cs) = cs"
    by (rule Cons.IH)
  have up: "[i..<i + length (c # cs)] = i # [Suc i..<Suc i + length cs]"
    by (simp add: upt_rec)
  show ?case
    unfolding up using hd IH
    by (cases "filter (\<lambda>c. c \<noteq> 0) cs") auto
qed

lemma guid_low_byte: "ucast (guid AND 0xFF) = (ucast guid :: byte)" for guid :: u64
proof -
  have "guid AND 0xFF = take_bit 8 guid"
    by (simp add: take_bit_eq_mask mask_eq_exp_minus_1)
  then show ?thesis
    by (simp add: unsigned_take_bit_eq) (rule bit_word_eqI, auto simp: bit_simps)
qed

lemma guid_low_zero: "guid AND 0xFF = 0 \<longleftrightarrow> (ucast guid :: byte) = 0" for guid :: u64
proof -
  have e: "guid AND 0xFF = take_bit 8 guid"
    by (simp add: take_bit_eq_mask mask_eq_exp_minus_1)
  have "take_bit 8 guid = 0 \<longleftrightarrow> (\<forall>n<8. \<not> bit guid n)"
    by (auto simp: bit_eq_iff bit_simps)
  moreover have "(ucast guid :: byte) = 0 \<longleftrightarrow> (\<forall>n<8. \<not> bit guid n)"
    by (auto simp: bit_eq_iff bit_simps)
  ultimately show ?thesis unfolding e by simp
qed

text \<open>One pass over the remaining byte positions.\<close>

lemma pack_guid_loop_eq:
  assumes "i + n = 8" and "p < bb_size b" and "at_end b" and "bb_size b + n < append_limit"
  shows "pack_guid_loop h p [i..<8] (g, b) =
           Inr (drop_bit (8 * n) g,
                bb_extend (filter (\<lambda>c. c \<noteq> 0) (le_bytes n g))
                  (b\<lparr>storage := (storage b)[p := storage b ! p OR guid_mask i (le_bytes n g)]\<rparr>))"
  using assms
proof (induction n arbitrary: i g b)
  case 0
  then show ?case by simp
next
  case (Suc n)
  have up: "[i..<8] = i # [Suc i..<8]" using Suc.prems(1) by (simp add: upt_rec)
  let ?c = "ucast g :: byte" and ?g = "drop_bit 8 g"
  let ?m = "storage b ! p"
  show ?case
  proof (cases "?c = 0")
    case True
    have "pack_guid_step h p i (g, b) = Inr (?g, b)"
      using True by (simp add: pack_guid_step_def guid_low_zero)
    with Suc.IH [of "Suc i" b ?g] Suc.prems True show ?thesis
      by (simp add: up drop_bit_drop_bit add.commute)
  next
    case False
    let ?b = "b\<lparr>storage := (storage b)[p := ?m OR push_bit i 1]\<rparr>"
    have b: "at_end ?b" "bb_size ?b = bb_size b"
      using Suc.prems by (simp_all add: at_end_def bb_size_def)
    then have "pack_guid_step h p i (g, b) = Inr (?g, bb_extend [?c] ?b)"
      using False Suc.prems by (simp add: pack_guid_step_def guid_low_zero guid_low_byte bb_out_at_end)
    moreover have "pack_guid_loop h p [Suc i..<8] (?g, bb_extend [?c] ?b) =
        Inr (drop_bit (8 * n) ?g, bb_extend (filter (\<lambda>c. c \<noteq> 0) (le_bytes n ?g))
          ((bb_extend [?c] ?b)\<lparr>storage := (storage (bb_extend [?c] ?b))[p :=
             storage (bb_extend [?c] ?b) ! p OR guid_mask (Suc i) (le_bytes n ?g)]\<rparr>))"
      using Suc.prems b by (intro Suc.IH) auto
    moreover have "p < length (storage b)"
      using Suc.prems by (simp add: bb_size_def)
    ultimately show ?thesis
      using False
      by (simp add: up drop_bit_drop_bit add.commute bb_extend_def list_update_append or.assoc nth_append)
  qed
qed

text \<open>\<open>appendPackGUID\<close> appends the packed form of the guid, at most nine bytes, on a
  host of either byte order, and a decoder of the format recovers the guid from what was
  appended: no guid loses a byte and none needs the mask byte twice.\<close>

theorem pack_guid_roundtrip:
  assumes "at_end b" and "bb_size b + 9 < append_limit"
  shows "bb_appendPackGUID h guid b = Inr (bb_extend (packed_guid guid) b) \<and>
         unpack_guid (packed_guid guid) = guid \<and> length (packed_guid guid) \<le> 9"
proof (intro conjI)
  let ?b = "bb_extend [0] b"
  have w: "le_bytes 8 guid = wire guid" by (simp add: wire_def)
  have "bb_out h (0 :: byte) b = Inr ?b"
    using assms by (simp add: bb_out_at_end)
  moreover have "pack_guid_loop h (wpos b) [0..<8] (guid, ?b) =
      Inr (drop_bit (8 * 8) guid, bb_extend (filter (\<lambda>c. c \<noteq> 0) (le_bytes 8 guid))
            (?b\<lparr>storage := (storage ?b)[wpos b := storage ?b ! wpos b OR guid_mask 0 (le_bytes 8 guid)]\<rparr>))"
    using assms by (intro pack_guid_loop_eq) (auto simp: at_end_def)
  moreover have "wpos b = length (storage b)"
    using assms(1) by (simp add: at_end_def bb_size_def)
  ultimately show "bb_appendPackGUID h guid b = Inr (bb_extend (packed_guid guid) b)"
    by (simp add: bb_appendPackGUID_def w packed_guid_def bb_extend_def)
  have "bit (guid_mask 0 (wire guid)) (0 + j) \<longleftrightarrow> wire guid ! j \<noteq> 0" if "j < length (wire guid)" for j
    using that by (simp add: bit_guid_mask)
  then have "unpack_bytes [0..<0 + length (wire guid)] (guid_mask 0 (wire guid))
      (filter (\<lambda>c. c \<noteq> 0) (wire guid)) = wire guid"
    by (rule unpack_filter)
  then show "unpack_guid (packed_guid guid) = guid"
    by (simp add: packed_guid_def wire_def)
  show "length (packed_guid guid) \<le> 9"
    using length_filter_le [of "\<lambda>c. c \<noteq> 0" "wire guid"] by (simp add: packed_guid_def)
qed

theorem pack_guid_roundtrip_witness:
  "bb_appendPackGUID Big 0x0102000000000003 bb_new
     = Inr (bb_extend (packed_guid 0x0102000000000003) bb_new) \<and>
   unpack_guid (packed_guid 0x0102000000000003) = 0x0102000000000003 \<and>
   length (packed_guid 0x0102000000000003) \<le> 9"
  by (rule pack_guid_roundtrip) (simp_all add: append_limit_def)

section \<open>Server packet headers\<close>

lemma bb_append_at:
  "src \<noteq> [] \<Longrightarrow> bb_size b < append_limit \<Longrightarrow>
     bb_append src b = Inr (b\<lparr>
       storage := splice_at (wpos b) src
         (if bb_size b < wpos b + length src then vec_resize (wpos b + length src) (storage b)
          else storage b),
       wpos := wpos b + length src\<rparr>)"
  by (simp add: bb_append_def Let_def)

lemma wire_nonempty [simp]: "wire (w :: u16) \<noteq> []"
  using length_wire [of w] by (auto simp del: length_wire)

lemma SetOpcode_storage:
  assumes "b = bb_new\<lparr>wpos := 4\<rparr>"
  shows "SetOpcode h op b =
    Inr (b\<lparr>storage := [0, 0] @ (case h of Little \<Rightarrow> wire op | Big \<Rightarrow> rev (wire op))\<rparr>)"
proof -
  have "obj_value h (EndianConvert h (obj_bytes h op)) =
          (case h of Little \<Rightarrow> op | Big \<Rightarrow> of_le (rev (wire op)))"
    by (cases h) (simp_all add: obj_value_def wire_def)
  moreover have "wire (of_le (rev (wire op)) :: u16) = rev (wire op)"
    using le_bytes_of_le [of "rev (wire op)", where 'a = 16] by (simp add: wire_def)
  ultimately show ?thesis
    using assms
    by (cases h) (simp_all add: SetOpcode_def bb_append_val_def bb_append_at bb_new_def bb_size_def
        append_limit_def vec_resize_def splice_at_def Let_def numeral_2_eq_2)
qed

lemma SetSize_storage:
  assumes "storage b = x # y # rest" and "bb_size b < append_limit"
  shows "SetSize h n b =
    Inr (b\<lparr>storage := (case h of Little \<Rightarrow> rev (wire (n + 2)) | Big \<Rightarrow> wire (n + 2)) @ rest\<rparr>)"
proof -
  let ?m = "n + 2"
  have "obj_value h (EndianConvertReverse h (obj_bytes h ?m)) =
          (case h of Little \<Rightarrow> of_le (rev (wire ?m)) | Big \<Rightarrow> ?m)"
    by (cases h) (simp_all add: obj_value_def obj_bytes_def wire_def)
  moreover have "wire (of_le (rev (wire ?m)) :: u16) = rev (wire ?m)"
    using le_bytes_of_le [of "rev (wire ?m)", where 'a = 16] by (simp add: wire_def)
  ultimately show ?thesis
    using assms
    by (cases h) (simp_all add: SetSize_def bb_append_val_def bb_append_at bb_size_def splice_at_def
        Let_def)
qed

text \<open>A \<open>ServerPkt\<close> built for opcode \<open>op\<close> and \<open>n\<close> bytes of payload holds exactly its
  four header bytes, with the write cursor behind them.  On a little-endian host they are the
  header the client expects: the payload size plus two in big-endian order, then the opcode in
  little-endian order.  On a big-endian host both halves come out in the opposite order,
  because \<open>SetOpcode\<close> and \<open>SetSize\<close> convert and \<open>append\<close> converts again.\<close>

theorem server_packet_header:
  "ServerPkt_op h op n =
     Inr \<lparr>rpos = 0, wpos = 4,
          storage = (case h of
              Little \<Rightarrow> rev (wire (of_nat n + 2 :: u16)) @ wire op
            | Big \<Rightarrow> wire (of_nat n + 2 :: u16) @ rev (wire op))\<rparr>"
proof -
  have w: "wire op = [ucast op, ucast (drop_bit 8 op)]"
    by (simp add: wire_def numeral_2_eq_2)
  show ?thesis
    unfolding ServerPkt_op_def SetOpcode_storage [OF refl]
    by (cases h) (simp_all add: SetSize_storage [where x = 0 and y = 0] w bb_size_def
        append_limit_def bb_new_def)
qed

end
