(* ===== verification/Proxy_Receive.thy ===== *)
theory Proxy_Receive
  imports Proxy_Session Packet_Laws
begin

text \<open>
  The reception of packets by \<open>Proxy_Socket::handle_input\<close>: what a packet that arrives as a
  whole does, and what one that arrives in pieces leaves behind.
\<close>

section \<open>Packets of a client\<close>

text \<open>The header a client sends: the size of opcode and body in big-endian order and the opcode in
  little-endian order; and the packet the proxy makes of header and body.\<close>

definition client_size :: "bytes \<Rightarrow> u16" where
  "client_size body = of_nat (length body + 4)"

definition client_header :: "u32 \<Rightarrow> bytes \<Rightarrow> bytes" where
  "client_header op body = rev (wire (client_size body)) @ wire op"

definition client_packet :: "u32 \<Rightarrow> bytes \<Rightarrow> byte_buffer" where
  "client_packet op body = \<lparr>rpos = 6, wpos = 6 + length body,
     storage = wire (client_size body) @ wire op @ body\<rparr>"

text \<open>The part of a packet whose body has arrived up to \<open>part\<close>.\<close>

definition partial_packet :: "u32 \<Rightarrow> bytes \<Rightarrow> bytes \<Rightarrow> byte_buffer" where
  "partial_packet op body part = \<lparr>rpos = 6, wpos = 6 + length part,
     storage = wire (client_size body) @ wire op @ part\<rparr>"

lemma partial_packet_full: "partial_packet op body body = client_packet op body"
  by (simp add: partial_packet_def client_packet_def)

lemma length_client_header [simp]: "length (client_header op body) = 6"
  by (simp add: client_header_def)

lemma unat_client_size: "length body \<le> 4090 \<Longrightarrow> unat (client_size body) = length body + 4"
  by (simp add: client_size_def unat_of_nat_small del: of_nat_add)

lemma unat_client_size_rest:
  assumes "length body \<le> 4090"
  shows "unat (ucast (client_size body) - 4 :: u64) = length body"
proof -
  have u: "unat (ucast (client_size body) :: u64) = length body + 4"
    using unat_client_size [OF assms] assms by (simp add: unsigned_ucast_eq take_bit_nat_eq_self)
  then have "(4 :: u64) \<le> ucast (client_size body)"
    by (simp add: word_le_nat_alt)
  with u show ?thesis by (simp add: unat_sub)
qed

lemma convert_client_header:
  "convert_header (client_header op body @ rest) = wire (client_size body) @ wire op @ rest"
  by (simp add: convert_header_def client_header_def)

lemma declared_client_size: "declared_size (wire (client_size body) @ rest) = client_size body"
  by (simp add: declared_size_def) (simp add: wire_def)

text \<open>\<open>decrypt\<close> leaves what follows the header alone.\<close>

lemma decrypt_append:
  "length x = 6 \<Longrightarrow> decrypt x c = Inr (y, c') \<Longrightarrow> decrypt (x @ rest) c = Inr (y @ rest, c') \<and> length y = 6"
proof -
  assume x: "length x = 6" and d: "decrypt x c = Inr (y, c')"
  show ?thesis
  proof (cases "is_initialised c")
    case True
    obtain xs i j where r: "run_stream (decrypt_byte (crypto_key c)) x (recv_i c, recv_j c) = (xs, i, j)"
      using prod_cases3 by blast
    have "length xs = 6"
      using length_run_stream [of "decrypt_byte (crypto_key c)" x "(recv_i c, recv_j c)"] r x by simp
    with d x True r show ?thesis by (auto simp: decrypt_def CRYPTED_RECV_LEN_def splice_at_def)
  qed (use x d in \<open>simp add: decrypt_def\<close>)
qed

lemma recv_into_front:
  "length bs \<le> n \<Longrightarrow> length bs \<le> length raw \<Longrightarrow>
     recv_into 0 n (Some bs) raw = Inr (of_nat (length bs), bs @ drop (length bs) raw)"
  by (simp add: recv_into_def splice_at_def)

lemma recv_into_behind:
  "length bs \<le> n \<Longrightarrow> length h = 6 \<Longrightarrow> length bs \<le> length raw \<Longrightarrow>
     recv_into 6 n (Some bs) (h @ raw) = Inr (of_nat (length bs), h @ bs @ drop (length bs) raw)"
  by (simp add: recv_into_def splice_at_def)

lemma append_new_client: "src \<noteq> [] \<Longrightarrow> length src < append_limit \<Longrightarrow>
    bb_append src ClientPkt_new = Inr \<lparr>rpos = 6, wpos = length src, storage = src\<rparr>"
  by (simp add: bb_append_def ClientPkt_new_def bb_new_def bb_size_def append_limit_def vec_resize_def
      splice_at_def Let_def)

lemma bb_read_front:
  "8 dvd LENGTH('a) \<Longrightarrow> storage b = xs @ wire (v :: 'a::len word) @ ys \<Longrightarrow>
     bb_read h (b\<lparr>rpos := length xs\<rparr>) = Inr (v, b\<lparr>rpos := length xs + size_of TYPE('a word)\<rparr>)"
  using bb_read_wire [of "b\<lparr>rpos := length xs\<rparr>" v ys h] by (simp add: bb_rest_def bb_advance_def)

lemma peek_partial:
  "PeekSize h (partial_packet op body part) = Inr (client_size body, partial_packet op body part)"
  "PeekOpcode h (partial_packet op body part) = Inr (op, partial_packet op body part)"
  using bb_read_front [of "partial_packet op body part" "[]" "client_size body" "wire op @ part" h]
    bb_read_front [of "partial_packet op body part" "wire (client_size body)" op part h]
  by (simp_all add: PeekSize_def PeekOpcode_def partial_packet_def)

lemma of_nat_eq_small:
  "a < 2 ^ LENGTH('a) \<Longrightarrow> b < 2 ^ LENGTH('a) \<Longrightarrow> (of_nat a :: 'a::len word) = of_nat b \<longleftrightarrow> a = b"
  by (metis unat_of_nat_small)

text \<open>The state after the header and the first part of a body.\<close>

definition received :: "u32 \<Rightarrow> bytes \<Rightarrow> bytes \<Rightarrow> proxy_crypto \<Rightarrow> proxy_socket \<Rightarrow> proxy_socket" where
  "received op body part c s = s\<lparr>
     raw_buf := wire (client_size body) @ wire op @ part @ drop (length part + 6) (raw_buf s),
     px_crypto := c, in_packet := Packet (partial_packet op body part)\<rparr>"

lemma input_first:
  assumes "expected_data s = 0" "length (raw_buf s) = 4096" "length body \<le> 4090"
    and "length part \<le> length body" "length x = 6" "decrypt x (px_crypto s) = Inr (client_header op body, c)"
  shows "px_handle_input E (Some x) (Some part) (w, s) =
     (if length part < length body
      then Inr (0, (w, (received op body part c s)\<lparr>expected_data := of_nat (length body - length part)\<rparr>))
      else obind (process_incoming E (w, received op body part c s)) (\<lambda>st. Inr (0, st)))"
proof -
  let ?k = "of_nat (length part) :: u64" and ?raw = "drop 6 (raw_buf s)" and ?h = "wire (client_size body) @ wire op"
  let ?buf = "?h @ part @ drop (length part) ?raw"
  have k: "unat ?k = length part" using assms(3,4) by (simp add: unat_of_nat_small)
  have k6: "unat (?k + 6) = length part + 6"
  proof -
    have "?k + 6 = of_nat (length part + 6)" by simp
    then show ?thesis using assms(3,4) by (simp add: unat_of_nat_small del: of_nat_add)
  qed
  have r1: "recv_into 0 6 (Some x) (raw_buf s) = Inr (6, x @ ?raw)"
    using recv_into_front [of x 6 "raw_buf s"] assms(2,5) by simp
  have r2: "recv_into 6 (length body) (Some part) (?h @ ?raw) = Inr (?k, ?buf)"
    using recv_into_behind [of part "length body" ?h ?raw] assms(2,3,4) by simp
  have pkt: "bb_append (wire (client_size body) @ wire op @ part) ClientPkt_new = Inr (partial_packet op body part)"
    using append_new_client [of "?h @ part"] assms(3,4)
    by (simp add: partial_packet_def append_limit_def)
  have size: "(ucast (client_size body) :: u64) = of_nat (length body + 4)"
  proof (rule word_unat_eq_iff [THEN iffD2])
    show "unat (ucast (client_size body) :: u64) = unat (of_nat (length body + 4) :: u64)"
      using unat_client_size [OF assms(3)] unat_of_nat_small [of "length body + 4", where ?'a = 64] assms(3)
      by (simp add: unsigned_ucast_eq take_bit_nat_eq_self)
  qed
  have whole: "?k + 4 = ucast (client_size body) \<longleftrightarrow> \<not> length part < length body"
  proof -
    have "?k + 4 = ucast (client_size body) \<longleftrightarrow> (of_nat (length part + 4) :: u64) = of_nat (length body + 4)"
      by (simp add: size)
    also have "\<dots> \<longleftrightarrow> length part + 4 = length body + 4"
      using assms(3,4) by (intro of_nat_eq_small) simp_all
    finally show ?thesis using assms(4) by auto
  qed
  show ?thesis
    unfolding px_handle_input_def prod.case r1 obind_Inr
    using decrypt_append [OF assms(5,6), of ?raw]
    by (simp add: assms(1) convert_client_header declared_client_size unat_client_size_rest [OF assms(3)] Let_def
        r2 [simplified append_assoc] k6 pkt peek_partial whole
        received_def) (simp add: size)
qed

text \<open>The rest of a body, in any number of pieces.\<close>

lemma append_partial:
  assumes "bs \<noteq> []" "length part + 6 < append_limit"
  shows "bb_append bs (partial_packet op body part) = Inr (partial_packet op body (part @ bs))"
  using bb_append_at_end [of "partial_packet op body part" bs] assms
  by (simp add: partial_packet_def at_end_def bb_size_def bb_extend_def add.assoc)

lemma input_next:
  assumes "expected_data s = of_nat (length rest)" "in_packet s = Packet (partial_packet op body part)"
    and "bs \<noteq> []" "length bs \<le> length rest" "length rest \<le> 4090" "length (raw_buf s) = 4096"
    and "length part \<le> 4090"
  shows "px_handle_input E (Some bs) r2 (w, s) =
    (let s' = s\<lparr>raw_buf := bs @ drop (length bs) (raw_buf s), in_packet := Packet (partial_packet op body (part @ bs))\<rparr>
     in if length bs < length rest
        then Inr (0, (w, s'\<lparr>expected_data := of_nat (length rest) - of_nat (length bs)\<rparr>))
        else obind (process_incoming E (w, s')) (\<lambda>st. Inr (0, st)))"
proof -
  have n: "unat (of_nat (length rest) :: u64) = length rest" "unat (of_nat (length bs) :: u64) = length bs"
    using assms(4,5) by (simp_all add: unat_of_nat_small)
  have ne: "(of_nat (length rest) :: u64) \<noteq> 0" "(of_nat (length bs) :: u64) \<noteq> 0"
    using assms(3,4) n by (metis length_0_conv le_zero_eq unat_0)+
  have m1: "(of_nat (length bs) :: u64) \<noteq> - 1"
  proof
    assume "(of_nat (length bs) :: u64) = - 1"
    then have "(of_nat (length bs + 1) :: u64) = of_nat 0" by simp
    then show False using assms(4,5) by (subst (asm) of_nat_eq_small) simp_all
  qed
  have eq: "(of_nat (length bs) :: u64) = of_nat (length rest) \<longleftrightarrow> \<not> length bs < length rest"
    using assms(4,5) by (subst of_nat_eq_small) auto
  have r: "recv_into 0 (unat (of_nat (length rest) :: u64)) (Some bs) (raw_buf s)
      = Inr (of_nat (length bs), bs @ drop (length bs) (raw_buf s))"
    using recv_into_front [of bs "length rest" "raw_buf s"] assms(4-6) n by simp
  show ?thesis
    unfolding px_handle_input_def prod.case
    using ne m1 r assms(1-3,7)
    by (simp add: with_packet_def n append_partial append_limit_def eq Let_def)
qed

lemma process_partial:
  assumes "in_packet s = Packet (partial_packet op body part)"
  shows "process_incoming E (w, s) =
    obind (handle_opcode E op (w, s)) (\<lambda>(w', s'). Inr (w', s'\<lparr>in_packet := Deleted\<rparr>))"
  using assms
  by (simp add: process_incoming_def with_packet_def peek_partial)
     (metis (no_types, lifting) proxy_socket.surjective proxy_socket.update_convs(5) proxy_socket.select_convs(5))

lemma input_whole:
  assumes "expected_data s = 0" and "length (raw_buf s) = 4096" and "length body \<le> 4090"
    and "length x = 6" and "decrypt x (px_crypto s) = Inr (client_header op body, c)"
  shows "px_handle_input E (Some x) (Some body) (w, s) =
      obind (handle_opcode E op (w, received op body body c s)) (\<lambda>(w', s'). Inr (0, (w', s'\<lparr>in_packet := Deleted\<rparr>)))"
proof -
  have "process_incoming E (w, received op body body c s) =
      obind (handle_opcode E op (w, received op body body c s)) (\<lambda>(w', s'). Inr (w', s'\<lparr>in_packet := Deleted\<rparr>))"
    by (rule process_partial [of _ op body body]) (simp add: received_def)
  then show ?thesis
    using input_first [OF assms(1-3) order.refl assms(4,5), of E w] by (simp add: obind_assoc split_def)
qed

section \<open>Properties\<close>


text \<open>A connection that expects more data for a packet it has deleted.\<close>

definition doomed :: "proxy_state \<Rightarrow> bool" where
  "doomed st \<longleftrightarrow> (\<exists>n. px_receiving (snd st) = (Deleted, n, 4096) \<and> n \<noteq> 0 \<and> unat n \<le> 4096)"

interpretation px_doomed: proxy_inv doomed
proof unfold_locales
  show "doomed st'" if "doomed st" "px_die st = Inr st'" for st st'
    using that by (cases st) (auto simp: doomed_def px_die_eq px_receiving_def)
qed (auto simp: doomed_def px_send_def Let_def px_receiving_def)

definition is_readable :: "proxy_event \<Rightarrow> bool" where
  "is_readable e \<longleftrightarrow> (case e of Px_readable _ _ \<Rightarrow> True | _ \<Rightarrow> False)"

lemma doomed_run:
  "doomed st \<Longrightarrow> list_all (\<lambda>e. \<not> is_readable e) es \<Longrightarrow> ofold (proxy_dispatch E) es st = Inr st' \<Longrightarrow> doomed st'"
proof (induction es arbitrary: st)
  case (Cons e es)
  obtain w s where st: "st = (w, s)" by (cases st)
  from Cons.prems(3) obtain st1 where st1: "proxy_dispatch E e (w, s) = Inr st1" "ofold (proxy_dispatch E) es st1 = Inr st'"
    by (auto simp: obind_eq_Inr st)
  have "doomed st1"
  proof (cases e)
    case (Px_writable res)
    with px_writable [of E res w s st1] st1(1) Cons.prems(1) show ?thesis by (auto simp: doomed_def st)
  next
    case (Px_result obs res)
    with st1(1) Cons.prems(1) show ?thesis
      by (auto simp: proxy_dispatch_def st split: if_splits intro: px_doomed.keep_result)
  qed (use Cons.prems(2) in \<open>simp add: is_readable_def\<close>)
  with Cons.IH st1(2) Cons.prems(2) show ?case by simp
qed simp

lemma doomed_readable:
  assumes "doomed st" and "px_read_mask (snd st)" and "bs \<noteq> []"
  shows "proxy_dispatch E (Px_readable (Some bs) r2) st = Inl Dangling"
proof -
  obtain w s where st: "st = (w, s)" by (cases st)
  let ?n = "expected_data s" and ?bs = "take (unat (expected_data s)) bs"
  have s: "in_packet s = Deleted" "?n \<noteq> 0" "unat ?n \<le> 4096" "length (raw_buf s) = 4096"
    using assms(1) by (auto simp: doomed_def px_receiving_def st)
  have len: "length ?bs \<le> 4096" "?bs \<noteq> []"
    using s(2,3) assms(3) by (auto simp: unat_eq_0)
  have "(of_nat (length ?bs) :: u64) \<noteq> of_nat 0" "(of_nat (length ?bs + 1) :: u64) \<noteq> of_nat 0"
    using len by (subst of_nat_eq_small; simp)+
  then have nz: "(of_nat (length ?bs) :: u64) \<noteq> 0" "(of_nat (length ?bs) :: u64) \<noteq> - 1"
    by (auto simp: eq_neg_iff_add_eq_0 add.commute)
  have "recv_into 0 (unat ?n) (Some bs) (raw_buf s) = Inr (of_nat (length ?bs), splice_at 0 ?bs (raw_buf s))"
    using len(1) s(4) by (simp add: recv_into_def Let_def)
  with nz have "px_handle_input E (Some bs) r2 (w, s) = Inl Dangling"
    unfolding px_handle_input_def prod.case using s by (simp add: with_packet_def Let_def)
  then show ?thesis using assms(2) by (simp add: proxy_dispatch_def st)
qed

text \<open>C33. A packet that arrives in two pieces is handled like a whole one, but the count of expected
  data is not reset: the packet is deleted, and as soon as the client sends anything else,
  whatever was written or delivered meanwhile, the connection appends to the deleted packet.\<close>

theorem fragmented_packet_dangles:
  assumes "expected_data s = 0" and "length (raw_buf s) = 4096" and "length (b1 @ b2) \<le> 4090" and "b2 \<noteq> []"
    and "length x = 6" and "decrypt x (px_crypto s) = Inr (client_header op (b1 @ b2), c)"
    and "px_handle_input E (Some x) (Some b1) (w, s) = Inr (r1, st1)"
    and "px_handle_input E (Some b2) z st1 = Inr (r2, st2)"
    and "list_all (\<lambda>e. \<not> is_readable e) es" and "ofold (proxy_dispatch E) es st2 = Inr st3"
    and "px_read_mask (snd st3)" and "bs \<noteq> []"
  shows "(\<exists>s1 w2 s2. in_packet s1 = Packet (client_packet op (b1 @ b2)) \<and>
            handle_opcode E op (w, s1) = Inr (w2, s2) \<and> st2 = (w2, s2\<lparr>in_packet := Deleted\<rparr>)) \<and>
         proxy_dispatch E (Px_readable (Some bs) r) st3 = Inl Dangling"
proof -
  let ?body = "b1 @ b2" and ?n = "of_nat (length b2) :: u64"
  let ?s1 = "(received op ?body b1 c s)\<lparr>expected_data := ?n\<rparr>"
  have n: "unat ?n = length b2" using assms(3) by (simp add: unat_of_nat_small)
  have st1: "st1 = (w, ?s1)"
    using input_first [where part = b1 and E = E and w = w, OF assms(1-3) _ assms(5,6)] assms(4,7) by simp
  let ?s2 = "?s1\<lparr>raw_buf := b2 @ drop (length b2) (raw_buf ?s1), in_packet := Packet (partial_packet op ?body ?body)\<rparr>"
  have "px_handle_input E (Some b2) z (w, ?s1) = obind (process_incoming E (w, ?s2)) (\<lambda>st. Inr (0, st))"
    using input_next [of ?s1 b2 op ?body b1 b2 E z w] assms(2-4) by (simp add: received_def)
  then have h: "obind (handle_opcode E op (w, ?s2)) (\<lambda>(w', s'). Inr (0 :: int, (w', s'\<lparr>in_packet := Deleted\<rparr>))) = Inr (r2, st2)"
    using assms(8) process_partial [of ?s2 op ?body ?body E w] by (simp add: st1 obind_assoc split_def)
  then obtain w2 s2 where s2: "handle_opcode E op (w, ?s2) = Inr (w2, s2)" "st2 = (w2, s2\<lparr>in_packet := Deleted\<rparr>)"
    by (auto simp: obind_eq_Inr)
  have "expects (?n, 4096) (w2, s2)"
    using assms(2,3)
    by (intro px_expects.keep_opcode [OF s2(1)]) (simp add: expects_def px_receiving_def received_def)
  then have "doomed st2"
    using s2(2) n assms(3,4) by (auto simp: doomed_def px_receiving_def expects_def unat_eq_0)
  then have "proxy_dispatch E (Px_readable (Some bs) r) st3 = Inl Dangling"
    by (rule doomed_readable [OF doomed_run [OF _ assms(9,10)] assms(11,12)])
  moreover have "in_packet ?s2 = Packet (client_packet op ?body)" by (simp add: partial_packet_full)
  ultimately show ?thesis using s2 by blast
qed

lemma demo_client_simps [simp]:
  "expected_data demo_client = 0" "length (raw_buf demo_client) = 4096" "px_read_mask demo_client"
  "px_crypto demo_client = Proxy_Crypto_new"
  by (simp_all add: demo_client_def Proxy_Socket_new_def)

lemma demo_decrypt: "decrypt x Proxy_Crypto_new = Inr (x, Proxy_Crypto_new)"
  by (simp add: decrypt_def Proxy_Crypto_new_def)

theorem proxy_jobs_match_witness:
  "\<exists>w' s'. ofold (proxy_dispatch demo_px_env) [Px_readable (Some (client_header CMSG_CHAR_ENUM [0])) (Some [0])]
       (demo_proxyd, demo_client) = Inr (w', s') \<and> length (jobs w') = 1 \<and>
     (\<forall>j\<in>set (jobs w'). \<forall>op\<in>set (job_ops j). proxy_op_ok (str ''realmd'') (str ''world'') op)"
proof -
  have "px_handle_input demo_px_env (Some (client_header CMSG_CHAR_ENUM [0])) (Some [0]) (demo_proxyd, demo_client) =
      obind (handle_opcode demo_px_env CMSG_CHAR_ENUM (demo_proxyd, received CMSG_CHAR_ENUM [0] [0] Proxy_Crypto_new demo_client))
        (\<lambda>(w', s'). Inr (0, (w', s'\<lparr>in_packet := Deleted\<rparr>)))"
    by (rule input_whole) (simp_all add: demo_decrypt)
  then obtain w' s' where run: "ofold (proxy_dispatch demo_px_env)
      [Px_readable (Some (client_header CMSG_CHAR_ENUM [0])) (Some [0])] (demo_proxyd, demo_client) = Inr (w', s')"
    and "length (jobs w') = 1"
    by (simp add: proxy_dispatch_def handle_opcode_def opcodes handle_cmsg_char_enum_def px_request_def get_chars_def
        sql_simps received_def demo_client_def Proxy_Socket_new_def demo_proxyd_def)
  moreover have "proxy_placeholders (str ''realmd'') = 0" "proxy_placeholders (str ''world'') = 0"
    by (simp_all add: proxy_placeholders_def str_def)
  ultimately show ?thesis
    using proxy_jobs_match [OF run, of "str ''realmd''" "str ''world''"] by (auto simp: demo_proxyd_def)
qed


theorem fragmented_packet_dangles_witness:
  "\<exists>st1 st2. px_handle_input demo_px_env (Some (client_header 0 [1, 2])) (Some [1]) (demo_proxyd, demo_client) = Inr (0, st1) \<and>
     px_handle_input demo_px_env (Some [2]) None st1 = Inr (0, st2) \<and>
     proxy_dispatch demo_px_env (Px_readable (Some [3]) None) st2 = Inl Dangling"
proof -
  let ?x = "client_header 0 [1, 2]"
  let ?s1 = "(received 0 ([1] @ [2]) [1] Proxy_Crypto_new demo_client)\<lparr>expected_data := 1\<rparr>"
  have 1: "px_handle_input demo_px_env (Some ?x) (Some [1]) (demo_proxyd, demo_client) = Inr (0, (demo_proxyd, ?s1))"
    using input_first [of demo_client "[1] @ [2]" "[1]" ?x 0 Proxy_Crypto_new demo_px_env demo_proxyd]
    by (simp add: demo_decrypt)
  let ?s2 = "?s1\<lparr>raw_buf := [2] @ drop 1 (raw_buf ?s1), in_packet := Packet (partial_packet 0 ([1] @ [2]) ([1] @ [2]))\<rparr>"
  have "px_handle_input demo_px_env (Some [2]) None (demo_proxyd, ?s1)
      = obind (process_incoming demo_px_env (demo_proxyd, ?s2)) (\<lambda>st. Inr (0, st))"
    using input_next [of ?s1 "[2]" 0 "[1] @ [2]" "[1]" "[2]" demo_px_env None demo_proxyd]
    by (simp add: received_def del: partial_packet_def)
  moreover have "process_incoming demo_px_env (demo_proxyd, ?s2) = Inr (demo_proxyd, ?s2\<lparr>in_packet := Deleted\<rparr>)"
    using process_partial [of ?s2 0 "[1] @ [2]" "[1] @ [2]" demo_px_env demo_proxyd]
    by (simp add: handle_opcode_def opcodes)
  ultimately have 2: "px_handle_input demo_px_env (Some [2]) None (demo_proxyd, ?s1)
      = Inr (0, (demo_proxyd, ?s2\<lparr>in_packet := Deleted\<rparr>))" by simp
  have "proxy_dispatch demo_px_env (Px_readable (Some [3]) None) (demo_proxyd, ?s2\<lparr>in_packet := Deleted\<rparr>) = Inl Dangling"
    using fragmented_packet_dangles [where x = ?x and s = demo_client and ?b1.0 = "[1]" and w = demo_proxyd and es = "[]",
        THEN conjunct2, OF _ _ _ _ _ _ 1 2] by (simp add: demo_decrypt received_def)
  with 1 2 show ?thesis by blast
qed

end
