(* ===== verification/Proxy_Laws.thy ===== *)
theory Proxy_Laws
  imports Proxy_Receive
begin

text \<open>
  What a connection to the proxy daemon sends and how it is admitted: the packets of the
  handlers, the enciphered output stream, the count of connections, and the session check.
\<close>

section \<open>Packets of the server\<close>

definition server_pkt :: "u16 \<Rightarrow> nat \<Rightarrow> bytes \<Rightarrow> byte_buffer" where
  "server_pkt op n xs = \<lparr>rpos = 0, wpos = 4 + length xs,
     storage = rev (wire (of_nat n + 2 :: u16)) @ wire op @ xs\<rparr>"

lemma ServerPkt_op_eval: "ServerPkt_op Little op n = Inr (server_pkt op n [])"
proof -
  have "bb_new\<lparr>wpos := 4, storage := [0, 0] @ wire op\<rparr> = bb_new\<lparr>wpos := 4\<rparr>\<lparr>storage := 0 # 0 # wire op\<rparr>"
    by simp
  then show ?thesis
    using SetSize_storage [of "bb_new\<lparr>wpos := 4, storage := [0, 0] @ wire op\<rparr>" 0 0 "wire op" Little "of_nat n"]
    by (simp add: ServerPkt_op_def SetOpcode_storage bb_size_def append_limit_def server_pkt_def bb_new_def)
qed

lemma px_send_pkt_eval:
  assumes "writes (bb_seq fs) xs" and "length xs + 4 < append_limit"
  shows "px_send_pkt op n fs s = Inr (px_send (server_pkt op n xs) s)"
proof -
  have "bb_seq fs (server_pkt op n []) = Inr (bb_extend xs (server_pkt op n []))"
    using assms by (intro writesD) (simp_all add: server_pkt_def at_end_def bb_size_def)
  then show ?thesis
    by (simp add: px_send_pkt_def ServerPkt_op_eval) (simp add: server_pkt_def bb_extend_def)
qed

lemma px_send_words:
  "px_send_pkt op n [bb_out Little (a :: 'a::len word)] s = Inr (px_send (server_pkt op n (wire a)) s)"
  if "size_of TYPE('a word) \<le> 8"
  by (rule px_send_pkt_eval)
     (use writes_seq_Cons [OF writes_out writes_seq_Nil, of Little a] that in \<open>simp_all add: append_limit_def\<close>)

lemma accept_eval:
  "proxy_accept True rnd a0 cs0 w =
     (if load_full (service w) then px_die (w, Proxy_Socket_new rnd a0 cs0)
      else obind (update_connections True (service w)) (\<lambda>sv.
        Inr (w\<lparr>service := sv\<rparr>, px_send (server_pkt SMSG_AUTH_CHALLENGE 4 (wire rnd))
               ((Proxy_Socket_new rnd a0 cs0)\<lparr>px_read_mask := True\<rparr>))))"
proof -
  have seed: "px_seed (Proxy_Socket_new rnd a0 cs0) = rnd" by (simp add: Proxy_Socket_new_def)
  show ?thesis
  proof (cases "load_full (service w)")
    case True
    then show ?thesis
      by (cases "px_die (w, Proxy_Socket_new rnd a0 cs0)") (auto simp: proxy_accept_def px_open_handler_def px_close_def)
  next
    case False
    then show ?thesis
      by (cases "update_connections True (service w)")
         (simp_all add: proxy_accept_def px_open_handler_def Let_def px_send_words seed)
  qed
qed

section \<open>Admission\<close>

lemma update_connections_Inr:
  "update_connections up sv = Inr sv' \<Longrightarrow> connection_limit sv' = connection_limit sv \<and> connection_limit sv \<noteq> 0 \<and>
     current_connections sv' = (if up then current_connections sv + 1 else current_connections sv - 1) \<and>
     load sv' = f32_of_nat (unat (current_connections sv') div unat (connection_limit sv))"
  by (auto simp: update_connections_def Let_def split: if_splits)

lemma load_full_after:
  assumes "update_connections up sv = Inr sv'"
  shows "load_full sv' \<longleftrightarrow> unat (connection_limit sv) \<le> unat (current_connections sv') \<and>
           unat (current_connections sv') < 2 * unat (connection_limit sv)"
proof -
  note u = update_connections_Inr [OF assms]
  define n l where nl: "n = unat (current_connections sv')" "l = unat (connection_limit sv)"
  have l: "0 < l" using u by (simp add: nl unat_gt_0)
  have "n < 2 ^ 32" using unsigned_less [of "current_connections sv'", where ?'a = nat] by (simp add: nl)
  then have q: "n div l < 2 ^ 32" using div_le_dividend [of n l] by linarith
  have "load_full sv' = load_full (sv'\<lparr>load := f32_of_nat (n div l)\<rparr>)"
    using u by (simp add: load_full_def nl)
  also have "\<dots> \<longleftrightarrow> n div l = 1" by (rule load_full_quotient [OF q])
  also have "\<dots> \<longleftrightarrow> l \<le> n \<and> n < 2 * l"
    using less_eq_div_iff_mult_less_eq [OF l, of 1 n] div_less_iff_less_mult [OF l, of n 2] by auto
  finally show ?thesis by (simp add: nl)
qed

text \<open>C35. The limit of connections is not a limit: at the limit a client is refused, but closing the
  refused connection takes one off the count, so that the very next client is let in; and it is
  the count, not the number of connections, that the load tells the realm daemon.\<close>

theorem refusal_opens_admission:
  assumes "load_full (service w)" and "current_connections (service w) = ucast (connection_limit (service w))"
    and "connection_limit (service w) \<noteq> 0"
  shows "\<exists>w1 s1. proxy_accept True rnd1 a1 c1 w = Inr (w1, s1) \<and> \<not> px_open s1 \<and>
      current_connections (service w1) = current_connections (service w) - 1 \<and>
      (\<exists>w2 s2. proxy_accept True rnd2 a2 c2 w1 = Inr (w2, s2) \<and> px_open s2 \<and> px_read_mask s2 \<and>
         px_queue s2 = [server_pkt SMSG_AUTH_CHALLENGE 4 (wire rnd2)] \<and>
         current_connections (service w2) = current_connections (service w))"
proof -
  let ?sv = "service w"
  obtain sv1 where sv1: "update_connections False ?sv = Inr sv1"
    using assms(3) by (auto simp: update_connections_def Let_def)
  note u = update_connections_Inr [OF sv1]
  have "unat (current_connections sv1) < unat (connection_limit ?sv)"
  proof -
    have "unat (ucast (connection_limit ?sv) :: u32) = unat (connection_limit ?sv)"
      using unsigned_less [of "connection_limit ?sv", where ?'a = nat]
      by (simp add: unsigned_ucast_eq take_bit_nat_eq_self)
    moreover have "0 < unat (connection_limit ?sv)" using assms(3) by (simp add: unat_gt_0)
    ultimately have "unat (current_connections sv1) = unat (connection_limit ?sv) - 1"
      using u assms(2) by (simp add: unat_sub word_le_nat_alt)
    then show ?thesis using \<open>0 < unat (connection_limit ?sv)\<close> by simp
  qed
  then have free: "\<not> load_full sv1" using load_full_after [OF sv1] by simp
  obtain sv2 where sv2: "update_connections True sv1 = Inr sv2"
    using assms(3) u by (auto simp: update_connections_def Let_def)
  let ?w1 = "w\<lparr>service := sv1\<rparr>"
  have "proxy_accept True rnd1 a1 c1 w = Inr (?w1, reap ((Proxy_Socket_new rnd1 a1 c1)\<lparr>px_live := False\<rparr>))"
    using assms(1) sv1 by (simp add: accept_eval px_die_def)
  moreover have "proxy_accept True rnd2 a2 c2 ?w1 =
      Inr (?w1\<lparr>service := sv2\<rparr>, px_send (server_pkt SMSG_AUTH_CHALLENGE 4 (wire rnd2))
            ((Proxy_Socket_new rnd2 a2 c2)\<lparr>px_read_mask := True\<rparr>))"
    using free sv2 by (simp add: accept_eval)
  ultimately show ?thesis
    using u update_connections_Inr [OF sv2]
    by (simp add: reap_def Proxy_Socket_new_def px_send_def Let_def)
qed

lemma f32_one_full: "load_full (s\<lparr>load := f32_of_nat 1\<rparr>)"
  using load_full_quotient [of 1 s] by simp

theorem refusal_opens_admission_witness:
  "let w = demo_proxyd\<lparr>service := demo_proxy\<lparr>current_connections := 2, load := f32_of_nat 1\<rparr>\<rparr>
   in \<exists>w1 s1. proxy_accept True 5 demo_px_account 0 w = Inr (w1, s1) \<and> \<not> px_open s1 \<and>
      current_connections (service w1) = current_connections (service w) - 1 \<and>
      (\<exists>w2 s2. proxy_accept True 6 demo_px_account 0 w1 = Inr (w2, s2) \<and> px_open s2 \<and> px_read_mask s2 \<and>
         px_queue s2 = [server_pkt SMSG_AUTH_CHALLENGE 4 (wire (6 :: u32))] \<and>
         current_connections (service w2) = current_connections (service w))"
  unfolding Let_def
  by (rule refusal_opens_admission)
     (use f32_one_full [of "demo_proxy\<lparr>current_connections := 2\<rparr>"] in \<open>simp_all add: demo_proxyd_def demo_proxy_def\<close>)

theorem connection_lifetime_witness:
  "\<exists>st0 w' s'. proxy_accept True 5 demo_px_account 0 demo_proxyd = Inr st0 \<and>
     ofold (proxy_dispatch demo_px_env) [Px_readable (Some []) None] st0 = Inr (w', s') \<and> \<not> px_open s' \<and>
     ofold (proxy_dispatch demo_px_env) [Px_readable (Some [0]) None] (w', s') = Inr (w', s')"
proof -
  have nf: "\<not> load_full demo_proxy"
    using load_full_quotient [of 0 demo_proxy] by (simp add: demo_proxy_def)
  then obtain w0 s0 where a: "proxy_accept True 5 demo_px_account 0 demo_proxyd = Inr (w0, s0)"
    and s0: "px_read_mask s0" "expected_data s0 = 0" "px_live s0" "px_pending s0 = 0" "length (raw_buf s0) = 4096"
      "connection_limit (service w0) = 2"
    by (simp add: accept_eval demo_proxyd_def update_connections_def Let_def demo_proxy_def Proxy_Socket_new_def px_send_def)
  have "px_handle_input demo_px_env (Some []) None (w0, s0) = Inr (- 1, (w0, s0))"
    unfolding px_handle_input_def prod.case
    using s0 by (simp add: recv_into_def)
  then obtain w1 s1 where d: "ofold (proxy_dispatch demo_px_env) [Px_readable (Some []) None] (w0, s0) = Inr (w1, s1)"
    and c: "\<not> px_open s1"
    using s0 by (simp add: proxy_dispatch_def px_handle_close_def px_die_def update_connections_def Let_def reap_def)
  from connection_lifetime [OF a d] c have
    "ofold (proxy_dispatch demo_px_env) [Px_readable (Some [0]) None] (w1, s1) = Inr (w1, s1)" by blast
  with a d c show ?thesis by blast
qed

section \<open>The output stream\<close>

text \<open>What a client makes of the bytes it receives: it deciphers four bytes, which give the size
  of opcode and body and the opcode, and takes the body from what follows.\<close>

definition client_step :: "proxy_crypto \<Rightarrow> u8 \<times> u8 \<Rightarrow> byte \<Rightarrow> byte \<times> u8 \<times> u8" where
  "client_step c = (if is_initialised c then decrypt_byte (crypto_key c) else (\<lambda>st d. (d, st)))"

function client_reads :: "(u8 \<times> u8 \<Rightarrow> byte \<Rightarrow> byte \<times> u8 \<times> u8) \<Rightarrow> u8 \<times> u8 \<Rightarrow> bytes \<Rightarrow> (u16 \<times> bytes) list" where
  "client_reads f st bs =
     (if length bs < 4 then []
      else
        let (h, st') = run_stream f (take 4 bs) st;
            n = unat (of_le (rev (take 2 h)) :: u16) - 2
        in (of_le (drop 2 h), take n (drop 4 bs)) # client_reads f st' (drop n (drop 4 bs)))"
  by pat_completeness auto
termination by (relation "measure (\<lambda>(f, st, bs). length bs)") auto

declare client_reads.simps [simp del]

lemma run_stream_id: "run_stream (\<lambda>st d. (d, st)) ds st = (ds, st)"
  by (induction ds) simp_all

lemma encrypt_client:
  assumes "length h = 4" and "encrypt (h @ rest) c = Inr (data, c')"
  shows "\<exists>x. data = x @ rest \<and> length x = 4 \<and> client_step c' = client_step c \<and>
           run_stream (client_step c) x (send_i c, send_j c) = (h, send_i c', send_j c')"
proof (cases "is_initialised c")
  case True
  obtain x i j where r: "run_stream (encrypt_byte (crypto_key c)) h (send_i c, send_j c) = (x, i, j)"
    using prod_cases3 by blast
  have "length x = 4"
    using length_run_stream [of "encrypt_byte (crypto_key c)" h "(send_i c, send_j c)"] r assms(1) by simp
  with assms True r tbc_server.stream_undo [OF r] show ?thesis
    by (auto simp: encrypt_def CRYPTED_SEND_LEN_def splice_at_def client_step_def)
qed (use assms in \<open>auto simp: encrypt_def client_step_def run_stream_id\<close>)

lemma encrypt_returns: "length h = 4 \<Longrightarrow> \<exists>data c'. encrypt (h @ rest) c = Inr (data, c')"
  by (auto simp: encrypt_def CRYPTED_SEND_LEN_def split: prod.splits)

lemma client_reads_packet:
  assumes "length x = 4" and "run_stream f x st = (rev (wire (of_nat (length body) + 2 :: u16)) @ wire op, st')"
    and "length body < 65534"
  shows "client_reads f st (x @ body @ bs) = (op, body) # client_reads f st' bs"
proof -
  have "of_nat (length body) + 2 = (of_nat (length body + 2) :: u16)" by simp
  then have "unat (of_nat (length body) + 2 :: u16) = length body + 2"
    using unat_of_nat_small [of "length body + 2", where ?'a = 16] assms(3) by (simp only:) simp
  moreover have "of_le (wire (of_nat (length body) + 2 :: u16)) = (of_nat (length body) + 2 :: u16)"
    and "of_le (wire op) = op"
    by (simp_all add: wire_def)
  ultimately show ?thesis
    using assms(1,2) by (subst client_reads.simps) simp
qed

lemma SetSize_server:
  assumes "length xs + 4 < append_limit"
  shows "SetSize Little (of_nat (length xs)) (server_pkt op n xs) = Inr (server_pkt op (length xs) xs)"
proof -
  have "wire w = [ucast w, ucast (drop_bit 8 w)]" for w :: u16
    by (simp add: wire_def numeral_2_eq_2)
  then obtain a b where "storage (server_pkt op n xs) = a # b # wire op @ xs" by (simp add: server_pkt_def)
  then show ?thesis
    using SetSize_storage [of "server_pkt op n xs" a b "wire op @ xs" Little "of_nat (length xs)"] assms
    by (simp add: server_pkt_def bb_size_def append_limit_def)
qed

lemma storage_server_pkt:
  "storage (server_pkt op n xs) = (rev (wire (of_nat n + 2 :: u16)) @ wire op) @ xs"
  "bb_size (server_pkt op n xs) = 4 + length xs"
  by (simp_all add: server_pkt_def bb_size_def)

lemma out_loop_reads:
  assumes "\<forall>(op, n, xs)\<in>set ps. length xs < 65534" and "\<not> continue_send s"
    and "\<forall>k<length ps. res (i + k) = int (4 + length (snd (snd (ps ! k))))"
  shows "\<exists>s' bs. px_out_loop res i (map (\<lambda>(op, n, xs). server_pkt op n xs) ps) s = Inr (Px_drained, s') \<and>
     px_sent s' = px_sent s @ bs \<and> px_queue s' = [] \<and>
     client_reads (client_step (px_crypto s)) (send_i (px_crypto s), send_j (px_crypto s)) bs
       = map (\<lambda>(op, n, xs). (op, xs)) ps"
  using assms
proof (induction ps arbitrary: i s)
  case Nil
  then show ?case by (auto simp: client_reads.simps intro: exI [of _ "[]"])
next
  case (Cons p ps)
  obtain op n xs where p: "p = (op, n, xs)" using prod_cases3 by blast
  let ?h = "rev (wire (of_nat (length xs) + 2 :: u16)) @ wire op"
  have lim: "length xs + 4 < append_limit" using Cons.prems(1) by (auto simp: p append_limit_def)
  obtain data c where e: "encrypt (?h @ xs) (px_crypto s) = Inr (data, c)"
    using encrypt_returns [of ?h xs "px_crypto s"] by auto
  from encrypt_client [OF _ e] obtain x where x: "data = x @ xs" "length x = 4" "client_step c = client_step (px_crypto s)"
    "run_stream (client_step (px_crypto s)) x (send_i (px_crypto s), send_j (px_crypto s)) = (?h, send_i c, send_j c)"
    by auto
  let ?s = "s\<lparr>px_crypto := c, continue_send := False, px_sent := px_sent s @ x @ xs\<rparr>"
  have res: "res i = int (4 + length xs)" using Cons.prems(3) [rule_format, of 0] by (simp add: p)
  have loop: "px_out_loop res i (map (\<lambda>(op, n, xs). server_pkt op n xs) (p # ps)) s
      = px_out_loop res (Suc i) (map (\<lambda>(op, n, xs). server_pkt op n xs) ps) ?s"
    using Cons.prems(2) e [unfolded x(1) append_assoc] res x(2) SetSize_server [OF lim, of op n]
    by (simp add: p storage_server_pkt bb_size_def Let_def)
  have "\<forall>k<length ps. res (Suc i + k) = int (4 + length (snd (snd (ps ! k))))"
    using Cons.prems(3) by auto
  with Cons.IH [of ?s "Suc i"] Cons.prems(1) obtain s' bs
    where IH: "px_out_loop res (Suc i) (map (\<lambda>(op, n, xs). server_pkt op n xs) ps) ?s = Inr (Px_drained, s')"
      "px_sent s' = px_sent s @ x @ xs @ bs" "px_queue s' = []"
      "client_reads (client_step (px_crypto s)) (send_i c, send_j c) bs = map (\<lambda>(op, n, xs). (op, xs)) ps"
    by (auto simp: x(3))
  have "client_reads (client_step (px_crypto s)) (send_i (px_crypto s), send_j (px_crypto s)) (x @ xs @ bs)
      = (op, xs) # map (\<lambda>(op, n, xs). (op, xs)) ps"
    using client_reads_packet [OF x(2), of "client_step (px_crypto s)" "(send_i (px_crypto s), send_j (px_crypto s))" xs op]
      x(4) Cons.prems(1) IH(4) by (auto simp: p)
  with IH loop show ?case by (auto simp: p intro!: exI [of _ "x @ xs @ bs"])
qed



end
