(* ===== verification/Session_Handoff.thy ===== *)
theory Session_Handoff
  imports Realm_Auth Proxy_Laws
begin

text \<open>
  From the realm daemon to the proxy daemon: what \<open>handle_auth_logon_proof\<close> and \<open>set_vs\<close> store in
  the account table is what \<open>Proxy_Socket::account_retrieved\<close> reads to check a session.  Both
  daemons use the same OpenSSL.  The last section has the packets that reach the check, and
  those that do not.
\<close>

section \<open>The session key\<close>

lemma is_hex_px_N: "is_hex px_N_hex"
  by (simp add: px_N_hex_def is_hex_def str_def hex_digit_def)

lemma same_modulus: "px_N_hex = N_hex"
  by (simp add: px_N_hex_def N_hex_def)

lemma hex2bn_new_simps:
  assumes "openssl_ok L"
  shows "hex2bn_new L (bn2hex L n) = n" and "hex2bn_new L px_N_hex = nat_of_hex px_N_hex"
  using openssl_okD(10,11) [OF assms] is_hex_px_N by (simp_all add: hex2bn_new_def)

lemma stored_verifier_eval:
  assumes "srp_setup E s P" and "bn_N s = nat_of_hex N_hex"
    and "pa_s a = bn2hex (ssl E) (bn_s s)" and "pa_sha_pass_hash a = sha_pass (acct s)"
  shows "stored_verifier (ssl E) a = Inr (server_v E s P)"
proof -
  let ?L = "ssl E"
  have L: "openssl_ok ?L" and N: "full32 (bn_N s)" and s: "full32 (bn_s s)"
    and I: "hex2bn_new ?L (sha_pass (acct s)) = nat_of_be P" and P: "P \<noteq> []" "hd P \<noteq> 0" "length P = 20"
    using assms(1) by (auto simp: srp_setup_def hex2bn_new_def)
  have "bn2bin_into ?L (nat_of_be P) (replicate 20 0) = Inr P"
    using P by (simp add: bn2bin_into_full bn2bin_exact [OF L])
  moreover have "bn_mod_exp ?L 7 y (nat_of_hex N_hex) = 7 ^ y mod bn_N s" for y
    using full32_gt_1 [OF N] by (simp add: assms(2) openssl_simps(3) [OF L])
  ultimately show ?thesis
    using L s I by (simp add: stored_verifier_def Let_def assms(3,4) hex2bn_new_simps same_modulus [symmetric]
        rev_bn2bin_full openssl_simps server_v_def client_x_def salt_bytes_def nat_of_le_def)
qed

lemma reversed_key_eval:
  assumes "openssl_ok L" and "length K = 40"
  shows "reversed_key L (nat_of_le K) = (if last K = 0 then Inl Out_of_bounds else Inr K)"
proof -
  obtain k c where K: "K = k @ [c]" "length k = 39" using assms(2) by (cases K rule: rev_cases) auto
  show ?thesis
  proof (cases "c = 0")
    case True
    have "nat_of_le K = nat_of_be (rev k)" by (simp add: K True nat_of_le_def nat_of_be_Cons)
    also have "\<dots> < 256 ^ 39" using nat_of_be_less [of "rev k"] K(2) by simp
    finally have "length (bn2bin L (nat_of_le K)) \<le> 39" by (rule length_bn2bin_le [OF assms(1)])
    with True show ?thesis by (simp add: reversed_key_def Let_def K)
  next
    case False
    then have "bn2bin L (nat_of_le K) = rev K"
      using bn2bin_exact [OF assms(1), of "rev K"] by (simp add: K nat_of_le_def)
    with False assms(2) show ?thesis by (simp add: reversed_key_def K)
  qed
qed

definition auth_ok_body :: "u8 \<Rightarrow> bytes" where
  "auth_ok_body expansion = [AUTH_OK, 0, 0, 0, 0, 0, 0, 0, 0, 0, expansion]"

lemma auth_ok_packet:
  "px_send_pkt SMSG_AUTH_RESPONSE (1 + 4 + 1 + 4 + 1)
     [bb_out Little AUTH_OK, bb_out Little (0 :: u32), bb_out Little (0 :: byte), bb_out Little (0 :: u32), bb_out Little e] s
   = Inr (px_send (server_pkt SMSG_AUTH_RESPONSE 11 (auth_ok_body e)) s)" for e :: u8
proof -
  have w0: "wire (0 :: u32) = [0, 0, 0, 0]" by (simp add: wire_def numeral_eq_Suc)
  have "writes (bb_seq [bb_out Little AUTH_OK, bb_out Little (0 :: u32), bb_out Little (0 :: byte),
      bb_out Little (0 :: u32), bb_out Little e])
      (wire AUTH_OK @ wire (0 :: u32) @ wire (0 :: byte) @ wire (0 :: u32) @ wire e @ [])"
    by (intro writes_seq_Cons writes_out writes_seq_Nil)
  from px_send_pkt_eval [OF this, of SMSG_AUTH_RESPONSE "1 + 4 + 1 + 4 + 1" s] show ?thesis
    by (simp add: auth_ok_body_def w0 append_limit_def)
qed

lemma bn2hex_text: "openssl_ok L \<Longrightarrow> takeWhile (\<lambda>x. x \<noteq> 0) (bn2hex L n) = bn2hex L n"
  using openssl_okD(13) [of L n] by (intro takeWhile_eq_all_conv [THEN iffD2]) auto

text \<open>The check on a row that holds verifier, salt and key.\<close>

lemma row_checked:
  assumes "srp_setup E s P" and "bn_N s = nat_of_hex N_hex" and "length K = 40"
    and row: "pa_v (px_acct c) = bn2hex (ssl E) (server_v E s P)" "pa_s (px_acct c) = bn2hex (ssl E) (bn_s s)"
      "pa_sessionkey (px_acct c) = bn2hex (ssl E) (nat_of_le K)" "pa_sha_pass_hash (px_acct c) = sha_pass (acct s)"
    and "px_ssl X = ssl E" and "client_digest c = Some d"
  shows "account_retrieved X True (w, c) =
    (if last K = 0 then Inl Out_of_bounds
     else if d = sha1 (ssl E) (px_login c @ [0, 0, 0, 0] @ wire (client_seed c) @ wire (px_seed c) @ K)
     then Inr (w, px_send (server_pkt SMSG_AUTH_RESPONSE 11 (auth_ok_body (pa_expansion (px_acct c))))
            (c\<lparr>px_crypto := (px_crypto c)\<lparr>crypto_key := hmac_sha1 (ssl E) tbc_encryption_key K,
                 is_initialised := True\<rparr>\<rparr>))
     else px_die (w, c))"
proof -
  let ?L = "ssl E"
  have L: "openssl_ok ?L" using assms(1) by (simp add: srp_setup_def)
  have v: "stored_verifier ?L (px_acct c) = Inr (server_v E s P)"
    by (rule stored_verifier_eval [OF assms(1,2) row(2,4)])
  have w0: "wire (0 :: u32) = [0, 0, 0, 0]" "le_bytes 4 u = wire u" for u :: u32
    by (simp_all add: wire_def numeral_eq_Suc)
  have "rev (bn2bin ?L (nat_of_le K)) = K" if "last K \<noteq> 0"
    using bn2bin_exact [OF L, of "rev K"] that assms(3) by (cases K rule: rev_cases) (auto simp: nat_of_le_def)
  then show ?thesis
    by (auto simp: account_retrieved_def Let_def assms(8,9) v row bn2hex_text [OF L] hex2bn_new_simps [OF L]
        reversed_key_eval [OF L assms(3)] check_digest_def w0 auth_ok_packet [simplified] set_key_def)
qed

text \<open>C3. The session a client established with the realm daemon is the one the proxy checks.  With
  the verifier, the salt and the key that the realm daemon wrote for the account, the proxy
  accepts exactly the client whose digest is that of its name, both seeds and the 40-byte key
  of the logon; it then enciphers with the digest of that key.  A key whose last byte is 0, one
  of 256, makes the proxy reverse 40 bytes of a shorter buffer instead.\<close>

theorem session_handoff:
  assumes "srp_setup E s P" and "bn_N s = nat_of_hex N_hex" and "length K = 40"
    and "set_sv (login s) (bn2hex (ssl E) (bn_s s)) (bn2hex (ssl E) (server_v E s P)) = Inr op1"
    and "update_account (ssl E) (login s) (ip s) K = Inr op2"
    and "map pstr (take 2 (statement_data op1)) = [pa_v (px_acct c), pa_s (px_acct c)]"
    and "pstr (hd (statement_data op2)) = pa_sessionkey (px_acct c)"
    and "pa_sha_pass_hash (px_acct c) = sha_pass (acct s)"
    and "px_ssl X = ssl E" and "client_digest c = Some d"
  shows "account_retrieved X True (w, c) =
    (if last K = 0 then Inl Out_of_bounds
     else if d = sha1 (ssl E) (px_login c @ [0, 0, 0, 0] @ wire (client_seed c) @ wire (px_seed c) @ K)
     then Inr (w, px_send (server_pkt SMSG_AUTH_RESPONSE 11 (auth_ok_body (pa_expansion (px_acct c))))
            (c\<lparr>px_crypto := (px_crypto c)\<lparr>crypto_key := hmac_sha1 (ssl E) tbc_encryption_key K,
                 is_initialised := True\<rparr>\<rparr>))
     else px_die (w, c))"
proof -
  have L: "openssl_ok (ssl E)" using assms(1) by (simp add: srp_setup_def)
  have "pa_v (px_acct c) = bn2hex (ssl E) (server_v E s P)" "pa_s (px_acct c) = bn2hex (ssl E) (bn_s s)"
    "pa_sessionkey (px_acct c) = bn2hex (ssl E) (nat_of_le K)"
    using assms(4-7)
    by (auto simp: realm_requests_eval nat_of_le_def openssl_simps [OF L] slot_string_def bn2hex_text [OF L])
  from row_checked [OF assms(1-3) this assms(8-10)] show ?thesis .
qed

text \<open>A realm connection and a proxy connection of the same client.\<close>

definition demo_realm_client :: realm_socket where
  "demo_realm_client = demo_socket\<lparr>bn_N := nat_of_hex N_hex\<rparr>"

definition demo_key :: bytes where
  "demo_key = replicate 39 0 @ [1]"

definition demo_handoff_client :: proxy_socket where
  "demo_handoff_client = demo_client\<lparr>px_login := [66], client_seed := 9, px_seed := 7,
     client_digest := Some (sha1 demo_openssl ([66] @ [0, 0, 0, 0] @ wire (9 :: u32) @ wire (7 :: u32) @ demo_key)),
     px_acct := demo_px_account\<lparr>pa_v := bn2hex demo_openssl (server_v demo_env demo_realm_client demo_digest20),
       pa_s := bn2hex demo_openssl (bn_s demo_realm_client),
       pa_sessionkey := bn2hex demo_openssl (nat_of_le demo_key),
       pa_sha_pass_hash := sha_pass (acct demo_realm_client)\<rparr>\<rparr>"

lemma demo_realm_setup: "srp_setup demo_env demo_realm_client demo_digest20"
proof -
  have "full32 (nat_of_hex N_hex)"
    by (simp add: full32_def N_hex_def str_def nat_of_hex_def hex_digit_def)
  then show ?thesis using demo_setup by (simp add: srp_setup_def demo_realm_client_def)
qed

theorem session_handoff_witness:
  "account_retrieved demo_px_env True (demo_proxyd, demo_handoff_client) =
     Inr (demo_proxyd, px_send (server_pkt SMSG_AUTH_RESPONSE 11 (auth_ok_body 1))
       (demo_handoff_client\<lparr>px_crypto := Proxy_Crypto_new\<lparr>crypto_key := hmac_sha1 demo_openssl tbc_encryption_key demo_key,
          is_initialised := True\<rparr>\<rparr>))"
proof -
  let ?c = "demo_handoff_client"
  have env: "px_ssl demo_px_env = demo_openssl" "ssl demo_env = demo_openssl"
    by (simp_all add: demo_px_env_def demo_env_def)
  have N: "bn_N demo_realm_client = nat_of_hex N_hex" by (simp add: demo_realm_client_def)
  have c: "px_login ?c = [66]" "client_seed ?c = 9" "px_seed ?c = 7" "px_crypto ?c = Proxy_Crypto_new"
    "client_digest ?c = Some (sha1 demo_openssl ([66] @ [0, 0, 0, 0] @ wire (9 :: u32) @ wire (7 :: u32) @ demo_key))"
    "pa_v (px_acct ?c) = bn2hex demo_openssl (server_v demo_env demo_realm_client demo_digest20)"
    "pa_s (px_acct ?c) = bn2hex demo_openssl (bn_s demo_realm_client)"
    "pa_sessionkey (px_acct ?c) = bn2hex demo_openssl (nat_of_le demo_key)"
    "pa_sha_pass_hash (px_acct ?c) = sha_pass (acct demo_realm_client)" "pa_expansion (px_acct ?c) = 1"
    by (simp_all add: demo_handoff_client_def demo_client_def Proxy_Socket_new_def demo_px_account_def)
  have K: "length demo_key = 40" "last demo_key = 1" by (simp_all add: demo_key_def)
  show ?thesis
    using session_handoff [OF demo_realm_setup N K(1) realm_requests_eval(5) realm_requests_eval(6), of ?c demo_px_env _ demo_proxyd,
        OF _ _ _ _ c(5)]
    by (simp add: c K env openssl_okD(9) [OF openssl_ok_demo] slot_string_def bn2hex_text [OF openssl_ok_demo] nat_of_le_def)
qed

section \<open>The packet that asks for the check\<close>

lemma bb_read_cases:
  "(bb_read h b :: ('a::len word \<times> byte_buffer) outcome) = Inl Assert_failed \<and> bb_size b < rpos b + size_of TYPE('a word) \<or>
   (\<exists>v. (bb_read h b :: ('a word \<times> byte_buffer) outcome) = Inr (v, bb_advance (size_of TYPE('a word)) b)) \<and>
     rpos b + size_of TYPE('a word) \<le> bb_size b"
  by (auto simp: bb_read_def bb_read_at_def bb_advance_def)

lemma bb_in_string_progress:
  assumes "rpos b < bb_size b"
  shows "\<exists>t k. bb_in_string h b = Inr (t, bb_advance k b) \<and> 0 < k"
proof -
  have "bb_rest b \<noteq> []" using assms bb_rest_empty_iff [of b] by auto
  then show ?thesis by (auto simp: bb_in_string_def bb_in_string_loop_eq Let_def intro!: exI)
qed

lemma CheckSize_client:
  "length body \<le> 4090 \<Longrightarrow>
     CheckSize Little n (client_packet op body) = Inr (n \<le> length body + 4, client_packet op body)"
  using peek_partial(1) [of Little op body body] unat_client_size [of body]
  by (simp add: CheckSize_def partial_packet_full)



end
