(* ===== verification/Characters.thy ===== *)
theory Characters
  imports Realm_Service Session_Handoff
begin

text \<open>
  Characters from their creation to the list the client gets: the values that
  \<open>Player::create\<close> binds, the row the database returns for them, \<open>getCharsObsv\<close> and the packet of
  \<open>Proxy_Socket::characters_retrieved\<close>.  The columns are those of sql/create_characters.sql; how
  many bytes the client library gives a column in the result is a parameter.
\<close>

section \<open>Rows\<close>

text \<open>The integers are bound as signed ones and the columns are unsigned: a negative one is stored
  as 0.\<close>

definition stored :: "bound \<Rightarrow> bound" where
  "stored v = (case v of
       B_uint32 u \<Rightarrow> B_uint32 (if sint u < 0 then 0 else u)
     | B_uint64 u \<Rightarrow> B_uint64 (if sint u < 0 then 0 else u)
     | _ \<Rightarrow> v)"

text \<open>What MySQL returns for a value in a buffer of \<open>n\<close> bytes, zeroed before.\<close>

definition value_cell :: "nat \<Rightarrow> bound \<Rightarrow> mysql_cell" where
  "value_cell n v = (case v of
       B_uint32 u \<Rightarrow> num_cell (le_bytes n u)
     | B_float f \<Rightarrow> num_cell (le_bytes n f)
     | B_string t \<Rightarrow> text_cell t
     | B_uint64 u \<Rightarrow> num_cell (le_bytes n u)
     | B_bool b \<Rightarrow> num_cell [of_bool b])"

text \<open>The row \<open>PROXYD_DB_GET_CHAR\<close> selects of what \<open>PROXYD_DB_INS_CHAR\<close> inserted; the \<open>i\<close>-th inserted
  value comes back in a buffer of \<open>w i\<close> bytes.\<close>

definition selected_row :: "(nat \<Rightarrow> nat) \<Rightarrow> bound list \<Rightarrow> mysql_cell list" where
  "selected_row w vs = map (\<lambda>i. value_cell (w i) (map stored vs ! i)) [0, 2, 3, 4, 5, 6, 7, 8, 11, 12, 13, 10, 9]"

text \<open>Buffers that hold their types, the guid apart.\<close>

definition wide :: "(nat \<Rightarrow> nat) \<Rightarrow> bool" where
  "wide w \<longleftrightarrow> list_all (\<lambda>i. 1 \<le> w i) [3, 4, 5, 6] \<and> list_all (\<lambda>i. 4 \<le> w i) [7, 8, 9, 10, 11, 12, 13]"

text \<open>A new character as the player chose it.\<close>

record choice =
  c_name :: bytes
  c_race :: u8
  c_class :: u8
  c_gender :: u8
  c_skin :: u8
  c_face :: u8
  c_hair_style :: u8
  c_hair_color :: u8
  c_facial_hair :: u8

definition create_op :: "object_mgr \<Rightarrow> u32 \<Rightarrow> u32 \<Rightarrow> choice \<Rightarrow> proxy_op outcome" where
  "create_op m guid account c =
     obind (Player_create m guid account (c_name c) (c_race c) (c_class c) (c_gender c) (c_skin c) (c_face c)
       (c_hair_style c) (c_hair_color c) (c_facial_hair c) 0 []) (\<lambda>txn. Inr (last txn))"

definition created_character :: "create_info \<Rightarrow> u32 \<Rightarrow> choice \<Rightarrow> character" where
  "created_character pci guid c = \<lparr>ch_guid = ucast guid, ch_race = c_race c, ch_pclass = c_class c,
     ch_gender = c_gender c,
     ch_bytes = player_bytes (c_skin c) (c_face c) (c_hair_style c) (c_hair_color c),
     ch_bytes2 = c_facial_hair c, ch_level = 1, ch_name = takeWhile (\<lambda>x. x \<noteq> 0) (c_name c),
     ch_x = position_x pci, ch_y = position_y pci, ch_z = position_z pci, ch_map = map_id pci, ch_zone = zone_id pci\<rparr>"

lemma create_op_values:
  assumes "create_op m guid account c = Inr op" and "get_player_create_info (c_race c) (c_class c) m = Inr pci"
  shows "bound_values op =
    [B_uint32 guid, B_uint32 account, B_string (takeWhile (\<lambda>x. x \<noteq> 0) (c_name c)), B_uint32 (ucast (c_race c)),
     B_uint32 (ucast (c_class c)), B_uint32 (ucast (c_gender c)), B_uint32 1,
     B_uint32 (player_bytes (c_skin c) (c_face c) (c_hair_style c) (c_hair_color c)),
     B_uint32 (player_bytes2 (c_facial_hair c)), B_uint32 (zone_id pci), B_uint32 (map_id pci),
     B_float (position_x pci), B_float (position_y pci), B_float (position_z pci)]"
  using assms by (auto simp: create_op_def Player_create_eval bound_values_def)

lemma get_value:
  assumes "mysql_ok r" "mysql_current r = Some row" and "i \<noteq> 0" "unat i \<le> length row"
  shows "mysql_cell_at i r = Inr (row ! (unat i - 1))"
  using mysql_cursor.get_current [OF assms(1,2), of i] assms(3,4) by (simp add: mysql_col_def)

text \<open>The loop's body on a selected row.\<close>

lemma character_row_selected:
  assumes "mysql_ok r" "mysql_current r = Some (selected_row w (bound_values op))"
    and "create_op m guid account c = Inr op" "get_player_create_info (c_race c) (c_class c) m = Inr pci"
    and "wide w" "map stored (bound_values op) = bound_values op"
  shows "character_row (RS_MySQL r) chars =
    (if w 0 < 8 then Inl Out_of_bounds else Inr (chars @ [created_character pci guid c]))"
proof -
  let ?row = "selected_row w (bound_values op)"
  have len: "length ?row = 13" by (simp add: selected_row_def)
  have cell: "mysql_cell_at i r = Inr (?row ! (unat i - 1))" if "i \<in> {1..13}" for i
  proof (rule get_value [OF assms(1,2)])
    show "i \<noteq> 0" using that by auto
    show "unat i \<le> length ?row" using that by (simp add: len word_le_nat_alt)
  qed
  have low: "ucast (ucast x :: u32) = (x :: u8)" for x
    by (rule bit_word_eqI) (auto simp: bit_simps)
  have full: "take_bit 32 v = v" "take_bit 64 v = v" for v :: u32
    by (simp_all add: take_bit_word_eq_self)
  have pb2: "ucast (player_bytes2 f) = f" for f
  proof -
    have "ucast (ucast f OR push_bit 8 a OR push_bit 16 b OR push_bit 24 c) = f" for a b c :: u32
      by (rule bit_word_eqI) (auto simp: bit_simps)
    then show ?thesis unfolding player_bytes2_def .
  qed
  show ?thesis
    using create_op_values [OF assms(3,4)] assms(5,6)
    by (simp add: wide_def character_row_def rs_getUint64_def rs_getString_def rs_getUint8_def rs_getUint32_def rs_getFloat_def
        mysql_getUint64_def mysql_getUint8_def mysql_getUint32_def mysql_getFloat_def mysql_get_cell mysql_getString_cell
        cell selected_row_def value_cell_def num_cell_def text_cell_def take_le_bytes of_le_le_bytes_cast low full pb2
        created_character_def)
qed

text \<open>The loop's body sees the result only through the current row.\<close>

definition character_step :: "mysql_cell list \<Rightarrow> character list \<Rightarrow> character list outcome" where
  "character_step row = character_row (RS_MySQL \<lparr>m_rowPosition = 1, m_numRows = 1,
     m_numFields = of_nat (length row), m_bindResult = row, m_pending = []\<rparr>)"

lemma character_row_current:
  assumes "mysql_ok r" and "mysql_current r = Some row"
  shows "character_row (RS_MySQL r) chars = character_step row chars"
proof -
  let ?r1 = "\<lparr>m_rowPosition = 1, m_numRows = 1, m_numFields = of_nat (length row),
               m_bindResult = row, m_pending = []\<rparr>"
  have "length row = unat (m_numFields r)"
    using assms by (auto simp: mysql_current_def split: if_splits)
  then have "unat (of_nat (length row) :: u32) = length row" by simp
  then have "mysql_ok ?r1" "mysql_current ?r1 = Some row"
    by (simp_all add: mysql_ok_def mysql_current_def)
  then have "mysql_cell_at i ?r1 = mysql_cell_at i r" for i
    using assms by (simp add: mysql_cursor.get_current)
  then show ?thesis
    by (simp add: character_step_def character_row_def rs_getString_def rs_getUint8_def rs_getUint64_def
        rs_getUint32_def rs_getFloat_def mysql_getUint8_def mysql_getUint64_def
        mysql_getUint32_def mysql_getFloat_def mysql_get_cell mysql_getString_cell)
qed

lemma character_step_selected:
  assumes "create_op m guid account c = Inr op" "get_player_create_info (c_race c) (c_class c) m = Inr pci"
    and "wide w" "map stored (bound_values op) = bound_values op"
  shows "character_step (selected_row w (bound_values op)) chars =
    (if w 0 < 8 then Inl Out_of_bounds else Inr (chars @ [created_character pci guid c]))"
  unfolding character_step_def
  by (rule character_row_selected [OF _ _ assms])
     (simp_all add: mysql_ok_def mysql_current_def selected_row_def)

text \<open>What one character contributes to the list.\<close>

definition character_img :: "character \<Rightarrow> bytes" where
  "character_img c = wire (ch_guid c) @ ch_name c @ [0] @
     [ch_race c, ch_pclass c, ch_gender c, ucast (ch_bytes c), ucast (drop_bit 8 (ch_bytes c)),
      ucast (drop_bit 16 (ch_bytes c)), ucast (drop_bit 24 (ch_bytes c)), ch_bytes2 c AND 0xFF, ch_level c] @
     wire (ch_zone c) @ wire (ch_map c) @ wire (ch_x c) @ wire (ch_y c) @ wire (ch_z c) @
     replicate 8 0 @ [1] @ replicate 12 0 @ replicate 180 0"

lemma writes_replicate:
  "writes (bb_seq fs) xs \<Longrightarrow> writes (bb_seq (concat (replicate n fs))) (concat (replicate n xs))"
  by (induction n) (auto intro: writes_intros writes_seq_append)

lemma wire_zero: "wire (0 :: u32) = replicate 4 0" "wire (0 :: byte) = [0]"
  by (simp_all add: wire_def numeral_eq_Suc)

lemma writes_item: "writes (bb_seq enum_item) (replicate 9 0)"
proof -
  have "writes (bb_seq enum_item) (wire (0 :: u32) @ wire (0 :: byte) @ wire (0 :: u32) @ [])"
    unfolding enum_item_def by (intro writes_seq_Cons writes_out writes_seq_Nil)
  then show ?thesis by (simp add: wire_zero numeral_eq_Suc)
qed

lemma writes_enum_entry: "writes (bb_seq (enum_entry c)) (character_img c)"
proof -
  have "writes (bb_seq (enum_entry c))
     ((wire (ch_guid c) @ (ch_name c @ [0]) @ wire (ch_race c) @ wire (ch_pclass c) @ wire (ch_gender c) @
       wire (ucast (ch_bytes c) :: byte) @ wire (ucast (drop_bit 8 (ch_bytes c)) :: byte) @
       wire (ucast (drop_bit 16 (ch_bytes c)) :: byte) @ wire (ucast (drop_bit 24 (ch_bytes c)) :: byte) @
       wire (ch_bytes2 c AND 0xFF) @ wire (ch_level c) @ wire (ch_zone c) @ wire (ch_map c) @
       wire (ch_x c) @ wire (ch_y c) @ wire (ch_z c) @ wire (0 :: u32) @ wire (0 :: u32) @ wire (1 :: byte) @
       wire (0 :: u32) @ wire (0 :: u32) @ wire (0 :: u32) @ []) @
      concat (replicate 19 (replicate 9 0)) @ replicate 9 0)"
    unfolding enum_entry_def push_bit_of_0 or.right_neutral
    by (intro writes_seq_append writes_seq_Cons writes_out writes_out_string writes_seq_Nil writes_replicate writes_item)
  moreover have "concat (replicate 19 (replicate 9 (0 :: byte))) @ replicate 9 0 = replicate 180 0"
    by (simp add: numeral_eq_Suc)
  ultimately show ?thesis
    by (simp add: character_img_def wire_zero numeral_eq_Suc)
qed

section \<open>Properties\<close>


definition demo_choice :: choice where
  "demo_choice = \<lparr>c_name = [66, 111, 98], c_race = 1, c_class = 1, c_gender = 0, c_skin = 2, c_face = 3,
     c_hair_style = 4, c_hair_color = 5, c_facial_hair = 6\<rparr>"


end
