(* ===== verification/Login_System.thy ===== *)
theory Login_System
  imports Characters
begin

text \<open>
  The two daemons and the account table between them, from the challenge of the realm daemon to
  the session on the proxy.  The table is one row of sql/create_realm.sql as the proxy reads it; the
  requests of the realm daemon change it in the order in which they were made, and the columns
  come back through the result set of the MySQL driver.
\<close>

section \<open>The row of an account\<close>

text \<open>What the statements of \<open>RealmDatabaseConnection::open\<close> do to the row of the account
  \<open>name\<close>: \<open>set s ='', v =''\<close>, \<open>SET v = ?, s = ?\<close> and \<open>SET sessionkey = ?, ...\<close>, each \<open>where username = ?\<close>
  for its last parameter.  No other statement touches the columns that the proxy reads.\<close>

definition account_write :: "bytes \<Rightarrow> realm_op \<Rightarrow> proxy_account \<Rightarrow> proxy_account" where
  "account_write name op a =
     (let ds = statement_data op; own = pstr (last ds) = name
      in case statement op of
           REALMD_DB_FIX_SV \<Rightarrow> if own then a\<lparr>pa_s := [], pa_v := []\<rparr> else a
         | REALMD_DB_SET_S_V \<Rightarrow> if own then a\<lparr>pa_v := pstr (ds ! 0), pa_s := pstr (ds ! 1)\<rparr> else a
         | REALMD_DB_UPDATE_ACCOUNT \<Rightarrow> if own then a\<lparr>pa_sessionkey := pstr (ds ! 0)\<rparr> else a
         | _ \<Rightarrow> a)"

lemma account_write_keeps:
  "pa_sha_pass_hash (fold (account_write name) ops a) = pa_sha_pass_hash a"
  "pa_id (fold (account_write name) ops a) = pa_id a"
  "pa_expansion (fold (account_write name) ops a) = pa_expansion a"
  by (induction ops arbitrary: a) (simp_all add: account_write_def Let_def split: realm_stmt.split)

text \<open>The row that \<open>PROXYD_DB_GET_ACCT\<close> selects; \<open>wd\<close> are the sizes of the buffers of the three
  numbers.\<close>

definition account_cells :: "(nat \<Rightarrow> nat) \<Rightarrow> proxy_account \<Rightarrow> mysql_cell list" where
  "account_cells wd a =
     [num_cell (le_bytes (wd 0) (pa_id a)), num_cell (le_bytes (wd 1) (pa_gmlevel a)), text_cell (pa_sessionkey a),
      text_cell (pa_sha_pass_hash a), text_cell (pa_v a), text_cell (pa_s a),
      num_cell (le_bytes (wd 6) (pa_expansion a))]"

lemma account_read:
  assumes "MySQLPreparedResultSet t columns [account_cells wd a] = Inr r" and "length columns = 7"
    and "4 \<le> wd 0" "1 \<le> wd 1" "1 \<le> wd 6"
  shows "getAcctObsv (RS_MySQL r) = Inr (True, Some a)"
proof -
  let ?row = "account_cells wd a"
  have len: "length ?row = 7" by (simp add: account_cells_def)
  have ok: "mysql_ok r" "m_pending r = [?row]"
    using assms(2) len by (auto intro!: MySQLPreparedResultSet_ok [OF assms(1)])
  obtain r' where n: "mysql_next r = (True, r')" and r': "mysql_ok r'" "mysql_current r' = Some ?row"
    using mysql_cursor.next_row [OF ok] by auto
  have cell: "mysql_cell_at i r' = Inr (?row ! (unat i - 1))" if "i \<in> {1..7}" for i
  proof (rule get_value [OF r'])
    show "i \<noteq> 0" using that by auto
    show "unat i \<le> length ?row" using that by (simp add: len word_le_nat_alt)
  qed
  have "m_numRows r = 1" using assms(1) by (auto simp: MySQLPreparedResultSet_def obind_eq_Inr)
  then show ?thesis
    using assms(3-5)
    by (simp add: getAcctObsv_def rs_rowsCount_def mysql_rowsCount_def rs_next_def n rs_getUint32_def rs_getUint8_def
        rs_getString_def mysql_getUint8_def mysql_getUint32_def mysql_get_cell mysql_getString_cell cell
        account_cells_def num_cell_def text_cell_def take_le_bytes of_le_le_bytes_cast take_bit_word_eq_self)
qed

text \<open>A logon leaves verifier, salt and key in the row, whatever was written before.\<close>

lemma row_after_logon:
  assumes "srp_setup E s P" and "0 \<notin> set (login s)"
    and "update_account (ssl E) (login s) (ip s) K = Inr op"
    and "all = ops @ sv_requests E s P @ [op]"
  shows "pa_v (fold (account_write (login s)) all a) = bn2hex (ssl E) (server_v E s P)"
    and "pa_s (fold (account_write (login s)) all a) = bn2hex (ssl E) (bn_s s)"
    and "pa_sessionkey (fold (account_write (login s)) all a) = bn2hex (ssl E) (nat_of_le K)"
proof -
  have L: "openssl_ok (ssl E)" using assms(1) by (simp add: srp_setup_def)
  have "takeWhile (\<lambda>x. x \<noteq> 0) (login s) = login s"
    using assms(2) by (intro takeWhile_eq_all_conv [THEN iffD2]) auto
  then show "pa_v (fold (account_write (login s)) all a) = bn2hex (ssl E) (server_v E s P)"
    and "pa_s (fold (account_write (login s)) all a) = bn2hex (ssl E) (bn_s s)"
    and "pa_sessionkey (fold (account_write (login s)) all a) = bn2hex (ssl E) (nat_of_le K)"
    using assms(3)
    by (auto simp: assms(4) sv_requests_def account_write_def realm_requests_eval sql_request_def slot_string_def
        bn2hex_text [OF L] nat_of_le_def openssl_simps [OF L] Let_def)
qed

section \<open>The session packet\<close>

text \<open>What a client sends in answer to the seed of the proxy: its build, a number, its name, its own
  seed, the digest and a list of addons, which the proxy does not read.\<close>

definition session_digest :: "openssl \<Rightarrow> bytes \<Rightarrow> u32 \<Rightarrow> u32 \<Rightarrow> bytes \<Rightarrow> bytes" where
  "session_digest L name cseed pseed K = sha1 L (name @ [0, 0, 0, 0] @ wire cseed @ wire pseed @ K)"

definition session_body :: "u32 \<Rightarrow> u32 \<Rightarrow> bytes \<Rightarrow> u32 \<Rightarrow> bytes \<Rightarrow> bytes \<Rightarrow> bytes" where
  "session_body build unk name cseed digest addons =
     wire build @ wire unk @ name @ [0] @ wire cseed @ digest @ addons"

text \<open>The connection once the proxy has asked for the account.\<close>

definition asked :: "bytes \<Rightarrow> u32 \<Rightarrow> bytes \<Rightarrow> packet_ptr \<Rightarrow> proxy_socket \<Rightarrow> proxy_socket" where
  "asked name cseed digest p s = s\<lparr>in_packet := p, px_login := name, client_seed := cseed,
     client_digest := Some digest, px_pending := px_pending s + 1\<rparr>"

lemma session_packet_read:
  assumes "in_packet s = Packet (client_packet CMSG_AUTH_SESSION (session_body build unk name cseed digest addons))"
    and "px_live s" and "0 \<notin> set name" and "length digest = 20" and "length name + length addons \<le> 4000"
    and "px_get_account name = Inr op"
  shows "\<exists>p. handle_cmsg_auth_session (w, s) =
    Inr (w\<lparr>jobs := jobs w @ [Request op]\<rparr>, asked name cseed digest p s)"
proof -
  let ?body = "session_body build unk name cseed digest addons" and ?n = "length name"
  let ?b = "client_packet CMSG_AUTH_SESSION ?body"
  have len: "length ?body = ?n + 33 + length addons" using assms(4) by (simp add: session_body_def)
  have check: "CheckSize Little 33 ?b = Inr (True, ?b)"
    using CheckSize_client [of ?body 33] assms(5) len by simp
  have rest: "bb_rest ?b = wire build @ wire unk @ name @ [0] @ wire cseed @ digest @ addons"
    by (simp add: bb_rest_def client_packet_def session_body_def)
  have 1: "bb_read Little ?b = Inr (build, bb_advance 4 ?b)"
    using bb_read_wire [OF _ rest, of Little] by simp
  have 2: "bb_read Little (bb_advance 4 ?b) = Inr (unk, bb_advance 8 ?b)"
    using bb_read_wire [of "bb_advance 4 ?b" unk _ Little] by (simp add: rest)
  have 3: "bb_in_string Little (bb_advance 8 ?b) = Inr (name, bb_advance (9 + ?n) ?b)"
    using bb_in_string_rest [of "bb_advance 8 ?b" name _ Little] assms(3) by (simp add: rest)
  have 4: "bb_read Little (bb_advance (9 + ?n) ?b) = Inr (cseed, bb_advance (13 + ?n) ?b)"
    by (subst bb_read_wire [of _ cseed "digest @ addons"]) (simp_all add: rest)
  have "bb_read_bytes 20 (bb_advance (13 + ?n) ?b) = Inr (digest, (bb_advance (33 + ?n) ?b))"
    using assms(4) len
    by (simp add: bb_read_bytes_def bb_advance_def client_packet_def bb_size_def session_body_def)
  with assms(1,2,6) check 1 2 3 4 show ?thesis
    by (intro exI [of _ "Packet (bb_advance (33 + ?n) ?b)"])
      (simp add: handle_cmsg_auth_session_def with_packet_def px_request_def asked_def Let_def)
qed

text \<open>A connection that has sent its seed and waits for the first packet, and what it is once the
  client is admitted.\<close>

definition awaits_session :: "proxy_socket \<Rightarrow> bool" where
  "awaits_session c \<longleftrightarrow> expected_data c = 0 \<and> length (raw_buf c) = 4096 \<and> px_live c \<and> px_read_mask c \<and>
     \<not> is_initialised (px_crypto c)"

definition admitted :: "openssl \<Rightarrow> bytes \<Rightarrow> proxy_account \<Rightarrow> proxy_socket \<Rightarrow> proxy_socket \<Rightarrow> bool" where
  "admitted L K row c c' \<longleftrightarrow> px_live c' \<and> px_acct c' = row \<and>
     px_queue c' = px_queue c @ [server_pkt SMSG_AUTH_RESPONSE 11 (auth_ok_body (pa_expansion row))] \<and>
     px_crypto c' = (px_crypto c)\<lparr>crypto_key := hmac_sha1 L tbc_encryption_key K, is_initialised := True\<rparr>"

lemma asked_received: "(asked name cseed digest p (received op body part (px_crypto c) c))\<lparr>in_packet := Deleted\<rparr> =
    asked name cseed digest Deleted (c\<lparr>raw_buf := raw_buf (received op body part (px_crypto c) c)\<rparr>)"
  by (cases c) (simp add: asked_def received_def)

lemma session_packet_received:
  assumes "awaits_session c" and "0 \<notin> set name" and "length digest = 20" and "length name + length addons \<le> 4000"
    and "px_get_account name = Inr op" and "body = session_body build unk name cseed digest addons"
  shows "\<exists>raw. proxy_dispatch X (Px_readable (Some (client_header CMSG_AUTH_SESSION body)) (Some body)) (w, c) =
    Inr (w\<lparr>jobs := jobs w @ [Request op]\<rparr>, asked name cseed digest Deleted (c\<lparr>raw_buf := raw\<rparr>))"
proof -
  let ?s = "received CMSG_AUTH_SESSION body body (px_crypto c) c"
  have c: "expected_data c = 0" "length (raw_buf c) = 4096" "px_live c" "px_read_mask c"
      "\<not> is_initialised (px_crypto c)"
    using assms(1) by (simp_all add: awaits_session_def)
  have len: "length body \<le> 4090" using assms(3,4) by (simp add: assms(6) session_body_def)
  have plain: "decrypt x (px_crypto c) = Inr (x, px_crypto c)" for x
    using c(5) by (simp add: decrypt_def)
  have "in_packet ?s = Packet (client_packet CMSG_AUTH_SESSION body)" "px_live ?s"
    using c(3) by (simp_all add: received_def partial_packet_full)
  from session_packet_read [OF this(1) [unfolded assms(6)] this(2) [unfolded assms(6)] assms(2-5), of w]
  obtain p where p: "handle_cmsg_auth_session (w, ?s) = Inr (w\<lparr>jobs := jobs w @ [Request op]\<rparr>, asked name cseed digest p ?s)"
    unfolding assms(6) by blast
  have "px_handle_input X (Some (client_header CMSG_AUTH_SESSION body)) (Some body) (w, c) =
      Inr (0, (w\<lparr>jobs := jobs w @ [Request op]\<rparr>, (asked name cseed digest p ?s)\<lparr>in_packet := Deleted\<rparr>))"
    using input_whole [OF c(1,2) len _ plain, of CMSG_AUTH_SESSION X w]
    by (simp add: handle_opcode_def p)
  then show ?thesis
    using c(4) by (auto simp: proxy_dispatch_def asked_received)
qed

lemma account_result:
  assumes "srp_setup E s P" and "bn_N s = nat_of_hex N_hex" and "length K = 40"
    and "pa_v row = bn2hex (ssl E) (server_v E s P)" "pa_s row = bn2hex (ssl E) (bn_s s)"
      "pa_sessionkey row = bn2hex (ssl E) (nat_of_le K)" "pa_sha_pass_hash row = sha_pass (acct s)"
    and "px_ssl X = ssl E" and "awaits_session c" and "getAcctObsv res = Inr (True, Some row)"
  shows "if last K = 0
    then proxy_dispatch X (Px_result getAcct res)
           (w, asked name cseed (session_digest (ssl E) name cseed (px_seed c) K) p (c\<lparr>raw_buf := raw\<rparr>)) = Inl Out_of_bounds
    else \<exists>c'. proxy_dispatch X (Px_result getAcct res)
           (w, asked name cseed (session_digest (ssl E) name cseed (px_seed c) K) p (c\<lparr>raw_buf := raw\<rparr>)) = Inr (w, c') \<and>
         admitted (ssl E) K row c c'"
proof -
  let ?d = "session_digest (ssl E) name cseed (px_seed c) K"
  let ?c = "(asked name cseed ?d p (c\<lparr>raw_buf := raw\<rparr>))\<lparr>px_acct := row\<rparr>"
  have "px_acct ?c = row" "client_digest ?c = Some ?d" by (simp_all add: asked_def)
  with row_checked [OF assms(1-3), of ?c X ?d w] assms(4-8)
  have "account_retrieved X True (w, ?c) = (if last K = 0 then Inl Out_of_bounds
      else Inr (w, px_send (server_pkt SMSG_AUTH_RESPONSE 11 (auth_ok_body (pa_expansion row)))
             (?c\<lparr>px_crypto := (px_crypto c)\<lparr>crypto_key := hmac_sha1 (ssl E) tbc_encryption_key K, is_initialised := True\<rparr>\<rparr>)))"
    by (simp add: session_digest_def) (simp add: asked_def)
  with assms(9,10) show ?thesis
    by (simp add: proxy_dispatch_def px_result_def)
      (simp add: asked_def admitted_def awaits_session_def px_send_def Let_def reap_def)
qed

section \<open>The whole way\<close>

lemma length_session_key: "length (session_key L S) = 40"
  by (simp add: session_key_def interleave_def length_concat o_def sum_list_triv)


text \<open>A login with a stand-in for SHA-1 under which the key ends in 1: as before but constant on the
  sixteen bytes that go into each half of the key.\<close>

definition login_openssl :: openssl where
  "login_openssl = demo_openssl\<lparr>sha1 := \<lambda>x. if length x = 16 then replicate 20 1 else demo_digest x\<rparr>"

definition login_env :: realm_env where
  "login_env = demo_env\<lparr>ssl := login_openssl\<rparr>"

definition login_px_env :: proxy_env where
  "login_px_env = demo_px_env\<lparr>px_ssl := login_openssl\<rparr>"

lemma login_openssl_ok: "openssl_ok login_openssl"
  using openssl_ok_demo by (simp add: openssl_ok_def login_openssl_def demo_openssl_def length_demo_digest)

lemma login_sha: "length x \<noteq> 16 \<Longrightarrow> sha1 login_openssl x = sha1 demo_openssl x"
  by (simp add: login_openssl_def demo_openssl_def)

lemma login_modulus: "demo_N = nat_of_hex N_hex"
  by (simp add: demo_N_def N_hex_def str_def nat_of_hex_def hex_digit_def)

lemma login_env_simps [simp]:
  "ssl login_env = login_openssl" "rand_b login_env = rand_b demo_env" "px_ssl login_px_env = login_openssl"
  "bn_N demo_socket = demo_N"
  by (simp_all add: login_env_def login_px_env_def demo_socket_def)

lemma login_numbers:
  "server_B login_env demo_socket demo_digest20 = server_B demo_env demo_socket demo_digest20"
  "shared_S login_env demo_socket demo_digest20 0 = shared_S demo_env demo_socket demo_digest20 0"
proof -
  have x: "client_x login_openssl (salt_bytes demo_socket) demo_digest20 = client_x demo_openssl (salt_bytes demo_socket) demo_digest20"
    by (simp add: client_x_def login_sha salt_bytes_def)
  have u: "client_u login_openssl (le_of_nat 32 i) (le_of_nat 32 j) = client_u demo_openssl (le_of_nat 32 i) (le_of_nat 32 j)" for i j
    by (simp add: client_u_def login_sha)
  have e: "ssl demo_env = demo_openssl" by (simp add: demo_env_def)
  show B: "server_B login_env demo_socket demo_digest20 = server_B demo_env demo_socket demo_digest20"
    by (simp add: server_B_def server_v_def x e)
  show "shared_S login_env demo_socket demo_digest20 0 = shared_S demo_env demo_socket demo_digest20 0"
    by (simp only: shared_S_def login_env_simps Let_def x u B e)
qed

lemma login_setup: "srp_setup login_env demo_socket demo_digest20"
  using demo_setup login_openssl_ok by (simp add: srp_setup_def login_env_def login_openssl_def demo_env_def)

lemma login_key: "last (client_key login_openssl P B N salt a) = 1"
proof -
  have "session_key login_openssl S = replicate 39 1 @ [1]" for S
    by (simp add: session_key_def login_openssl_def even_bytes_def odd_bytes_def interleave_def numeral_eq_Suc)
  then show ?thesis by (simp add: client_key_def Let_def)
qed


end
