(* ===== verification/Statements.thy ===== *)
theory Statements
  imports Sql_Operation Result_Set Float_Bits
begin

text \<open>
  The prepared statements of the two database drivers
  (src/database/MySQL/MySQLPreparedStatement.cpp, src/database/SQLite/SQLitePreparedStatement.cpp)
  and the loop of \<open>SqlOperationBase::execute\<close> that binds a request's values to one.  The client
  libraries are not part of the repository: what MySQL reads out of a \<open>MYSQL_BIND\<close>, and when
  SQLite refuses to bind, follows their documentation.
\<close>

section \<open>Exceptions that keep the state\<close>

text \<open>A method of a statement changes it and returns or throws; an exception keeps the changes.\<close>

type_synonym ('s, 'a) stm = "'s \<Rightarrow> 'a outcome \<times> 's"

definition sret :: "'a \<Rightarrow> ('s, 'a) stm" where
  "sret x = (\<lambda>s. (Inr x, s))"

definition sthrow :: "string \<Rightarrow> ('s, 'a) stm" where
  "sthrow msg = (\<lambda>s. (Inl (Thrown (str msg)), s))"

definition sbind :: "('s, 'a) stm \<Rightarrow> ('a \<Rightarrow> ('s, 'b) stm) \<Rightarrow> ('s, 'b) stm" where
  "sbind m f = (\<lambda>s. case m s of (Inl e, s') \<Rightarrow> (Inl e, s') | (Inr x, s') \<Rightarrow> f x s')"

definition smodify :: "('s \<Rightarrow> 's) \<Rightarrow> ('s, unit) stm" where
  "smodify f = (\<lambda>s. (Inr (), f s))"

lemma sbind_simps [simp]:
  "m s = (Inr x, s') \<Longrightarrow> sbind m f s = f x s'"
  "m s = (Inl e, s') \<Longrightarrow> sbind m f s = (Inl e, s')"
  by (simp_all add: sbind_def)

section \<open>Values of SQL\<close>

text \<open>The conversion of a \<open>float\<close> to the \<open>double\<close> of the same value; subnormal numbers become
  normal ones, and a NaN becomes quiet.\<close>

definition f64_of_f32 :: "f32 \<Rightarrow> u64" where
  "f64_of_f32 f =
     (let s = (if bit f 31 then 2 ^ 63 else 0);
          e = unat (take_bit 8 (drop_bit 23 f));
          m = unat (take_bit 23 f)
      in if e = 255 then of_nat (s + 2047 * 2 ^ 52 + (if m = 0 then 0 else 2 ^ 51 + (m mod 2 ^ 22) * 2 ^ 29))
         else if e \<noteq> 0 then of_nat (s + (e + 896) * 2 ^ 52 + m * 2 ^ 29)
         else if m = 0 then of_nat s
         else let k = log2 m in of_nat (s + (k + 874) * 2 ^ 52 + (m - 2 ^ k) * 2 ^ (52 - k)))"

datatype sql_value = V_int int | V_double u64 | V_text bytes

text \<open>What the databases get for a value: integers are bound as signed ones.\<close>

definition sql_value_of :: "bound \<Rightarrow> sql_value" where
  "sql_value_of v = (case v of
       B_bool b \<Rightarrow> V_int (of_bool b)
     | B_uint32 u \<Rightarrow> V_int (sint u)
     | B_uint64 u \<Rightarrow> V_int (sint u)
     | B_float f \<Rightarrow> V_double (f64_of_f32 f)
     | B_string t \<Rightarrow> V_text t)"

section \<open>MySQLPreparedStatement\<close>

text \<open>A \<open>MYSQL_BIND\<close>: the pointers are null or own their data.\<close>

record mysql_bind =
  buffer_type :: enum_field_types
  buffer :: "bytes option"
  buffer_length :: nat
  bind_length :: "nat option"

record mysql_stmt =
  my_paramCount :: nat
  my_paramsSet :: "bool list"
  my_bind :: "mysql_bind list"
  my_closed :: bool

text \<open>The zeroed \<open>buffer_type\<close> is the first enumerator.\<close>

definition MySQLPreparedStatement :: "nat \<Rightarrow> mysql_stmt" where
  "MySQLPreparedStatement param_count = \<lparr>my_paramCount = param_count,
     my_paramsSet = replicate param_count False,
     my_bind = replicate param_count \<lparr>buffer_type = MYSQL_TYPE_DECIMAL, buffer = None, buffer_length = 0, bind_length = None\<rparr>,
     my_closed = False\<rparr>"

definition my_clearParameters :: "mysql_stmt \<Rightarrow> mysql_stmt" where
  "my_clearParameters st = st\<lparr>my_bind := map (\<lambda>b. b\<lparr>bind_length := None, buffer := None\<rparr>) (my_bind st),
     my_paramsSet := map (\<lambda>_. False) (my_paramsSet st)\<rparr>"

definition my_checkClosed :: "(mysql_stmt, unit) stm" where
  "my_checkClosed = (\<lambda>st. if my_closed st
     then sthrow ''MySQLPreparedStatement::checkClosed() : statement closed'' st else sret () st)"

definition my_close :: "(mysql_stmt, unit) stm" where
  "my_close = sbind my_checkClosed (\<lambda>_. smodify (\<lambda>st. st\<lparr>my_closed := True\<rparr>))"

definition my_checkValidity :: "u8 \<Rightarrow> (mysql_stmt, unit) stm" where
  "my_checkValidity idx = (\<lambda>st. if idx = 0 \<or> my_paramCount st < unat idx
     then sthrow ''MySQLPreparedStatement::checkValidity(), invalid index'' st else sret () st)"

definition my_isAllSet :: "mysql_stmt \<Rightarrow> bool" where
  "my_isAllSet st \<longleftrightarrow> list_all (\<lambda>b. b) (my_paramsSet st)"

definition my_setValue :: "bytes \<Rightarrow> mysql_bind \<Rightarrow> mysql_bind" where
  "my_setValue v param = param\<lparr>buffer := Some v, buffer_length := 0, bind_length := None\<rparr>"

text \<open>The common part of the setters.\<close>

definition my_set :: "u8 \<Rightarrow> (mysql_bind \<Rightarrow> mysql_bind) \<Rightarrow> (mysql_stmt, unit) stm" where
  "my_set index f = sbind (my_checkValidity index) (\<lambda>_. smodify (\<lambda>st.
     let i = unat (index - 1)
     in st\<lparr>my_paramsSet := (my_paramsSet st)[i := True], my_bind := (my_bind st)[i := f (my_bind st ! i)]\<rparr>))"

definition my_setUint32 :: "u8 \<Rightarrow> u32 \<Rightarrow> (mysql_stmt, unit) stm" where
  "my_setUint32 index v = my_set index (\<lambda>p. my_setValue (le_bytes 4 v) (p\<lparr>buffer_type := MYSQL_TYPE_LONG\<rparr>))"

definition my_setBool :: "u8 \<Rightarrow> bool \<Rightarrow> (mysql_stmt, unit) stm" where
  "my_setBool index v = my_setUint32 index (of_bool v)"

definition my_setUint8 :: "u8 \<Rightarrow> u8 \<Rightarrow> (mysql_stmt, unit) stm" where
  "my_setUint8 index v = my_setUint32 index (ucast v)"

definition my_setUint16 :: "u8 \<Rightarrow> u16 \<Rightarrow> (mysql_stmt, unit) stm" where
  "my_setUint16 index v = my_setUint32 index (ucast v)"

definition my_setUint64 :: "u8 \<Rightarrow> u64 \<Rightarrow> (mysql_stmt, unit) stm" where
  "my_setUint64 index v = my_set index (\<lambda>p. my_setValue (le_bytes 8 v) (p\<lparr>buffer_type := MYSQL_TYPE_LONGLONG\<rparr>))"

text \<open>Signed arguments are their patterns.\<close>

definition my_setInt32 :: "u8 \<Rightarrow> u32 \<Rightarrow> (mysql_stmt, unit) stm" where
  "my_setInt32 index v = my_set index (\<lambda>p. my_setValue (le_bytes 4 v) (p\<lparr>buffer_type := MYSQL_TYPE_LONG\<rparr>))"

definition my_setInt16 :: "u8 \<Rightarrow> u16 \<Rightarrow> (mysql_stmt, unit) stm" where
  "my_setInt16 index v = my_setInt32 index (scast v)"

definition my_setInt64 :: "u8 \<Rightarrow> u64 \<Rightarrow> (mysql_stmt, unit) stm" where
  "my_setInt64 index v = my_set index (\<lambda>p. my_setValue (le_bytes 8 v) (p\<lparr>buffer_type := MYSQL_TYPE_LONGLONG\<rparr>))"

definition my_setDouble :: "u8 \<Rightarrow> u64 \<Rightarrow> (mysql_stmt, unit) stm" where
  "my_setDouble index v = my_set index (\<lambda>p. my_setValue (le_bytes 8 v) (p\<lparr>buffer_type := MYSQL_TYPE_DOUBLE\<rparr>))"

definition my_setString :: "u8 \<Rightarrow> bytes \<Rightarrow> (mysql_stmt, unit) stm" where
  "my_setString index v = my_set index (\<lambda>p. p\<lparr>buffer_type := MYSQL_TYPE_VAR_STRING, buffer := Some (v @ [0]),
     buffer_length := length v + 1, bind_length := Some (length v)\<rparr>)"

text \<open>What the server reads out of a parameter.  The flag \<open>is_unsigned\<close> stays 0, so that integers
  are signed; other parameters the code does not fill in.\<close>

definition my_value :: "mysql_bind \<Rightarrow> sql_value option" where
  "my_value b = (case (buffer_type b, buffer b) of
       (MYSQL_TYPE_LONG, Some bs) \<Rightarrow> Some (V_int (sint (of_le bs :: u32)))
     | (MYSQL_TYPE_LONGLONG, Some bs) \<Rightarrow> Some (V_int (sint (of_le bs :: u64)))
     | (MYSQL_TYPE_DOUBLE, Some bs) \<Rightarrow> Some (V_double (of_le bs))
     | (MYSQL_TYPE_VAR_STRING, Some bs) \<Rightarrow>
         Some (V_text (take (case bind_length b of None \<Rightarrow> buffer_length b | Some n \<Rightarrow> n) bs))
     | _ \<Rightarrow> None)"

text \<open>What the server makes of a statement with its parameters: \<open>None\<close> is an error; no columns
  mean no result set.\<close>

record mysql_reply =
  r_columns :: "(enum_field_types \<times> nat) list"
  r_rows :: "mysql_cell list list"
  r_affected :: u64

type_synonym 'd mysql_server = "sql_value option list \<Rightarrow> 'd \<Rightarrow> ('d \<times> mysql_reply) option"

definition my_doQuery :: "'d mysql_server \<Rightarrow> (mysql_stmt \<times> 'd, mysql_reply) stm" where
  "my_doQuery srv = (\<lambda>(st, d).
     if my_closed st then sthrow ''MySQLPreparedStatement::checkClosed() : statement closed'' (st, d)
     else case srv (map my_value (my_bind st)) d of
         None \<Rightarrow> sthrow ''MySQLPreparedStatement::doQuery, mysql_stmt_execute error'' (st, d)
       | Some (d', r) \<Rightarrow> (Inr r, (st, d')))"

definition my_execute :: "'d mysql_server \<Rightarrow> (mysql_stmt \<times> 'd, bool) stm" where
  "my_execute srv = sbind (my_doQuery srv) (\<lambda>r. sret (r_columns r \<noteq> []))"

definition my_executeUpdate :: "'d mysql_server \<Rightarrow> (mysql_stmt \<times> 'd, u32) stm" where
  "my_executeUpdate srv = sbind (my_doQuery srv) (\<lambda>r. sret (ucast (r_affected r)))"

definition my_executeQuery :: "nat \<Rightarrow> 'd mysql_server \<Rightarrow> (mysql_stmt \<times> 'd, mysql_rs) stm" where
  "my_executeQuery mysql_time srv = sbind (my_doQuery srv) (\<lambda>r.
     if r_columns r = [] then sthrow ''MySQLPreparedResultSet, can't get meta data (mysql_stmt_result_metadata)''
     else (\<lambda>s. (MySQLPreparedResultSet mysql_time (r_columns r) (r_rows r), s)))"

text \<open>The inherited methods that take a query are not supported.\<close>

definition my_execute_sql :: "bytes \<Rightarrow> (mysql_stmt, bool) stm" where
  "my_execute_sql sql = sthrow ''MySQLPreparedStatement prepared statement doesn't support this operation execute(const std::string& sql)''"

definition my_executeUpdate_sql :: "bytes \<Rightarrow> (mysql_stmt, u32) stm" where
  "my_executeUpdate_sql sql = sthrow ''MySQLPreparedStatement prepared statement doesn't support this operation executeUpdate(const std::string& sql)''"

definition my_executeQuery_sql :: "bytes \<Rightarrow> (mysql_stmt, mysql_rs) stm" where
  "my_executeQuery_sql sql = sthrow ''MySQLPreparedStatement prepared statement doesn't support this operation executeQuery(const std::string& sql)''"

section \<open>SQLitePreparedStatement\<close>

text \<open>\<open>sl_bound\<close> and \<open>sl_stepped\<close> belong to the library's statement: its parameters, and whether it
  has been stepped since it was prepared.  Nothing in the program resets a statement.\<close>

record sqlite_stmt =
  sl_paramCount :: nat
  sl_paramsSet :: "bool list"
  sl_closed :: bool
  sl_bound :: "sql_value option list"
  sl_stepped :: bool

definition SQLitePreparedStatement :: "nat \<Rightarrow> sqlite_stmt" where
  "SQLitePreparedStatement n = \<lparr>sl_paramCount = n, sl_paramsSet = replicate n False, sl_closed = False,
     sl_bound = replicate n None, sl_stepped = False\<rparr>"

definition sl_clearParameters :: "sqlite_stmt \<Rightarrow> sqlite_stmt" where
  "sl_clearParameters st = st\<lparr>sl_paramsSet := map (\<lambda>_. False) (sl_paramsSet st),
     sl_bound := map (\<lambda>_. None) (sl_bound st)\<rparr>"

definition sl_checkClosed :: "(sqlite_stmt, unit) stm" where
  "sl_checkClosed = (\<lambda>st. if sl_closed st
     then sthrow ''SQLitePreparedStatement::checkClosed() : statement closed'' st else sret () st)"

definition sl_close :: "(sqlite_stmt, unit) stm" where
  "sl_close = sbind sl_checkClosed (\<lambda>_. smodify (\<lambda>st. st\<lparr>sl_closed := True\<rparr>))"

definition sl_checkValidity :: "u8 \<Rightarrow> (sqlite_stmt, unit) stm" where
  "sl_checkValidity idx = (\<lambda>st. if idx = 0 \<or> sl_paramCount st < unat idx
     then sthrow ''SQLitePreparedStatement::checkValidity(), invalid index'' st else sret () st)"

definition sl_isAllSet :: "sqlite_stmt \<Rightarrow> bool" where
  "sl_isAllSet st \<longleftrightarrow> list_all (\<lambda>b. b) (sl_paramsSet st)"

definition sl_doQuery :: "(sqlite_stmt, unit) stm" where
  "sl_doQuery = sbind sl_checkClosed (\<lambda>_ st. if \<not> sl_isAllSet st
     then sthrow ''SQLitePreparedStatement: some parameters are not set'' st else sret () st)"

text \<open>\<open>sqlite3_bind_*\<close> refuses a statement that has been stepped and not reset.\<close>

definition sl_bind :: "u8 \<Rightarrow> sql_value \<Rightarrow> (sqlite_stmt, unit) stm" where
  "sl_bind index v = sbind (sl_checkValidity index) (\<lambda>_ st.
     let i = unat (index - 1); st1 = st\<lparr>sl_paramsSet := (sl_paramsSet st)[i := True]\<rparr>
     in if sl_stepped st1 then sthrow ''SQLitePreparedStatement: can't bind value'' st1
        else sret () (st1\<lparr>sl_bound := (sl_bound st1)[i := Some v]\<rparr>))"

definition sl_setInt32 :: "u8 \<Rightarrow> u32 \<Rightarrow> (sqlite_stmt, unit) stm" where
  "sl_setInt32 index v = sl_bind index (V_int (sint v))"

definition sl_setInt64 :: "u8 \<Rightarrow> u64 \<Rightarrow> (sqlite_stmt, unit) stm" where
  "sl_setInt64 index v = sl_bind index (V_int (sint v))"

definition sl_setUint32 :: "u8 \<Rightarrow> u32 \<Rightarrow> (sqlite_stmt, unit) stm" where
  "sl_setUint32 index v = sl_setInt32 index v"

definition sl_setBool :: "u8 \<Rightarrow> bool \<Rightarrow> (sqlite_stmt, unit) stm" where
  "sl_setBool index v = sl_setUint32 index (of_bool v)"

definition sl_setUint8 :: "u8 \<Rightarrow> u8 \<Rightarrow> (sqlite_stmt, unit) stm" where
  "sl_setUint8 index v = sl_setUint32 index (ucast v)"

definition sl_setUint16 :: "u8 \<Rightarrow> u16 \<Rightarrow> (sqlite_stmt, unit) stm" where
  "sl_setUint16 index v = sl_setUint32 index (ucast v)"

definition sl_setUint64 :: "u8 \<Rightarrow> u64 \<Rightarrow> (sqlite_stmt, unit) stm" where
  "sl_setUint64 index v = sl_setInt64 index v"

definition sl_setInt16 :: "u8 \<Rightarrow> u16 \<Rightarrow> (sqlite_stmt, unit) stm" where
  "sl_setInt16 index v = sl_setInt32 index (scast v)"

definition sl_setDouble :: "u8 \<Rightarrow> u64 \<Rightarrow> (sqlite_stmt, unit) stm" where
  "sl_setDouble index v = sl_bind index (V_double v)"

definition sl_setString :: "u8 \<Rightarrow> bytes \<Rightarrow> (sqlite_stmt, unit) stm" where
  "sl_setString index v = sl_bind index (V_text v)"

text \<open>What SQLite makes of a statement: its number of columns, and for its bound values the results
  of stepping it.\<close>

record sqlite_lib =
  l_columns :: nat
  l_steps :: "sql_value option list \<Rightarrow> sqlite_step list"

definition sl_execute :: "sqlite_lib \<Rightarrow> (sqlite_stmt, bool) stm" where
  "sl_execute lib = sbind sl_doQuery (\<lambda>_. sret (0 < l_columns lib))"

definition sl_executeQuery :: "sqlite_lib \<Rightarrow> (sqlite_stmt, sqlite_rs) stm" where
  "sl_executeQuery lib = sbind sl_doQuery (\<lambda>_ st.
     sbind sl_checkClosed (\<lambda>_. sret (SQLiteResultSet (l_columns lib) (l_steps lib (sl_bound st)))) st)"

text \<open>\<open>sqlite3_step\<close>, called by \<open>SQLiteResultSet::next\<close> and by \<open>executeUpdate\<close>; \<open>changes\<close> is the result
  of \<open>sqlite3_changes\<close> after a step that is done.\<close>

definition sl_step :: "sqlite_stmt \<Rightarrow> sqlite_stmt" where
  "sl_step st = st\<lparr>sl_stepped := True\<rparr>"

definition sl_executeUpdate :: "sqlite_lib \<Rightarrow> u32 option \<Rightarrow> (sqlite_stmt, u32) stm" where
  "sl_executeUpdate lib changes = sbind sl_doQuery (\<lambda>_ st.
     if 0 < l_columns lib then sthrow ''SQLiteStatement::executeUpdate, error the return something'' st
     else case changes of
         None \<Rightarrow> sthrow ''SQLiteStatement::executeUpdate, sqlite3_step invalid return value'' (sl_step st)
       | Some n \<Rightarrow> sret n (sl_step st))"

definition sl_execute_sql :: "bytes \<Rightarrow> (sqlite_stmt, bool) stm" where
  "sl_execute_sql sql = sthrow ''SQLitePreparedStatement prepared statement doesn't support this operation execute(const std::string& sql)''"

definition sl_executeUpdate_sql :: "bytes \<Rightarrow> (sqlite_stmt, u32) stm" where
  "sl_executeUpdate_sql sql = sthrow ''SQLitePreparedStatement prepared statement doesn't support this operation executeUpdate(const std::string& sql)''"

definition sl_executeQuery_sql :: "bytes \<Rightarrow> (sqlite_stmt, sqlite_rs) stm" where
  "sl_executeQuery_sql sql = sthrow ''SQLitePreparedStatement prepared statement doesn't support this operation executeQuery(const std::string& sql)''"

section \<open>Binding the values of a request\<close>

text \<open>The switch of \<open>SqlOperationBase::execute\<close>, for each driver.\<close>

definition my_set_bound :: "u8 \<Rightarrow> bound \<Rightarrow> (mysql_stmt, unit) stm" where
  "my_set_bound index v = (case v of
       B_bool b \<Rightarrow> my_setBool index b
     | B_uint32 u \<Rightarrow> my_setUint32 index u
     | B_uint64 u \<Rightarrow> my_setUint64 index u
     | B_float f \<Rightarrow> my_setDouble index (f64_of_f32 f)
     | B_string t \<Rightarrow> my_setString index t)"

definition sl_set_bound :: "u8 \<Rightarrow> bound \<Rightarrow> (sqlite_stmt, unit) stm" where
  "sl_set_bound index v = (case v of
       B_bool b \<Rightarrow> sl_setBool index b
     | B_uint32 u \<Rightarrow> sl_setUint32 index u
     | B_uint64 u \<Rightarrow> sl_setUint64 index u
     | B_float f \<Rightarrow> sl_setDouble index (f64_of_f32 f)
     | B_string t \<Rightarrow> sl_setString index t)"

text \<open>Its loop; the index is an \<open>int\<close> that the setters truncate to eight bits.\<close>

fun bind_slots :: "(u8 \<Rightarrow> bound \<Rightarrow> ('s, unit) stm) \<Rightarrow> nat \<Rightarrow> bound list \<Rightarrow> ('s, unit) stm" where
  "bind_slots put i [] = sret ()"
| "bind_slots put i (v # vs) = sbind (put (of_nat (i + 1)) v) (\<lambda>_. bind_slots put (Suc i) vs)"

text \<open>The interface between the loop and a driver's statement: \<open>ready n st\<close>, a statement of \<open>n\<close>
  parameters that accepts values, and \<open>params\<close>, what the database has for them.\<close>

locale parameter_binding =
  fixes set_bound :: "u8 \<Rightarrow> bound \<Rightarrow> ('s, unit) stm"
    and params :: "'s \<Rightarrow> sql_value option list"
    and ready :: "nat \<Rightarrow> 's \<Rightarrow> bool"
  assumes bind_ok: "ready n st \<Longrightarrow> i \<noteq> 0 \<Longrightarrow> unat i \<le> n \<Longrightarrow>
      \<exists>st'. set_bound i v st = (Inr (), st') \<and> ready n st' \<and>
        params st' = (params st)[unat i - 1 := Some (sql_value_of v)]"
    and bind_bad: "ready n st \<Longrightarrow> i = 0 \<or> n < unat i \<Longrightarrow> \<exists>msg. set_bound i v st = (Inl (Thrown msg), st)"
    and ready_params: "ready n st \<Longrightarrow> length (params st) = n"
begin

lemma bind_all:
  "ready n st \<Longrightarrow> k + length vs \<le> n \<Longrightarrow> n \<le> 255 \<Longrightarrow>
     \<exists>st'. bind_slots set_bound k vs st = (Inr (), st') \<and> ready n st' \<and>
       params st' = take k (params st) @ map (\<lambda>v. Some (sql_value_of v)) vs @ drop (k + length vs) (params st)"
proof (induction vs arbitrary: k st)
  case Nil
  then show ?case by (simp add: sret_def)
next
  case (Cons v vs)
  have u: "unat (of_nat (k + 1) :: u8) = k + 1"
    using Cons.prems by (intro unat_of_nat_small) simp
  then have "(of_nat (k + 1) :: u8) \<noteq> 0" by (metis unat_0 add_is_0 zero_neq_one)
  with bind_ok [OF Cons.prems(1), of "of_nat (k + 1)" v] u Cons.prems(2) obtain st1
    where st1: "set_bound (of_nat (k + 1)) v st = (Inr (), st1)" "ready n st1"
      "params st1 = (params st)[k := Some (sql_value_of v)]"
    by auto
  have "bind_slots set_bound k (v # vs) st = bind_slots set_bound (Suc k) vs st1"
    using st1(1) by simp
  moreover obtain st' where "bind_slots set_bound (Suc k) vs st1 = (Inr (), st')" "ready n st'"
    "params st' = take (Suc k) (params st1) @ map (\<lambda>v. Some (sql_value_of v)) vs @ drop (Suc k + length vs) (params st1)"
    using Cons.IH [OF st1(2), of "Suc k"] Cons.prems by auto
  moreover have "k < length (params st)" using ready_params [OF Cons.prems(1)] Cons.prems(2) by simp
  ultimately show ?case
    by (simp add: st1(3) take_Suc_conv_app_nth)
qed

lemma bind_too_many:
  "ready n st \<Longrightarrow> k \<le> n \<Longrightarrow> n < k + length vs \<Longrightarrow> n < 255 \<Longrightarrow>
     \<exists>msg st'. bind_slots set_bound k vs st = (Inl (Thrown msg), st')"
proof (induction vs arbitrary: k st)
  case (Cons v vs)
  have u: "unat (of_nat (k + 1) :: u8) = k + 1"
    using Cons.prems by (intro unat_of_nat_small) simp
  show ?case
  proof (cases "k = n")
    case True
    with bind_bad [OF Cons.prems(1), of "of_nat (k + 1)" v] u show ?thesis by fastforce
  next
    case False
    have "(of_nat (k + 1) :: u8) \<noteq> 0" using u by (metis unat_0 add_is_0 zero_neq_one)
    with bind_ok [OF Cons.prems(1), of "of_nat (k + 1)" v] u Cons.prems(2) False obtain st1
      where st1: "set_bound (of_nat (k + 1)) v st = (Inr (), st1)" "ready n st1" by auto
    with Cons.IH [OF st1(2), of "Suc k"] Cons.prems False show ?thesis by auto
  qed
qed simp

end

definition my_params :: "mysql_stmt \<Rightarrow> sql_value option list" where
  "my_params st = map my_value (my_bind st)"

text \<open>The flags of \<open>paramsSet\<close> tell which parameters have a value.\<close>

definition my_ready :: "nat \<Rightarrow> mysql_stmt \<Rightarrow> bool" where
  "my_ready n st \<longleftrightarrow> my_paramCount st = n \<and> length (my_bind st) = n \<and>
     my_paramsSet st = map (\<lambda>b. buffer b \<noteq> None) (my_bind st)"

definition sl_ready :: "nat \<Rightarrow> sqlite_stmt \<Rightarrow> bool" where
  "sl_ready n st \<longleftrightarrow> sl_paramCount st = n \<and> length (sl_bound st) = n \<and>
     sl_paramsSet st = map (\<lambda>b. b \<noteq> None) (sl_bound st) \<and> \<not> sl_stepped st"

lemma unat_pred: "i \<noteq> 0 \<Longrightarrow> unat (i - 1 :: u8) = unat i - 1"
  by (simp add: unat_minus_one)

interpretation mysql_binding: parameter_binding my_set_bound my_params my_ready
proof unfold_locales
  fix n st v and i :: u8
  assume r: "my_ready n st" and i: "i \<noteq> 0" "unat i \<le> n"
  let ?i = "unat i - 1"
  have set: "my_set i f st = (Inr (), st\<lparr>my_paramsSet := (my_paramsSet st)[?i := True],
      my_bind := (my_bind st)[?i := f (my_bind st ! ?i)]\<rparr>)" for f
    using r i by (simp add: my_set_def my_checkValidity_def sret_def smodify_def my_ready_def unat_pred Let_def)
  have b: "sint (of_bool x :: u32) = of_bool x" for x by simp
  show "\<exists>st'. my_set_bound i v st = (Inr (), st') \<and> my_ready n st' \<and>
          my_params st' = (my_params st)[?i := Some (sql_value_of v)]"
    using r b by (cases v)
      (simp_all add: my_set_bound_def my_setBool_def my_setUint32_def my_setUint64_def my_setDouble_def my_setString_def
        set my_ready_def my_params_def map_update my_setValue_def my_value_def sql_value_of_def)
next
  fix n st v and i :: u8
  assume "my_ready n st" "i = 0 \<or> n < unat i"
  then have "\<exists>msg. my_set i f st = (Inl (Thrown msg), st)" for f
    by (auto simp: my_set_def my_checkValidity_def sthrow_def my_ready_def)
  then show "\<exists>msg. my_set_bound i v st = (Inl (Thrown msg), st)"
    by (cases v) (simp_all add: my_set_bound_def my_setBool_def my_setUint32_def my_setUint64_def my_setDouble_def my_setString_def)
next
  fix n st
  assume "my_ready n st"
  then show "length (my_params st) = n" by (simp add: my_ready_def my_params_def)
qed

interpretation sqlite_binding: parameter_binding sl_set_bound sl_bound sl_ready
proof unfold_locales
  fix n st v and i :: u8
  assume r: "sl_ready n st" and i: "i \<noteq> 0" "unat i \<le> n"
  have set: "sl_bind i x st = (Inr (), st\<lparr>sl_paramsSet := (sl_paramsSet st)[unat i - 1 := True],
      sl_bound := (sl_bound st)[unat i - 1 := Some x]\<rparr>)" for x
    using r i by (simp add: sl_bind_def sl_checkValidity_def sret_def sl_ready_def unat_pred Let_def)
  show "\<exists>st'. sl_set_bound i v st = (Inr (), st') \<and> sl_ready n st' \<and>
          sl_bound st' = (sl_bound st)[unat i - 1 := Some (sql_value_of v)]"
    using r by (cases v)
      (simp_all add: sl_set_bound_def sl_setBool_def sl_setUint32_def sl_setUint64_def sl_setInt32_def sl_setInt64_def
        sl_setDouble_def sl_setString_def set sl_ready_def sql_value_of_def map_update)
next
  fix n st v and i :: u8
  assume "sl_ready n st" "i = 0 \<or> n < unat i"
  then have "\<exists>msg. sl_bind i x st = (Inl (Thrown msg), st)" for x
    by (auto simp: sl_bind_def sl_checkValidity_def sthrow_def sl_ready_def)
  then show "\<exists>msg. sl_set_bound i v st = (Inl (Thrown msg), st)"
    by (cases v) (simp_all add: sl_set_bound_def sl_setBool_def sl_setUint32_def sl_setUint64_def sl_setInt32_def
        sl_setInt64_def sl_setDouble_def sl_setString_def)
next
  fix n st
  assume "sl_ready n st"
  then show "length (sl_bound st) = n" by (simp add: sl_ready_def)
qed

lemma my_ready_new: "my_ready n (MySQLPreparedStatement n)"
  by (simp add: my_ready_def MySQLPreparedStatement_def)

lemma sl_ready_new: "sl_ready n (SQLitePreparedStatement n)"
  by (simp add: sl_ready_def SQLitePreparedStatement_def)

lemma my_ready_clear: "my_ready n st \<Longrightarrow> my_ready n (my_clearParameters st)"
  by (simp add: my_ready_def my_clearParameters_def)

lemma sl_ready_clear: "sl_ready n st \<Longrightarrow> sl_ready n (sl_clearParameters st)"
  by (simp add: sl_ready_def sl_clearParameters_def)

lemma my_ready_clear_params: "my_ready n st \<Longrightarrow> my_params (my_clearParameters st) = replicate n None"
  by (auto simp: my_ready_def my_clearParameters_def my_params_def my_value_def list_eq_iff_nth_eq
      split: enum_field_types.splits)

lemma bind_whole:
  assumes "n \<le> 255" and "length vs = n"
  shows "my_ready n m \<Longrightarrow> \<exists>m'. bind_slots my_set_bound 0 vs m = (Inr (), m') \<and> my_ready n m' \<and>
       my_params m' = map (\<lambda>v. Some (sql_value_of v)) vs"
    and "sl_ready n l \<Longrightarrow> \<exists>l'. bind_slots sl_set_bound 0 vs l = (Inr (), l') \<and> sl_ready n l' \<and>
       sl_bound l' = map (\<lambda>v. Some (sql_value_of v)) vs"
  using mysql_binding.bind_all [of n m 0 vs] sqlite_binding.bind_all [of n l 0 vs]
    mysql_binding.ready_params [of n m] sqlite_binding.ready_params [of n l] assms
  by auto

section \<open>Properties\<close>

text \<open>C37. Both drivers bind a request the same way: when the request has a value for each of at most 255
  parameters, no setter throws, every parameter counts as set, and MySQL gets the list of values that
  SQLite gets - the request's values in order, integers as signed ones, a string up to its length.
  With one value more than parameters both throw.\<close>

theorem drivers_bind_alike:
  assumes "n \<le> 254"
  shows "(length (bound_values op) = n \<longrightarrow>
      (\<exists>m l. bind_slots my_set_bound 0 (bound_values op) (MySQLPreparedStatement n) = (Inr (), m) \<and>
        bind_slots sl_set_bound 0 (bound_values op) (SQLitePreparedStatement n) = (Inr (), l) \<and>
        my_isAllSet m \<and> sl_isAllSet l \<and> my_params m = sl_bound l \<and>
        sl_bound l = map (\<lambda>v. Some (sql_value_of v)) (bound_values op))) \<and>
    (n < length (bound_values op) \<longrightarrow>
      (\<exists>e m e' l. bind_slots my_set_bound 0 (bound_values op) (MySQLPreparedStatement n) = (Inl (Thrown e), m) \<and>
        bind_slots sl_set_bound 0 (bound_values op) (SQLitePreparedStatement n) = (Inl (Thrown e'), l)))"
proof (intro conjI impI)
  assume len: "length (bound_values op) = n"
  obtain m l where m: "bind_slots my_set_bound 0 (bound_values op) (MySQLPreparedStatement n) = (Inr (), m)"
      "my_ready n m" "my_params m = map (\<lambda>v. Some (sql_value_of v)) (bound_values op)"
    and l: "bind_slots sl_set_bound 0 (bound_values op) (SQLitePreparedStatement n) = (Inr (), l)"
      "sl_ready n l" "sl_bound l = map (\<lambda>v. Some (sql_value_of v)) (bound_values op)"
    using bind_whole [of n "bound_values op"] my_ready_new [of n] sl_ready_new [of n] assms len by fastforce
  have "buffer b \<noteq> None" if "b \<in> set (my_bind m)" for b
  proof -
    have "my_value b \<in> set (my_params m)" using that by (simp add: my_params_def)
    then have "my_value b \<noteq> None" by (auto simp: m(3))
    then show ?thesis by (cases "buffer b") (auto simp: my_value_def split: enum_field_types.splits)
  qed
  then have "my_isAllSet m" "sl_isAllSet l"
    using m(2) l(2,3) by (auto simp: my_isAllSet_def sl_isAllSet_def my_ready_def sl_ready_def list_all_iff)
  with m l show "\<exists>m l. bind_slots my_set_bound 0 (bound_values op) (MySQLPreparedStatement n) = (Inr (), m) \<and>
        bind_slots sl_set_bound 0 (bound_values op) (SQLitePreparedStatement n) = (Inr (), l) \<and>
        my_isAllSet m \<and> sl_isAllSet l \<and> my_params m = sl_bound l \<and>
        sl_bound l = map (\<lambda>v. Some (sql_value_of v)) (bound_values op)"
    by auto
next
  assume "n < length (bound_values op)"
  then show "\<exists>e m e' l. bind_slots my_set_bound 0 (bound_values op) (MySQLPreparedStatement n) = (Inl (Thrown e), m) \<and>
        bind_slots sl_set_bound 0 (bound_values op) (SQLitePreparedStatement n) = (Inl (Thrown e'), l)"
    using mysql_binding.bind_too_many [OF my_ready_new, of 0 n "bound_values op"]
      sqlite_binding.bind_too_many [OF sl_ready_new, of 0 n "bound_values op"] assms
    by fastforce
qed

theorem drivers_bind_alike_witness:
  "\<exists>m l. bind_slots my_set_bound 0 [B_uint32 7, B_string [65]] (MySQLPreparedStatement 2) = (Inr (), m) \<and>
     bind_slots sl_set_bound 0 [B_uint32 7, B_string [65]] (SQLitePreparedStatement 2) = (Inr (), l) \<and>
     my_params m = [Some (V_int 7), Some (V_text [65])] \<and> sl_bound l = my_params m"
proof -
  define op :: "(unit, unit) sql_op" where
    "op = (sql_request ())\<lparr>statement_data := [\<lparr>udata = 7, ptype = TYPE_U32, pstr = []\<rparr>, \<lparr>udata = 0, ptype = TYPE_STRING, pstr = [65]\<rparr>]\<rparr>"
  have "bound_values op = [B_uint32 7, B_string [65]]"
    by (simp add: op_def bound_values_def bound_value_def)
  with drivers_bind_alike [of 2 op] show ?thesis by (auto simp: sql_value_of_def)
qed

end
