(* ===== verification/Text_Numbers.thy ===== *)
theory Text_Numbers
  imports Util_Strings
begin

text \<open>
  Numbers as texts: what the conversions of the C library read (\<open>atoi\<close>) and print (\<open>%u\<close>).
\<close>

section \<open>Reading\<close>

text \<open>\<open>atoi\<close>, for numbers that fit an \<open>int\<close>.\<close>

fun digits_value :: "int \<Rightarrow> bytes \<Rightarrow> int" where
  "digits_value n [] = n"
| "digits_value n (c # cs) = (if 48 \<le> c \<and> c \<le> 57 then digits_value (10 * n + uint (c - 48)) cs else n)"

definition atoi :: "bytes \<Rightarrow> int" where
  "atoi s = (case dropWhile isspace s of
       [] \<Rightarrow> 0
     | c # cs \<Rightarrow> if c = 45 then - digits_value 0 cs else if c = 43 then digits_value 0 cs else digits_value 0 (c # cs))"

section \<open>Printing\<close>

text \<open>A number in decimal digits, as \<open>%u\<close> and the servers print it.\<close>

fun decimal :: "nat \<Rightarrow> bytes" where
  "decimal n = (if n < 10 then [48 + of_nat n] else decimal (n div 10) @ [48 + of_nat (n mod 10)])"

declare decimal.simps [simp del]

lemma digit_char:
  assumes "k < 10"
  shows "48 \<le> (48 + of_nat k :: byte)" "(48 + of_nat k :: byte) \<le> 57" "uint (48 + of_nat k - 48 :: byte) = int k"
proof -
  have u: "unat (of_nat k :: byte) = k" using assms by (simp add: unat_of_nat_small)
  then have "unat (48 + of_nat k :: byte) = 48 + k" using assms by (simp add: unat_word_ariths)
  then show "48 \<le> (48 + of_nat k :: byte)" "(48 + of_nat k :: byte) \<le> 57"
    using assms by (simp_all add: word_le_nat_alt)
  have "(48 + of_nat k - 48 :: byte) = of_nat k" by simp
  moreover have "uint (of_nat k :: byte) = int (unat (of_nat k :: byte))" by simp
  ultimately show "uint (48 + of_nat k - 48 :: byte) = int k" using u by (simp only:)
qed

lemma decimal_digits: "list_all (\<lambda>c. 48 \<le> c \<and> c \<le> 57) (decimal n) \<and> decimal n \<noteq> []"
proof (induction n rule: decimal.induct)
  case (1 n)
  show ?case
    using 1 digit_char(1,2) [of n] digit_char(1,2) [of "n mod 10"] by (subst (1 2) decimal.simps) auto
qed

lemma digits_value_append:
  "list_all (\<lambda>c. 48 \<le> c \<and> c \<le> 57) xs \<Longrightarrow> digits_value a (xs @ ys) = digits_value (digits_value a xs) ys"
  by (induction xs arbitrary: a) auto

lemma digits_value_decimal: "digits_value 0 (decimal n) = int n"
proof (induction n rule: decimal.induct)
  case (1 n)
  show ?case
  proof (cases "n < 10")
    case True
    then show ?thesis using digit_char [of n] by (subst decimal.simps) simp
  next
    case False
    with 1 decimal_digits [of "n div 10"] digit_char [of "n mod 10"]
    have "digits_value 0 (decimal n) = 10 * int (n div 10) + int (n mod 10)"
      by (subst decimal.simps) (simp add: digits_value_append)
    also have "\<dots> = int n" by presburger
    finally show ?thesis .
  qed
qed

lemma decimal_start:
  obtains c cs where "decimal n = c # cs" "dropWhile isspace (decimal n) = c # cs" "c \<noteq> 45" "c \<noteq> 43"
    "takeWhile (\<lambda>c. 48 \<le> c \<and> c \<le> 57) (c # cs) = c # cs"
proof -
  obtain c cs where c: "decimal n = c # cs" using decimal_digits [of n] by (cases "decimal n") auto
  then have "48 \<le> c" "c \<le> 57" using decimal_digits [of n] by simp_all
  then have "\<not> isspace c" "c \<noteq> 45" "c \<noteq> 43" by (auto simp: isspace_def word_le_nat_alt)
  moreover have "takeWhile (\<lambda>c. 48 \<le> c \<and> c \<le> 57) (c # cs) = c # cs"
    using decimal_digits [of n] unfolding c by (simp add: takeWhile_eq_all_conv list_all_iff)
  ultimately show thesis using c by (intro that [of c cs]) simp_all
qed

lemma atoi_decimal: "atoi (decimal n) = int n"
proof -
  obtain c cs where c: "decimal n = c # cs" "dropWhile isspace (decimal n) = c # cs" "c \<noteq> 45" "c \<noteq> 43"
    using decimal_start by blast
  then have "atoi (decimal n) = digits_value 0 (decimal n)" unfolding atoi_def c(2) by (simp add: c(1,3,4))
  then show ?thesis by (simp add: digits_value_decimal)
qed

lemma decimal_length: "0 < k \<Longrightarrow> length (decimal n) \<le> k \<longleftrightarrow> n < 10 ^ k"
proof (induction n arbitrary: k rule: decimal.induct)
  case (1 n)
  show ?case
  proof (cases "n < 10")
    case True
    moreover have "(10 :: nat) ^ 1 \<le> 10 ^ k" using 1(2) by (intro power_increasing) simp_all
    ultimately show ?thesis using 1(2) by (subst decimal.simps) simp
  next
    case False
    show ?thesis
    proof (cases "k = 1")
      case True
      with False decimal_digits [of "n div 10"] show ?thesis by (subst decimal.simps) (simp add: Suc_le_eq)
    next
      case k: False
      then obtain j where "k = Suc j" "0 < j" using 1(2) by (cases k) auto
      with 1(1) [OF False, of j] False show ?thesis
        by (subst decimal.simps) (simp add: div_less_iff_less_mult mult.commute)
    qed
  qed
qed

end
