(* ===== verification/Sql_Connections.thy ===== *)
theory Sql_Connections
  imports Statements Text_Numbers
begin

text \<open>
  Connections to a database (src/database/MySQL/MySQLConnection.cpp,
  src/database/SQLite/SQLiteConnection.cpp), the choice of a driver
  (src/database/DriverManager.cpp), \<open>DatabaseHolder::open\<close> and the preparation of a daemon's
  statements (\<open>open\<close> of src/realmd/Realm_Database.cpp and src/proxyd/Proxy_Database.cpp).

  A MySQL connection sees one database: \<open>working\<close>, with what the open transaction did, and
  \<open>committed\<close>.  How the server answers is an argument; other connections to it are not modelled.
\<close>

section \<open>MySQLConnection\<close>

text \<open>\<open>server_autocommit\<close> is the mode of the server, \<open>c_autoCommit\<close> the member of \<open>Connection\<close>.\<close>

record 'd mysql_conn =
  c_closed :: bool
  c_autoCommit :: bool
  server_autocommit :: bool
  committed :: 'd
  working :: 'd

text \<open>The client library: whether \<open>mysql_init\<close> gives a handle, and what \<open>mysql_real_connect\<close> finds at
  a host, port, user, password and schema.\<close>

record 'd mysql_lib =
  init_ok :: bool
  real_connect :: "bytes \<Rightarrow> int \<Rightarrow> bytes \<Rightarrow> bytes \<Rightarrow> bytes \<Rightarrow> 'd option"

text \<open>The constructor; \<open>junk\<close> is the member \<open>autoCommit\<close>, which no constructor sets.  The exception for
  a refused connection reads the handle that was closed right before.\<close>

definition MySQLConnection :: "'d mysql_lib \<Rightarrow> bool \<Rightarrow> bytes \<Rightarrow> 'd mysql_conn outcome" where
  "MySQLConnection lib junk url =
     (let tokens = StrSplit url [59] in
      if length tokens < 5 then Inl (Thrown (str ''MySQLConnection: Invalid number of param''))
      else if \<not> init_ok lib then Inl (Thrown (str ''MySQLConnection: error on mysql_init''))
      else case real_connect lib (tokens ! 0) (atoi (tokens ! 1)) (tokens ! 2) (tokens ! 3) (tokens ! 4) of
          None \<Rightarrow> Inl Dangling
        | Some d \<Rightarrow> Inr \<lparr>c_closed = False, c_autoCommit = junk, server_autocommit = True, committed = d, working = d\<rparr>)"

definition mc_checkClosed :: "(('d, 'z) mysql_conn_scheme, unit) stm" where
  "mc_checkClosed = (\<lambda>c. if c_closed c then sthrow ''MySQLConnection: connection closed'' c else sret () c)"

text \<open>The server rolls an open transaction back when its connection ends.\<close>

definition mc_close :: "('d, 'z) mysql_conn_scheme \<Rightarrow> ('d, 'z) mysql_conn_scheme" where
  "mc_close c = c\<lparr>c_closed := True, working := committed c\<rparr>"

definition mc_commit :: "(('d, 'z) mysql_conn_scheme, unit) stm" where
  "mc_commit = sbind mc_checkClosed (\<lambda>_. smodify (\<lambda>c. c\<lparr>committed := working c\<rparr>))"

definition mc_rollback :: "(('d, 'z) mysql_conn_scheme, unit) stm" where
  "mc_rollback = sbind mc_checkClosed (\<lambda>_. smodify (\<lambda>c. c\<lparr>working := committed c\<rparr>))"

text \<open>Switching the server to autocommit commits the open transaction.\<close>

definition mc_setAutoCommit :: "bool \<Rightarrow> (('d, 'z) mysql_conn_scheme, unit) stm" where
  "mc_setAutoCommit b = sbind mc_checkClosed (\<lambda>_. smodify (\<lambda>c.
     (if b then c\<lparr>server_autocommit := True, committed := working c\<rparr> else c\<lparr>server_autocommit := False\<rparr>)
     \<lparr>c_autoCommit := b\<rparr>))"

definition mc_getAutoCommit :: "(('d, 'z) mysql_conn_scheme, bool) stm" where
  "mc_getAutoCommit = (\<lambda>c. sret (c_autoCommit c) c)"

text \<open>\<open>prepare\<close> gives the number of parameters of a statement the server accepts.  The error text of a
  refused one is read from the statement after \<open>mysql_stmt_close\<close>.\<close>

definition mc_prepareStatement :: "(bytes \<Rightarrow> nat option) \<Rightarrow> bytes \<Rightarrow> ('d, 'z) mysql_conn_scheme \<Rightarrow> mysql_stmt outcome" where
  "mc_prepareStatement prepare sql c =
     (if c_closed c then Inl (Thrown (str ''MySQLConnection: connection closed''))
      else case prepare sql of None \<Rightarrow> Inl Dangling | Some n \<Rightarrow> Inr (MySQLPreparedStatement n))"

section \<open>SQLiteConnection\<close>

record sqlite_conn =
  q_closed :: bool
  q_autoCommit :: bool

record sqlite_open =
  threadsafe :: bool
  open_v2 :: "bytes \<Rightarrow> bool"

definition SQLiteConnection :: "sqlite_open \<Rightarrow> bool \<Rightarrow> bytes \<Rightarrow> sqlite_conn outcome" where
  "SQLiteConnection lib junk url =
     (let tokens = StrSplit url [59] in
      if length tokens < 1 then Inl (Thrown (str ''SQLiteConnection: Invalid number of param''))
      else if \<not> threadsafe lib then Inl (Thrown (str ''SQLiteConnection: the sqlite lib doesn't support multi-threading''))
      else if \<not> open_v2 lib (tokens ! 0) then Inl (Thrown (str ''SQLiteConnection: error on sqlite3_open (check the params)''))
      else Inr \<lparr>q_closed = False, q_autoCommit = junk\<rparr>)"

definition qc_checkClosed :: "('z sqlite_conn_scheme, unit) stm" where
  "qc_checkClosed = (\<lambda>c. if q_closed c then sthrow ''SQLiteConnection: connection closed'' c else sret () c)"

definition qc_close :: "'z sqlite_conn_scheme \<Rightarrow> 'z sqlite_conn_scheme" where
  "qc_close c = c\<lparr>q_closed := True\<rparr>"

text \<open>Transactions are not implemented.\<close>

definition qc_commit :: "('z sqlite_conn_scheme, unit) stm" where
  "qc_commit = qc_checkClosed"

definition qc_rollback :: "('z sqlite_conn_scheme, unit) stm" where
  "qc_rollback = qc_checkClosed"

definition qc_setAutoCommit :: "bool \<Rightarrow> ('z sqlite_conn_scheme, unit) stm" where
  "qc_setAutoCommit b = sbind qc_checkClosed (\<lambda>_. smodify (\<lambda>c. c\<lparr>q_autoCommit := b\<rparr>))"

definition qc_getAutoCommit :: "('z sqlite_conn_scheme, bool) stm" where
  "qc_getAutoCommit = (\<lambda>c. sret (q_autoCommit c) c)"

definition qc_prepareStatement :: "(bytes \<Rightarrow> nat option) \<Rightarrow> bytes \<Rightarrow> 'z sqlite_conn_scheme \<Rightarrow> sqlite_stmt outcome" where
  "qc_prepareStatement prepare sql c =
     (if q_closed c then Inl (Thrown (str ''SQLiteConnection: connection closed''))
      else case prepare sql of
          None \<Rightarrow> Inl (Thrown (str ''SQLiteConnection: error on sqlite3_prepare_v2''))
        | Some n \<Rightarrow> Inr (SQLitePreparedStatement n))"

section \<open>Choosing a driver\<close>

datatype driver = MySQLDriver | SQLiteDriver

text \<open>Which drivers are compiled in is a setting of the build.\<close>

definition getDriver :: "bool \<Rightarrow> bool \<Rightarrow> bytes \<Rightarrow> driver option" where
  "getDriver have_mysql have_sqlite driverName =
     (let dname = map tolower driverName in
      if have_mysql \<and> dname = str ''mysql'' then Some MySQLDriver
      else if have_sqlite \<and> dname = str ''sqlite'' then Some SQLiteDriver
      else None)"

datatype 'd connection = C_mysql "'d mysql_conn" | C_sqlite sqlite_conn

definition driver_connect :: "'d mysql_lib \<Rightarrow> sqlite_open \<Rightarrow> bool \<Rightarrow> driver \<Rightarrow> bytes \<Rightarrow> 'd connection outcome" where
  "driver_connect my sl junk drv url = (case drv of
       MySQLDriver \<Rightarrow> obind (MySQLConnection my junk url) (\<lambda>c. Inr (C_mysql c))
     | SQLiteDriver \<Rightarrow> obind (SQLiteConnection sl junk url) (\<lambda>c. Inr (C_sqlite c)))"

text \<open>\<open>DriverManager::connect\<close> does not check the driver, and neither do its callers that call
  \<open>getDriver\<close> themselves.\<close>

definition manager_connect ::
    "(bytes \<Rightarrow> driver option) \<Rightarrow> (driver \<Rightarrow> bytes \<Rightarrow> 'c outcome) \<Rightarrow> bytes \<Rightarrow> bytes \<Rightarrow> 'c outcome" where
  "manager_connect get connect driverName url =
     (case get driverName of None \<Rightarrow> Inl Null_pointer | Some drv \<Rightarrow> connect drv url)"

text \<open>\<open>DatabaseHolder::open\<close> tries the connection once, then opens those of the pool; \<open>open_one\<close> is the
  \<open>open\<close> of the daemon's connection class.\<close>

fun open_pool :: "'b outcome \<Rightarrow> nat \<Rightarrow> 'b list outcome" where
  "open_pool open_one 0 = Inr []"
| "open_pool open_one (Suc n) = obind open_one (\<lambda>b. obind (open_pool open_one n) (\<lambda>bs. Inr (b # bs)))"

definition holder_open :: "'c outcome \<Rightarrow> 'b outcome \<Rightarrow> int \<Rightarrow> 'b list option outcome" where
  "holder_open connect open_one num = (case connect of
       Inl (Thrown e) \<Rightarrow> Inr None
     | Inl f \<Rightarrow> Inl f
     | Inr c \<Rightarrow> obind (open_pool open_one (nat (holder_connections num))) (\<lambda>bs. Inr (Some bs)))"

section \<open>Preparing the statements of a daemon\<close>

text \<open>\<open>ADD_STMT\<close> for each statement in order, a later one replacing an earlier.\<close>

definition open_statements :: "(bytes \<Rightarrow> 't outcome) \<Rightarrow> ('s \<times> bytes) list \<Rightarrow> ('s \<Rightarrow> 't option) outcome" where
  "open_statements prepare sqls =
     ofold (\<lambda>(x, sql) holder. obind (prepare sql) (\<lambda>st. Inr (holder(x \<mapsto> st)))) sqls (\<lambda>_. None)"

lemma open_statements_all:
  assumes "\<And>x sql. (x, sql) \<in> set sqls \<Longrightarrow> prepare sql = Inr (new sql)"
  shows "open_statements prepare sqls = Inr (\<lambda>x. map_option new (map_of (rev sqls) x))"
proof -
  have "ofold (\<lambda>(x, sql) holder. obind (prepare sql) (\<lambda>st. Inr (holder(x \<mapsto> st)))) qs h =
      Inr (h ++ (\<lambda>x. map_option new (map_of (rev qs) x)))" if "set qs \<subseteq> set sqls" for qs h
    using that
  proof (induction qs arbitrary: h)
    case (Cons q qs)
    obtain x sql where q: "q = (x, sql)" by force
    have "prepare sql = Inr (new sql)" using Cons.prems q by (intro assms) auto
    then have "ofold (\<lambda>(x, sql) holder. obind (prepare sql) (\<lambda>st. Inr (holder(x \<mapsto> st)))) (q # qs) h =
        ofold (\<lambda>(x, sql) holder. obind (prepare sql) (\<lambda>st. Inr (holder(x \<mapsto> st)))) qs (h(x \<mapsto> new sql))"
      unfolding q by simp
    also have "\<dots> = Inr ((h(x \<mapsto> new sql)) ++ (\<lambda>y. map_option new (map_of (rev qs) y)))"
      using Cons.prems by (intro Cons.IH) simp
    also have "(h(x \<mapsto> new sql)) ++ (\<lambda>y. map_option new (map_of (rev qs) y)) =
        h ++ (\<lambda>y. map_option new (map_of (rev (q # qs)) y))"
      unfolding q by (rule ext) (simp add: map_add_def split: option.splits)
    finally show ?case .
  qed (simp add: map_add_def)
  from this [of sqls Map.empty] show ?thesis
    by (simp add: open_statements_def map_add_def)
qed

lemma split_loop_part: "set p \<inter> set sep = {} \<Longrightarrow> split_loop sep (p @ cs) r s = split_loop sep cs r (s @ p)"
  by (induction p arbitrary: s) auto

section \<open>Properties\<close>

text \<open>What a URL and a driver name lead to.  A MySQL URL of five parts without separators - host,
  port, user, password, schema - connects with exactly these, in autocommit mode; a refused
  connection reads a closed handle.  Empty parts vanish in the split, so that an account with an
  empty password cannot connect.  A name that is neither "mysql" nor "sqlite" in any letter case
  dereferences a null driver.\<close>

theorem connection_of_url:
  assumes "\<forall>p\<in>{host, port, user, password, schema}. 59 \<notin> set p"
    and "host \<noteq> []" "port \<noteq> []" "user \<noteq> []" "schema \<noteq> []" "init_ok lib"
  shows "MySQLConnection lib junk (host @ [59] @ port @ [59] @ user @ [59] @ password @ [59] @ schema) =
      (if password = [] then Inl (Thrown (str ''MySQLConnection: Invalid number of param''))
       else case real_connect lib host (atoi port) user password schema of
           None \<Rightarrow> Inl Dangling
         | Some d \<Rightarrow> Inr \<lparr>c_closed = False, c_autoCommit = junk, server_autocommit = True, committed = d, working = d\<rparr>) \<and>
    (map tolower driverName \<notin> {str ''mysql'', str ''sqlite''} \<longrightarrow>
      holder_open (manager_connect (getDriver have_mysql have_sqlite) (driver_connect lib sl junk) driverName url)
        open_one num = Inl Null_pointer)"
proof
  have part: "split_loop [59] (p @ cs) r s = split_loop [59] cs r (s @ p)"
    if "p \<in> {host, port, user, password, schema}" for p cs r s
    using assms(1) that by (intro split_loop_part) auto
  have last: "split_loop [59] schema r [] = (r, schema)" for r
    using part [of schema "[]" r "[]"] by simp
  have "StrSplit (host @ [59] @ port @ [59] @ user @ [59] @ password @ [59] @ schema) [59] =
      [host, port, user] @ (if password = [] then [] else [password]) @ [schema]"
    using assms(2-5) by (simp add: StrSplit_def part last)
  then show "MySQLConnection lib junk (host @ [59] @ port @ [59] @ user @ [59] @ password @ [59] @ schema) =
      (if password = [] then Inl (Thrown (str ''MySQLConnection: Invalid number of param''))
       else case real_connect lib host (atoi port) user password schema of
           None \<Rightarrow> Inl Dangling
         | Some d \<Rightarrow> Inr \<lparr>c_closed = False, c_autoCommit = junk, server_autocommit = True, committed = d, working = d\<rparr>)"
    using assms(6) by (simp add: MySQLConnection_def)
  show "map tolower driverName \<notin> {str ''mysql'', str ''sqlite''} \<longrightarrow>
      holder_open (manager_connect (getDriver have_mysql have_sqlite) (driver_connect lib sl junk) driverName url)
        open_one num = Inl Null_pointer"
    by (simp add: getDriver_def manager_connect_def holder_open_def)
qed

definition demo_mysql_lib :: "u32 mysql_lib" where
  "demo_mysql_lib = \<lparr>init_ok = True, real_connect = (\<lambda>host port user password schema. if port = 3306 then Some 9 else None)\<rparr>"

theorem connection_of_url_witness:
  "MySQLConnection demo_mysql_lib False (str ''db;3306;morph;pw;realmd'') =
     Inr \<lparr>c_closed = False, c_autoCommit = False, server_autocommit = True, committed = 9, working = 9\<rparr>"
proof -
  have "str ''db;3306;morph;pw;realmd'' =
      str ''db'' @ [59] @ str ''3306'' @ [59] @ str ''morph'' @ [59] @ str ''pw'' @ [59] @ str ''realmd''"
    by (simp add: str_def)
  moreover have "atoi (str ''3306'') = 3306"
    by (simp add: atoi_def str_def isspace_def)
  ultimately show ?thesis
    using connection_of_url [of "str ''db''" "str ''3306''" "str ''morph''" "str ''pw''" "str ''realmd''" demo_mysql_lib False
        "[]" True True undefined "[]" "Inr ()" 1]
    by (simp add: demo_mysql_lib_def str_def)
qed

end
