(* ===== verification/Sql_Execution.thy ===== *)
theory Sql_Execution
  imports Sql_Connections
begin

text \<open>
  What the worker thread of a connection does with a request (src/database/Database.cpp,
  src/database/Database.h): \<open>SqlOperationBase::execute\<close>, \<open>SqlOperationTransaction\<close>, \<open>DatabaseWorker::svc\<close>.

  Setting the future of a result calls its observer in the same thread; \<open>observe\<close> stands for the
  observers of a daemon, whose own effects are modelled with the daemon.
\<close>

section \<open>Executing a request\<close>

text \<open>An exception of the program ends \<open>execute\<close> with -1, other faults are not caught.\<close>

definition caught :: "fault \<Rightarrow> int outcome" where
  "caught f = (case f of Thrown e \<Rightarrow> Inr (- 1) | _ \<Rightarrow> Inl f)"

text \<open>The body of \<open>execute\<close> over the operations of a driver; the second component of the result is
  what the future was set to.\<close>

definition execute_with ::
    "(u8 \<Rightarrow> bound \<Rightarrow> ('t, unit) stm) \<Rightarrow> ('t, 'r) stm \<Rightarrow> ('r \<Rightarrow> ('t, unit) stm) \<Rightarrow> ('t, bool) stm \<Rightarrow>
     ('t \<Rightarrow> 't) \<Rightarrow> bool \<Rightarrow> bound list \<Rightarrow> 't \<Rightarrow> int outcome \<times> 'r option \<times> 't" where
  "execute_with put query deliver exec clear has_res vs s =
     (case bind_slots put 0 vs s of
        (Inl f, s1) \<Rightarrow> (caught f, None, s1)
      | (Inr _, s1) \<Rightarrow>
          if has_res then (case query s1 of
              (Inl f, s2) \<Rightarrow> (caught f, None, s2)
            | (Inr rs, s2) \<Rightarrow> (case deliver rs s2 of
                  (Inl f, s3) \<Rightarrow> (caught f, Some rs, s3)
                | (Inr _, s3) \<Rightarrow> (Inr 0, Some rs, clear s3)))
          else (case exec s1 of
              (Inl f, s2) \<Rightarrow> (caught f, None, s2)
            | (Inr _, s2) \<Rightarrow> (Inr 0, None, clear s2)))"

section \<open>On a MySQL connection\<close>

text \<open>\<open>DatabaseConnection\<close>: the connection and its prepared statements; \<open>None\<close> is a null pointer.\<close>

record ('s, 'd) mysql_db = "'d mysql_conn" +
  holder :: "'s \<Rightarrow> mysql_stmt option"

text \<open>A method of a prepared statement, without and with a round trip to the server; in autocommit
  mode a statement that succeeds is committed.\<close>

definition my_on_stmt :: "'s \<Rightarrow> (mysql_stmt, 'a) stm \<Rightarrow> (('s, 'd) mysql_db, 'a) stm" where
  "my_on_stmt x m = (\<lambda>db. case holder db x of
       None \<Rightarrow> (Inl Null_pointer, db)
     | Some st \<Rightarrow> let (r, st') = m st in (r, db\<lparr>holder := (holder db)(x \<mapsto> st')\<rparr>))"

definition my_on_server :: "'s \<Rightarrow> (mysql_stmt \<times> 'd, 'a) stm \<Rightarrow> (('s, 'd) mysql_db, 'a) stm" where
  "my_on_server x m = (\<lambda>db. case holder db x of
       None \<Rightarrow> (Inl Null_pointer, db)
     | Some st \<Rightarrow> let (r, st', d') = m (st, working db)
         in (r, db\<lparr>holder := (holder db)(x \<mapsto> st'), working := d',
                   committed := if server_autocommit db then d' else committed db\<rparr>))"

text \<open>\<open>srv\<close> is the server's answer to each statement, \<open>mysql_time\<close> a size of the client library.\<close>

definition my_execute_op ::
    "('s \<Rightarrow> 'd mysql_server) \<Rightarrow> nat \<Rightarrow> ('c \<Rightarrow> mysql_rs \<Rightarrow> unit outcome) \<Rightarrow> ('s, 'c) sql_op \<Rightarrow>
     ('s, 'd) mysql_db \<Rightarrow> int outcome \<times> mysql_rs option \<times> ('s, 'd) mysql_db" where
  "my_execute_op srv mysql_time observe op =
     (let x = statement op in
      execute_with (\<lambda>i v. my_on_stmt x (my_set_bound i v))
        (my_on_server x (my_executeQuery mysql_time (srv x)))
        (\<lambda>rs db. (case observer op of None \<Rightarrow> Inr () | Some c \<Rightarrow> observe c rs, db))
        (my_on_server x (my_execute (srv x)))
        (\<lambda>db. db\<lparr>holder := (holder db)(x := map_option my_clearParameters (holder db x))\<rparr>)
        (has_result op) (bound_values op))"

text \<open>\<open>SqlOperationRequest::call\<close>.\<close>

definition my_call ::
    "('s \<Rightarrow> 'd mysql_server) \<Rightarrow> nat \<Rightarrow> ('c \<Rightarrow> mysql_rs \<Rightarrow> unit outcome) \<Rightarrow> ('s, 'c) sql_op \<Rightarrow> (('s, 'd) mysql_db, int) stm" where
  "my_call srv mysql_time observe op = (\<lambda>db. case my_execute_op srv mysql_time observe op db of
       (r, _, db') \<Rightarrow> (obind r (\<lambda>i. Inr (if i = - 1 then - 1 else 0)), db'))"

section \<open>On a SQLite connection\<close>

record 's sqlite_db = sqlite_conn +
  sl_holder :: "'s \<Rightarrow> sqlite_stmt option"

definition sl_on_stmt :: "'s \<Rightarrow> (sqlite_stmt, 'a) stm \<Rightarrow> ('s sqlite_db, 'a) stm" where
  "sl_on_stmt x m = (\<lambda>db. case sl_holder db x of
       None \<Rightarrow> (Inl Null_pointer, db)
     | Some st \<Rightarrow> let (r, st') = m st in (r, db\<lparr>sl_holder := (sl_holder db)(x \<mapsto> st')\<rparr>))"

text \<open>Here an observer that calls \<open>next\<close> steps the statement: \<open>observe\<close> tells whether it does, too.\<close>

definition sl_execute_op ::
    "('s \<Rightarrow> sqlite_lib) \<Rightarrow> ('c \<Rightarrow> sqlite_rs \<Rightarrow> bool \<times> unit outcome) \<Rightarrow> ('s, 'c) sql_op \<Rightarrow>
     's sqlite_db \<Rightarrow> int outcome \<times> sqlite_rs option \<times> 's sqlite_db" where
  "sl_execute_op lib observe op =
     (let x = statement op in
      execute_with (\<lambda>i v. sl_on_stmt x (sl_set_bound i v))
        (sl_on_stmt x (sl_executeQuery (lib x)))
        (\<lambda>rs. case observer op of None \<Rightarrow> sret ()
            | Some c \<Rightarrow> sl_on_stmt x (\<lambda>st. let (steps, r) = observe c rs in (r, if steps then sl_step st else st)))
        (sl_on_stmt x (sl_execute (lib x)))
        (\<lambda>db. db\<lparr>sl_holder := (sl_holder db)(x := map_option sl_clearParameters (sl_holder db x))\<rparr>)
        (has_result op) (bound_values op))"

definition sl_call ::
    "('s \<Rightarrow> sqlite_lib) \<Rightarrow> ('c \<Rightarrow> sqlite_rs \<Rightarrow> bool \<times> unit outcome) \<Rightarrow> ('s, 'c) sql_op \<Rightarrow> ('s sqlite_db, int) stm" where
  "sl_call lib observe op = (\<lambda>db. case sl_execute_op lib observe op db of
       (r, _, db') \<Rightarrow> (obind r (\<lambda>i. Inr (if i = - 1 then - 1 else 0)), db'))"

section \<open>Transactions\<close>

text \<open>The loop of \<open>SqlOperationTransaction::call\<close>: whether a request failed, and the requests left.\<close>

fun transaction_loop :: "('q \<Rightarrow> ('t, int) stm) \<Rightarrow> 'q list \<Rightarrow> ('t, bool \<times> 'q list) stm" where
  "transaction_loop run [] = sret (False, [])"
| "transaction_loop run (q # qs) = sbind (run q) (\<lambda>r.
     if r = - 1 then sret (True, q # qs) else transaction_loop run qs)"

text \<open>\<open>call\<close> leaves the old mode of the connection and the requests left for the destructor.\<close>

definition transaction_call ::
    "('t, bool) stm \<Rightarrow> (bool \<Rightarrow> ('t, unit) stm) \<Rightarrow> ('t, unit) stm \<Rightarrow> ('t, unit) stm \<Rightarrow> ('q \<Rightarrow> ('t, int) stm) \<Rightarrow>
     'q list \<Rightarrow> ('t, int \<times> bool \<times> 'q list) stm" where
  "transaction_call getAuto setAuto commit rollback run qs =
     sbind getAuto (\<lambda>autocommit_state. sbind (setAuto False) (\<lambda>_. sbind (transaction_loop run qs) (\<lambda>(error, left).
       if error then sbind rollback (\<lambda>_. sret (- 1, autocommit_state, left))
       else sbind commit (\<lambda>_. sret (0, autocommit_state, left)))))"

text \<open>The loop of the destructor, and what it does not delete.\<close>

function delete_loop :: "nat \<Rightarrow> 'q list \<Rightarrow> 'q list" where
  "delete_loop i queue = (if i < length queue then delete_loop (i + 1) (tl queue) else queue)"
  by pat_completeness auto
termination by (relation "measure (\<lambda>(i, queue). length queue)") auto

declare delete_loop.simps [simp del]

definition transaction_delete :: "(bool \<Rightarrow> ('t, unit) stm) \<Rightarrow> bool \<Rightarrow> 'q list \<Rightarrow> ('t, 'q list) stm" where
  "transaction_delete setAuto autocommit_state queue =
     sbind (setAuto autocommit_state) (\<lambda>_. sret (delete_loop 0 queue))"

text \<open>The worker calls a transaction and deletes it: its result, and the requests that leak.\<close>

definition run_transaction ::
    "('t, bool) stm \<Rightarrow> (bool \<Rightarrow> ('t, unit) stm) \<Rightarrow> ('t, unit) stm \<Rightarrow> ('t, unit) stm \<Rightarrow> ('q \<Rightarrow> ('t, int) stm) \<Rightarrow>
     'q list \<Rightarrow> ('t, int \<times> 'q list) stm" where
  "run_transaction getAuto setAuto commit rollback run qs =
     sbind (transaction_call getAuto setAuto commit rollback run qs) (\<lambda>(r, autocommit_state, left).
       sbind (transaction_delete setAuto autocommit_state left) (\<lambda>leaked. sret (r, leaked)))"

definition my_transaction ::
    "('s \<Rightarrow> 'd mysql_server) \<Rightarrow> nat \<Rightarrow> ('c \<Rightarrow> mysql_rs \<Rightarrow> unit outcome) \<Rightarrow> ('s, 'c) sql_op list \<Rightarrow>
     (('s, 'd) mysql_db, int \<times> ('s, 'c) sql_op list) stm" where
  "my_transaction srv mysql_time observe =
     run_transaction mc_getAutoCommit mc_setAutoCommit mc_commit mc_rollback (my_call srv mysql_time observe)"

definition sl_transaction ::
    "('s \<Rightarrow> sqlite_lib) \<Rightarrow> ('c \<Rightarrow> sqlite_rs \<Rightarrow> bool \<times> unit outcome) \<Rightarrow> ('s, 'c) sql_op list \<Rightarrow>
     ('s sqlite_db, int \<times> ('s, 'c) sql_op list) stm" where
  "sl_transaction lib observe =
     run_transaction qc_getAutoCommit qc_setAutoCommit qc_commit qc_rollback (sl_call lib observe)"

text \<open>\<open>DatabaseWorker::svc\<close> on the requests it dequeues until the queue is closed; results of calls are
  dropped.\<close>

datatype ('s, 'c) job = Job_request "('s, 'c) sql_op" | Job_transaction "('s, 'c) sql_op list"

fun svc :: "(('s, 'c) job \<Rightarrow> ('t, unit) stm) \<Rightarrow> ('s, 'c) job list \<Rightarrow> ('t, unit) stm" where
  "svc call [] = sret ()"
| "svc call (j # js) = sbind (call j) (\<lambda>_. svc call js)"

definition my_job ::
    "('s \<Rightarrow> 'd mysql_server) \<Rightarrow> nat \<Rightarrow> ('c \<Rightarrow> mysql_rs \<Rightarrow> unit outcome) \<Rightarrow> ('s, 'c) job \<Rightarrow> (('s, 'd) mysql_db, unit) stm" where
  "my_job srv mysql_time observe j = (case j of
       Job_request op \<Rightarrow> sbind (my_call srv mysql_time observe op) (\<lambda>_. sret ())
     | Job_transaction ops \<Rightarrow> sbind (my_transaction srv mysql_time observe ops) (\<lambda>_. sret ()))"

section \<open>Binding through the holder\<close>

text \<open>The interface between a connection and one of its statements: binding on the connection is binding
  on the statement.\<close>

locale statement_holder =
  fixes field :: "'t \<Rightarrow> 'st option" and upd :: "'st \<Rightarrow> 't \<Rightarrow> 't"
    and lift :: "('st, unit) stm \<Rightarrow> ('t, unit) stm"
  assumes lift_stm: "field db = Some st \<Longrightarrow> lift m db = (fst (m st), upd (snd (m st)) db)"
    and field_upd: "field db = Some st \<Longrightarrow> field (upd st' db) = Some st'"
    and upd_upd: "upd st' (upd st db) = upd st' db"
    and upd_same: "field db = Some st \<Longrightarrow> upd st db = db"
begin

lemma bind_lift:
  "field db = Some st \<Longrightarrow> bind_slots (\<lambda>i v. lift (put i v)) k vs db =
     (case bind_slots put k vs st of (r, st') \<Rightarrow> (r, upd st' db))"
proof (induction vs arbitrary: k st db)
  case Nil
  then show ?case by (simp add: sret_def upd_same)
next
  case (Cons v vs)
  obtain r st1 where st1: "put (of_nat (k + 1)) v st = (r, st1)" by force
  have "lift (put (of_nat (k + 1)) v) db = (r, upd st1 db)"
    using st1 by (simp add: lift_stm [OF Cons.prems])
  then show ?case
    using st1 Cons.IH [OF field_upd [OF Cons.prems, of st1], of "Suc k"]
    by (cases r) (simp_all add: upd_upd)
qed

end

interpretation mysql_holder: statement_holder "\<lambda>db. holder db x" "\<lambda>st db. db\<lparr>holder := (holder db)(x \<mapsto> st)\<rparr>"
    "my_on_stmt x" for x :: 's
  by unfold_locales (auto simp: my_on_stmt_def fun_upd_idem split: prod.splits)

interpretation sqlite_holder: statement_holder "\<lambda>db. sl_holder db x" "\<lambda>st db. db\<lparr>sl_holder := (sl_holder db)(x \<mapsto> st)\<rparr>"
    "sl_on_stmt x" for x :: 's
  by unfold_locales (auto simp: sl_on_stmt_def fun_upd_idem split: prod.splits)

end
