(* ===== verification/Sqlite_Execution.thy ===== *)
theory Sqlite_Execution
  imports Sql_Execution
begin

text \<open>
  Executing requests on a SQLite connection.  A query works once per statement, because nothing resets
  a statement that has been stepped, and a request without a result is never stepped.
\<close>

definition sl_usable :: "nat \<Rightarrow> sqlite_stmt \<Rightarrow> bool" where
  "sl_usable n st \<longleftrightarrow> sl_ready n st \<and> \<not> sl_closed st"

lemma sl_set_bound_closed: "sl_set_bound i v st = (r, st') \<Longrightarrow> sl_closed st' = sl_closed st"
  by (cases v) (auto simp: sl_set_bound_def sl_setBool_def sl_setUint32_def sl_setUint64_def sl_setInt32_def sl_setInt64_def
      sl_setDouble_def sl_setString_def sl_bind_def sl_checkValidity_def sbind_def sthrow_def sret_def Let_def
      split: if_splits)

lemma sl_bind_slots_closed: "bind_slots sl_set_bound k vs st = (r, st') \<Longrightarrow> sl_closed st' = sl_closed st"
proof (induction vs arbitrary: k st)
  case (Cons v vs)
  then show ?case
    using sl_set_bound_closed [of "of_nat (k + 1)" v st]
    by (auto simp: sbind_def split: prod.splits sum.splits)
qed (simp add: sret_def)

lemma sl_bind_request:
  assumes "sl_holder db (statement op) = Some st0" and "sl_usable (length (bound_values op)) st0"
    and "length (bound_values op) \<le> 255"
  obtains st where "sl_usable (length (bound_values op)) st"
    "sl_bound st = map (\<lambda>v. Some (sql_value_of v)) (bound_values op)" "sl_isAllSet st"
    "bind_slots (\<lambda>i v. sl_on_stmt (statement op) (sl_set_bound i v)) 0 (bound_values op) db =
       (Inr (), db\<lparr>sl_holder := (sl_holder db)(statement op \<mapsto> st)\<rparr>)"
proof -
  let ?vs = "bound_values op"
  obtain st where st: "bind_slots sl_set_bound 0 ?vs st0 = (Inr (), st)" "sl_ready (length ?vs) st"
      "sl_bound st = map (\<lambda>v. Some (sql_value_of v)) ?vs"
    using bind_whole(2) [OF assms(3) refl, of st0] assms(2) by (auto simp: sl_usable_def)
  have "sl_isAllSet st"
    using st(2,3) by (auto simp: sl_isAllSet_def sl_ready_def list_all_iff)
  moreover have "sl_usable (length ?vs) st"
    using st(2) sl_bind_slots_closed [OF st(1)] assms(2) by (simp add: sl_usable_def)
  ultimately show thesis
    using that [of st] st(3) sqlite_holder.bind_lift [where put = sl_set_bound, OF assms(1), of 0 ?vs] st(1) by simp
qed

text \<open>Once stepped, a statement refuses every parameter.\<close>

lemma sl_set_bound_stepped:
  "sl_stepped st \<Longrightarrow> \<exists>e st'. sl_set_bound i v st = (Inl (Thrown e), st') \<and> sl_stepped st'"
  by (cases v) (auto simp: sl_set_bound_def sl_setBool_def sl_setUint32_def sl_setUint64_def sl_setInt32_def sl_setInt64_def
      sl_setDouble_def sl_setString_def sl_bind_def sl_checkValidity_def sbind_def sthrow_def sret_def Let_def)

lemma sl_stepped_refuses:
  assumes "sl_holder db (statement op) = Some st" and "sl_stepped st" and "bound_values op \<noteq> []"
  shows "\<exists>db'. sl_execute_op lib observe op db = (Inr (- 1), None, db')"
proof -
  obtain v vs where vs: "bound_values op = v # vs" using assms(3) by (cases "bound_values op") auto
  obtain e st' where "sl_set_bound 1 v st = (Inl (Thrown e), st')"
    using sl_set_bound_stepped [OF assms(2)] by blast
  then show ?thesis
    using assms(1) by (simp add: sl_execute_op_def execute_with_def vs sl_on_stmt_def sbind_def caught_def Let_def)
qed

section \<open>Properties\<close>


definition demo_sqlite :: "unit sqlite_db" where
  "demo_sqlite = \<lparr>q_closed = False, q_autoCommit = True, sl_holder = (\<lambda>_. Some (SQLitePreparedStatement 1))\<rparr>"


end
