(* ===== verification/Transactions.thy ===== *)
theory Transactions
  imports Sql_Execution
begin

text \<open>
  What executing requests on a MySQL connection amounts to: one request does to the database what
  its statement does with the request's values, and a transaction does all of its requests or
  nothing.  The specification is stated over an interface, which \<open>MySQLConnection\<close> provides
  and \<open>SQLiteConnection\<close> does not.
\<close>

section \<open>Specification\<close>

text \<open>What a request does to the database.\<close>

definition statement_effect :: "('s \<Rightarrow> 'd mysql_server) \<Rightarrow> ('s, 'c) sql_op \<Rightarrow> 'd \<Rightarrow> 'd option" where
  "statement_effect srv op d =
     map_option fst (srv (statement op) (map (\<lambda>v. Some (sql_value_of v)) (bound_values op)) d)"

fun all_effects :: "('q \<Rightarrow> 'd \<Rightarrow> 'd option) \<Rightarrow> 'q list \<Rightarrow> 'd \<Rightarrow> 'd option" where
  "all_effects effect [] d = Some d"
| "all_effects effect (q # qs) d = (case effect q d of None \<Rightarrow> None | Some d' \<Rightarrow> all_effects effect qs d')"

text \<open>\<open>k\<close> requests succeed, then one fails or none is left.\<close>

definition first_failing :: "('q \<Rightarrow> 'd \<Rightarrow> 'd option) \<Rightarrow> 'q list \<Rightarrow> 'd \<Rightarrow> nat \<Rightarrow> bool" where
  "first_failing effect qs d k \<longleftrightarrow> k \<le> length qs \<and> all_effects effect (take k qs) d \<noteq> None \<and>
     (k < length qs \<longrightarrow> all_effects effect (take (Suc k) qs) d = None)"

lemma first_failing_all:
  assumes "first_failing effect qs d k" and "all_effects effect qs d \<noteq> None" shows "k = length qs"
proof -
  have append: "all_effects effect (xs @ ys) d = None" if "all_effects effect xs d = None" for xs ys d
    using that by (induction xs arbitrary: d) (auto split: option.splits)
  show ?thesis
  proof (rule ccontr)
    assume "k \<noteq> length qs"
    then have "all_effects effect (take (Suc k) qs @ drop (Suc k) qs) d = None"
      using assms(1) by (intro append) (simp add: first_failing_def)
    with assms(2) show False by simp
  qed
qed

text \<open>The destructor deletes half of the requests that are left, rounded up.\<close>

lemma delete_loop_drop: "i \<le> length q \<Longrightarrow> delete_loop i q = drop ((length q - i + 1) div 2) q"
proof (induction i q rule: delete_loop.induct)
  case (1 i q)
  show ?case
  proof (cases "i < length q")
    case True
    then obtain y ys where q: "q = y # ys" by (cases q) auto
    show ?thesis
    proof (cases "i + 1 \<le> length ys")
      case True
      with 1 q have "delete_loop (i + 1) ys = drop ((length ys - (i + 1) + 1) div 2) ys" by simp
      moreover have "(length q - i + 1) div 2 = Suc ((length ys - (i + 1) + 1) div 2)" using True q by simp
      moreover have "delete_loop i q = delete_loop (i + 1) ys"
        using True q delete_loop.simps [of i "y # ys"] by simp
      ultimately show ?thesis using q by simp
    next
      case False
      then have "i = length ys" using True q by simp
      then show ?thesis using q delete_loop.simps [of i "y # ys"] delete_loop.simps [of "i + 1" ys] by simp
    qed
  next
    case False
    with 1 show ?thesis using delete_loop.simps [of i q] by simp
  qed
qed

text \<open>The interface: \<open>saved\<close> is what would survive a crash, \<open>work\<close> what the connection sees, \<open>flag\<close> the
  mode that \<open>getAuto\<close> tells, \<open>mode\<close> the mode of the server.\<close>

locale transactional =
  fixes getAuto :: "('t, bool) stm" and setAuto :: "bool \<Rightarrow> ('t, unit) stm"
    and commit rollback :: "('t, unit) stm" and run :: "'q \<Rightarrow> ('t, int) stm"
    and effect :: "'q \<Rightarrow> 'd \<Rightarrow> 'd option" and fits :: "'q \<Rightarrow> bool"
    and good :: "'t \<Rightarrow> bool" and work saved :: "'t \<Rightarrow> 'd" and flag mode :: "'t \<Rightarrow> bool"
  assumes get: "good s \<Longrightarrow> getAuto s = (Inr (flag s), s)"
    and set_mode: "good s \<Longrightarrow> \<exists>s'. setAuto b s = (Inr (), s') \<and> good s' \<and> work s' = work s \<and>
        saved s' = (if b then work s else saved s) \<and> mode s' = b \<and> flag s' = b"
    and commits: "good s \<Longrightarrow> \<exists>s'. commit s = (Inr (), s') \<and> good s' \<and> work s' = work s \<and> saved s' = work s \<and>
        mode s' = mode s \<and> flag s' = flag s"
    and rolls_back: "good s \<Longrightarrow> \<exists>s'. rollback s = (Inr (), s') \<and> good s' \<and> work s' = saved s \<and> saved s' = saved s \<and>
        mode s' = mode s \<and> flag s' = flag s"
    and runs: "good s \<Longrightarrow> fits q \<Longrightarrow> \<exists>s'. run q s = (Inr (if effect q (work s) = None then - 1 else 0), s') \<and> good s' \<and>
        work s' = (case effect q (work s) of None \<Rightarrow> work s | Some d \<Rightarrow> d) \<and>
        saved s' = (if mode s then work s' else saved s) \<and> mode s' = mode s \<and> flag s' = flag s"
begin

lemma loop_effects:
  "good s \<Longrightarrow> \<not> mode s \<Longrightarrow> list_all fits qs \<Longrightarrow>
     \<exists>k s'. transaction_loop run qs s = (Inr (all_effects effect qs (work s) = None, drop k qs), s') \<and> good s' \<and>
       saved s' = saved s \<and> \<not> mode s' \<and> first_failing effect qs (work s) k \<and>
       (\<forall>d. all_effects effect qs (work s) = Some d \<longrightarrow> work s' = d)"
proof (induction qs arbitrary: s)
  case Nil
  then show ?case by (simp add: sret_def first_failing_def)
next
  case (Cons q qs)
  from runs [OF Cons.prems(1), of q] Cons.prems(3) obtain s1 where
    s1: "run q s = (Inr (if effect q (work s) = None then - 1 else 0), s1)" "good s1"
      "work s1 = (case effect q (work s) of None \<Rightarrow> work s | Some d \<Rightarrow> d)"
      "saved s1 = (if mode s then work s1 else saved s)" "mode s1 = mode s" by auto
  show ?case
  proof (cases "effect q (work s)")
    case None
    with s1 Cons.prems(2) show ?thesis by (intro exI [of _ 0]) (auto simp: sret_def first_failing_def)
  next
    case (Some d)
    with s1 Cons.IH [OF s1(2)] Cons.prems(2,3) obtain k s' where
      "transaction_loop run qs s1 = (Inr (all_effects effect qs d = None, drop k qs), s')" "good s'"
      "saved s' = saved s" "\<not> mode s'" "first_failing effect qs d k"
      "\<forall>d'. all_effects effect qs d = Some d' \<longrightarrow> work s' = d'" by auto
    with s1(1) Some show ?thesis by (intro exI [of _ "Suc k"] exI [of _ s']) (auto simp: first_failing_def)
  qed
qed

lemma all_or_nothing:
  assumes "good s" and "list_all fits qs"
  shows "\<exists>r leaked s'. run_transaction getAuto setAuto commit rollback run qs s = (Inr (r, leaked), s') \<and> good s' \<and>
     mode s' = flag s \<and> flag s' = flag s \<and> work s' = saved s' \<and>
     (case all_effects effect qs (work s) of
        None \<Rightarrow> r = - 1 \<and> saved s' = saved s \<and>
          (\<exists>k<length qs. first_failing effect qs (work s) k \<and> length leaked = (length qs - k) div 2)
      | Some d \<Rightarrow> r = 0 \<and> saved s' = d \<and> leaked = [])"
proof -
  obtain s1 where s1: "setAuto False s = (Inr (), s1)" "good s1" "work s1 = work s" "saved s1 = saved s"
      "\<not> mode s1" "\<not> flag s1"
    using set_mode [OF assms(1), of False] by auto
  obtain k s2 where s2: "transaction_loop run qs s1 = (Inr (all_effects effect qs (work s) = None, drop k qs), s2)"
      "good s2" "saved s2 = saved s" "\<forall>d. all_effects effect qs (work s) = Some d \<longrightarrow> work s2 = d"
    and k: "first_failing effect qs (work s) k"
    using loop_effects [OF s1(2,5) assms(2)] s1(3,4) by auto
  let ?failed = "all_effects effect qs (work s) = None"
  obtain s3 where s3: "(if ?failed then rollback else commit) s2 = (Inr (), s3)" "good s3" "work s3 = saved s3"
      "saved s3 = (if ?failed then saved s else work s2)"
    using rolls_back [OF s2(2)] commits [OF s2(2)] s2(3) by (cases ?failed) auto
  obtain s4 where s4: "setAuto (flag s) s3 = (Inr (), s4)" "good s4" "work s4 = saved s4" "saved s4 = saved s3"
      "mode s4 = flag s" "flag s4 = flag s"
    using set_mode [OF s3(2), of "flag s"] s3(3) by auto
  have "transaction_call getAuto setAuto commit rollback run qs s =
      (Inr (if ?failed then - 1 else 0, flag s, drop k qs), s3)"
    using get [OF assms(1)] s1(1) s2(1) s3(1) by (cases ?failed) (simp_all add: transaction_call_def sret_def)
  then have "run_transaction getAuto setAuto commit rollback run qs s =
      (Inr (if ?failed then - 1 else 0, delete_loop 0 (drop k qs)), s4)"
    using s4(1) by (simp add: run_transaction_def transaction_delete_def sret_def)
  moreover have "k < length qs" if ?failed
    using k that by (cases "k = length qs") (auto simp: first_failing_def)
  moreover have "k = length qs" if "\<not> ?failed"
    using first_failing_all [OF k] that by simp
  moreover have "length (delete_loop 0 (drop k qs)) = (length qs - k) div 2"
    using k by (simp add: delete_loop_drop first_failing_def)
  ultimately show ?thesis
    using s2(4) s3 s4 k by (cases "all_effects effect qs (work s)") auto
qed

end

section \<open>MySQL\<close>

text \<open>\<open>arity\<close> gives the number of parameters of the statements that have been prepared.\<close>

definition my_good :: "('s \<Rightarrow> nat option) \<Rightarrow> ('s, 'd) mysql_db \<Rightarrow> bool" where
  "my_good arity db \<longleftrightarrow> \<not> c_closed db \<and> (server_autocommit db \<longrightarrow> working db = committed db) \<and>
     (\<forall>x n. arity x = Some n \<longrightarrow> (\<exists>st. holder db x = Some st \<and> my_ready n st \<and> \<not> my_closed st))"

definition has_values :: "('s \<Rightarrow> nat option) \<Rightarrow> ('s, 'c) sql_op \<Rightarrow> bool" where
  "has_values arity op \<longleftrightarrow> arity (statement op) = Some (length (bound_values op)) \<and> length (bound_values op) \<le> 255"

definition updates :: "('s \<Rightarrow> nat option) \<Rightarrow> ('s, 'c) sql_op \<Rightarrow> bool" where
  "updates arity op \<longleftrightarrow> has_values arity op \<and> observer op = None"

lemma my_set_bound_closed: "my_set_bound i v st = (r, st') \<Longrightarrow> my_closed st' = my_closed st"
  by (cases v) (auto simp: my_set_bound_def my_setBool_def my_setUint32_def my_setUint64_def my_setDouble_def
      my_setString_def my_set_def my_checkValidity_def sbind_def sthrow_def sret_def smodify_def Let_def
      split: if_splits)

lemma bind_slots_closed: "bind_slots my_set_bound k vs st = (r, st') \<Longrightarrow> my_closed st' = my_closed st"
proof (induction vs arbitrary: k st)
  case (Cons v vs)
  then show ?case
    using my_set_bound_closed [of "of_nat (k + 1)" v st]
    by (auto simp: sbind_def split: prod.splits sum.splits)
qed (simp add: sret_def)

lemma bind_request:
  assumes "my_good arity db" and "has_values arity op"
  obtains st where "my_ready (length (bound_values op)) st" "\<not> my_closed st"
    "map my_value (my_bind st) = map (\<lambda>v. Some (sql_value_of v)) (bound_values op)"
    "bind_slots (\<lambda>i v. my_on_stmt (statement op) (my_set_bound i v)) 0 (bound_values op) db =
       (Inr (), db\<lparr>holder := (holder db)(statement op \<mapsto> st)\<rparr>)"
proof -
  let ?x = "statement op" and ?vs = "bound_values op"
  obtain st0 where st0: "holder db ?x = Some st0" "my_ready (length ?vs) st0" "\<not> my_closed st0"
    using assms by (auto simp: my_good_def has_values_def)
  obtain st where st: "bind_slots my_set_bound 0 ?vs st0 = (Inr (), st)" "my_ready (length ?vs) st"
      "my_params st = map (\<lambda>v. Some (sql_value_of v)) ?vs"
    using bind_whole(1) [OF _ refl st0(2)] assms(2) by (auto simp: has_values_def)
  have "bind_slots (\<lambda>i v. my_on_stmt ?x (my_set_bound i v)) 0 ?vs db = (Inr (), db\<lparr>holder := (holder db)(?x \<mapsto> st)\<rparr>)"
    using mysql_holder.bind_lift [where put = my_set_bound, OF st0(1)] st(1) by simp
  with that [of st] st(2,3) st0(3) bind_slots_closed [OF st(1)] show ?thesis by (simp add: my_params_def)
qed

lemma my_closed_clear: "my_closed (my_clearParameters st) = my_closed st"
  by (simp add: my_clearParameters_def)

text \<open>Executing a request.\<close>

lemma my_execute_op_result:
  assumes "my_good arity db" and "has_values arity op"
  shows "\<exists>r fut db'. my_execute_op srv t observe op db = (r, fut, db') \<and> my_good arity db' \<and>
     committed db' = (if server_autocommit db then working db' else committed db) \<and>
     server_autocommit db' = server_autocommit db \<and> c_autoCommit db' = c_autoCommit db \<and>
     (case srv (statement op) (map (\<lambda>v. Some (sql_value_of v)) (bound_values op)) (working db) of
        None \<Rightarrow> r = Inr (- 1) \<and> fut = None \<and> working db' = working db
      | Some (d, reply) \<Rightarrow> working db' = d \<and>
          (case observer op of
             None \<Rightarrow> r = Inr 0 \<and> fut = None
           | Some c \<Rightarrow> (case MySQLPreparedResultSet t (r_columns reply) (r_rows reply) of
                 Inr rs \<Rightarrow> if r_columns reply = [] then r = Inr (- 1) \<and> fut = None
                   else fut = Some rs \<and> r = (case observe c rs of Inr _ \<Rightarrow> Inr 0 | Inl f \<Rightarrow> caught f)
               | Inl f \<Rightarrow> r = Inr (- 1) \<and> fut = None)))"
proof -
  let ?x = "statement op" and ?vs = "bound_values op"
  obtain st where st: "my_ready (length ?vs) st" "\<not> my_closed st"
      "map my_value (my_bind st) = map (\<lambda>v. Some (sql_value_of v)) ?vs"
      "bind_slots (\<lambda>i v. my_on_stmt ?x (my_set_bound i v)) 0 ?vs db = (Inr (), db\<lparr>holder := (holder db)(?x \<mapsto> st)\<rparr>)"
    using bind_request [OF assms] by blast
  have good: "my_good arity db'"
    if "holder db' = (holder db)(?x \<mapsto> st) \<or> holder db' = (holder db)(?x \<mapsto> my_clearParameters st)"
      "\<not> c_closed db'" "server_autocommit db' \<longrightarrow> working db' = committed db'" for db'
    using assms that st(1,2) my_ready_clear [OF st(1)]
    by (auto simp: my_good_def has_values_def my_closed_clear)
  have conn: "\<not> c_closed db" "server_autocommit db \<longrightarrow> working db = committed db"
    using assms(1) by (simp_all add: my_good_def)
  note run_defs = my_execute_op_def execute_with_def Let_def has_result_def caught_def my_closed_clear
  let ?db1 = "db\<lparr>holder := (holder db)(?x \<mapsto> st)\<rparr>"
  have thrown: "\<exists>e. MySQLPreparedResultSet t cols rows = Inl (Thrown e)" if "MySQLPreparedResultSet t cols rows = Inl f"
    for cols rows f
  proof -
    have "\<exists>e. f = Thrown e" if "fillBindResult t cs = Inl f" for cs
      using that by (induction t cs rule: fillBindResult.induct)
        (auto simp: typeToSize_def obind_def split: if_splits sum.splits)
    with that show ?thesis by (auto simp: MySQLPreparedResultSet_def obind_def split: sum.splits)
  qed
  have exec: "my_on_server ?x (my_execute (srv ?x)) ?db1 =
      (case srv ?x (map (\<lambda>v. Some (sql_value_of v)) ?vs) (working db) of
         None \<Rightarrow> (Inl (Thrown (str ''MySQLPreparedStatement::doQuery, mysql_stmt_execute error'')),
                  ?db1\<lparr>committed := if server_autocommit db then working db else committed db\<rparr>)
       | Some (d, reply) \<Rightarrow> (Inr (r_columns reply \<noteq> []),
                  ?db1\<lparr>working := d, committed := if server_autocommit db then d else committed db\<rparr>))"
    using st(2,3) by (auto simp: my_on_server_def my_execute_def my_doQuery_def sthrow_def sret_def sbind_def split: option.splits)
  have query: "my_on_server ?x (my_executeQuery t (srv ?x)) ?db1 =
      (case srv ?x (map (\<lambda>v. Some (sql_value_of v)) ?vs) (working db) of
         None \<Rightarrow> (Inl (Thrown (str ''MySQLPreparedStatement::doQuery, mysql_stmt_execute error'')),
                  ?db1\<lparr>committed := if server_autocommit db then working db else committed db\<rparr>)
       | Some (d, reply) \<Rightarrow> (if r_columns reply = []
                    then Inl (Thrown (str ''MySQLPreparedResultSet, can't get meta data (mysql_stmt_result_metadata)''))
                    else MySQLPreparedResultSet t (r_columns reply) (r_rows reply),
                  ?db1\<lparr>working := d, committed := if server_autocommit db then d else committed db\<rparr>))"
    using st(2,3) by (auto simp: my_on_server_def my_executeQuery_def my_doQuery_def sthrow_def sbind_def split: option.splits)
  show ?thesis
  proof (cases "srv ?x (map (\<lambda>v. Some (sql_value_of v)) ?vs) (working db)")
    case None
    then show ?thesis
      using st(2,4) exec query conn by (auto simp: run_defs intro!: good)
  next
    case (Some dr)
    obtain d reply where dr: "dr = (d, reply)" by force
    show ?thesis
    proof (cases "observer op")
      case None
      then show ?thesis
        using st(2,4) exec Some conn by (auto simp: dr run_defs intro!: good)
    next
      case obs: (Some c)
      show ?thesis
      proof (cases "MySQLPreparedResultSet t (r_columns reply) (r_rows reply)")
        case (Inl f)
        with thrown [OF this] show ?thesis
          using st(2,4) query Some obs conn by (auto simp: dr run_defs intro!: good)
      next
        case (Inr rs)
        then show ?thesis
          using st(2,4) query Some obs conn
          by (cases "observe c rs"; cases "r_columns reply = []"; auto simp: dr run_defs intro!: good)
      qed
    qed
  qed
qed

text \<open>One without a result.\<close>

lemma my_call_update:
  assumes "my_good arity db" and "updates arity op"
  shows "\<exists>db'. my_call srv t observe op db = (Inr (if statement_effect srv op (working db) = None then - 1 else 0), db') \<and>
     my_good arity db' \<and>
     working db' = (case statement_effect srv op (working db) of None \<Rightarrow> working db | Some d \<Rightarrow> d) \<and>
     committed db' = (if server_autocommit db then working db' else committed db) \<and>
     server_autocommit db' = server_autocommit db \<and> c_autoCommit db' = c_autoCommit db"
  using my_execute_op_result [OF assms(1), of op srv t observe] assms(2)
  by (auto simp: updates_def my_call_def statement_effect_def split: option.splits)

interpretation mysql_tx: transactional mc_getAutoCommit mc_setAutoCommit mc_commit mc_rollback
    "my_call srv t observe" "statement_effect srv" "updates arity" "my_good arity" working committed
    c_autoCommit server_autocommit
  for srv :: "'s \<Rightarrow> 'd mysql_server" and t and observe :: "'c \<Rightarrow> mysql_rs \<Rightarrow> unit outcome" and arity
  by (unfold_locales; (rule my_call_update, assumption+)?)
    (simp_all add: mc_getAutoCommit_def mc_setAutoCommit_def mc_commit_def mc_rollback_def mc_checkClosed_def
      sret_def smodify_def my_good_def)


section \<open>Properties\<close>

text \<open>Executing a request does to the database what its statement does with the request's values.
  When the server refuses, the future is not set: an observer is not called, and a caller that waits
  in \<open>enqueue_synch_query\<close> waits for ever.  Otherwise a request that wants a result sets the future to
  the rows, if their types are supported, and -1 tells that the observer threw.\<close>

theorem request_executed:
  assumes "my_good arity db" and "has_values arity op"
  shows "\<exists>r fut db'. my_execute_op srv t observe op db = (r, fut, db') \<and>
     committed db' = (if server_autocommit db then working db' else committed db) \<and>
     (case srv (statement op) (map (\<lambda>v. Some (sql_value_of v)) (bound_values op)) (working db) of
        None \<Rightarrow> r = Inr (- 1) \<and> fut = None \<and> working db' = working db
      | Some (d, reply) \<Rightarrow> working db' = d \<and>
          (case observer op of
             None \<Rightarrow> r = Inr 0 \<and> fut = None
           | Some c \<Rightarrow> (case MySQLPreparedResultSet t (r_columns reply) (r_rows reply) of
                 Inr rs \<Rightarrow> if r_columns reply = [] then r = Inr (- 1) \<and> fut = None
                   else fut = Some rs \<and> r = (case observe c rs of Inr _ \<Rightarrow> Inr 0 | Inl f \<Rightarrow> caught f)
               | Inl f \<Rightarrow> r = Inr (- 1) \<and> fut = None)))"
  using my_execute_op_result [OF assms, of srv t observe]
  by (elim ex_forward) (elim conjE, intro conjI, assumption+)

text \<open>C4. A transaction does all of its requests or nothing.  It implements \<open>all_effects\<close>: when each
  request succeeds on the database the one before has left, their common effect is committed and 0 is
  returned; otherwise the database stays as it was and -1 is returned.  Afterwards the server is in
  the mode that the member \<open>autoCommit\<close> held before.  Of the requests from the failing one on the
  destructor deletes half, rounded up.\<close>

theorem transaction_atomic:
  assumes "my_good arity db" and "list_all (updates arity) ops"
  shows "\<exists>r leaked db'. my_transaction srv t observe ops db = (Inr (r, leaked), db') \<and> my_good arity db' \<and>
     server_autocommit db' = c_autoCommit db \<and> c_autoCommit db' = c_autoCommit db \<and> working db' = committed db' \<and>
     (case all_effects (statement_effect srv) ops (working db) of
        None \<Rightarrow> r = - 1 \<and> committed db' = committed db \<and>
          (\<exists>k<length ops. first_failing (statement_effect srv) ops (working db) k \<and>
             length leaked = (length ops - k) div 2)
      | Some d \<Rightarrow> r = 0 \<and> committed db' = d \<and> leaked = [])"
  unfolding my_transaction_def by (rule mysql_tx.all_or_nothing [OF assms])

end
