(* ===== verification/Worker.thy ===== *)
theory Worker
  imports Transactions Realm_Database
begin

text \<open>
  The worker thread of a MySQL connection as a whole: the requests it takes from the queue have their
  effects one after the other, provided that the connection was in autocommit mode as its member
  says; the statements of realmd, as \<open>RealmDatabaseConnection::open\<close> prepares them, take every
  request of realmd.  On SQLite nothing of this holds.
\<close>

section \<open>Jobs\<close>

definition job_effect :: "('s \<Rightarrow> 'd mysql_server) \<Rightarrow> ('s, 'c) job \<Rightarrow> 'd \<Rightarrow> 'd" where
  "job_effect srv j d = (case (case j of
       Job_request op \<Rightarrow> statement_effect srv op d
     | Job_transaction ops \<Rightarrow> all_effects (statement_effect srv) ops d) of None \<Rightarrow> d | Some d' \<Rightarrow> d')"

definition job_has_values :: "('s \<Rightarrow> nat option) \<Rightarrow> ('s, 'c) job \<Rightarrow> bool" where
  "job_has_values arity j = (case j of
       Job_request op \<Rightarrow> has_values arity op
     | Job_transaction ops \<Rightarrow> list_all (updates arity) ops)"

text \<open>Single requests do not care about the member \<open>autoCommit\<close>.\<close>

definition safe_jobs :: "bool \<Rightarrow> ('s, 'c) job list \<Rightarrow> bool" where
  "safe_jobs autoCommit js \<longleftrightarrow> autoCommit \<or> list_all (\<lambda>j. case j of Job_request op \<Rightarrow> True | Job_transaction ops \<Rightarrow> False) js"

text \<open>Observers may throw, and nothing worse.\<close>

definition only_throws :: "('c \<Rightarrow> 'r \<Rightarrow> unit outcome) \<Rightarrow> bool" where
  "only_throws observe \<longleftrightarrow> (\<forall>c rs f. observe c rs = Inl f \<longrightarrow> (\<exists>e. f = Thrown e))"

definition synced :: "('s \<Rightarrow> nat option) \<Rightarrow> ('s, 'd) mysql_db \<Rightarrow> bool" where
  "synced arity db \<longleftrightarrow> my_good arity db \<and> server_autocommit db"

lemma synced_working: "synced arity db \<Longrightarrow> working db = committed db"
  by (simp add: synced_def my_good_def)

lemma my_job_effect:
  assumes "synced arity db" and "job_has_values arity j" and "only_throws observe" and "safe_jobs (c_autoCommit db) [j]"
  shows "\<exists>db'. my_job srv t observe j db = (Inr (), db') \<and> synced arity db' \<and> c_autoCommit db' = c_autoCommit db \<and>
     committed db' = job_effect srv j (committed db)"
proof (cases j)
  case (Job_request op)
  let ?reply = "srv (statement op) (map (\<lambda>v. Some (sql_value_of v)) (bound_values op)) (working db)"
  obtain r fut db' where run: "my_execute_op srv t observe op db = (r, fut, db')" and keep: "synced arity db'" "c_autoCommit db' = c_autoCommit db"
      "committed db' = working db'"
    and cases: "case ?reply of
        None \<Rightarrow> r = Inr (- 1) \<and> fut = None \<and> working db' = working db
      | Some (d, reply) \<Rightarrow> working db' = d \<and>
          (case observer op of
             None \<Rightarrow> r = Inr 0 \<and> fut = None
           | Some c \<Rightarrow> (case MySQLPreparedResultSet t (r_columns reply) (r_rows reply) of
                 Inr rs \<Rightarrow> if r_columns reply = [] then r = Inr (- 1) \<and> fut = None
                   else fut = Some rs \<and> r = (case observe c rs of Inr _ \<Rightarrow> Inr 0 | Inl f \<Rightarrow> caught f)
               | Inl f \<Rightarrow> r = Inr (- 1) \<and> fut = None))"
    using my_execute_op_result [of arity db op srv t observe] assms(1,2)
    by (auto simp: synced_def Job_request job_has_values_def)
  have "\<exists>i. (case observe c rs of Inr _ \<Rightarrow> Inr 0 | Inl f \<Rightarrow> caught f) = Inr i" for c rs
  proof (cases "observe c rs")
    case (Inl f)
    with assms(3) obtain e where "f = Thrown e" unfolding only_throws_def by blast
    with Inl show ?thesis by (simp add: caught_def)
  qed simp
  note answered = this
  have "\<exists>i. r = Inr i"
  proof (cases ?reply)
    case (Some p)
    obtain d reply where "p = (d, reply)" by force
    with Some cases answered show ?thesis
      by (cases "observer op"; cases "MySQLPreparedResultSet t (r_columns reply) (r_rows reply)";
          cases "r_columns reply = []"; simp)
  qed (use cases in simp)
  then have "\<exists>i. my_call srv t observe op db = (Inr i, db')"
    using run by (auto simp: my_call_def)
  moreover have "working db' = job_effect srv j (committed db)"
    using cases synced_working [OF assms(1)]
    by (auto simp: Job_request job_effect_def statement_effect_def split: option.splits)
  ultimately show ?thesis
    using keep by (auto simp: Job_request my_job_def sret_def)
next
  case (Job_transaction ops)
  with assms(1,2,4) mysql_tx.all_or_nothing [of arity db ops srv t observe] synced_working [OF assms(1)]
  show ?thesis
    by (auto simp: synced_def safe_jobs_def job_has_values_def my_job_def my_transaction_def [symmetric] job_effect_def sret_def
        split: option.splits)
qed

lemma svc_effects:
  assumes "only_throws observe"
  shows "synced arity db \<Longrightarrow> list_all (job_has_values arity) js \<Longrightarrow> safe_jobs (c_autoCommit db) js \<Longrightarrow>
     \<exists>db'. svc (my_job srv t observe) js db = (Inr (), db') \<and> synced arity db' \<and>
       committed db' = fold (job_effect srv) js (committed db)"
proof (induction js arbitrary: db)
  case (Cons j js)
  from my_job_effect [OF Cons.prems(1) _ assms, of j srv t] Cons.prems(2,3) obtain db1 where
    "my_job srv t observe j db = (Inr (), db1)" "synced arity db1" "c_autoCommit db1 = c_autoCommit db" "committed db1 = job_effect srv j (committed db)"
    by (auto simp: safe_jobs_def)
  with Cons.IH [of db1] Cons.prems(2,3) show ?case by (auto simp: safe_jobs_def)
qed (simp add: sret_def)

section \<open>An example\<close>

text \<open>A table with one counter, to which statements add numbers that are not negative.\<close>

definition demo_srv :: "unit \<Rightarrow> u32 mysql_server" where
  "demo_srv x vs d = (case vs of
       [Some (V_int i)] \<Rightarrow> if i < 0 then None else Some (d + of_int i, \<lparr>r_columns = [], r_rows = [], r_affected = 1\<rparr>)
     | _ \<Rightarrow> None)"

definition demo_db :: "bool \<Rightarrow> (unit, u32) mysql_db" where
  "demo_db junk = \<lparr>c_closed = False, c_autoCommit = junk, server_autocommit = True, committed = 9, working = 9,
     holder = (\<lambda>_. Some (MySQLPreparedStatement 1))\<rparr>"

definition demo_add :: "u32 \<Rightarrow> (unit, unit) sql_op" where
  "demo_add n = (sql_request ())\<lparr>statement_data := [slot_uint32 n]\<rparr>"

definition demo_arity :: "unit \<Rightarrow> nat option" where
  "demo_arity x = Some 1"

lemma demo_good: "my_good demo_arity (demo_db junk)"
  using my_ready_new [of 1] by (simp add: my_good_def demo_db_def demo_arity_def) (simp add: MySQLPreparedStatement_def)

lemma demo_updates: "updates demo_arity (demo_add n)"
  by (simp add: updates_def has_values_def demo_arity_def demo_add_def bound_values_def sql_request_def)

lemma demo_effect: "statement_effect demo_srv (demo_add n) d = (if sint n < 0 then None else Some (d + n))"
  by (simp add: statement_effect_def demo_srv_def demo_add_def bound_values_def sql_value_of_def)

lemma demo_db_simps:
  "committed (demo_db junk) = 9" "working (demo_db junk) = 9" "server_autocommit (demo_db junk)" "c_autoCommit (demo_db junk) = junk"
  by (simp_all add: demo_db_def)

lemmas demo_facts = demo_updates demo_effect demo_db_simps

section \<open>Properties\<close>

theorem request_executed_witness:
  "\<exists>db'. my_execute_op demo_srv 40 (\<lambda>_ _. Inr ()) (demo_add 5) (demo_db True) = (Inr 0, None, db') \<and> committed db' = 14"
proof -
  have "has_values demo_arity (demo_add 5)" using demo_updates by (simp add: updates_def)
  moreover have "observer (demo_add 5) = None" by (simp add: demo_add_def)
  moreover have "demo_srv (statement (demo_add 5)) (map (\<lambda>v. Some (sql_value_of v)) (bound_values (demo_add 5))) 9 =
      Some (14, \<lparr>r_columns = [], r_rows = [], r_affected = 1\<rparr>)"
    by (simp add: demo_srv_def demo_add_def bound_values_def sql_value_of_def)
  ultimately show ?thesis
    using request_executed [OF demo_good [of True], of "demo_add 5" demo_srv 40 "\<lambda>_ _. Inr ()"]
    by (auto simp: demo_facts)
qed

theorem transaction_atomic_witness:
  "(\<exists>db'. my_transaction demo_srv 40 (\<lambda>_ _. Inr ()) [demo_add 1, demo_add 2] (demo_db True) = (Inr (0, []), db') \<and> committed db' = 12) \<and>
   (\<exists>leaked db'. my_transaction demo_srv 40 (\<lambda>_ _. Inr ()) [demo_add 1, demo_add 0x80000000, demo_add 2] (demo_db True) =
       (Inr (- 1, leaked), db') \<and> committed db' = 9)"
  using transaction_atomic [OF demo_good [of True], of "[demo_add 1, demo_add 2]" demo_srv 40 "\<lambda>_ _. Inr ()"]
    transaction_atomic [OF demo_good [of True], of "[demo_add 1, demo_add 0x80000000, demo_add 2]" demo_srv 40 "\<lambda>_ _. Inr ()"]
  by (auto simp: demo_facts)



text \<open>C36. No constructor of a connection sets \<open>autoCommit\<close>.  Where its memory holds false, the first
  transaction leaves the server without autocommit: a request executed afterwards is not committed,
  and the next transaction that fails takes it back although it had succeeded.\<close>

theorem autocommit_lost:
  assumes "my_good arity db" and "server_autocommit db" and "only_throws observe"
    and "list_all (updates arity) ops" "updates arity op" "list_all (updates arity) ops'"
    and "all_effects (statement_effect srv) ops (committed db) = Some d1" "statement_effect srv op d1 = Some d2"
      "all_effects (statement_effect srv) ops' d2 = None"
  shows "\<exists>db'. svc (my_job srv t observe) [Job_transaction ops, Job_request op, Job_transaction ops'] db = (Inr (), db') \<and>
     committed db' = (if c_autoCommit db then d2 else d1)"
proof -
  have "working db = committed db" using assms(1,2) by (simp add: my_good_def)
  then obtain l1 db1 where db1: "my_transaction srv t observe ops db = (Inr (0, l1), db1)" "my_good arity db1"
      "server_autocommit db1 = c_autoCommit db" "c_autoCommit db1 = c_autoCommit db" "working db1 = d1" "committed db1 = d1"
    using mysql_tx.all_or_nothing [OF assms(1,4), of srv t observe] assms(7) by (auto simp: my_transaction_def)
  obtain db2 where db2: "my_call srv t observe op db1 = (Inr 0, db2)" "my_good arity db2" "working db2 = d2"
      "committed db2 = (if c_autoCommit db then d2 else d1)" "c_autoCommit db2 = c_autoCommit db"
    using my_call_update [OF db1(2) assms(5), of srv t observe] assms(8) db1(3-6) by auto
  obtain r l3 db3 where "my_transaction srv t observe ops' db2 = (Inr (r, l3), db3)" "committed db3 = committed db2"
    using mysql_tx.all_or_nothing [OF db2(2) assms(6), of srv t observe] assms(9) db2(3) by (auto simp: my_transaction_def)
  with db1(1) db2(1,4) show ?thesis by (auto simp: my_job_def sret_def)
qed

theorem autocommit_lost_witness:
  "\<exists>db'. svc (my_job demo_srv 40 (\<lambda>_ _. Inr ()))
       [Job_transaction [demo_add 1], Job_request (demo_add 2), Job_transaction [demo_add 0x80000000]] (demo_db False) =
       (Inr (), db') \<and> committed db' = 10"
  using autocommit_lost [OF demo_good [of False], of "\<lambda>_ _. Inr ()" "[demo_add 1]" "demo_add 2" "[demo_add 0x80000000]"
      demo_srv 10 12 40]
  by (auto simp: only_throws_def demo_facts simp del: svc.simps)

section \<open>The database of realmd\<close>

text \<open>\<open>RealmDatabaseConnection::open\<close> on a connection.\<close>

definition open_database :: "(bytes \<Rightarrow> nat option) \<Rightarrow> 'd mysql_conn \<Rightarrow> ('s \<times> bytes) list \<Rightarrow> ('s, 'd) mysql_db outcome" where
  "open_database prepare conn sqls =
     obind (open_statements (\<lambda>sql. mc_prepareStatement prepare sql conn) sqls) (\<lambda>h.
       Inr \<lparr>c_closed = c_closed conn, c_autoCommit = c_autoCommit conn, server_autocommit = server_autocommit conn,
            committed = committed conn, working = working conn, holder = h\<rparr>)"

definition realm_arity :: "realm_stmt \<Rightarrow> nat option" where
  "realm_arity x = map_option placeholders (map_of realm_statements x)"

lemma realm_statements_rev: "map_of (rev realm_statements) x = map_of realm_statements x"
  by (cases x; simp add: realm_statements_def)

lemma realm_open_good:
  assumes "MySQLConnection lib junk url = Inr conn" and "\<forall>(x, sql)\<in>set realm_statements. prepare sql = Some (placeholders sql)"
  obtains db where "open_database prepare conn realm_statements = Inr db" "my_good realm_arity db" "server_autocommit db"
    "committed db = committed conn"
proof -
  have conn: "\<not> c_closed conn" "working conn = committed conn" "server_autocommit conn"
    using assms(1) by (auto simp: MySQLConnection_def Let_def split: if_splits option.splits)
  have "mc_prepareStatement prepare sql conn = Inr (MySQLPreparedStatement (placeholders sql))"
    if "(x, sql) \<in> set realm_statements" for x sql
    using assms(2) conn(1) that by (fastforce simp: mc_prepareStatement_def)
  from open_statements_all [where sqls = realm_statements and prepare = "\<lambda>sql. mc_prepareStatement prepare sql conn", OF this]
  have "open_statements (\<lambda>sql. mc_prepareStatement prepare sql conn) realm_statements =
      Inr (\<lambda>x. map_option (\<lambda>sql. MySQLPreparedStatement (placeholders sql)) (map_of realm_statements x))"
    by (simp add: realm_statements_rev)
  moreover have "\<not> my_closed (MySQLPreparedStatement n)" for n by (simp add: MySQLPreparedStatement_def)
  ultimately show thesis
    using that conn by (simp add: open_database_def my_good_def realm_arity_def) (auto intro: my_ready_new)
qed

lemma realm_op_has_values: "realm_op_ok op \<Longrightarrow> has_values realm_arity op"
  using placeholders_prepared [of "statement op"]
  by (auto simp: realm_op_ok_def has_values_def realm_arity_def bound_values_def split: realm_stmt.splits)

text \<open>C16. realmd's requests reach the database: on a fresh MySQL connection whose statements were
  prepared with as many parameters as they have question marks, the worker executes every list of
  requests that realmd can make, in order, each with exactly its own values, whatever value the
  member \<open>autoCommit\<close> happens to have.\<close>

theorem realm_requests_executed:
  assumes "MySQLConnection lib junk url = Inr conn" and "\<forall>(x, sql)\<in>set realm_statements. prepare sql = Some (placeholders sql)"
    and "list_all realm_op_ok ops" and "only_throws observe"
  shows "\<exists>db db'. open_database prepare conn realm_statements = Inr db \<and>
     svc (my_job srv t observe) (map Job_request ops) db = (Inr (), db') \<and>
     committed db' = fold (job_effect srv) (map Job_request ops) (committed conn)"
proof -
  obtain db where db: "open_database prepare conn realm_statements = Inr db" "my_good realm_arity db" "server_autocommit db"
      "committed db = committed conn"
    using realm_open_good [OF assms(1,2)] by blast
  have "list_all (job_has_values realm_arity) (map Job_request ops)"
    using assms(3) by (auto simp: list_all_iff job_has_values_def realm_op_has_values)
  moreover have "safe_jobs (c_autoCommit db) (map Job_request ops)"
    by (simp add: safe_jobs_def list_all_iff)
  ultimately show ?thesis
    using svc_effects [OF assms(4), of realm_arity db "map Job_request ops" srv t] db by (auto simp: synced_def)
qed

theorem realm_requests_executed_witness:
  "\<exists>op conn db db'. increment_failed_logins 7 = Inr op \<and>
     MySQLConnection demo_mysql_lib False (str ''db;3306;morph;pw;realmd'') = Inr conn \<and>
     open_database (\<lambda>sql. Some (placeholders sql)) conn realm_statements = Inr db \<and>
     svc (my_job (\<lambda>x vs d. if vs = [Some (V_int 7)] then Some (d + 1, \<lparr>r_columns = [], r_rows = [], r_affected = 1\<rparr>) else None)
       40 (\<lambda>_ _. Inr ())) [Job_request op] db = (Inr (), db') \<and> committed db' = (10 :: u32)"
proof -
  let ?srv = "\<lambda>x vs d. if vs = [Some (V_int 7)] then Some (d + 1, \<lparr>r_columns = [], r_rows = [], r_affected = 1\<rparr>) else None"
  obtain op where op1: "increment_failed_logins 7 = Inr op" by (simp add: realm_requests_eval)
  then have "bound_values op = [B_uint64 7]" by (auto simp: realm_requests_eval bound_values_def)
  note op = op1 this
  have split: "StrSplit (str ''db;3306;morph;pw;realmd'') [59] = [str ''db'', str ''3306'', str ''morph'', str ''pw'', str ''realmd'']"
    by (simp add: StrSplit_def str_def)
  have conn: "MySQLConnection demo_mysql_lib False (str ''db;3306;morph;pw;realmd'') =
      Inr \<lparr>c_closed = False, c_autoCommit = False, server_autocommit = True, committed = 9, working = 9\<rparr>"
    unfolding MySQLConnection_def split by (simp add: demo_mysql_lib_def atoi_def str_def isspace_def)
  have "job_effect ?srv (Job_request op) 9 = (10 :: u32)"
    by (simp add: job_effect_def statement_effect_def op(2) sql_value_of_def)
  moreover have "realm_op_ok op" using op(1) by (rule requests_ok)
  ultimately show ?thesis
    using realm_requests_executed [OF conn, of "\<lambda>sql. Some (placeholders sql)" "[op]" "\<lambda>_ _. Inr ()" ?srv 40] op(1) conn
    by (auto simp: only_throws_def simp del: svc.simps)
qed

end
