(* ===== verification/Creation.thy ===== *)
theory Creation
  imports Proxy_Session Worker
begin

text \<open>
  The jobs of proxyd on a MySQL connection: the count of the account's characters and the row of a new
  character are written together or not at all.
\<close>

definition as_job :: "proxy_job \<Rightarrow> (proxy_stmt, proxy_obs) job" where
  "as_job j = (case j of Request op \<Rightarrow> Job_request op | Transaction ops \<Rightarrow> Job_transaction ops)"

lemma op_fits_values: "op_fits op \<Longrightarrow> has_values (Some \<circ> proxy_arity) op"
  by (cases "statement op") (simp_all add: op_fits_def has_values_def bound_values_def proxy_arity_def)

text \<open>The transaction that \<open>handle_cmsg_char_create\<close> builds.\<close>

definition creation :: "object_mgr \<Rightarrow> u8 \<Rightarrow> u32 \<Rightarrow> u32 \<Rightarrow> bytes \<Rightarrow> u8 \<Rightarrow> u8 \<Rightarrow> u8 \<Rightarrow> u8 \<Rightarrow> u8 \<Rightarrow>
    u8 \<Rightarrow> u8 \<Rightarrow> u8 \<Rightarrow> u8 \<Rightarrow> proxy_op list outcome" where
  "creation om realm account guid name race pclass gender skin face hair_style hair_color facial_hair outfit_id =
     obind (obind (add_uint32 1 (ucast realm) (sql_request PROXYD_DB_INCR_NUMCHAR)) (add_uint32 2 account)) (\<lambda>op.
       Player_create om guid account name race pclass gender skin face hair_style hair_color facial_hair outfit_id [op])"

lemma creation_fits:
  assumes "creation om realm account guid name race pclass gender skin face hair_style hair_color facial_hair outfit_id = Inr ops"
  shows "list_all op_fits ops" and "list_all (\<lambda>op. observer op = None) ops"
    and "map statement ops = [PROXYD_DB_INCR_NUMCHAR, PROXYD_DB_INS_CHAR]"
proof -
  from assms obtain op where op:
      "obind (add_uint32 1 (ucast realm) (sql_request PROXYD_DB_INCR_NUMCHAR)) (add_uint32 2 account) = Inr (op :: proxy_op)"
      "Player_create om guid account name race pclass gender skin face hair_style hair_color facial_hair outfit_id [op] = Inr ops"
    unfolding creation_def by (auto simp: obind_eq_Inr)
  have "op_fits op" by (rule query_fits(4) [OF op(1)])
  with Player_create_fits [OF op(2)] show "list_all op_fits ops" by (simp add: job_fits_def job_ops_def)
  have "observer op = None" "statement op = PROXYD_DB_INCR_NUMCHAR" using op(1) by (auto simp: sql_simps)
  with op(2) show "list_all (\<lambda>op. observer op = None) ops" "map statement ops = [PROXYD_DB_INCR_NUMCHAR, PROXYD_DB_INS_CHAR]"
    by (auto simp: Player_create_eval obind_eq_Inr sql_request_def)
qed


text \<open>A server that counts and inserts, until the table is full.\<close>

definition demo_server :: "u32 \<Rightarrow> proxy_stmt \<Rightarrow> (u32 \<times> u32) mysql_server" where
  "demo_server n x vs d = (case x of
       PROXYD_DB_INCR_NUMCHAR \<Rightarrow> Some ((fst d + 1, snd d), \<lparr>r_columns = [], r_rows = [], r_affected = 1\<rparr>)
     | PROXYD_DB_INS_CHAR \<Rightarrow> if snd d = n then None
         else Some ((fst d, snd d + 1), \<lparr>r_columns = [], r_rows = [], r_affected = 1\<rparr>)
     | _ \<Rightarrow> None)"


end
