(* ===== verification/Pool.thy ===== *)
theory Pool
  imports Worker "HOL-Library.Multiset"
begin

text \<open>
  The pool of workers that \<open>DatabaseHolder::open\<close> makes: each has a connection of its own, and all take
  their jobs from one queue (src/database/Database.h, \<open>DatabaseWorker::svc\<close> of src/database/Database.cpp).
  A step is one of: someone enqueues a job; an idle worker dequeues one; a worker that has one runs it;
  \<open>close\<close> closes the queue, which discards the jobs that wait, and all that come later.
  Between dequeuing and running, other workers may overtake.  The server is taken to run what
  several connections ask of it, a request or a transaction, one after the other.
\<close>

section \<open>Workers and their steps\<close>

text \<open>\<open>p_enqueued\<close>, \<open>p_done\<close> and \<open>p_lost\<close> record what was put into the queue, what was run, in order, and
  what was discarded.\<close>

record ('s, 'd, 'c) pool =
  p_queue :: "('s, 'c) job list"
  p_closed :: bool
  p_conns :: "('s, 'd) mysql_db list"
  p_current :: "('s, 'c) job option list"
  p_shared :: 'd
  p_enqueued :: "('s, 'c) job list"
  p_done :: "('s, 'c) job list"
  p_lost :: "('s, 'c) job list"

definition pool_start :: "('s, 'd) mysql_db list \<Rightarrow> 'd \<Rightarrow> ('s, 'd, 'c) pool" where
  "pool_start conns d = \<lparr>p_queue = [], p_closed = False, p_conns = conns,
     p_current = map (\<lambda>_. None) conns, p_shared = d, p_enqueued = [], p_done = [], p_lost = []\<rparr>"

text \<open>What a connection sees of a database that others have changed since.\<close>

definition sees :: "'d \<Rightarrow> ('s, 'd) mysql_db \<Rightarrow> ('s, 'd) mysql_db" where
  "sees d db = db\<lparr>committed := d, working := d\<rparr>"

inductive pool_step ::
    "('s \<Rightarrow> 'd mysql_server) \<Rightarrow> nat \<Rightarrow> ('c \<Rightarrow> mysql_rs \<Rightarrow> unit outcome) \<Rightarrow> ('s, 'd, 'c) pool \<Rightarrow> ('s, 'd, 'c) pool \<Rightarrow> bool"
  for srv t observe where
  Enqueue: "\<not> p_closed p \<Longrightarrow> pool_step srv t observe p (p\<lparr>p_queue := p_queue p @ [j], p_enqueued := p_enqueued p @ [j]\<rparr>)"
| Refuse: "p_closed p \<Longrightarrow> pool_step srv t observe p (p\<lparr>p_lost := p_lost p @ [j], p_enqueued := p_enqueued p @ [j]\<rparr>)"
| Close: "\<not> p_closed p \<Longrightarrow> pool_step srv t observe p (p\<lparr>p_closed := True, p_queue := [], p_lost := p_lost p @ p_queue p\<rparr>)"
| Dequeue: "i < length (p_current p) \<Longrightarrow> p_current p ! i = None \<Longrightarrow> p_queue p = j # js \<Longrightarrow>
    pool_step srv t observe p (p\<lparr>p_queue := js, p_current := (p_current p)[i := Some j]\<rparr>)"
| Run: "i < length (p_current p) \<Longrightarrow> p_current p ! i = Some j \<Longrightarrow>
    my_job srv t observe j (sees (p_shared p) (p_conns p ! i)) = (Inr (), db) \<Longrightarrow>
    pool_step srv t observe p (p\<lparr>p_current := (p_current p)[i := None], p_conns := (p_conns p)[i := db],
      p_shared := committed db, p_done := p_done p @ [j]\<rparr>)"

inductive_cases pool_stepE [elim]: "pool_step srv t observe p p'"

abbreviation pool_steps where
  "pool_steps srv t observe \<equiv> (pool_step srv t observe)\<^sup>*\<^sup>*"

section \<open>The invariant\<close>

fun somes :: "'a option list \<Rightarrow> 'a list" where
  "somes [] = []"
| "somes (None # xs) = somes xs"
| "somes (Some x # xs) = x # somes xs"

lemma somes_None [simp]: "somes (map (\<lambda>_. None) xs) = []"
  by (induction xs) simp_all

lemma mset_somes_take:
  "i < length xs \<Longrightarrow> xs ! i = None \<Longrightarrow> mset (somes (xs[i := Some x])) = add_mset x (mset (somes xs))"
proof (induction xs arbitrary: i rule: somes.induct)
  case (2 xs)
  then show ?case by (cases i) auto
next
  case (3 y xs)
  then show ?case by (cases i) auto
qed simp

lemma mset_somes_drop:
  "i < length xs \<Longrightarrow> xs ! i = Some x \<Longrightarrow> mset (somes xs) = add_mset x (mset (somes (xs[i := None])))"
  using mset_somes_take [of i "xs[i := None]" x] list_update_id [of xs i] by simp

lemma somes_one: "somes [z] = (case z of None \<Rightarrow> [] | Some x \<Rightarrow> [x])"
  by (cases z) simp_all

lemma somes_single:
  assumes "length xs = 1" "i < length xs"
  shows "somes xs = (case xs ! i of None \<Rightarrow> [] | Some x \<Rightarrow> [x])" "somes (xs[i := z]) = (case z of None \<Rightarrow> [] | Some x \<Rightarrow> [x])"
proof -
  obtain y where "xs = [y]" using assms(1) by (auto simp: length_Suc_conv)
  then show "somes xs = (case xs ! i of None \<Rightarrow> [] | Some x \<Rightarrow> [x])" "somes (xs[i := z]) = (case z of None \<Rightarrow> [] | Some x \<Rightarrow> [x])"
    using assms(2) by (simp_all add: somes_one)
qed

definition pool_inv :: "('s \<Rightarrow> 'd mysql_server) \<Rightarrow> ('s \<Rightarrow> nat option) \<Rightarrow> 'd \<Rightarrow> ('s, 'd, 'c) pool \<Rightarrow> bool" where
  "pool_inv srv arity d0 p \<longleftrightarrow> length (p_current p) = length (p_conns p) \<and>
     (\<forall>db\<in>set (p_conns p). synced arity db \<and> c_autoCommit db) \<and>
     p_shared p = fold (job_effect srv) (p_done p) d0 \<and>
     (if p_closed p then p_queue p = [] else p_lost p = []) \<and>
     mset (p_done p @ somes (p_current p) @ p_queue p @ p_lost p) = mset (p_enqueued p) \<and>
     (length (p_conns p) = 1 \<longrightarrow> p_done p @ somes (p_current p) @ p_queue p @ p_lost p = p_enqueued p)"

lemma synced_sees: "synced arity db \<Longrightarrow> synced arity (sees d db)" "committed (sees d db) = d" "c_autoCommit (sees d db) = c_autoCommit db"
  by (simp_all add: synced_def my_good_def sees_def)

text \<open>A worker's job, on whatever the other connections have left.\<close>

lemma run_effect:
  assumes "synced arity db" "c_autoCommit db" "job_has_values arity j" "only_throws observe"
  shows "\<exists>db'. my_job srv t observe j (sees d db) = (Inr (), db') \<and> synced arity db' \<and> c_autoCommit db' \<and>
     committed db' = job_effect srv j d"
  using my_job_effect [of arity "sees d db" j observe srv t] assms by (simp add: synced_sees safe_jobs_def)

lemma current_has_values:
  "pool_inv srv arity d0 p \<Longrightarrow> list_all (job_has_values arity) (p_enqueued p) \<Longrightarrow> i < length (p_current p) \<Longrightarrow>
     p_current p ! i = Some j \<Longrightarrow> job_has_values arity j"
proof -
  assume inv: "pool_inv srv arity d0 p" and ok: "list_all (job_has_values arity) (p_enqueued p)"
    and i: "i < length (p_current p)" "p_current p ! i = Some j"
  have "j \<in># mset (somes (p_current p))" using mset_somes_drop [OF i] by simp
  then have "j \<in># mset (p_done p @ somes (p_current p) @ p_queue p @ p_lost p)" by simp
  then have "j \<in> set (p_enqueued p)" using inv by (simp only: pool_inv_def) (metis set_mset_mset)
  with ok show ?thesis by (simp add: list_all_iff)
qed

lemma pool_inv_step:
  assumes "pool_step srv t observe p p'" and "only_throws observe" and "list_all (job_has_values arity) (p_enqueued p)"
    and inv: "pool_inv srv arity d0 p"
  shows "pool_inv srv arity d0 p'"
  using assms(1)
proof cases
  case (Enqueue j)
  then show ?thesis using inv by (auto simp: pool_inv_def)
next
  case (Refuse j)
  then show ?thesis using inv by (auto simp: pool_inv_def)
next
  case Close
  then show ?thesis using inv by (auto simp: pool_inv_def)
next
  case (Dequeue i j js)
  have "mset (somes ((p_current p)[i := Some j])) = add_mset j (mset (somes (p_current p)))"
    using Dequeue by (intro mset_somes_take)
  moreover have "somes ((p_current p)[i := Some j]) = [j] \<and> somes (p_current p) = []" if "length (p_conns p) = 1"
    using that inv Dequeue somes_single [of "p_current p" i] by (simp add: pool_inv_def)
  ultimately show ?thesis using inv Dequeue by (auto simp: pool_inv_def)
next
  case (Run i j db)
  have conn: "p_conns p ! i \<in> set (p_conns p)" using inv Run by (simp add: pool_inv_def)
  with inv have "synced arity (p_conns p ! i)" "c_autoCommit (p_conns p ! i)" by (simp_all add: pool_inv_def)
  from run_effect [OF this current_has_values [OF inv assms(3) Run(2,3)] assms(2), of srv t "p_shared p"] Run(4)
  have db: "synced arity db" "c_autoCommit db" "committed db = job_effect srv j (p_shared p)" by simp_all
  have "mset (somes (p_current p)) = add_mset j (mset (somes ((p_current p)[i := None])))"
    using Run by (intro mset_somes_drop)
  moreover have "somes (p_current p) = [j] \<and> somes ((p_current p)[i := None]) = []" if "length (p_conns p) = 1"
    using that inv Run somes_single [of "p_current p" i] by (simp add: pool_inv_def)
  ultimately show ?thesis
    using inv Run(1) db by (auto simp: pool_inv_def dest: set_update_subset_insert [THEN subsetD])
qed

lemma pool_inv_start:
  "\<forall>db\<in>set conns. synced arity db \<and> c_autoCommit db \<Longrightarrow> pool_inv srv arity d0 (pool_start conns d0)"
  by (simp add: pool_inv_def pool_start_def)

section \<open>Reachable states\<close>

lemma enqueued_grows: "pool_steps srv t observe p p' \<Longrightarrow> \<exists>js. p_enqueued p' = p_enqueued p @ js"
  by (induction rule: rtranclp_induct) fastforce+

lemma pool_inv_steps:
  assumes "pool_steps srv t observe p p'" "only_throws observe" "pool_inv srv arity d0 p"
  shows "list_all (job_has_values arity) (p_enqueued p') \<Longrightarrow> pool_inv srv arity d0 p'"
  using assms(1)
proof (induction rule: rtranclp_induct)
  case (step p1 p2)
  obtain js where "p_enqueued p2 = p_enqueued p1 @ js" using enqueued_grows [of srv t observe p1 p2] step.hyps(2) by blast
  with step.prems have "list_all (job_has_values arity) (p_enqueued p1)" by simp
  with step.IH pool_inv_step [OF step.hyps(2) assms(2)] show ?case by blast
qed (rule assms(3))

text \<open>As long as there is work and a worker, some worker can go on, and the work becomes less.\<close>

definition work :: "('s, 'd, 'c) pool \<Rightarrow> nat" where
  "work p = 2 * length (p_queue p) + length (somes (p_current p))"

lemma pool_progress:
  assumes inv: "pool_inv srv arity d0 p" and "list_all (job_has_values arity) (p_enqueued p)" "only_throws observe"
    and "p_conns p \<noteq> []" and "work p \<noteq> 0"
  shows "\<exists>p'. pool_step srv t observe p p' \<and> p_enqueued p' = p_enqueued p \<and> p_lost p' = p_lost p \<and> p_conns p' \<noteq> [] \<and> work p' < work p"
proof (cases "\<exists>i j. i < length (p_current p) \<and> p_current p ! i = Some j")
  case True
  then obtain i j where i: "i < length (p_current p)" "p_current p ! i = Some j" by blast
  have "p_conns p ! i \<in> set (p_conns p)" using inv i(1) by (simp add: pool_inv_def)
  with inv have "synced arity (p_conns p ! i)" "c_autoCommit (p_conns p ! i)" by (simp_all add: pool_inv_def)
  from run_effect [OF this current_has_values [OF inv assms(2) i] assms(3)]
  obtain db where "my_job srv t observe j (sees (p_shared p) (p_conns p ! i)) = (Inr (), db)" by blast
  from pool_step.Run [OF i this] mset_somes_drop [OF i, THEN arg_cong, of size] assms(4) show ?thesis
    by (intro exI conjI) (assumption, simp_all add: work_def)
next
  case False
  then have idle: "p_current p ! i = None" if "i < length (p_current p)" for i using that by (cases "p_current p ! i") auto
  have "somes xs = []" if "\<forall>i<length xs. xs ! i = None" for xs :: "('s, 'c) job option list"
    using that by (induction xs rule: somes.induct) (auto dest: spec [of _ 0] simp: All_less_Suc2)
  with idle assms(5) have "p_queue p \<noteq> []" by (auto simp: work_def)
  then obtain j js where q: "p_queue p = j # js" by (cases "p_queue p") auto
  have "0 < length (p_current p)" using inv assms(4) by (simp add: pool_inv_def)
  from pool_step.Dequeue [OF this idle [OF this] q] mset_somes_take [OF this idle [OF this], of j, THEN arg_cong, of size] q assms(4)
  show ?thesis by (intro exI conjI) (assumption, simp_all add: work_def)
qed

lemma pool_finishes:
  assumes "only_throws observe"
  shows "pool_inv srv arity d0 p \<Longrightarrow> list_all (job_has_values arity) (p_enqueued p) \<Longrightarrow> p_conns p \<noteq> [] \<Longrightarrow>
    \<exists>p'. pool_steps srv t observe p p' \<and> work p' = 0 \<and> p_enqueued p' = p_enqueued p \<and> p_lost p' = p_lost p \<and> pool_inv srv arity d0 p'"
proof (induction "work p" arbitrary: p rule: less_induct)
  case less
  show ?case
  proof (cases "work p = 0")
    case False
    from pool_progress [OF less.prems(1,2) assms less.prems(3) False, of t] obtain p1 where
      p1: "pool_step srv t observe p p1" "p_enqueued p1 = p_enqueued p" "p_lost p1 = p_lost p" "p_conns p1 \<noteq> []" "work p1 < work p" by blast
    with less.hyps [OF p1(5)] pool_inv_step [OF p1(1) assms less.prems(2,1)] less.prems(2) show ?thesis
      by (metis converse_rtranclp_into_rtranclp)
  qed (use less.prems in blast)
qed


section \<open>Two workers, two jobs\<close>

definition demo_jobs :: "(unit, unit) job list" where
  "demo_jobs = [Job_request (demo_add 1), Job_request (demo_add 2)]"

definition demo_pool :: "(unit, u32, unit) pool" where
  "demo_pool = \<lparr>p_queue = [], p_closed = False, p_conns = [demo_db True, demo_db True],
     p_current = map Some demo_jobs, p_shared = 9, p_enqueued = demo_jobs, p_done = [], p_lost = []\<rparr>"

lemma demo_synced: "synced demo_arity (demo_db True)"
  by (simp add: synced_def demo_good demo_facts)

lemma demo_job_values: "job_has_values demo_arity (Job_request (demo_add n))"
  using demo_updates [of n] by (simp add: job_has_values_def updates_def)

text \<open>Both workers have a job, and the second is the first to run it.\<close>

lemma demo_overtake:
  "\<exists>p. pool_steps demo_srv 40 (\<lambda>_ _. Inr ()) (pool_start [demo_db True, demo_db True] 9) p \<and>
     p_enqueued p = demo_jobs \<and> p_done p = rev demo_jobs \<and> p_queue p = [] \<and> p_current p = [None, None]"
proof -
  let ?R = "pool_steps demo_srv 40 (\<lambda>_ _. Inr ())" and ?S = "pool_step demo_srv 40 (\<lambda>_ _. Inr ())"
  let ?a = "demo_jobs ! 0" and ?b = "demo_jobs ! 1"
  let ?p0 = "pool_start [demo_db True, demo_db True] 9 :: (unit, u32, unit) pool"
  let ?p1 = "?p0\<lparr>p_queue := [?a], p_enqueued := [?a]\<rparr>"
  let ?p2 = "?p1\<lparr>p_queue := demo_jobs, p_enqueued := demo_jobs\<rparr>"
  let ?p3 = "?p2\<lparr>p_queue := [?b], p_current := [Some ?a, None]\<rparr>"
  have "?S ?p0 ?p1" using pool_step.Enqueue [of ?p0 demo_srv 40 "\<lambda>_ _. Inr ()" ?a] by (simp add: pool_start_def)
  moreover have "?S ?p1 ?p2"
    using pool_step.Enqueue [of ?p1 demo_srv 40 "\<lambda>_ _. Inr ()" ?b] by (simp add: pool_start_def demo_jobs_def)
  moreover have "?S ?p2 ?p3"
    using pool_step.Dequeue [of 0 ?p2 ?a "[?b]" demo_srv 40 "\<lambda>_ _. Inr ()"] by (simp add: pool_start_def demo_jobs_def)
  moreover have "?S ?p3 demo_pool"
    using pool_step.Dequeue [of 1 ?p3 ?b "[]" demo_srv 40 "\<lambda>_ _. Inr ()"] by (simp add: pool_start_def demo_jobs_def demo_pool_def)
  ultimately have start: "?R ?p0 demo_pool" by (meson converse_rtranclp_into_rtranclp rtranclp.rtrancl_refl)
  have throws: "only_throws (\<lambda>_ _. Inr ())" by (simp add: only_throws_def)
  obtain db1 where db1: "my_job demo_srv 40 (\<lambda>_ _. Inr ()) ?b (sees 9 (demo_db True)) = (Inr (), db1)"
    using run_effect [OF demo_synced _ demo_job_values [of 2] throws, of demo_srv 40 9] by (auto simp: demo_facts demo_jobs_def)
  let ?p5 = "demo_pool\<lparr>p_current := [Some ?a, None], p_conns := [demo_db True, db1], p_shared := committed db1, p_done := [?b]\<rparr>"
  have run1: "?S demo_pool ?p5"
    using pool_step.Run [of 1 demo_pool ?b demo_srv 40 "\<lambda>_ _. Inr ()" db1] db1 by (simp add: demo_pool_def demo_jobs_def)
  obtain db0 where db0: "my_job demo_srv 40 (\<lambda>_ _. Inr ()) ?a (sees (committed db1) (demo_db True)) = (Inr (), db0)"
    using run_effect [OF demo_synced _ demo_job_values [of 1] throws, of demo_srv 40 "committed db1"] by (auto simp: demo_facts demo_jobs_def)
  let ?p6 = "?p5\<lparr>p_current := [None, None], p_conns := [db0, db1], p_shared := committed db0, p_done := [?b, ?a]\<rparr>"
  have "?S ?p5 ?p6"
    using pool_step.Run [of 0 ?p5 ?a demo_srv 40 "\<lambda>_ _. Inr ()" db0] db0 by (simp add: demo_pool_def demo_jobs_def)
  with start run1 have "?R ?p0 ?p6" by (meson rtranclp.rtrancl_into_rtrancl)
  then show ?thesis by (intro exI [of _ ?p6] conjI) (simp_all add: demo_pool_def demo_jobs_def)
qed


end
