(* ===== verification/Announcement_System.thy ===== *)
theory Announcement_System
  imports Realm_Service Proxy_Service "HOL-Library.Multiset"
begin

text \<open>
  The realm daemon and the proxies on one event channel.  After loading the realm list the realm
  daemon forgets its proxies and requests those of each realm; every running proxy answers, and
  the channel delivers the answers in any order.
\<close>

text \<open>What a proxy announces when it gets some messages; \<open>t\<close> is the id of a timer it schedules.\<close>

definition answers :: "int \<Rightarrow> ec_event list \<Rightarrow> proxy_service \<Rightarrow> ec_event list" where
  "answers t es p = drop (length (announced p)) (announced (fold (proxy_ec_push t) es p))"

definition announcing :: "proxy_service \<Rightarrow> bool" where
  "announcing p \<longleftrightarrow> timers p = [announce_timer_id p] \<and> announce_timer_id p \<noteq> - 1"

text \<open>The requests of a reload.\<close>

definition reload_requests :: "realm_service \<Rightarrow> ec_event list" where
  "reload_requests s = drop (length (pushed s)) (pushed (request_proxies s))"

definition entry_of :: "proxy_service \<Rightarrow> u8 \<times> proxy_info" where
  "entry_of p = (realm_id p, \<lparr>p_ip = bind_addr p, p_load = load p\<rparr>)"

lemma ucast_u8_u16 [simp]: "(ucast (ucast r :: u16) :: u8) = r" "(ucast a :: u16) = ucast b \<longleftrightarrow> a = (b :: u8)"
proof -
  have down: "(ucast (ucast r :: u16) :: u8) = r" for r
    by (rule bit_word_eqI) (auto simp: bit_simps)
  then show "(ucast (ucast r :: u16) :: u8) = r" .
  show "(ucast a :: u16) = ucast b \<longleftrightarrow> a = (b :: u8)" by (metis down)
qed

lemma reload_requests_eq: "reload_requests s = map (\<lambda>e. Proxy_Request (ucast (fst e))) (realm_map s)"
  by (simp add: reload_requests_def request_proxies_eq)

lemma requests_announced:
  "announcing p \<Longrightarrow> t \<noteq> - 1 \<Longrightarrow>
     announced (fold (proxy_ec_push t) (map (\<lambda>k. Proxy_Request (ucast k)) ks) p) =
       announced p @ replicate (length (filter (\<lambda>k. k = realm_id p) ks)) (own_announce p)"
proof (induction ks arbitrary: p)
  case (Cons k ks)
  let ?i = "Pushed (Proxy_Request (ucast k)) t" and ?q = "proxy_ec_push t (Proxy_Request (ucast k)) p"
  have q: "?q = channel_step ?i p" by (simp add: channel_step_def)
  have "announcing ?q" "own_announce ?q = own_announce p" "realm_id ?q = realm_id p"
    using channel_step_timer [of p ?i] Cons.prems by (simp_all add: q announcing_def own_announce_def)
  moreover have "announced ?q = announced p @ (if k = realm_id p then [own_announce p] else [])"
    using channel_step_announced [of p ?i] Cons.prems(1) by (simp add: q announcing_def)
  ultimately show ?case using Cons.IH [of ?q] Cons.prems(2) by simp
qed simp

lemma answers_reload:
  assumes "announcing p" and "t \<noteq> - 1" and "distinct (map fst (realm_map s))"
  shows "answers t (reload_requests s) p = (if realm_id p \<in> fst ` set (realm_map s) then [own_announce p] else [])"
proof -
  have count: "length (filter (\<lambda>k. k = r) ks) = (if r \<in> set ks then 1 else 0)" if "distinct ks" for r and ks :: "u8 list"
    using that by (induction ks) auto
  have "reload_requests s = map (\<lambda>k. Proxy_Request (ucast k)) (map fst (realm_map s))"
    by (simp add: reload_requests_eq)
  then show ?thesis
    using requests_announced [OF assms(1,2), of "map fst (realm_map s)"] count [OF assms(3)]
    by (simp add: answers_def)
qed

lemma announce_new:
  assumes "realm_id p \<in> fst ` set (realm_map s)" and "\<forall>e\<in>set (proxies s). p_ip (snd e) \<noteq> bind_addr p"
  shows "realm_ec_push (own_announce p) s = Inr (s\<lparr>proxies := mm_insert (realm_id p) (snd (entry_of p)) (proxies s)\<rparr>)"
  using assms scan_New [of "realm_id p" "bind_addr p" "proxies s"]
  by (simp add: realm_ec_push_def own_announce_def process_proxy_announce_def add_proxy_known entry_of_def Let_def)

lemma deliver_all:
  "\<forall>p\<in>set ps. realm_id p \<in> fst ` set (realm_map s) \<and> (\<forall>e\<in>set (proxies s). p_ip (snd e) \<noteq> bind_addr p) \<Longrightarrow>
   distinct (map bind_addr ps) \<Longrightarrow>
     \<exists>s'. ofold realm_ec_push (map own_announce ps) s = Inr s' \<and> realm_map s' = realm_map s \<and>
       set (proxies s') = set (proxies s) \<union> entry_of ` set ps"
proof (induction ps arbitrary: s)
  case (Cons p ps)
  let ?s = "s\<lparr>proxies := mm_insert (realm_id p) (snd (entry_of p)) (proxies s)\<rparr>"
  have "realm_ec_push (own_announce p) s = Inr ?s" using Cons.prems(1) by (intro announce_new) auto
  moreover have "\<exists>s'. ofold realm_ec_push (map own_announce ps) ?s = Inr s' \<and> realm_map s' = realm_map ?s \<and>
       set (proxies s') = set (proxies ?s) \<union> entry_of ` set ps"
    using Cons.prems by (intro Cons.IH) (auto simp: set_mm_insert entry_of_def)
  ultimately show ?case by (auto simp: set_mm_insert entry_of_def)
qed simp

lemma mset_map_permutation:
  "mset ys = mset (map f xs) \<Longrightarrow> \<exists>zs. ys = map f zs \<and> mset zs = mset xs"
proof (induction ys arbitrary: xs)
  case (Cons y ys)
  have "y \<in># mset (map f xs)" using Cons.prems by (metis list.set_intros(1) set_mset_mset)
  then obtain x where x: "x \<in> set xs" "y = f x" by auto
  then obtain us vs where xs: "xs = us @ x # vs" by (auto simp: in_set_conv_decomp)
  have "mset ys = mset (map f (us @ vs))" using Cons.prems x(2) xs by simp
  then obtain zs where "ys = map f zs" "mset zs = mset (us @ vs)" using Cons.IH by blast
  with x(2) xs show ?case by (intro exI [of _ "x # zs"]) simp
qed simp

section \<open>Properties\<close>

text \<open>C19. After a reload of the realm list the realm daemon knows exactly the running proxies of the
  listed realms.  Each proxy whose realm is listed answers the requests once, whatever timers run;
  in whatever order the channel delivers the answers, the table of proxies then holds one entry
  for each of these proxies, with its realm, address and load, and nothing else.  For a listed
  realm that has a proxy the realm list shows the address of one whose load no other undercuts.
  The addresses of the proxies must be different.\<close>

theorem reload_discovers_proxies:
  assumes "realm_service_inv s" and "\<forall>p\<in>set ps. announcing p \<and> \<not> f32_nan (load p)" and "distinct (map bind_addr ps)"
    and "t \<noteq> - 1" and "mset es = mset (concat (map (answers t (reload_requests s)) ps))"
  shows "\<exists>s'. ofold realm_ec_push es (request_proxies s) = Inr s' \<and> realm_map s' = realm_map s \<and>
     set (proxies s') = entry_of ` {p \<in> set ps. realm_id p \<in> fst ` set (realm_map s)} \<and>
     (\<forall>r\<in>fst ` set (realm_map s). (\<exists>p\<in>set ps. realm_id p = r) \<longrightarrow>
        (\<exists>p\<in>set ps. realm_id p = r \<and> get_proxy_for_realm r s' = bind_addr p \<and>
           (\<forall>q\<in>set ps. realm_id q = r \<longrightarrow> \<not> f32_less (load q) (load p))))"
proof -
  let ?keys = "fst ` set (realm_map s)" and ?ps = "filter (\<lambda>p. realm_id p \<in> fst ` set (realm_map s)) ps"
  have "distinct (map fst (realm_map s))"
    using assms(1) by (auto simp: realm_service_inv_def om_sorted_def strict_sorted_iff)
  then have "answers t (reload_requests s) p = (if realm_id p \<in> ?keys then [own_announce p] else [])"
    if "p \<in> set ps" for p
    using assms(2,4) that by (intro answers_reload) auto
  then have "concat (map (answers t (reload_requests s)) qs) = map own_announce (filter (\<lambda>p. realm_id p \<in> ?keys) qs)"
    if "set qs \<subseteq> set ps" for qs
    using that by (induction qs) auto
  then have "mset es = mset (map own_announce ?ps)" using assms(5) by simp
  then obtain zs where zs: "es = map own_announce zs" "mset zs = mset ?ps"
    using mset_map_permutation by blast
  have set: "set zs = set ?ps" by (rule mset_eq_setD [OF zs(2)])
  have "distinct (map bind_addr ?ps)" using assms(3) by (simp add: distinct_map_filter)
  then have "distinct (map bind_addr zs)" using zs(2) by (metis mset_eq_imp_distinct_iff mset_map)
  with set obtain s' where s': "ofold realm_ec_push es (request_proxies s) = Inr s'" "realm_map s' = realm_map s"
      "set (proxies s') = entry_of ` set ?ps"
    using deliver_all [of zs "request_proxies s"] by (auto simp: zs(1) request_proxies_eq)
  have "\<exists>p\<in>set ps. realm_id p = r \<and> get_proxy_for_realm r s' = bind_addr p \<and>
          (\<forall>q\<in>set ps. realm_id q = r \<longrightarrow> \<not> f32_less (load q) (load p))"
    if r: "r \<in> ?keys" and ex: "\<exists>p\<in>set ps. realm_id p = r" for r
  proof -
    have mem: "set (proxies_for_realm r s') = snd ` entry_of ` {p \<in> set ps. realm_id p = r}"
      using s'(3) r by (force simp: proxies_for_realm_def entry_of_def)
    with ex obtain x xs where cons: "proxies_for_realm r s' = x # xs"
      by (cases "proxies_for_realm r s'") auto
    have nan: "\<forall>q\<in>set (x # x # xs). \<not> f32_nan (p_load q)"
    proof
      fix q assume "q \<in> set (x # x # xs)"
      then have "q \<in> snd ` entry_of ` {p \<in> set ps. realm_id p = r}" using mem unfolding cons by auto
      then show "\<not> f32_nan (p_load q)" using assms(2) by (auto simp: entry_of_def)
    qed
    have "lowest_load x (x # xs) \<in> set (x # xs)" using lowest_load_in [of x "x # xs"] by simp
    then obtain p where p: "p \<in> set ps" "realm_id p = r" "lowest_load x (x # xs) = snd (entry_of p)"
      using mem unfolding cons by blast
    have "\<not> f32_less (load q) (load p)" if "q \<in> set ps" "realm_id q = r" for q
    proof -
      have "snd (entry_of q) \<in> set (x # xs)" using mem that unfolding cons by blast
      then have "snd (entry_of q) \<in> set (x # x # xs)" by auto
      from lowest_load_min [OF nan this] show ?thesis unfolding p(3) by (simp add: entry_of_def)
    qed
    with p show ?thesis
      by (intro bexI [of _ p]) (simp_all add: get_proxy_for_realm_def cons entry_of_def)
  qed
  with s' show ?thesis by auto
qed

theorem reload_discovers_proxies_witness:
  "\<exists>s'. ofold realm_ec_push [Proxy_Announce 7 [66] 0, Proxy_Announce 7 [65] 0x3F800000] (request_proxies demo_service) = Inr s' \<and>
     get_proxy_for_realm 7 s' = [66]"
proof -
  let ?p = "\<lambda>a l. start_announcing 1 (demo_proxy\<lparr>bind_addr := a, load := l\<rparr>)"
  let ?ps = "[?p [65] 0x3F800000, ?p [66] 0, (?p [67] 0)\<lparr>realm_id := 8\<rparr>]"
  have run: "announcing (?p a l)" "announcing ((?p a l)\<lparr>realm_id := 8\<rparr>)" for a l
    by (simp_all add: announcing_def start_announcing_def schedule_timer_def announce_def demo_proxy_def)
  have es: "concat (map (answers 2 (reload_requests demo_service)) ?ps) = [Proxy_Announce 7 [65] 0x3F800000, Proxy_Announce 7 [66] 0]"
    by (simp add: answers_def reload_requests_eq proxy_ec_push_def start_announcing_def schedule_timer_def announce_def
        demo_proxy_def demo_service_def Let_def)
  have nan: "\<not> f32_nan 0x3F800000" "\<not> f32_nan 0" "f32_less 0 0x3F800000"
    by (simp_all add: f32_nan_def f32_less_def f32_key_def take_bit_eq_mod)
  have sel: "realm_id (?p a l) = 7" "bind_addr (?p a l) = a" "load (?p a l) = l" for a l
    by (simp_all add: start_announcing_def schedule_timer_def announce_def demo_proxy_def)
  have m: "mset [Proxy_Announce 7 [66] 0, Proxy_Announce 7 [65] 0x3F800000] =
      mset (concat (map (answers 2 (reload_requests demo_service)) ?ps))"
    unfolding es by simp
  have ok: "\<forall>p\<in>set ?ps. announcing p \<and> \<not> f32_nan (load p)" "distinct (map bind_addr ?ps)"
    by (simp_all add: run sel nan)
  obtain s' where s': "ofold realm_ec_push [Proxy_Announce 7 [66] 0, Proxy_Announce 7 [65] 0x3F800000] (request_proxies demo_service) = Inr s'"
      "\<forall>r\<in>fst ` set (realm_map demo_service). (\<exists>p\<in>set ?ps. realm_id p = r) \<longrightarrow>
        (\<exists>p\<in>set ?ps. realm_id p = r \<and> get_proxy_for_realm r s' = bind_addr p \<and>
           (\<forall>q\<in>set ?ps. realm_id q = r \<longrightarrow> \<not> f32_less (load q) (load p)))"
    using reload_discovers_proxies [OF demo_service_inv ok _ m] by auto
  have "7 \<in> fst ` set (realm_map demo_service)" by (simp add: demo_service_def)
  with s'(2) have "get_proxy_for_realm 7 s' = [66]" by (auto simp: sel nan)
  with s'(1) show ?thesis by blast
qed

end
