(* ===== verification/Plain_Statements.thy ===== *)
theory Plain_Statements
  imports Sql_Connections
begin

text \<open>
  Statements that are not prepared (src/database/MySQL/MySQLStatement.cpp,
  src/database/SQLite/SQLiteStatement.cpp) and the results of MySQL's text protocol
  (src/database/MySQL/MySQLResultSet.cpp).  What the server answers to a text is an argument.
\<close>

section \<open>Numbers in texts\<close>

text \<open>\<open>strtol\<close> in base 10 with a \<open>long\<close> of 64 bits.\<close>

definition strtol :: "bytes \<Rightarrow> int" where
  "strtol s = max (- (2 ^ 63)) (min (2 ^ 63 - 1) (atoi s))"

text \<open>\<open>>>\<close> of a stream into an unsigned number of 64 bits; without a number that fits, the variable keeps
  what it held.\<close>

definition extract_uint64 :: "u64 \<Rightarrow> bytes \<Rightarrow> u64" where
  "extract_uint64 unset s =
     (let t = dropWhile isspace s;
          (neg, ds) = (case t of [] \<Rightarrow> (False, []) | c # cs \<Rightarrow> if c = 45 then (True, cs) else (False, if c = 43 then cs else t));
          ds = takeWhile (\<lambda>c. 48 \<le> c \<and> c \<le> 57) ds; v = digits_value 0 ds
      in if ds = [] \<or> 2 ^ 64 \<le> v then unset else of_int (if neg then - v else v))"

section \<open>MySQLResultSet\<close>

text \<open>A row of the text protocol: a null pointer or the text of each column.\<close>

type_synonym text_row = "bytes option list"

record text_rs =
  t_rowPosition :: u32
  t_numRows :: u32
  t_numFields :: u32
  t_row :: "text_row option"
  t_pending :: "text_row list"

definition MySQLResultSet :: "nat \<Rightarrow> text_row list \<Rightarrow> text_rs" where
  "MySQLResultSet num_fields rows = \<lparr>t_rowPosition = 0, t_numRows = of_nat (length rows),
     t_numFields = of_nat num_fields, t_row = None, t_pending = rows\<rparr>"

definition text_checkValidity :: "u8 \<Rightarrow> text_rs \<Rightarrow> unit outcome" where
  "text_checkValidity idx r =
     (if idx = 0 \<or> ucast idx > t_numFields r then Inl (Thrown (str ''MysqlResultSet: invalid index''))
      else if t_rowPosition r = 0 then Inl (Thrown (str ''MysqlResultSet: invalid row (before first''))
      else if t_rowPosition r > t_numRows r then Inl (Thrown (str ''MysqlResultSet: invalid row (after last''))
      else Inr ())"

text \<open>\<open>row[idx - 1]\<close>; the functions of the C library dereference it.\<close>

definition text_column :: "u8 \<Rightarrow> text_rs \<Rightarrow> bytes outcome" where
  "text_column idx r = obind (text_checkValidity idx r) (\<lambda>_. case t_row r of
       None \<Rightarrow> Inl Null_pointer
     | Some row \<Rightarrow> if unat (idx - 1) < length row
         then (case row ! unat (idx - 1) of None \<Rightarrow> Inl Null_pointer | Some s \<Rightarrow> Inr s)
         else Inl Out_of_bounds)"

definition text_getBool :: "u8 \<Rightarrow> text_rs \<Rightarrow> bool outcome" where
  "text_getBool idx r = obind (text_column idx r) (\<lambda>s. Inr (0 < atoi s))"

definition text_getUint8 :: "u8 \<Rightarrow> text_rs \<Rightarrow> u8 outcome" where
  "text_getUint8 idx r = obind (text_column idx r) (\<lambda>s. Inr (of_int (strtol s)))"

definition text_getUint16 :: "u8 \<Rightarrow> text_rs \<Rightarrow> u16 outcome" where
  "text_getUint16 idx r = obind (text_column idx r) (\<lambda>s. Inr (of_int (strtol s)))"

definition text_getUint32 :: "u8 \<Rightarrow> text_rs \<Rightarrow> u32 outcome" where
  "text_getUint32 idx r = obind (text_column idx r) (\<lambda>s. Inr (of_int (strtol s)))"

text \<open>Signed results are their patterns.\<close>

definition text_getInt8 :: "u8 \<Rightarrow> text_rs \<Rightarrow> u8 outcome" where
  "text_getInt8 idx r = obind (text_column idx r) (\<lambda>s. Inr (of_int (strtol s)))"

definition text_getInt16 :: "u8 \<Rightarrow> text_rs \<Rightarrow> u16 outcome" where
  "text_getInt16 idx r = obind (text_column idx r) (\<lambda>s. Inr (of_int (strtol s)))"

definition text_getInt32 :: "u8 \<Rightarrow> text_rs \<Rightarrow> u32 outcome" where
  "text_getInt32 idx r = obind (text_column idx r) (\<lambda>s. Inr (of_int (strtol s)))"

text \<open>The pattern of a \<open>float\<close> is taken from an integer.\<close>

definition text_getFloat :: "u8 \<Rightarrow> text_rs \<Rightarrow> f32 outcome" where
  "text_getFloat idx r = text_getUint32 idx r"

definition text_getUint64 :: "u64 \<Rightarrow> u8 \<Rightarrow> text_rs \<Rightarrow> u64 outcome" where
  "text_getUint64 unset idx r = obind (text_column idx r) (\<lambda>s. Inr (extract_uint64 unset s))"

definition text_getString :: "u8 \<Rightarrow> text_rs \<Rightarrow> bytes outcome" where
  "text_getString idx r = text_column idx r"

definition text_next :: "text_rs \<Rightarrow> bool \<times> text_rs" where
  "text_next r = (case t_pending r of
       [] \<Rightarrow> (False, r\<lparr>t_row := None, t_rowPosition := t_rowPosition r + 1\<rparr>)
     | row # rows \<Rightarrow> (True, r\<lparr>t_row := Some row, t_pending := rows, t_rowPosition := t_rowPosition r + 1\<rparr>))"

definition text_isFirst :: "text_rs \<Rightarrow> bool" where
  "text_isFirst r \<longleftrightarrow> t_rowPosition r = 1"

definition text_rowsCount :: "text_rs \<Rightarrow> u32" where
  "text_rowsCount r = t_numRows r"

section \<open>MySQLStatement\<close>

text \<open>The answer to a text: \<open>None\<close> is an error; no fields mean no result set.\<close>

record text_reply =
  x_fields :: nat
  x_rows :: "text_row list"
  x_affected :: u64

type_synonym 'd text_server = "bytes \<Rightarrow> 'd \<Rightarrow> ('d \<times> text_reply) option"

record 'd plain_stmt =
  ms_closed :: bool
  ms_db :: 'd

definition ms_checkClosed :: "('d plain_stmt, unit) stm" where
  "ms_checkClosed = (\<lambda>st. if ms_closed st then sthrow ''MySQLStatement::checkClosed, statement closed'' st else sret () st)"

definition ms_close :: "('d plain_stmt, unit) stm" where
  "ms_close = sbind ms_checkClosed (\<lambda>_. smodify (\<lambda>st. st\<lparr>ms_closed := True\<rparr>))"

definition ms_doQuery :: "'d text_server \<Rightarrow> bytes \<Rightarrow> ('d plain_stmt, text_reply) stm" where
  "ms_doQuery srv sql = sbind ms_checkClosed (\<lambda>_ st. case srv sql (ms_db st) of
       None \<Rightarrow> sthrow ''MySQLStatement::doQuery, mysql_real_query error'' st
     | Some (d, r) \<Rightarrow> sret r (st\<lparr>ms_db := d\<rparr>))"

definition ms_execute :: "'d text_server \<Rightarrow> bytes \<Rightarrow> ('d plain_stmt, bool) stm" where
  "ms_execute srv sql = sbind (ms_doQuery srv sql) (\<lambda>r. sret (0 < x_fields r))"

definition ms_executeUpdate :: "'d text_server \<Rightarrow> bytes \<Rightarrow> ('d plain_stmt, u32) stm" where
  "ms_executeUpdate srv sql = sbind (ms_doQuery srv sql) (\<lambda>r.
     if 0 < x_fields r then sthrow ''MySQLStatement::executeUpdate, error the return something''
     else sret (ucast (x_affected r)))"

text \<open>A statement without a result gives a null pointer.\<close>

definition ms_getResultSet :: "text_reply \<Rightarrow> ('d plain_stmt, text_rs option) stm" where
  "ms_getResultSet r = sbind ms_checkClosed (\<lambda>_.
     sret (if x_fields r = 0 then None else Some (MySQLResultSet (x_fields r) (x_rows r))))"

definition ms_executeQuery :: "'d text_server \<Rightarrow> bytes \<Rightarrow> ('d plain_stmt, text_rs option) stm" where
  "ms_executeQuery srv sql = sbind (ms_doQuery srv sql) ms_getResultSet"

section \<open>SQLiteStatement\<close>

text \<open>What the library prepares a text into: the number of columns, the results of its steps, and what
  \<open>sqlite3_changes\<close> tells after a step that is done.  \<open>qs_lost\<close> counts statements that are prepared
  and never finalized, because a later text has replaced them.\<close>

record plain_lib =
  b_columns :: nat
  b_steps :: "sqlite_step list"
  b_changes :: "u32 option"

record sqlite_plain =
  qs_closed :: bool
  qs_stmt :: "plain_lib option"
  qs_lost :: nat
  qs_stepped :: bool

definition SQLiteStatement :: sqlite_plain where
  "SQLiteStatement = \<lparr>qs_closed = False, qs_stmt = None, qs_lost = 0, qs_stepped = False\<rparr>"

definition qs_checkClosed :: "(sqlite_plain, unit) stm" where
  "qs_checkClosed = (\<lambda>st. if qs_closed st then sthrow ''SQLiteStatement::checkClosed, statement closed'' st else sret () st)"

definition qs_close :: "(sqlite_plain, unit) stm" where
  "qs_close = sbind qs_checkClosed (\<lambda>_. smodify (\<lambda>st. st\<lparr>qs_closed := True\<rparr>))"

definition qs_doQuery :: "(bytes \<Rightarrow> plain_lib option) \<Rightarrow> bytes \<Rightarrow> (sqlite_plain, plain_lib) stm" where
  "qs_doQuery prepare sql = sbind qs_checkClosed (\<lambda>_ st.
     let st1 = st\<lparr>qs_stmt := prepare sql, qs_lost := qs_lost st + (if qs_stmt st = None then 0 else 1), qs_stepped := False\<rparr>
     in case prepare sql of
         None \<Rightarrow> sthrow ''SQLiteStatement: sqlite3_prepare_v2 error'' st1
       | Some p \<Rightarrow> sret p st1)"

definition qs_execute :: "(bytes \<Rightarrow> plain_lib option) \<Rightarrow> bytes \<Rightarrow> (sqlite_plain, bool) stm" where
  "qs_execute prepare sql = sbind (qs_doQuery prepare sql) (\<lambda>p. sret (0 < b_columns p))"

definition qs_executeUpdate :: "(bytes \<Rightarrow> plain_lib option) \<Rightarrow> bytes \<Rightarrow> (sqlite_plain, u32) stm" where
  "qs_executeUpdate prepare sql = sbind (qs_doQuery prepare sql) (\<lambda>p.
     if 0 < b_columns p then sthrow ''SQLiteStatement::executeUpdate, error the return something''
     else (\<lambda>st. (case b_changes p of
         None \<Rightarrow> sthrow ''SQLiteStatement::executeUpdate, sqlite3_step invalid return value''
       | Some n \<Rightarrow> sret n) (st\<lparr>qs_stepped := True\<rparr>)))"

definition qs_getResultSet :: "plain_lib \<Rightarrow> (sqlite_plain, sqlite_rs) stm" where
  "qs_getResultSet p = sbind qs_checkClosed (\<lambda>_. sret (SQLiteResultSet (b_columns p) (b_steps p)))"

definition qs_executeQuery :: "(bytes \<Rightarrow> plain_lib option) \<Rightarrow> bytes \<Rightarrow> (sqlite_plain, sqlite_rs) stm" where
  "qs_executeQuery prepare sql = sbind (qs_doQuery prepare sql) qs_getResultSet"

section \<open>Reading rows\<close>

text \<open>The text protocol provides the cursor that the observers rely on, too.\<close>

definition text_ok :: "text_rs \<Rightarrow> bool" where
  "text_ok r \<longleftrightarrow>
     (\<forall>row\<in>set (t_pending r). length row = unat (t_numFields r)) \<and>
     unat (t_rowPosition r) + length (t_pending r) = unat (t_numRows r) \<and>
     (\<forall>row. t_row r = Some row \<longrightarrow> t_rowPosition r \<noteq> 0 \<and> length row = unat (t_numFields r))"

definition text_col :: "u8 \<Rightarrow> text_row \<Rightarrow> bytes outcome" where
  "text_col i row =
     (if i = 0 \<or> length row < unat i then Inl (Thrown (str ''MysqlResultSet: invalid index''))
      else case row ! (unat i - 1) of None \<Rightarrow> Inl Null_pointer | Some s \<Rightarrow> Inr s)"

interpretation text_cursor: row_cursor "\<lambda>r. Inr (text_next r)" text_column text_ok t_pending t_row text_col
proof unfold_locales
  fix r assume "text_ok r" "t_pending r = []"
  then show "\<exists>r'. Inr (text_next r) = (Inr (False, r') :: (bool \<times> text_rs) outcome)"
    by (simp add: text_next_def)
next
  fix r :: text_rs and row rows assume ok: "text_ok r" and p: "t_pending r = row # rows"
  then have "unat (t_rowPosition r) + Suc (length rows) < 2 ^ 32"
    using unsigned_less [of "t_numRows r", where ?'a = nat] by (simp add: text_ok_def)
  from word_succ_nonzero [OF this] ok p
  show "\<exists>r'. Inr (text_next r) = (Inr (True, r') :: (bool \<times> text_rs) outcome) \<and> text_ok r' \<and>
          t_pending r' = rows \<and> t_row r' = Some row"
    by (simp add: text_next_def text_ok_def)
next
  fix r row and i :: u8 assume ok: "text_ok r" "t_row r = Some row"
  then have "\<not> t_numRows r < t_rowPosition r" by (auto simp: text_ok_def word_less_nat_alt)
  moreover have "t_rowPosition r \<noteq> 0" "length row = unat (t_numFields r)" using ok by (auto simp: text_ok_def)
  moreover have "unat (i - 1) = unat i - 1" "unat i - 1 < n \<longleftrightarrow> unat i \<le> n" if "i \<noteq> 0" for n
    using unat_pos [OF that] that by (auto simp: unat_minus_one)
  ultimately show "text_column i r = text_col i row"
    using ok(2) by (cases "i = 0") (simp_all add: text_column_def text_checkValidity_def text_col_def index_gt_fields)
qed

lemma extract_decimal:
  assumes "n < 2 ^ 64"
  shows "extract_uint64 unset (decimal n) = of_nat n"
proof -
  obtain c cs where c: "decimal n = c # cs" "dropWhile isspace (decimal n) = c # cs" "c \<noteq> 45" "c \<noteq> 43"
    "takeWhile (\<lambda>c. 48 \<le> c \<and> c \<le> 57) (c # cs) = c # cs"
    using decimal_start by blast
  have "digits_value 0 (c # cs) = int n" using digits_value_decimal [of n] c(1) by simp
  moreover have "int n < int (2 ^ 64)" using assms by (simp only: of_nat_less_iff)
  then have "\<not> 2 ^ 64 \<le> int n" by simp
  ultimately show ?thesis
    unfolding extract_uint64_def Let_def c(2) using c(3,4) by (simp only: list.case if_False prod.case c(5)) simp
qed

lemma mysql_get_number:
  assumes "mysql_cell_at i b = Inr (Some (le_bytes k (of_nat n :: u64), m))" and "8 \<le> k"
    and "LENGTH('a) div 8 \<le> 8" "8 * (LENGTH('a) div 8) = LENGTH('a)"
  shows "mysql_get i b = Inr (of_nat n :: 'a::len word)"
proof -
  have "take (LENGTH('a) div 8) (le_bytes k (of_nat n :: u64)) = le_bytes (LENGTH('a) div 8) (of_nat n :: u64)"
    using assms(2,3) by (intro take_le_bytes) simp
  moreover have "(of_le (le_bytes (LENGTH('a) div 8) (of_nat n :: u64)) :: 'a word) = of_nat n"
    using assms(3,4) unfolding of_le_le_bytes_cast
    by (intro bit_word_eqI) (auto simp: bit_simps)
  ultimately show ?thesis using assms(2,3) by (simp add: mysql_get_cell assms(1))
qed

section \<open>Properties\<close>

text \<open>Both protocols of MySQL read numbers alike: where the text protocol has the decimal digits of a
  number and the binary one a buffer of at least eight bytes with it, the getters for 8, 16, 32 and
  64 bits give the same; those up to 32 bits truncate alike, below the range of a \<open>long\<close>.  Truth
  values differ: the text is true for every number but 0, the binary one is that of the low byte
  as a signed number.\<close>

theorem text_and_binary_agree:
  assumes "text_ok r" "t_row r = Some row" and "mysql_ok b" "mysql_current b = Some cells"
    and "i \<noteq> 0" "unat i \<le> length row" "length cells = length row"
    and "row ! (unat i - 1) = Some (decimal n)" "cells ! (unat i - 1) = Some (le_bytes k (of_nat n :: u64), k)"
    and "n < 2 ^ 63" "8 \<le> k"
  shows "text_getUint8 i r = mysql_getUint8 i b \<and> text_getUint16 i r = mysql_getUint16 i b \<and>
     text_getUint32 i r = mysql_getUint32 i b \<and> text_getUint64 unset i r = mysql_getUint64 i b \<and>
     text_getBool i r = Inr (n \<noteq> 0) \<and> mysql_getBool i b = Inr (0 < sint (of_nat n :: 8 word))"
proof -
  have col: "text_column i r = Inr (decimal n)"
    using text_cursor.get_current [OF assms(1,2), of i] assms(5,6,8) by (simp add: text_col_def)
  have cell: "mysql_cell_at i b = Inr (Some (le_bytes k (of_nat n :: u64), k))"
    using mysql_cursor.get_current [OF assms(3,4), of i] assms(5-7,9) by (simp add: mysql_col_def)
  have long: "strtol (decimal n) = int n"
    using assms(10) by (simp add: strtol_def atoi_decimal)
  note get = mysql_get_number [OF cell assms(11)]
  have valid: "mysql_checkValidity i b = Inr ()"
    using cell by (auto simp: mysql_cell_at_def obind_eq_Inr)
  have "n < 2 ^ 64" using assms(10) by simp
  then show ?thesis
    by (simp add: get text_getUint8_def text_getUint16_def text_getUint32_def text_getUint64_def text_getBool_def col long
        extract_decimal atoi_decimal mysql_getUint8_def mysql_getUint16_def mysql_getUint32_def mysql_getUint64_def
        mysql_getBool_def mysql_getInt8_def valid)
qed

theorem text_and_binary_agree_witness:
  "\<exists>r b. text_getUint8 1 r = Inr 200 \<and> mysql_getUint8 1 b = Inr 200 \<and> text_getBool 1 r = Inr True \<and> mysql_getBool 1 b = Inr False"
proof -
  let ?r = "\<lparr>t_rowPosition = 1, t_numRows = 1, t_numFields = 1, t_row = Some [Some (decimal 200)], t_pending = []\<rparr>"
  let ?c = "[Some (le_bytes 8 (of_nat 200 :: u64), 8)]"
  let ?b = "\<lparr>m_rowPosition = 1, m_numRows = 1, m_numFields = 1, m_bindResult = ?c, m_pending = []\<rparr>"
  have "text_ok ?r" "mysql_ok ?b" "mysql_current ?b = Some ?c"
    by (simp_all add: text_ok_def mysql_ok_def mysql_current_def)
  then have "text_getUint8 1 ?r = mysql_getUint8 1 ?b" "text_getBool 1 ?r = Inr True"
      "mysql_getBool 1 ?b = Inr (0 < sint (of_nat 200 :: 8 word))"
    using text_and_binary_agree [of ?r "[Some (decimal 200)]" ?b ?c 1 200 8] by simp_all
  moreover have "mysql_cell_at 1 ?b = Inr (Some (le_bytes 8 (of_nat 200 :: u64), 8))"
    by (simp add: mysql_cell_at_def mysql_checkValidity_def mysql_column_def)
  then have "mysql_getUint8 1 ?b = Inr (of_nat 200)"
    unfolding mysql_getUint8_def by (rule mysql_get_number) simp_all
  ultimately show ?thesis by (intro exI [of _ ?r] exI [of _ ?b]) simp
qed

end
