(* ===== verification/Mersenne_Twist.thy ===== *)
theory Mersenne_Twist
  imports Prelude
begin

text \<open>
  The random numbers of the daemons (src/common/MTRand.h).  An \<open>unsigned long\<close> has 64 bits; the masks of
  the code keep the words of the state below \<open>2 ^ 32\<close>.  The functions that return real numbers are not
  modelled.
\<close>

section \<open>MersenneTwist\<close>

definition MT_N :: nat where "MT_N = 624"
definition MT_M :: nat where "MT_M = 397"
definition MATRIX_A :: "u64" where "MATRIX_A = 0x9908b0df"
definition UPPER_MASK :: "u64" where "UPPER_MASK = 0x80000000"
definition LOWER_MASK :: "u64" where "LOWER_MASK = 0x7fffffff"

record mt_state =
  mt :: "u64 list"
  mti :: nat

text \<open>\<open>init_genrand\<close>\<close>

function init_loop :: "nat \<Rightarrow> u64 list \<Rightarrow> u64 list" where
  "init_loop i m = (if i < MT_N
     then init_loop (i + 1) (m[i := (1812433253 * (m ! (i - 1) XOR drop_bit 30 (m ! (i - 1))) + of_nat i) AND 0xffffffff])
     else m)"
  by pat_completeness auto
termination by (relation "measure (\<lambda>(i, m). MT_N - i)") auto

definition init_genrand :: "u64 \<Rightarrow> mt_state \<Rightarrow> mt_state" where
  "init_genrand s st = st\<lparr>mt := init_loop 1 ((mt st)[0 := s AND 0xffffffff]), mti := MT_N\<rparr>"

text \<open>\<open>init_by_array\<close>: the body and the step of the indices of its two loops, \<open>k\<close> times.\<close>

definition wrap_row :: "nat \<Rightarrow> u64 list \<Rightarrow> nat \<times> u64 list" where
  "wrap_row i m = (if i \<ge> MT_N then (1, m[0 := m ! (MT_N - 1)]) else (i, m))"

fun array_loop :: "u64 list \<Rightarrow> nat \<Rightarrow> nat \<Rightarrow> nat \<Rightarrow> u64 list \<Rightarrow> (nat \<times> u64 list) outcome" where
  "array_loop key 0 i j m = Inr (i, m)"
| "array_loop key (Suc k) i j m =
     (if j < length key then
        let m1 = m[i := ((m ! i XOR (m ! (i - 1) XOR drop_bit 30 (m ! (i - 1))) * 1664525) + key ! j + of_nat j) AND 0xffffffff];
            (i', m2) = wrap_row (i + 1) m1
        in array_loop key k i' (if j + 1 \<ge> length key then 0 else j + 1) m2
      else Inl Out_of_bounds)"

fun mix_loop :: "nat \<Rightarrow> nat \<Rightarrow> u64 list \<Rightarrow> u64 list" where
  "mix_loop 0 i m = m"
| "mix_loop (Suc k) i m =
     (let m1 = m[i := ((m ! i XOR (m ! (i - 1) XOR drop_bit 30 (m ! (i - 1))) * 1566083941) - of_nat i) AND 0xffffffff];
          (i', m2) = wrap_row (i + 1) m1
      in mix_loop k i' m2)"

definition init_by_array :: "u64 list \<Rightarrow> mt_state \<Rightarrow> mt_state outcome" where
  "init_by_array key st =
     (let st1 = init_genrand 19650218 st
      in obind (array_loop key (max MT_N (length key)) 1 0 (mt st1)) (\<lambda>(i, m).
           Inr (st1\<lparr>mt := (mix_loop (MT_N - 1) i m)[0 := 0x80000000]\<rparr>)))"

text \<open>\<open>genrand_int32\<close>: \<open>mag01\<close>, the loops that generate \<open>MT_N\<close> words in place, and the tempering.\<close>

definition mag01 :: "u64 \<Rightarrow> u64" where
  "mag01 x = (if x = 0 then 0 else MATRIX_A)"

definition twist_word :: "u64 \<Rightarrow> u64 \<Rightarrow> u64 \<Rightarrow> u64" where
  "twist_word far this next =
     (let y = (this AND UPPER_MASK) OR (next AND LOWER_MASK) in far XOR drop_bit 1 y XOR mag01 (y AND 1))"

function twist_low :: "nat \<Rightarrow> u64 list \<Rightarrow> u64 list" where
  "twist_low kk m = (if kk < MT_N - MT_M
     then twist_low (kk + 1) (m[kk := twist_word (m ! (kk + MT_M)) (m ! kk) (m ! (kk + 1))]) else m)"
  by pat_completeness auto
termination by (relation "measure (\<lambda>(kk, m). MT_N - MT_M - kk)") auto

function twist_high :: "nat \<Rightarrow> u64 list \<Rightarrow> u64 list" where
  "twist_high kk m = (if kk < MT_N - 1
     then twist_high (kk + 1) (m[kk := twist_word (m ! (kk - (MT_N - MT_M))) (m ! kk) (m ! (kk + 1))]) else m)"
  by pat_completeness auto
termination by (relation "measure (\<lambda>(kk, m). MT_N - 1 - kk)") auto

declare init_loop.simps [simp del] twist_low.simps [simp del] twist_high.simps [simp del]

definition generate_words :: "u64 list \<Rightarrow> u64 list" where
  "generate_words m0 =
     (let m = twist_high (MT_N - MT_M) (twist_low 0 m0)
      in m[MT_N - 1 := twist_word (m ! (MT_M - 1)) (m ! (MT_N - 1)) (m ! 0)])"

definition temper :: "u64 \<Rightarrow> u64" where
  "temper y =
     (let y = y XOR drop_bit 11 y; y = y XOR (push_bit 7 y AND 0x9d2c5680);
          y = y XOR (push_bit 15 y AND 0xefc60000)
      in y XOR drop_bit 18 y)"

definition genrand_int32 :: "mt_state \<Rightarrow> u64 \<times> mt_state" where
  "genrand_int32 st0 =
     (let st = (if mti st0 \<ge> MT_N
        then let st1 = (if mti st0 = MT_N + 1 then init_genrand 5489 st0 else st0)
             in st1\<lparr>mt := generate_words (mt st1), mti := 0\<rparr>
        else st0)
      in (temper (mt st ! mti st), st\<lparr>mti := mti st + 1\<rparr>))"

definition genrand_int31 :: "mt_state \<Rightarrow> u64 \<times> mt_state" where
  "genrand_int31 st = (let (y, st') = genrand_int32 st in (drop_bit 1 y, st'))"

text \<open>The constructor, at the time \<open>t\<close>, and \<open>Utils::urand32\<close> of src/common/Util.h.\<close>

definition MersenneTwist :: "u64 \<Rightarrow> mt_state \<Rightarrow> mt_state" where
  "MersenneTwist t st = init_genrand t st"

definition urand32 :: "mt_state \<Rightarrow> u32 \<times> mt_state" where
  "urand32 st = (let (y, st') = genrand_int32 st in (ucast y, st'))"

section \<open>The reference: MT19937 as a recurrence on words of 32 bits\<close>

definition ref_twist :: "u32 \<Rightarrow> u32 \<Rightarrow> u32 \<Rightarrow> u32" where
  "ref_twist far this next =
     (let y = (this AND 0x80000000) OR (next AND 0x7fffffff) in far XOR drop_bit 1 y XOR (if y AND 1 = 0 then 0 else 0x9908b0df))"

fun mt_word :: "u32 \<Rightarrow> nat \<Rightarrow> u32" where
  "mt_word s k =
     (if k = 0 then s
      else if k < 624 then 1812433253 * (mt_word s (k - 1) XOR drop_bit 30 (mt_word s (k - 1))) + of_nat k
      else ref_twist (mt_word s (k - 227)) (mt_word s (k - 624)) (mt_word s (k - 623)))"

declare mt_word.simps [simp del]

definition ref_temper :: "u32 \<Rightarrow> u32" where
  "ref_temper y =
     (let y = y XOR drop_bit 11 y; y = y XOR (push_bit 7 y AND 0x9d2c5680);
          y = y XOR (push_bit 15 y AND 0xefc60000)
      in y XOR drop_bit 18 y)"

definition mt_output :: "u32 \<Rightarrow> nat \<Rightarrow> u32" where
  "mt_output s j = ref_temper (mt_word s (624 + j))"

section \<open>Words of 32 bits in 64\<close>

lemma up_and: "(ucast (a AND b :: u32) :: u64) = ucast a AND ucast b"
  by (rule bit_word_eqI) (auto simp: bit_simps)

lemma up_or: "(ucast (a OR b :: u32) :: u64) = ucast a OR ucast b"
  by (rule bit_word_eqI) (auto simp: bit_simps)

lemma up_xor: "(ucast (a XOR b :: u32) :: u64) = ucast a XOR ucast b"
  by (rule bit_word_eqI) (auto simp: bit_simps)

lemma up_drop: "(ucast (drop_bit n a :: u32) :: u64) = drop_bit n (ucast a)"
  by (rule bit_word_eqI) (auto simp: bit_simps dest: bit_imp_le_length)

lemma up_push: "(ucast (push_bit n a AND b :: u32) :: u64) = push_bit n (ucast a) AND ucast b"
  by (rule bit_word_eqI) (auto simp: bit_simps dest: bit_imp_le_length)

lemma up_low: "w AND 0xffffffff = (ucast (ucast (w :: u64) :: u32) :: u64)"
proof -
  have "w AND 0xffffffff = take_bit 32 w" by (simp add: take_bit_eq_mask mask_eq_exp_minus_1)
  also have "\<dots> = ucast (ucast w :: u32)" by (rule bit_word_eqI) (auto simp: bit_simps)
  finally show ?thesis .
qed

lemma down_up [simp]: "(ucast (ucast a :: u64) :: u32) = a"
  by (rule bit_word_eqI) (auto simp: bit_simps)

lemma down_add: "(ucast (a + b :: u64) :: u32) = ucast a + ucast b"
  by (simp add: word_uint_eq_iff uint_word_ariths unsigned_ucast_eq take_bit_eq_mod mod_mod_cancel mod_simps)

lemma down_mult: "(ucast (a * b :: u64) :: u32) = ucast a * ucast b"
  by (simp add: word_uint_eq_iff uint_word_ariths unsigned_ucast_eq take_bit_eq_mod mod_mod_cancel mod_simps)

lemmas up_simps = up_or up_xor up_drop up_push

lemma up_masks: "UPPER_MASK = ucast (0x80000000 :: u32)" "LOWER_MASK = ucast (0x7fffffff :: u32)"
    "MATRIX_A = ucast (0x9908b0df :: u32)"
  by (simp_all add: UPPER_MASK_def LOWER_MASK_def MATRIX_A_def)

lemma up_and_one: "ucast y AND (1 :: u64) = ucast (y AND 1 :: u32)"
  by (simp add: up_and)

lemma up_mag: "mag01 (ucast (y :: u32)) = ucast (if y = 0 then 0 else 0x9908b0df :: u32)"
proof -
  have "(ucast y = (0 :: u64)) = (y = 0)" by (metis down_up unsigned_0)
  then show ?thesis by (simp add: mag01_def up_masks)
qed

lemma twist_word_up: "twist_word (ucast far) (ucast this) (ucast nxt) = (ucast (ref_twist far this nxt) :: u64)"
  by (simp only: twist_word_def ref_twist_def Let_def up_masks up_and_one up_mag flip: up_and up_or up_xor up_drop)

lemma temper_up: "temper (ucast y) = (ucast (ref_temper y) :: u64)"
proof -
  have "(0x9d2c5680 :: u64) = ucast (0x9d2c5680 :: u32)" "(0xefc60000 :: u64) = ucast (0xefc60000 :: u32)" by simp_all
  then show ?thesis by (simp only: temper_def ref_temper_def Let_def flip: up_push up_xor up_drop)
qed

section \<open>The state of the generator and the recurrence\<close>

lemma down_of_nat: "(ucast (of_nat i :: u64) :: u32) = of_nat i"
  by (induction i) (simp_all add: down_add)

lemma init_step_up:
  "(1812433253 * (ucast w XOR drop_bit 30 (ucast w)) + of_nat i) AND 0xffffffff
     = (ucast (1812433253 * (w XOR drop_bit 30 w) + of_nat i :: u32) :: u64)"
proof -
  have "(1812433253 :: u64) = ucast (1812433253 :: u32)" by simp
  then show ?thesis
    by (simp only: up_low down_add down_mult down_up down_of_nat flip: up_xor up_drop)
qed

definition block :: "u32 \<Rightarrow> nat \<Rightarrow> nat \<Rightarrow> u64 list \<Rightarrow> bool" where
  "block s base kk m \<longleftrightarrow> length m = MT_N
     \<and> (\<forall>i < MT_N. m ! i = ucast (mt_word s (if i < kk then base + MT_N + i else base + i)))"

lemma blockD: "block s base kk m \<Longrightarrow> i < MT_N \<Longrightarrow> m ! i = ucast (mt_word s (if i < kk then base + MT_N + i else base + i))"
  by (simp add: block_def)

lemma block_update:
  assumes "block s base kk m" "kk < MT_N" "w = ucast (mt_word s (base + MT_N + kk))"
  shows "block s base (Suc kk) (m[kk := w])"
  using assms by (auto simp: block_def nth_list_update less_Suc_eq)

lemma block_next: "block s base MT_N m = block s (base + MT_N) 0 m"
  by (auto simp: block_def)

lemma mt_word_twist:
  "mt_word s (base + (kk + 624)) = ref_twist (mt_word s (base + (kk + 397))) (mt_word s (base + kk)) (mt_word s (Suc (base + kk)))"
  by (subst mt_word.simps) (simp add: algebra_simps)

lemma init_loop_words:
  assumes "length m = MT_N" "0 < i" "i \<le> MT_N" "\<forall>k < i. m ! k = ucast (mt_word s k)"
  shows "length (init_loop i m) = MT_N \<and> (\<forall>k < MT_N. init_loop i m ! k = ucast (mt_word s k))"
  using assms
proof (induction i m rule: init_loop.induct)
  case (1 i m)
  show ?case
  proof (cases "i < MT_N")
    case True
    have "mt_word s i = 1812433253 * (mt_word s (i - 1) XOR drop_bit 30 (mt_word s (i - 1))) + of_nat i"
      using True 1(3) by (subst mt_word.simps) (simp add: MT_N_def)
    moreover have "m ! (i - 1) = ucast (mt_word s (i - 1))" using 1(3,5) by simp
    ultimately have "(1812433253 * (m ! (i - 1) XOR drop_bit 30 (m ! (i - 1))) + of_nat i) AND 0xffffffff = ucast (mt_word s i)"
      by (simp only: init_step_up)
    with True 1 show ?thesis
      by (subst (1 2) init_loop.simps) (simp add: nth_list_update less_Suc_eq)
  qed (use 1 in \<open>simp add: init_loop.simps\<close>)
qed

lemma init_genrand_block:
  assumes "length (mt st) = MT_N"
  shows "block (ucast s) 0 0 (mt (init_genrand s st))"
proof -
  have "s AND 0xffffffff = ucast (mt_word (ucast s) 0)" by (simp add: up_low mt_word.simps[of _ 0])
  then show ?thesis
    using init_loop_words[of "(mt st)[0 := s AND 0xffffffff]" 1 "ucast s"] assms
    by (simp add: init_genrand_def block_def MT_N_def)
qed

lemma twist_low_block:
  "block s base kk m \<Longrightarrow> kk \<le> MT_N - MT_M \<Longrightarrow> block s base (MT_N - MT_M) (twist_low kk m)"
proof (induction kk m rule: twist_low.induct)
  case (1 kk m)
  show ?case
  proof (cases "kk < MT_N - MT_M")
    case True
    have "twist_word (m ! (kk + MT_M)) (m ! kk) (m ! (kk + 1)) = ucast (mt_word s (base + MT_N + kk))"
      using True 1(2) by (simp add: blockD MT_N_def MT_M_def twist_word_up mt_word_twist algebra_simps)
    with True 1 show ?thesis
      by (subst twist_low.simps) (simp add: block_update)
  qed (use 1 in \<open>simp add: twist_low.simps\<close>)
qed

lemma twist_high_block:
  "block s base kk m \<Longrightarrow> MT_N - MT_M \<le> kk \<Longrightarrow> kk \<le> MT_N - 1 \<Longrightarrow> block s base (MT_N - 1) (twist_high kk m)"
proof (induction kk m rule: twist_high.induct)
  case (1 kk m)
  show ?case
  proof (cases "kk < MT_N - 1")
    case True
    have "twist_word (m ! (kk - (MT_N - MT_M))) (m ! kk) (m ! (kk + 1)) = ucast (mt_word s (base + MT_N + kk))"
      using True 1(2,3) by (simp add: blockD MT_N_def MT_M_def twist_word_up mt_word_twist algebra_simps)
    with True 1 show ?thesis
      by (subst twist_high.simps) (simp add: block_update)
  qed (use 1 in \<open>simp add: twist_high.simps\<close>)
qed

lemma generate_words_block:
  assumes "block s base 0 m"
  shows "block s (base + MT_N) 0 (generate_words m)"
proof -
  let ?m = "twist_high (MT_N - MT_M) (twist_low 0 m)"
  have b: "block s base (MT_N - 1) ?m"
    using assms by (intro twist_high_block twist_low_block) (simp_all add: MT_N_def MT_M_def)
  have "twist_word (?m ! (MT_M - 1)) (?m ! (MT_N - 1)) (?m ! 0) = ucast (mt_word s (base + MT_N + (MT_N - 1)))"
    using b mt_word_twist[of s base 623] by (simp add: blockD MT_N_def MT_M_def twist_word_up algebra_simps)
  with block_update[OF b] show ?thesis
    by (simp add: generate_words_def Let_def MT_N_def block_next[unfolded MT_N_def, symmetric])
qed

text \<open>The state after \<open>j\<close> numbers.\<close>

definition produced :: "u32 \<Rightarrow> nat \<Rightarrow> mt_state \<Rightarrow> bool" where
  "produced s j st \<longleftrightarrow> mti st \<le> MT_N \<and> (\<exists>base. base + mti st = MT_N + j \<and> block s base 0 (mt st))"

lemma produced_init: "length (mt st) = MT_N \<Longrightarrow> produced (ucast s) 0 (init_genrand s st)"
  by (auto simp: produced_def intro!: exI[of _ 0] init_genrand_block) (simp_all add: init_genrand_def)

lemma genrand_int32_produced:
  assumes "produced s j st" "genrand_int32 st = (y, st')"
  shows "y = ucast (mt_output s j) \<and> produced s (Suc j) st'"
proof -
  obtain base where st: "mti st \<le> MT_N" "base + mti st = MT_N + j" "block s base 0 (mt st)"
    using assms(1) by (auto simp: produced_def)
  define st1 where "st1 = (if mti st \<ge> MT_N then st\<lparr>mt := generate_words (mt st), mti := 0\<rparr> else st)"
  have out: "y = temper (mt st1 ! mti st1)" "st' = st1\<lparr>mti := mti st1 + 1\<rparr>"
    using assms(2) st(1) by (auto simp: genrand_int32_def st1_def Let_def split: if_splits)
  have "\<exists>base. mti st1 < MT_N \<and> base + mti st1 = MT_N + j \<and> block s base 0 (mt st1)"
  proof (cases "mti st \<ge> MT_N")
    case True
    then show ?thesis
      using st generate_words_block[OF st(3)] by (intro exI[of _ "base + MT_N"]) (simp add: st1_def MT_N_def)
  next
    case False
    then show ?thesis using st by (intro exI[of _ base]) (simp add: st1_def)
  qed
  then obtain b1 where b1: "mti st1 < MT_N" "b1 + mti st1 = MT_N + j" "block s b1 0 (mt st1)" by blast
  have "mt st1 ! mti st1 = ucast (mt_word s (MT_N + j))"
    using blockD[OF b1(3,1)] b1(2) by simp
  then have "y = ucast (mt_output s j)" by (simp add: out(1) temper_up mt_output_def MT_N_def)
  moreover have "produced s (Suc j) st'"
    using b1 by (auto simp: produced_def out(2))
  ultimately show ?thesis ..
qed

fun urands :: "nat \<Rightarrow> mt_state \<Rightarrow> u32 list" where
  "urands 0 st = []"
| "urands (Suc n) st = (let (y, st') = urand32 st in y # urands n st')"

lemma urands_produced: "produced s j st \<Longrightarrow> urands n st = map (mt_output s) [j..<j + n]"
proof (induction n arbitrary: j st)
  case (Suc n)
  obtain y st' where g: "genrand_int32 st = (y, st')" by fastforce
  from genrand_int32_produced[OF Suc.prems g] Suc.IH[of "Suc j" st'] show ?case
    by (simp add: urand32_def g upt_rec[of j])
qed simp

text \<open>C20. The generator, whose words are held in 64 bits and renewed in place 624 at a time, gives after its
  constructor at the time \<open>t\<close> the sequence of MT19937 seeded with the low 32 bits of \<open>t\<close>, which is stated
  by the recurrence of its authors on words of 32 bits.\<close>
theorem urand32_is_mt19937:
  assumes "length (mt st) = MT_N"
  shows "urands n (MersenneTwist t st) = map (mt_output (ucast t)) [0..<n]"
  using urands_produced[OF produced_init[OF assms], of n t] by (simp add: MersenneTwist_def)

theorem urand32_is_mt19937_witness:
  "urands 2 (MersenneTwist 0x100001571 \<lparr>mt = replicate MT_N 7, mti = 3\<rparr>) = [mt_output 5489 0, mt_output 5489 1]"
proof -
  let ?t = "0x100001571 :: u64"
  have len: "length (mt \<lparr>mt = replicate MT_N (7 :: u64), mti = 3\<rparr>) = MT_N" by simp
  have "(ucast ?t :: u32) = 5489" and "[0..<2] = [0, 1 :: nat]" by (simp_all add: upt_conv_Cons)
  with urand32_is_mt19937[OF len, of 2 ?t] show ?thesis by (simp only: list.map)
qed

end
