(* ===== verification/Supervisor.thy ===== *)
theory Supervisor
  imports Text_Numbers
begin

text \<open>
  The process that runs the daemons and starts them again when they die (src/main/Main.cpp,
  src/main/Service_Manager.cpp).  What the operating system answers is an argument: \<open>spawn\<close> gives the
  process of the n-th start, if there is one, and \<open>proc\<close> the first bytes of a process's file in /proc;
  \<open>junk\<close> is what a fresh heap block of 100 bytes holds.  Output to the console is left out.
\<close>

section \<open>Services\<close>

datatype morpheus_services = LOGINSERVER | GAMESERVER | ZONESERVER | SOCIALSERVER

text \<open>The enumeration is ordered by its numbers: the table of services is a multimap over them.\<close>

fun service_number :: "morpheus_services \<Rightarrow> nat" where
  "service_number LOGINSERVER = 0"
| "service_number GAMESERVER = 1"
| "service_number ZONESERVER = 2"
| "service_number SOCIALSERVER = 3"

instantiation morpheus_services :: linorder
begin

definition less_eq_morpheus_services :: "morpheus_services \<Rightarrow> morpheus_services \<Rightarrow> bool" where
  "a \<le> b \<longleftrightarrow> service_number a \<le> service_number b"

definition less_morpheus_services :: "morpheus_services \<Rightarrow> morpheus_services \<Rightarrow> bool" where
  "a < b \<longleftrightarrow> service_number a < service_number b"

instance
proof
  fix a b :: morpheus_services
  show "a \<le> b \<Longrightarrow> b \<le> a \<Longrightarrow> a = b"
    by (cases a; cases b) (simp_all add: less_eq_morpheus_services_def)
qed (auto simp: less_eq_morpheus_services_def less_morpheus_services_def)

end

record service_info =
  status_on :: bool
  svc_pid :: u32

definition ServiceInfo :: "u32 \<Rightarrow> service_info" where
  "ServiceInfo pid = \<lparr>status_on = True, svc_pid = pid\<rparr>"

text \<open>The state of the manager, with the command lines it started, the processes it killed and the
  file handles it left open.\<close>

record service_manager =
  sup_args :: "bytes list"
  svcs :: "(morpheus_services \<times> service_info) list"
  started :: "bytes list list"
  killed :: "u32 list"
  open_handles :: nat

type_synonym spawner = "nat \<Rightarrow> bytes list \<Rightarrow> u32 option"

definition run_service :: "spawner \<Rightarrow> morpheus_services \<Rightarrow> bytes \<Rightarrow> service_manager \<Rightarrow> bool \<times> service_manager" where
  "run_service spawn key mode st =
     (let cmd = [hd (sup_args st), mode]; st1 = st\<lparr>started := started st @ [cmd]\<rparr>
      in case spawn (length (started st)) cmd of
          None \<Rightarrow> (False, st1)
        | Some pid \<Rightarrow> (True, st1\<lparr>svcs := mm_insert key (ServiceInfo pid) (svcs st1)\<rparr>))"

definition run_realmd :: "spawner \<Rightarrow> service_manager \<Rightarrow> bool \<times> service_manager" where
  "run_realmd spawn = run_service spawn LOGINSERVER (str ''runrealmd'')"

definition run_proxyd :: "spawner \<Rightarrow> service_manager \<Rightarrow> bool \<times> service_manager" where
  "run_proxyd spawn = run_service spawn GAMESERVER (str ''rungamed'')"

section \<open>Is a process alive?\<close>

text \<open>\<open>sprintf\<close> into \<open>path\<close>, which has room for 17 bytes with the terminator.\<close>

definition proc_path :: "u32 \<Rightarrow> bytes outcome" where
  "proc_path pid =
     (let p = str ''/proc/'' @ decimal (unat pid) @ str ''/stat''
      in if length p + 1 \<le> 6 + 6 + 5 then Inr p else Inl Out_of_bounds)"

text \<open>\<open>strtok\<close> on the rest of the buffer: the token, if there is one, and what is left behind it.\<close>

definition strtok :: "bytes \<Rightarrow> (bytes option \<times> bytes) outcome" where
  "strtok s = (case dropWhile (\<lambda>c. c = 32) s of
       [] \<Rightarrow> Inl Out_of_bounds
     | c # cs \<Rightarrow>
         if c = 0 then Inr (None, c # cs)
         else (case dropWhile (\<lambda>c. c \<noteq> 32 \<and> c \<noteq> 0) cs of
             [] \<Rightarrow> Inl Out_of_bounds
           | d # r \<Rightarrow> Inr (Some (c # takeWhile (\<lambda>c. c \<noteq> 32 \<and> c \<noteq> 0) cs), if d = 0 then d # r else r)))"

text \<open>The first character of the third word: the state of the process.\<close>

definition process_status :: "bytes \<Rightarrow> bytes \<Rightarrow> byte outcome" where
  "process_status junk content =
     (let buf = take 99 content @ drop (length (take 99 content)) (take 100 junk) in
      obind (strtok buf) (\<lambda>(_, r). obind (strtok r) (\<lambda>(_, r). obind (strtok r) (\<lambda>(t, _).
        case t of None \<Rightarrow> Inl Null_pointer | Some s \<Rightarrow> Inr (hd s)))))"

datatype process_state = Gone | Zombie | Running

definition look_at :: "bytes \<Rightarrow> (u32 \<Rightarrow> bytes option) \<Rightarrow> u32 \<Rightarrow> process_state outcome" where
  "look_at junk proc pid =
     obind (proc_path pid) (\<lambda>_. case proc pid of
         None \<Rightarrow> Inr Gone
       | Some content \<Rightarrow> obind (process_status junk content) (\<lambda>c. Inr (if c = 90 then Zombie else Running)))"

section \<open>\<open>Service_Manager::update_services\<close>\<close>

definition restart :: "spawner \<Rightarrow> morpheus_services \<Rightarrow> service_manager \<Rightarrow> service_manager" where
  "restart spawn key st = (case key of
       LOGINSERVER \<Rightarrow> snd (run_realmd spawn st)
     | GAMESERVER \<Rightarrow> snd (run_proxyd spawn st)
     | _ \<Rightarrow> st)"

definition erase_at :: "nat \<Rightarrow> 'a list \<Rightarrow> 'a list" where
  "erase_at i xs = take i xs @ drop (Suc i) xs"

lemma length_mm_insert [simp]: "length (mm_insert k v xs) = Suc (length xs)"
  by (induction k v xs rule: mm_insert.induct) auto

lemmas run_defs = restart_def run_realmd_def run_proxyd_def run_service_def Let_def

lemma restarted_length:
  "i < length (svcs st) \<Longrightarrow> length (erase_at i (svcs (restart spawn key st))) \<le> length (svcs st)"
  by (cases key) (auto simp: run_defs erase_at_def split: option.splits)

lemma restart_measure:
  assumes "i \<noteq> length (svcs st)" "\<not> length (svcs st) < i" "svcs st1 = svcs st"
  shows "length (erase_at i (svcs (restart spawn key st1))) - i < Suc (length (svcs st)) - i"
  using restarted_length [of i st1 spawn key] assms by simp

text \<open>The loop with its iterator at the i-th entry.  A dead service is started again, which inserts the
  new process behind it, then its entry is erased; \<open>erase(iter++)\<close> moves the iterator once and the head
  of the loop once more.  A handle is closed only when the process runs.\<close>

function update_loop :: "spawner \<Rightarrow> bytes \<Rightarrow> (u32 \<Rightarrow> bytes option) \<Rightarrow> nat \<Rightarrow> service_manager \<Rightarrow> service_manager outcome" where
  "update_loop spawn junk proc i st =
     (if i = length (svcs st) then Inr st
      else if length (svcs st) < i then Inl Dangling
      else let (key, si) = svcs st ! i in
        if \<not> status_on si then update_loop spawn junk proc (i + 1) st
        else (case look_at junk proc (svc_pid si) of
            Inl e \<Rightarrow> Inl e
          | Inr Running \<Rightarrow> update_loop spawn junk proc (i + 1) st
          | Inr s \<Rightarrow>
              let st1 = (if s = Zombie then st\<lparr>killed := killed st @ [svc_pid si], open_handles := open_handles st + 1\<rparr> else st);
                  st2 = restart spawn key st1;
                  st3 = st2\<lparr>svcs := erase_at i (svcs st2)\<rparr>
              in update_loop spawn junk proc (i + 1) st3))"
  by pat_completeness auto
termination
  by (relation "measure (\<lambda>(spawn, junk, proc, i, st). Suc (length (svcs st)) - i)") (simp_all add: restart_measure)

declare update_loop.simps [simp del]

definition update_services :: "spawner \<Rightarrow> bytes \<Rightarrow> (u32 \<Rightarrow> bytes option) \<Rightarrow> service_manager \<Rightarrow> service_manager outcome" where
  "update_services spawn junk proc st = update_loop spawn junk proc 0 st"

section \<open>\<open>main\<close>\<close>

fun start_services :: "spawner \<Rightarrow> bytes list \<Rightarrow> service_manager \<Rightarrow> service_manager" where
  "start_services spawn [] st = st"
| "start_services spawn (a # as) st =
     start_services spawn as
       (if a = str ''-realm'' then snd (run_realmd spawn st)
        else if a = str ''-proxy'' then snd (run_proxyd spawn st) else st)"

text \<open>What a process with these arguments does: the daemons' \<open>start\<close>, or the supervision of the
  services that the arguments name.\<close>

datatype main_role = Returns_minus_1 | Realm_daemon | Game_daemon | Supervises service_manager

definition ace_main :: "spawner \<Rightarrow> bytes list \<Rightarrow> main_role" where
  "ace_main spawn argv =
     (if length argv < 2 then Returns_minus_1
      else if argv ! 1 = str ''runrealmd'' then Realm_daemon
      else if argv ! 1 = str ''rungamed'' then Game_daemon
      else Supervises (start_services spawn (tl argv)
        \<lparr>sup_args = argv, svcs = [], started = [], killed = [], open_handles = 0\<rparr>))"

text \<open>The loop of the supervisor: one look at the processes each second.\<close>

definition supervise :: "spawner \<Rightarrow> bytes \<Rightarrow> (u32 \<Rightarrow> bytes option) list \<Rightarrow> service_manager \<Rightarrow> service_manager outcome" where
  "supervise spawn junk procs st = ofold (update_services spawn junk) procs st"

section \<open>What a round does\<close>

definition managed :: "service_manager \<Rightarrow> bool" where
  "managed st \<longleftrightarrow> om_sorted (svcs st) \<and> (\<forall>(key, si)\<in>set (svcs st). key \<in> {LOGINSERVER, GAMESERVER} \<and> status_on si)"

definition command_of :: "bytes \<Rightarrow> morpheus_services \<Rightarrow> bytes list" where
  "command_of self key = [self, if key = LOGINSERVER then str ''runrealmd'' else str ''rungamed'']"

text \<open>Every service keeps its place; a dead one has the process of the next start.\<close>

fun restarted :: "spawner \<Rightarrow> (u32 \<Rightarrow> bool) \<Rightarrow> bytes \<Rightarrow> nat \<Rightarrow> (morpheus_services \<times> service_info) list
    \<Rightarrow> (morpheus_services \<times> service_info) list" where
  "restarted spawn dead self n [] = []"
| "restarted spawn dead self n ((key, si) # xs) =
     (if dead (svc_pid si)
      then (key, ServiceInfo (the (spawn n (command_of self key)))) # restarted spawn dead self (Suc n) xs
      else (key, si) # restarted spawn dead self n xs)"

definition is_dead :: "bytes \<Rightarrow> (u32 \<Rightarrow> bytes option) \<Rightarrow> u32 \<Rightarrow> bool" where
  "is_dead junk proc pid \<longleftrightarrow> look_at junk proc pid \<in> {Inr Gone, Inr Zombie}"

definition dead_commands :: "bytes \<Rightarrow> (u32 \<Rightarrow> bool) \<Rightarrow> (morpheus_services \<times> service_info) list \<Rightarrow> bytes list list" where
  "dead_commands self dead xs = map (\<lambda>e. command_of self (fst e)) (filter (\<lambda>e. dead (svc_pid (snd e))) xs)"

lemma mm_insert_between:
  assumes "om_sorted (pre @ (key, si) # post)"
  shows "mm_insert key v (pre @ (key, si) # post) = pre @ (key, si) # (key, v) # post"
proof -
  have tail: "mm_insert key v post = (key, v) # post"
    using assms by (cases post) (auto simp: om_sorted_def sorted_wrt_append)
  have "\<forall>e\<in>set pre. fst e < key" using assms by (auto simp: om_sorted_def sorted_wrt_append)
  then show ?thesis
    by (induction pre) (auto simp: tail)
qed

lemma erase_at_append [simp]: "erase_at (length pre) (pre @ x # post) = pre @ post"
  by (simp add: erase_at_def)

lemma restart_spawned:
  assumes "svcs st = pre @ (key, si) # post" "om_sorted (svcs st)" "key \<in> {LOGINSERVER, GAMESERVER}"
    and "spawn (length (started st)) (command_of (hd (sup_args st)) key) = Some pid"
  shows "restart spawn key st = st\<lparr>started := started st @ [command_of (hd (sup_args st)) key],
     svcs := pre @ (key, si) # (key, ServiceInfo pid) # post\<rparr>"
  using assms mm_insert_between [of pre key si post "ServiceInfo pid"]
  by (auto simp: run_defs command_of_def)

lemma restarted_keys [simp]: "map fst (restarted spawn dead self n xs) = map fst xs"
  by (induction spawn dead self n xs rule: restarted.induct) auto

lemma loop_restarts:
  assumes "svcs st = pre @ post" "om_sorted (svcs st)" "self = hd (sup_args st)"
    and "\<forall>(key, si)\<in>set post. key \<in> {LOGINSERVER, GAMESERVER} \<and> status_on si \<and> (\<exists>s. look_at junk proc (svc_pid si) = Inr s)"
    and "\<And>n key. spawn n (command_of self key) \<noteq> None"
  shows "\<exists>st'. update_loop spawn junk proc (length pre) st = Inr st' \<and>
     svcs st' = pre @ restarted spawn (is_dead junk proc) self (length (started st)) post \<and>
     started st' = started st @ dead_commands self (is_dead junk proc) post \<and> sup_args st' = sup_args st"
  using assms(1-4)
proof (induction post arbitrary: pre st)
  case Nil
  then show ?case by (simp add: update_loop.simps dead_commands_def)
next
  case (Cons e post)
  obtain key si where e: "e = (key, si)" by fastforce
  from Cons.prems e obtain s where s: "look_at junk proc (svc_pid si) = Inr s" "status_on si" "key \<in> {LOGINSERVER, GAMESERVER}"
    by auto
  show ?case
  proof (cases s)
    case Running
    then have "\<not> is_dead junk proc (svc_pid si)" using s by (simp add: is_dead_def)
    moreover have "update_loop spawn junk proc (length pre) st = update_loop spawn junk proc (length (pre @ [e])) st"
      using Cons.prems(1) s e Running by (subst update_loop.simps) simp
    ultimately show ?thesis
      using Cons.IH [of st "pre @ [e]"] Cons.prems e by (simp add: dead_commands_def)
  next
    define st1 where "st1 = (if s = Zombie then st\<lparr>killed := killed st @ [svc_pid si], open_handles := open_handles st + 1\<rparr> else st)"
    have same: "svcs st1 = svcs st" "started st1 = started st" "sup_args st1 = sup_args st" by (simp_all add: st1_def)
    obtain pid where pid: "spawn (length (started st)) (command_of self key) = Some pid" using assms(5) by fast
    let ?st3 = "(restart spawn key st1)\<lparr>svcs := erase_at (length pre) (svcs (restart spawn key st1))\<rparr>"
    have r: "restart spawn key st1 = st1\<lparr>started := started st @ [command_of self key],
        svcs := pre @ (key, si) # (key, ServiceInfo pid) # post\<rparr>"
      using restart_spawned [of st1 pre key si post spawn pid] Cons.prems e s(3) pid by (simp add: same)
    have st3: "svcs ?st3 = (pre @ [(key, ServiceInfo pid)]) @ post" "started ?st3 = started st @ [command_of self key]"
        "sup_args ?st3 = sup_args st"
      by (simp_all add: r same)
    have sorted: "om_sorted (svcs ?st3)"
      using Cons.prems(2) unfolding st3 Cons.prems(1) e by (auto simp: om_sorted_def sorted_wrt_append)
    have dead: "update_loop spawn junk proc (length pre) st = update_loop spawn junk proc (length (pre @ [(key, ServiceInfo pid)])) ?st3"
      if "s \<noteq> Running"
      using Cons.prems(1) s e that by (subst update_loop.simps) (cases s; simp add: st1_def Let_def)
    have isd: "is_dead junk proc (svc_pid si)" if "s \<noteq> Running"
      using s that by (cases s) (simp_all add: is_dead_def)
    note step = Cons.IH [OF st3(1) sorted] 
    { case Gone
      with step show ?thesis unfolding dead [unfolded Gone, simplified]
        using isd Cons.prems e pid by (simp add: st3 dead_commands_def) }
    { case Zombie
      with step show ?thesis unfolding dead [unfolded Zombie, simplified]
        using isd Cons.prems e pid by (simp add: st3 dead_commands_def) }
  qed
qed

section \<open>Properties\<close>

lemma managedD:
  "managed st \<Longrightarrow> om_sorted (svcs st)"
  "managed st \<Longrightarrow> (key, si) \<in> set (svcs st) \<Longrightarrow> key \<in> {LOGINSERVER, GAMESERVER} \<and> status_on si"
  by (auto simp: managed_def)

lemma restarted_managed:
  "\<forall>(key, si)\<in>set xs. key \<in> {LOGINSERVER, GAMESERVER} \<and> status_on si \<Longrightarrow>
   (key, si) \<in> set (restarted spawn dead self n xs) \<Longrightarrow> key \<in> {LOGINSERVER, GAMESERVER} \<and> status_on si"
  by (induction spawn dead self n xs rule: restarted.induct) (auto simp: ServiceInfo_def split: if_splits)

lemma command_role: "ace_main spawn (command_of self key) = (if key = LOGINSERVER then Realm_daemon else Game_daemon)"
  by (simp add: ace_main_def command_of_def str_def)


lemma update_running:
  assumes "svcs st = pre @ post" and "\<forall>e\<in>set pre. status_on (snd e) \<and> look_at junk proc (svc_pid (snd e)) = Inr Running"
  shows "update_services spawn junk proc st = update_loop spawn junk proc (length pre) st"
  using assms
proof (induction pre arbitrary: post rule: rev_induct)
  case (snoc e pre)
  have "update_loop spawn junk proc (length pre) st = update_loop spawn junk proc (length (pre @ [e])) st"
    using snoc.prems by (subst update_loop.simps) (simp add: case_prod_beta)
  with snoc show ?case by simp
qed (simp add: update_services_def)

lemma long_path: "100000 \<le> unat pid \<Longrightarrow> look_at junk proc pid = Inl Out_of_bounds"
  using decimal_length [of 5 "unat pid"] by (simp add: look_at_def proc_path_def Let_def str_def)

text \<open>C25. Where a round goes wrong, with only running services before the place: a process with a number
  of six digits or more overruns the buffer of its path; and when the last service is dead and cannot be
  started again, the iterator is moved past the end of the table.\<close>

theorem failed_restart:
  assumes "svcs st = pre @ (key, si) # post" and "status_on si"
    and "\<forall>e\<in>set pre. status_on (snd e) \<and> look_at junk proc (svc_pid (snd e)) = Inr Running"
  shows "(100000 \<le> unat (svc_pid si) \<longrightarrow> update_services spawn junk proc st = Inl Out_of_bounds) \<and>
     (is_dead junk proc (svc_pid si) \<longrightarrow> post = [] \<longrightarrow> key \<in> {LOGINSERVER, GAMESERVER} \<longrightarrow>
        spawn (length (started st)) (command_of (hd (sup_args st)) key) = None \<longrightarrow>
        update_services spawn junk proc st = Inl Dangling)"
proof -
  note start = update_running [OF assms(1,3), of spawn]
  have "update_services spawn junk proc st = Inl Out_of_bounds" if "100000 \<le> unat (svc_pid si)"
    unfolding start using assms(1,2) long_path [OF that]
    by (subst update_loop.simps) simp
  moreover have "update_services spawn junk proc st = Inl Dangling"
    if "is_dead junk proc (svc_pid si)" "post = []" "key \<in> {LOGINSERVER, GAMESERVER}"
      "spawn (length (started st)) (command_of (hd (sup_args st)) key) = None"
  proof -
    let ?z = "st\<lparr>killed := killed st @ [svc_pid si], open_handles := open_handles st + 1\<rparr>"
    have r: "restart spawn key s = s\<lparr>started := started s @ [command_of (hd (sup_args st)) key]\<rparr>" if "s \<in> {st, ?z}" for s
      using that \<open>key \<in> _\<close> \<open>spawn _ _ = None\<close> by (auto simp: run_defs command_of_def)
    have over: "update_loop spawn junk proc (Suc (length pre)) s = Inl Dangling" if "svcs s = pre" for s
      using that by (subst update_loop.simps) simp
    from \<open>is_dead junk proc (svc_pid si)\<close> consider "look_at junk proc (svc_pid si) = Inr Gone" | "look_at junk proc (svc_pid si) = Inr Zombie"
      by (auto simp: is_dead_def)
    then show ?thesis
      unfolding start using assms(1,2) \<open>post = []\<close> r over
      by cases (subst update_loop.simps, simp)+
  qed
  ultimately show ?thesis by blast
qed

definition small_pids :: "service_manager \<Rightarrow> bool" where
  "small_pids st \<longleftrightarrow> (\<forall>e\<in>set (svcs st). unat (svc_pid (snd e)) < 100000)"

lemma round_kept:
  assumes "managed st" "small_pids st" "hd (sup_args st) = self"
    and spawns: "\<forall>n key. \<exists>pid. spawn n (command_of self key) = Some pid \<and> unat pid < 100000"
    and reads: "\<forall>pid. unat pid < 100000 \<longrightarrow> (\<exists>s. look_at junk proc pid = Inr s)"
  shows "\<exists>st'. update_services spawn junk proc st = Inr st' \<and> managed st' \<and> small_pids st' \<and>
     hd (sup_args st') = self \<and> map fst (svcs st') = map fst (svcs st)"
proof -
  have on: "\<forall>(key, si)\<in>set (svcs st). key \<in> {LOGINSERVER, GAMESERVER} \<and> status_on si"
    using managedD(2) [OF assms(1)] by blast
  then have "\<forall>(key, si)\<in>set (svcs st). key \<in> {LOGINSERVER, GAMESERVER} \<and> status_on si \<and>
      (\<exists>s. look_at junk proc (svc_pid si) = Inr s)"
    using assms(2) reads by (fastforce simp: small_pids_def)
  moreover have "\<And>n key. spawn n (command_of self key) \<noteq> None" using spawns by (metis option.distinct(1))
  ultimately obtain st' where st': "update_services spawn junk proc st = Inr st'"
      "svcs st' = restarted spawn (is_dead junk proc) self (length (started st)) (svcs st)" "sup_args st' = sup_args st"
    using loop_restarts [of st "[]" "svcs st" self junk proc spawn] assms managedD(1)
    by (fastforce simp: update_services_def)
  have small: "\<forall>n key. unat (the (spawn n (command_of self key))) < 100000"
    using spawns by (metis option.sel)
  have "\<forall>e\<in>set (restarted spawn dead self n xs). unat (svc_pid (snd e)) < 100000"
    if "\<forall>e\<in>set xs. unat (svc_pid (snd e)) < 100000" for dead n xs
    using that small
    by (induction spawn dead self n xs rule: restarted.induct) (auto simp: ServiceInfo_def)
  then have "small_pids st'" using assms(2) by (simp add: small_pids_def st'(2))
  moreover have "managed st'"
    using managedD(1) [OF assms(1)] restarted_managed [OF on]
    unfolding managed_def om_sorted_def st'(2) restarted_keys by blast
  ultimately show ?thesis using st' assms(3) by (intro exI [of _ st']) simp
qed

lemma rounds_kept:
  assumes "\<forall>n key. \<exists>pid. spawn n (command_of self key) = Some pid \<and> unat pid < 100000"
  shows "\<forall>proc\<in>set procs. \<forall>pid. unat pid < 100000 \<longrightarrow> (\<exists>s. look_at junk proc pid = Inr s) \<Longrightarrow>
    managed st \<Longrightarrow> small_pids st \<Longrightarrow> hd (sup_args st) = self \<Longrightarrow>
    \<exists>st'. supervise spawn junk procs st = Inr st' \<and> map fst (svcs st') = map fst (svcs st)"
proof (induction procs arbitrary: st)
  case (Cons proc procs)
  have "\<forall>pid. unat pid < 100000 \<longrightarrow> (\<exists>s. look_at junk proc pid = Inr s)" using Cons.prems(1) by simp
  from round_kept [OF Cons.prems(2-4) assms this] obtain st1 where
    "update_services spawn junk proc st = Inr st1" "managed st1" "small_pids st1" "hd (sup_args st1) = self"
    "map fst (svcs st1) = map fst (svcs st)"
    by blast
  with Cons.IH [of st1] Cons.prems(1) show ?case by (simp add: supervise_def)
qed (simp add: supervise_def)


section \<open>Witnesses\<close>

text \<open>A machine that starts processes 300, 301 and so on; only the process 301 is gone, then only 300 is
  a zombie.\<close>

definition demo_spawn :: spawner where
  "demo_spawn n cmd = Some (300 + of_nat (n mod 1000))"

definition demo_proc :: "u32 \<Rightarrow> bytes option" where
  "demo_proc pid = (if pid = 301 then None else Some (str ''300 (m) '' @ (if pid = 300 then str ''Z 1'' else str ''S 1'')))"

lemma demo_look: "unat pid < 100000 \<Longrightarrow> look_at [] demo_proc pid = Inr (if pid = 301 then Gone else if pid = 300 then Zombie else Running)"
  using decimal_length [of 5 "unat pid"]
  by (simp add: look_at_def proc_path_def Let_def str_def demo_proc_def process_status_def strtok_def)

lemma demo_spawn_small: "\<exists>pid. demo_spawn n cmd = Some pid \<and> unat pid < 100000"
proof -
  have "unat (300 + of_nat k :: u32) < 100000" if "k < 1000" for k
    using that by (simp add: unat_plus_if' unat_of_nat_small)
  from this [of "n mod 1000"] show ?thesis by (simp add: demo_spawn_def)
qed

definition demo_manager :: service_manager where
  "demo_manager = \<lparr>sup_args = [str ''m''], svcs = [(LOGINSERVER, ServiceInfo 300), (GAMESERVER, ServiceInfo 301)],
     started = [[], []], killed = [], open_handles = 0\<rparr>"

lemma demo_managed: "managed demo_manager"
  by (simp add: managed_def demo_manager_def om_sorted_def less_morpheus_services_def ServiceInfo_def)


theorem failed_restart_witness:
  "update_services (\<lambda>_ _. None) [] demo_proc (demo_manager\<lparr>svcs := [(LOGINSERVER, ServiceInfo 7), (GAMESERVER, ServiceInfo 301)]\<rparr>) = Inl Dangling"
proof -
  let ?st = "demo_manager\<lparr>svcs := [(LOGINSERVER, ServiceInfo 7), (GAMESERVER, ServiceInfo 301)]\<rparr>"
  have "svcs ?st = [(LOGINSERVER, ServiceInfo 7)] @ (GAMESERVER, ServiceInfo 301) # []" by simp
  moreover have "status_on (ServiceInfo 301)" "is_dead [] demo_proc (svc_pid (ServiceInfo 301))"
      "\<forall>e\<in>set [(LOGINSERVER, ServiceInfo 7)]. status_on (snd e) \<and> look_at [] demo_proc (svc_pid (snd e)) = Inr Running"
    by (simp_all add: ServiceInfo_def is_dead_def demo_look)
  ultimately show ?thesis by (subst failed_restart [THEN conjunct2, rule_format]) auto
qed


end
