(* ===== verification/Opcodes.thy ===== *)
theory Opcodes
  imports Main
begin

text \<open>
  The opcodes of the protocol and their names (src/common/tbc/Opcodes.h), as the two tables of the
  source, each in parts of 150 entries.
\<close>

section \<open>The enumeration\<close>

definition opcodes_0 :: "(string \<times> nat) list" where
  "opcodes_0 = [
    (''MSG_NULL_ACTION'', 0x000), (''CMSG_BOOTME'', 0x001), (''CMSG_DBLOOKUP'', 0x002),
    (''SMSG_DBLOOKUP'', 0x003), (''CMSG_QUERY_OBJECT_POSITION'', 0x004), (''SMSG_QUERY_OBJECT_POSITION'', 0x005),
    (''CMSG_QUERY_OBJECT_ROTATION'', 0x006), (''SMSG_QUERY_OBJECT_ROTATION'', 0x007), (''CMSG_WORLD_TELEPORT'', 0x008),
    (''CMSG_TELEPORT_TO_UNIT'', 0x009), (''CMSG_ZONE_MAP'', 0x00A), (''SMSG_ZONE_MAP'', 0x00B),
    (''CMSG_DEBUG_CHANGECELLZONE'', 0x00C), (''CMSG_EMBLAZON_TABARD_OBSOLETE'', 0x00D), (''CMSG_UNEMBLAZON_TABARD_OBSOLETE'', 0x00E),
    (''CMSG_RECHARGE'', 0x00F), (''CMSG_LEARN_SPELL'', 0x010), (''CMSG_CREATEMONSTER'', 0x011),
    (''CMSG_DESTROYMONSTER'', 0x012), (''CMSG_CREATEITEM'', 0x013), (''CMSG_CREATEGAMEOBJECT'', 0x014),
    (''SMSG_CHECK_FOR_BOTS'', 0x015), (''CMSG_MAKEMONSTERATTACKGUID'', 0x016), (''CMSG_BOT_DETECTED2'', 0x017),
    (''CMSG_FORCEACTION'', 0x018), (''CMSG_FORCEACTIONONOTHER'', 0x019), (''CMSG_FORCEACTIONSHOW'', 0x01A),
    (''SMSG_FORCEACTIONSHOW'', 0x01B), (''CMSG_PETGODMODE'', 0x01C), (''SMSG_PETGODMODE'', 0x01D),
    (''SMSG_DEBUGINFOSPELLMISS_OBSOLETE'', 0x01E), (''CMSG_WEATHER_SPEED_CHEAT'', 0x01F), (''CMSG_UNDRESSPLAYER'', 0x020),
    (''CMSG_BEASTMASTER'', 0x021), (''CMSG_GODMODE'', 0x022), (''SMSG_GODMODE'', 0x023),
    (''CMSG_CHEAT_SETMONEY'', 0x024), (''CMSG_LEVEL_CHEAT'', 0x025), (''CMSG_PET_LEVEL_CHEAT'', 0x026),
    (''CMSG_SET_WORLDSTATE'', 0x027), (''CMSG_COOLDOWN_CHEAT'', 0x028), (''CMSG_USE_SKILL_CHEAT'', 0x029),
    (''CMSG_FLAG_QUEST'', 0x02A), (''CMSG_FLAG_QUEST_FINISH'', 0x02B), (''CMSG_CLEAR_QUEST'', 0x02C),
    (''CMSG_SEND_EVENT'', 0x02D), (''CMSG_DEBUG_AISTATE'', 0x02E), (''SMSG_DEBUG_AISTATE'', 0x02F),
    (''CMSG_DISABLE_PVP_CHEAT'', 0x030), (''CMSG_ADVANCE_SPAWN_TIME'', 0x031), (''CMSG_PVP_PORT_OBSOLETE'', 0x032),
    (''CMSG_AUTH_SRP6_BEGIN'', 0x033), (''CMSG_AUTH_SRP6_PROOF'', 0x034), (''CMSG_AUTH_SRP6_RECODE'', 0x035),
    (''CMSG_CHAR_CREATE'', 0x036), (''CMSG_CHAR_ENUM'', 0x037), (''CMSG_CHAR_DELETE'', 0x038),
    (''SMSG_AUTH_SRP6_RESPONSE'', 0x039), (''SMSG_CHAR_CREATE'', 0x03A), (''SMSG_CHAR_ENUM'', 0x03B),
    (''SMSG_CHAR_DELETE'', 0x03C), (''CMSG_PLAYER_LOGIN'', 0x03D), (''SMSG_NEW_WORLD'', 0x03E),
    (''SMSG_TRANSFER_PENDING'', 0x03F), (''SMSG_TRANSFER_ABORTED'', 0x040), (''SMSG_CHARACTER_LOGIN_FAILED'', 0x041),
    (''SMSG_LOGIN_SETTIMESPEED'', 0x042), (''SMSG_GAMETIME_UPDATE'', 0x043), (''CMSG_GAMETIME_SET'', 0x044),
    (''SMSG_GAMETIME_SET'', 0x045), (''CMSG_GAMESPEED_SET'', 0x046), (''SMSG_GAMESPEED_SET'', 0x047),
    (''CMSG_SERVERTIME'', 0x048), (''SMSG_SERVERTIME'', 0x049), (''CMSG_PLAYER_LOGOUT'', 0x04A),
    (''CMSG_LOGOUT_REQUEST'', 0x04B), (''SMSG_LOGOUT_RESPONSE'', 0x04C), (''SMSG_LOGOUT_COMPLETE'', 0x04D),
    (''CMSG_LOGOUT_CANCEL'', 0x04E), (''SMSG_LOGOUT_CANCEL_ACK'', 0x04F), (''CMSG_NAME_QUERY'', 0x050),
    (''SMSG_NAME_QUERY_RESPONSE'', 0x051), (''CMSG_PET_NAME_QUERY'', 0x052), (''SMSG_PET_NAME_QUERY_RESPONSE'', 0x053),
    (''CMSG_GUILD_QUERY'', 0x054), (''SMSG_GUILD_QUERY_RESPONSE'', 0x055), (''CMSG_ITEM_QUERY_SINGLE'', 0x056),
    (''CMSG_ITEM_QUERY_MULTIPLE'', 0x057), (''SMSG_ITEM_QUERY_SINGLE_RESPONSE'', 0x058), (''SMSG_ITEM_QUERY_MULTIPLE_RESPONSE'', 0x059),
    (''CMSG_PAGE_TEXT_QUERY'', 0x05A), (''SMSG_PAGE_TEXT_QUERY_RESPONSE'', 0x05B), (''CMSG_QUEST_QUERY'', 0x05C),
    (''SMSG_QUEST_QUERY_RESPONSE'', 0x05D), (''CMSG_GAMEOBJECT_QUERY'', 0x05E), (''SMSG_GAMEOBJECT_QUERY_RESPONSE'', 0x05F),
    (''CMSG_CREATURE_QUERY'', 0x060), (''SMSG_CREATURE_QUERY_RESPONSE'', 0x061), (''CMSG_WHO'', 0x062),
    (''SMSG_WHO'', 0x063), (''CMSG_WHOIS'', 0x064), (''SMSG_WHOIS'', 0x065),
    (''CMSG_CONTACT_LIST'', 0x066), (''SMSG_CONTACT_LIST'', 0x067), (''SMSG_FRIEND_STATUS'', 0x068),
    (''CMSG_ADD_FRIEND'', 0x069), (''CMSG_DEL_FRIEND'', 0x06A), (''CMSG_SET_CONTACT_NOTES'', 0x06B),
    (''CMSG_ADD_IGNORE'', 0x06C), (''CMSG_DEL_IGNORE'', 0x06D), (''CMSG_GROUP_INVITE'', 0x06E),
    (''SMSG_GROUP_INVITE'', 0x06F), (''CMSG_GROUP_CANCEL'', 0x070), (''SMSG_GROUP_CANCEL'', 0x071),
    (''CMSG_GROUP_ACCEPT'', 0x072), (''CMSG_GROUP_DECLINE'', 0x073), (''SMSG_GROUP_DECLINE'', 0x074),
    (''CMSG_GROUP_UNINVITE'', 0x075), (''CMSG_GROUP_UNINVITE_GUID'', 0x076), (''SMSG_GROUP_UNINVITE'', 0x077),
    (''CMSG_GROUP_SET_LEADER'', 0x078), (''SMSG_GROUP_SET_LEADER'', 0x079), (''CMSG_LOOT_METHOD'', 0x07A),
    (''CMSG_GROUP_DISBAND'', 0x07B), (''SMSG_GROUP_DESTROYED'', 0x07C), (''SMSG_GROUP_LIST'', 0x07D),
    (''SMSG_PARTY_MEMBER_STATS'', 0x07E), (''SMSG_PARTY_COMMAND_RESULT'', 0x07F), (''UMSG_UPDATE_GROUP_MEMBERS'', 0x080),
    (''CMSG_GUILD_CREATE'', 0x081), (''CMSG_GUILD_INVITE'', 0x082), (''SMSG_GUILD_INVITE'', 0x083),
    (''CMSG_GUILD_ACCEPT'', 0x084), (''CMSG_GUILD_DECLINE'', 0x085), (''SMSG_GUILD_DECLINE'', 0x086),
    (''CMSG_GUILD_INFO'', 0x087), (''SMSG_GUILD_INFO'', 0x088), (''CMSG_GUILD_ROSTER'', 0x089),
    (''SMSG_GUILD_ROSTER'', 0x08A), (''CMSG_GUILD_PROMOTE'', 0x08B), (''CMSG_GUILD_DEMOTE'', 0x08C),
    (''CMSG_GUILD_LEAVE'', 0x08D), (''CMSG_GUILD_REMOVE'', 0x08E), (''CMSG_GUILD_DISBAND'', 0x08F),
    (''CMSG_GUILD_LEADER'', 0x090), (''CMSG_GUILD_MOTD'', 0x091), (''SMSG_GUILD_EVENT'', 0x092),
    (''SMSG_GUILD_COMMAND_RESULT'', 0x093), (''UMSG_UPDATE_GUILD'', 0x094), (''CMSG_MESSAGECHAT'', 0x095)]"

definition opcodes_1 :: "(string \<times> nat) list" where
  "opcodes_1 = [
    (''SMSG_MESSAGECHAT'', 0x096), (''CMSG_JOIN_CHANNEL'', 0x097), (''CMSG_LEAVE_CHANNEL'', 0x098),
    (''SMSG_CHANNEL_NOTIFY'', 0x099), (''CMSG_CHANNEL_LIST'', 0x09A), (''SMSG_CHANNEL_LIST'', 0x09B),
    (''CMSG_CHANNEL_PASSWORD'', 0x09C), (''CMSG_CHANNEL_SET_OWNER'', 0x09D), (''CMSG_CHANNEL_OWNER'', 0x09E),
    (''CMSG_CHANNEL_MODERATOR'', 0x09F), (''CMSG_CHANNEL_UNMODERATOR'', 0x0A0), (''CMSG_CHANNEL_MUTE'', 0x0A1),
    (''CMSG_CHANNEL_UNMUTE'', 0x0A2), (''CMSG_CHANNEL_INVITE'', 0x0A3), (''CMSG_CHANNEL_KICK'', 0x0A4),
    (''CMSG_CHANNEL_BAN'', 0x0A5), (''CMSG_CHANNEL_UNBAN'', 0x0A6), (''CMSG_CHANNEL_ANNOUNCEMENTS'', 0x0A7),
    (''CMSG_CHANNEL_MODERATE'', 0x0A8), (''SMSG_UPDATE_OBJECT'', 0x0A9), (''SMSG_DESTROY_OBJECT'', 0x0AA),
    (''CMSG_USE_ITEM'', 0x0AB), (''CMSG_OPEN_ITEM'', 0x0AC), (''CMSG_READ_ITEM'', 0x0AD),
    (''SMSG_READ_ITEM_OK'', 0x0AE), (''SMSG_READ_ITEM_FAILED'', 0x0AF), (''SMSG_ITEM_COOLDOWN'', 0x0B0),
    (''CMSG_GAMEOBJ_USE'', 0x0B1), (''CMSG_GAMEOBJ_CHAIR_USE_OBSOLETE'', 0x0B2), (''SMSG_GAMEOBJECT_CUSTOM_ANIM'', 0x0B3),
    (''CMSG_AREATRIGGER'', 0x0B4), (''MSG_MOVE_START_FORWARD'', 0x0B5), (''MSG_MOVE_START_BACKWARD'', 0x0B6),
    (''MSG_MOVE_STOP'', 0x0B7), (''MSG_MOVE_START_STRAFE_LEFT'', 0x0B8), (''MSG_MOVE_START_STRAFE_RIGHT'', 0x0B9),
    (''MSG_MOVE_STOP_STRAFE'', 0x0BA), (''MSG_MOVE_JUMP'', 0x0BB), (''MSG_MOVE_START_TURN_LEFT'', 0x0BC),
    (''MSG_MOVE_START_TURN_RIGHT'', 0x0BD), (''MSG_MOVE_STOP_TURN'', 0x0BE), (''MSG_MOVE_START_PITCH_UP'', 0x0BF),
    (''MSG_MOVE_START_PITCH_DOWN'', 0x0C0), (''MSG_MOVE_STOP_PITCH'', 0x0C1), (''MSG_MOVE_SET_RUN_MODE'', 0x0C2),
    (''MSG_MOVE_SET_WALK_MODE'', 0x0C3), (''MSG_MOVE_TOGGLE_LOGGING'', 0x0C4), (''MSG_MOVE_TELEPORT'', 0x0C5),
    (''MSG_MOVE_TELEPORT_CHEAT'', 0x0C6), (''MSG_MOVE_TELEPORT_ACK'', 0x0C7), (''MSG_MOVE_TOGGLE_FALL_LOGGING'', 0x0C8),
    (''MSG_MOVE_FALL_LAND'', 0x0C9), (''MSG_MOVE_START_SWIM'', 0x0CA), (''MSG_MOVE_STOP_SWIM'', 0x0CB),
    (''MSG_MOVE_SET_RUN_SPEED_CHEAT'', 0x0CC), (''MSG_MOVE_SET_RUN_SPEED'', 0x0CD), (''MSG_MOVE_SET_RUN_BACK_SPEED_CHEAT'', 0x0CE),
    (''MSG_MOVE_SET_RUN_BACK_SPEED'', 0x0CF), (''MSG_MOVE_SET_WALK_SPEED_CHEAT'', 0x0D0), (''MSG_MOVE_SET_WALK_SPEED'', 0x0D1),
    (''MSG_MOVE_SET_SWIM_SPEED_CHEAT'', 0x0D2), (''MSG_MOVE_SET_SWIM_SPEED'', 0x0D3), (''MSG_MOVE_SET_SWIM_BACK_SPEED_CHEAT'', 0x0D4),
    (''MSG_MOVE_SET_SWIM_BACK_SPEED'', 0x0D5), (''MSG_MOVE_SET_ALL_SPEED_CHEAT'', 0x0D6), (''MSG_MOVE_SET_TURN_RATE_CHEAT'', 0x0D7),
    (''MSG_MOVE_SET_TURN_RATE'', 0x0D8), (''MSG_MOVE_TOGGLE_COLLISION_CHEAT'', 0x0D9), (''MSG_MOVE_SET_FACING'', 0x0DA),
    (''MSG_MOVE_SET_PITCH'', 0x0DB), (''MSG_MOVE_WORLDPORT_ACK'', 0x0DC), (''SMSG_MONSTER_MOVE'', 0x0DD),
    (''SMSG_MOVE_WATER_WALK'', 0x0DE), (''SMSG_MOVE_LAND_WALK'', 0x0DF), (''MSG_MOVE_SET_RAW_POSITION_ACK'', 0x0E0),
    (''CMSG_MOVE_SET_RAW_POSITION'', 0x0E1), (''SMSG_FORCE_RUN_SPEED_CHANGE'', 0x0E2), (''CMSG_FORCE_RUN_SPEED_CHANGE_ACK'', 0x0E3),
    (''SMSG_FORCE_RUN_BACK_SPEED_CHANGE'', 0x0E4), (''CMSG_FORCE_RUN_BACK_SPEED_CHANGE_ACK'', 0x0E5), (''SMSG_FORCE_SWIM_SPEED_CHANGE'', 0x0E6),
    (''CMSG_FORCE_SWIM_SPEED_CHANGE_ACK'', 0x0E7), (''SMSG_FORCE_MOVE_ROOT'', 0x0E8), (''CMSG_FORCE_MOVE_ROOT_ACK'', 0x0E9),
    (''SMSG_FORCE_MOVE_UNROOT'', 0x0EA), (''CMSG_FORCE_MOVE_UNROOT_ACK'', 0x0EB), (''MSG_MOVE_ROOT'', 0x0EC),
    (''MSG_MOVE_UNROOT'', 0x0ED), (''MSG_MOVE_HEARTBEAT'', 0x0EE), (''SMSG_MOVE_KNOCK_BACK'', 0x0EF),
    (''CMSG_MOVE_KNOCK_BACK_ACK'', 0x0F0), (''MSG_MOVE_KNOCK_BACK'', 0x0F1), (''SMSG_MOVE_FEATHER_FALL'', 0x0F2),
    (''SMSG_MOVE_NORMAL_FALL'', 0x0F3), (''SMSG_MOVE_SET_HOVER'', 0x0F4), (''SMSG_MOVE_UNSET_HOVER'', 0x0F5),
    (''CMSG_MOVE_HOVER_ACK'', 0x0F6), (''MSG_MOVE_HOVER'', 0x0F7), (''CMSG_TRIGGER_CINEMATIC_CHEAT'', 0x0F8),
    (''CMSG_OPENING_CINEMATIC'', 0x0F9), (''SMSG_TRIGGER_CINEMATIC'', 0x0FA), (''CMSG_NEXT_CINEMATIC_CAMERA'', 0x0FB),
    (''CMSG_COMPLETE_CINEMATIC'', 0x0FC), (''SMSG_TUTORIAL_FLAGS'', 0x0FD), (''CMSG_TUTORIAL_FLAG'', 0x0FE),
    (''CMSG_TUTORIAL_CLEAR'', 0x0FF), (''CMSG_TUTORIAL_RESET'', 0x100), (''CMSG_STANDSTATECHANGE'', 0x101),
    (''CMSG_EMOTE'', 0x102), (''SMSG_EMOTE'', 0x103), (''CMSG_TEXT_EMOTE'', 0x104),
    (''SMSG_TEXT_EMOTE'', 0x105), (''CMSG_AUTOEQUIP_GROUND_ITEM'', 0x106), (''CMSG_AUTOSTORE_GROUND_ITEM'', 0x107),
    (''CMSG_AUTOSTORE_LOOT_ITEM'', 0x108), (''CMSG_STORE_LOOT_IN_SLOT'', 0x109), (''CMSG_AUTOEQUIP_ITEM'', 0x10A),
    (''CMSG_AUTOSTORE_BAG_ITEM'', 0x10B), (''CMSG_SWAP_ITEM'', 0x10C), (''CMSG_SWAP_INV_ITEM'', 0x10D),
    (''CMSG_SPLIT_ITEM'', 0x10E), (''CMSG_AUTOEQUIP_ITEM_SLOT'', 0x10F), (''OBSOLETE_DROP_ITEM'', 0x110),
    (''CMSG_DESTROYITEM'', 0x111), (''SMSG_INVENTORY_CHANGE_FAILURE'', 0x112), (''SMSG_OPEN_CONTAINER'', 0x113),
    (''CMSG_INSPECT'', 0x114), (''SMSG_INSPECT'', 0x115), (''CMSG_INITIATE_TRADE'', 0x116),
    (''CMSG_BEGIN_TRADE'', 0x117), (''CMSG_BUSY_TRADE'', 0x118), (''CMSG_IGNORE_TRADE'', 0x119),
    (''CMSG_ACCEPT_TRADE'', 0x11A), (''CMSG_UNACCEPT_TRADE'', 0x11B), (''CMSG_CANCEL_TRADE'', 0x11C),
    (''CMSG_SET_TRADE_ITEM'', 0x11D), (''CMSG_CLEAR_TRADE_ITEM'', 0x11E), (''CMSG_SET_TRADE_GOLD'', 0x11F),
    (''SMSG_TRADE_STATUS'', 0x120), (''SMSG_TRADE_STATUS_EXTENDED'', 0x121), (''SMSG_INITIALIZE_FACTIONS'', 0x122),
    (''SMSG_SET_FACTION_VISIBLE'', 0x123), (''SMSG_SET_FACTION_STANDING'', 0x124), (''CMSG_SET_FACTION_ATWAR'', 0x125),
    (''CMSG_SET_FACTION_CHEAT'', 0x126), (''SMSG_SET_PROFICIENCY'', 0x127), (''CMSG_SET_ACTION_BUTTON'', 0x128),
    (''SMSG_ACTION_BUTTONS'', 0x129), (''SMSG_INITIAL_SPELLS'', 0x12A), (''SMSG_LEARNED_SPELL'', 0x12B)]"

definition opcodes_2 :: "(string \<times> nat) list" where
  "opcodes_2 = [
    (''SMSG_SUPERCEDED_SPELL'', 0x12C), (''CMSG_NEW_SPELL_SLOT'', 0x12D), (''CMSG_CAST_SPELL'', 0x12E),
    (''CMSG_CANCEL_CAST'', 0x12F), (''SMSG_CAST_FAILED'', 0x130), (''SMSG_SPELL_START'', 0x131),
    (''SMSG_SPELL_GO'', 0x132), (''SMSG_SPELL_FAILURE'', 0x133), (''SMSG_SPELL_COOLDOWN'', 0x134),
    (''SMSG_COOLDOWN_EVENT'', 0x135), (''CMSG_CANCEL_AURA'', 0x136), (''SMSG_UPDATE_AURA_DURATION'', 0x137),
    (''SMSG_PET_CAST_FAILED'', 0x138), (''MSG_CHANNEL_START'', 0x139), (''MSG_CHANNEL_UPDATE'', 0x13A),
    (''CMSG_CANCEL_CHANNELLING'', 0x13B), (''SMSG_AI_REACTION'', 0x13C), (''CMSG_SET_SELECTION'', 0x13D),
    (''CMSG_SET_TARGET_OBSOLETE'', 0x13E), (''CMSG_UNUSED'', 0x13F), (''CMSG_UNUSED2'', 0x140),
    (''CMSG_ATTACKSWING'', 0x141), (''CMSG_ATTACKSTOP'', 0x142), (''SMSG_ATTACKSTART'', 0x143),
    (''SMSG_ATTACKSTOP'', 0x144), (''SMSG_ATTACKSWING_NOTINRANGE'', 0x145), (''SMSG_ATTACKSWING_BADFACING'', 0x146),
    (''SMSG_ATTACKSWING_NOTSTANDING'', 0x147), (''SMSG_ATTACKSWING_DEADTARGET'', 0x148), (''SMSG_ATTACKSWING_CANT_ATTACK'', 0x149),
    (''SMSG_ATTACKERSTATEUPDATE'', 0x14A), (''SMSG_VICTIMSTATEUPDATE_OBSOLETE'', 0x14B), (''SMSG_DAMAGE_DONE_OBSOLETE'', 0x14C),
    (''SMSG_DAMAGE_TAKEN_OBSOLETE'', 0x14D), (''SMSG_CANCEL_COMBAT'', 0x14E), (''SMSG_PLAYER_COMBAT_XP_GAIN_OBSOLETE'', 0x14F),
    (''SMSG_SPELLHEALLOG'', 0x150), (''SMSG_SPELLENERGIZELOG'', 0x151), (''CMSG_SHEATHE_OBSOLETE'', 0x152),
    (''CMSG_SAVE_PLAYER'', 0x153), (''CMSG_SETDEATHBINDPOINT'', 0x154), (''SMSG_BINDPOINTUPDATE'', 0x155),
    (''CMSG_GETDEATHBINDZONE'', 0x156), (''SMSG_BINDZONEREPLY'', 0x157), (''SMSG_PLAYERBOUND'', 0x158),
    (''SMSG_CLIENT_CONTROL_UPDATE'', 0x159), (''CMSG_REPOP_REQUEST'', 0x15A), (''SMSG_RESURRECT_REQUEST'', 0x15B),
    (''CMSG_RESURRECT_RESPONSE'', 0x15C), (''CMSG_LOOT'', 0x15D), (''CMSG_LOOT_MONEY'', 0x15E),
    (''CMSG_LOOT_RELEASE'', 0x15F), (''SMSG_LOOT_RESPONSE'', 0x160), (''SMSG_LOOT_RELEASE_RESPONSE'', 0x161),
    (''SMSG_LOOT_REMOVED'', 0x162), (''SMSG_LOOT_MONEY_NOTIFY'', 0x163), (''SMSG_LOOT_ITEM_NOTIFY'', 0x164),
    (''SMSG_LOOT_CLEAR_MONEY'', 0x165), (''SMSG_ITEM_PUSH_RESULT'', 0x166), (''SMSG_DUEL_REQUESTED'', 0x167),
    (''SMSG_DUEL_OUTOFBOUNDS'', 0x168), (''SMSG_DUEL_INBOUNDS'', 0x169), (''SMSG_DUEL_COMPLETE'', 0x16A),
    (''SMSG_DUEL_WINNER'', 0x16B), (''CMSG_DUEL_ACCEPTED'', 0x16C), (''CMSG_DUEL_CANCELLED'', 0x16D),
    (''SMSG_MOUNTRESULT'', 0x16E), (''SMSG_DISMOUNTRESULT'', 0x16F), (''SMSG_PUREMOUNT_CANCELLED_OBSOLETE'', 0x170),
    (''CMSG_MOUNTSPECIAL_ANIM'', 0x171), (''SMSG_MOUNTSPECIAL_ANIM'', 0x172), (''SMSG_PET_TAME_FAILURE'', 0x173),
    (''CMSG_PET_SET_ACTION'', 0x174), (''CMSG_PET_ACTION'', 0x175), (''CMSG_PET_ABANDON'', 0x176),
    (''CMSG_PET_RENAME'', 0x177), (''SMSG_PET_NAME_INVALID'', 0x178), (''SMSG_PET_SPELLS'', 0x179),
    (''SMSG_PET_MODE'', 0x17A), (''CMSG_GOSSIP_HELLO'', 0x17B), (''CMSG_GOSSIP_SELECT_OPTION'', 0x17C),
    (''SMSG_GOSSIP_MESSAGE'', 0x17D), (''SMSG_GOSSIP_COMPLETE'', 0x17E), (''CMSG_NPC_TEXT_QUERY'', 0x17F),
    (''SMSG_NPC_TEXT_UPDATE'', 0x180), (''SMSG_NPC_WONT_TALK'', 0x181), (''CMSG_QUESTGIVER_STATUS_QUERY'', 0x182),
    (''SMSG_QUESTGIVER_STATUS'', 0x183), (''CMSG_QUESTGIVER_HELLO'', 0x184), (''SMSG_QUESTGIVER_QUEST_LIST'', 0x185),
    (''CMSG_QUESTGIVER_QUERY_QUEST'', 0x186), (''CMSG_QUESTGIVER_QUEST_AUTOLAUNCH'', 0x187), (''SMSG_QUESTGIVER_QUEST_DETAILS'', 0x188),
    (''CMSG_QUESTGIVER_ACCEPT_QUEST'', 0x189), (''CMSG_QUESTGIVER_COMPLETE_QUEST'', 0x18A), (''SMSG_QUESTGIVER_REQUEST_ITEMS'', 0x18B),
    (''CMSG_QUESTGIVER_REQUEST_REWARD'', 0x18C), (''SMSG_QUESTGIVER_OFFER_REWARD'', 0x18D), (''CMSG_QUESTGIVER_CHOOSE_REWARD'', 0x18E),
    (''SMSG_QUESTGIVER_QUEST_INVALID'', 0x18F), (''CMSG_QUESTGIVER_CANCEL'', 0x190), (''SMSG_QUESTGIVER_QUEST_COMPLETE'', 0x191),
    (''SMSG_QUESTGIVER_QUEST_FAILED'', 0x192), (''CMSG_QUESTLOG_SWAP_QUEST'', 0x193), (''CMSG_QUESTLOG_REMOVE_QUEST'', 0x194),
    (''SMSG_QUESTLOG_FULL'', 0x195), (''SMSG_QUESTUPDATE_FAILED'', 0x196), (''SMSG_QUESTUPDATE_FAILEDTIMER'', 0x197),
    (''SMSG_QUESTUPDATE_COMPLETE'', 0x198), (''SMSG_QUESTUPDATE_ADD_KILL'', 0x199), (''SMSG_QUESTUPDATE_ADD_ITEM'', 0x19A),
    (''CMSG_QUEST_CONFIRM_ACCEPT'', 0x19B), (''SMSG_QUEST_CONFIRM_ACCEPT'', 0x19C), (''CMSG_PUSHQUESTTOPARTY'', 0x19D),
    (''CMSG_LIST_INVENTORY'', 0x19E), (''SMSG_LIST_INVENTORY'', 0x19F), (''CMSG_SELL_ITEM'', 0x1A0),
    (''SMSG_SELL_ITEM'', 0x1A1), (''CMSG_BUY_ITEM'', 0x1A2), (''CMSG_BUY_ITEM_IN_SLOT'', 0x1A3),
    (''SMSG_BUY_ITEM'', 0x1A4), (''SMSG_BUY_FAILED'', 0x1A5), (''CMSG_TAXICLEARALLNODES'', 0x1A6),
    (''CMSG_TAXIENABLEALLNODES'', 0x1A7), (''CMSG_TAXISHOWNODES'', 0x1A8), (''SMSG_SHOWTAXINODES'', 0x1A9),
    (''CMSG_TAXINODE_STATUS_QUERY'', 0x1AA), (''SMSG_TAXINODE_STATUS'', 0x1AB), (''CMSG_TAXIQUERYAVAILABLENODES'', 0x1AC),
    (''CMSG_ACTIVATETAXI'', 0x1AD), (''SMSG_ACTIVATETAXIREPLY'', 0x1AE), (''SMSG_NEW_TAXI_PATH'', 0x1AF),
    (''CMSG_TRAINER_LIST'', 0x1B0), (''SMSG_TRAINER_LIST'', 0x1B1), (''CMSG_TRAINER_BUY_SPELL'', 0x1B2),
    (''SMSG_TRAINER_BUY_SUCCEEDED'', 0x1B3), (''SMSG_TRAINER_BUY_FAILED'', 0x1B4), (''CMSG_BINDER_ACTIVATE'', 0x1B5),
    (''SMSG_PLAYERBINDERROR'', 0x1B6), (''CMSG_BANKER_ACTIVATE'', 0x1B7), (''SMSG_SHOW_BANK'', 0x1B8),
    (''CMSG_BUY_BANK_SLOT'', 0x1B9), (''SMSG_BUY_BANK_SLOT_RESULT'', 0x1BA), (''CMSG_PETITION_SHOWLIST'', 0x1BB),
    (''SMSG_PETITION_SHOWLIST'', 0x1BC), (''CMSG_PETITION_BUY'', 0x1BD), (''CMSG_PETITION_SHOW_SIGNATURES'', 0x1BE),
    (''SMSG_PETITION_SHOW_SIGNATURES'', 0x1BF), (''CMSG_PETITION_SIGN'', 0x1C0), (''SMSG_PETITION_SIGN_RESULTS'', 0x1C1)]"

definition opcodes_3 :: "(string \<times> nat) list" where
  "opcodes_3 = [
    (''MSG_PETITION_DECLINE'', 0x1C2), (''CMSG_OFFER_PETITION'', 0x1C3), (''CMSG_TURN_IN_PETITION'', 0x1C4),
    (''SMSG_TURN_IN_PETITION_RESULTS'', 0x1C5), (''CMSG_PETITION_QUERY'', 0x1C6), (''SMSG_PETITION_QUERY_RESPONSE'', 0x1C7),
    (''SMSG_FISH_NOT_HOOKED'', 0x1C8), (''SMSG_FISH_ESCAPED'', 0x1C9), (''CMSG_BUG'', 0x1CA),
    (''SMSG_NOTIFICATION'', 0x1CB), (''CMSG_PLAYED_TIME'', 0x1CC), (''SMSG_PLAYED_TIME'', 0x1CD),
    (''CMSG_QUERY_TIME'', 0x1CE), (''SMSG_QUERY_TIME_RESPONSE'', 0x1CF), (''SMSG_LOG_XPGAIN'', 0x1D0),
    (''SMSG_AURACASTLOG'', 0x1D1), (''CMSG_RECLAIM_CORPSE'', 0x1D2), (''CMSG_WRAP_ITEM'', 0x1D3),
    (''SMSG_LEVELUP_INFO'', 0x1D4), (''MSG_MINIMAP_PING'', 0x1D5), (''SMSG_RESISTLOG'', 0x1D6),
    (''SMSG_ENCHANTMENTLOG'', 0x1D7), (''CMSG_SET_SKILL_CHEAT'', 0x1D8), (''SMSG_START_MIRROR_TIMER'', 0x1D9),
    (''SMSG_PAUSE_MIRROR_TIMER'', 0x1DA), (''SMSG_STOP_MIRROR_TIMER'', 0x1DB), (''CMSG_PING'', 0x1DC),
    (''SMSG_PONG'', 0x1DD), (''SMSG_CLEAR_COOLDOWN'', 0x1DE), (''SMSG_GAMEOBJECT_PAGETEXT'', 0x1DF),
    (''CMSG_SETSHEATHED'', 0x1E0), (''SMSG_COOLDOWN_CHEAT'', 0x1E1), (''SMSG_SPELL_DELAYED'', 0x1E2),
    (''CMSG_PLAYER_MACRO_OBSOLETE'', 0x1E3), (''SMSG_PLAYER_MACRO_OBSOLETE'', 0x1E4), (''CMSG_GHOST'', 0x1E5),
    (''CMSG_GM_INVIS'', 0x1E6), (''SMSG_INVALID_PROMOTION_CODE'', 0x1E7), (''MSG_GM_BIND_OTHER'', 0x1E8),
    (''MSG_GM_SUMMON'', 0x1E9), (''SMSG_ITEM_TIME_UPDATE'', 0x1EA), (''SMSG_ITEM_ENCHANT_TIME_UPDATE'', 0x1EB),
    (''SMSG_AUTH_CHALLENGE'', 0x1EC), (''CMSG_AUTH_SESSION'', 0x1ED), (''SMSG_AUTH_RESPONSE'', 0x1EE),
    (''MSG_GM_SHOWLABEL'', 0x1EF), (''CMSG_PET_CAST_SPELL'', 0x1F0), (''MSG_SAVE_GUILD_EMBLEM'', 0x1F1),
    (''MSG_TABARDVENDOR_ACTIVATE'', 0x1F2), (''SMSG_PLAY_SPELL_VISUAL'', 0x1F3), (''CMSG_ZONEUPDATE'', 0x1F4),
    (''SMSG_PARTYKILLLOG'', 0x1F5), (''SMSG_COMPRESSED_UPDATE_OBJECT'', 0x1F6), (''SMSG_PLAY_SPELL_IMPACT'', 0x1F7),
    (''SMSG_EXPLORATION_EXPERIENCE'', 0x1F8), (''CMSG_GM_SET_SECURITY_GROUP'', 0x1F9), (''CMSG_GM_NUKE'', 0x1FA),
    (''MSG_RANDOM_ROLL'', 0x1FB), (''SMSG_ENVIRONMENTALDAMAGELOG'', 0x1FC), (''CMSG_RWHOIS_OBSOLETE'', 0x1FD),
    (''SMSG_RWHOIS'', 0x1FE), (''MSG_LOOKING_FOR_GROUP'', 0x1FF), (''CMSG_SET_LOOKING_FOR_GROUP'', 0x200),
    (''CMSG_UNLEARN_SPELL'', 0x201), (''CMSG_UNLEARN_SKILL'', 0x202), (''SMSG_REMOVED_SPELL'', 0x203),
    (''CMSG_DECHARGE'', 0x204), (''CMSG_GMTICKET_CREATE'', 0x205), (''SMSG_GMTICKET_CREATE'', 0x206),
    (''CMSG_GMTICKET_UPDATETEXT'', 0x207), (''SMSG_GMTICKET_UPDATETEXT'', 0x208), (''SMSG_ACCOUNT_DATA_TIMES'', 0x209),
    (''CMSG_REQUEST_ACCOUNT_DATA'', 0x20A), (''CMSG_UPDATE_ACCOUNT_DATA'', 0x20B), (''SMSG_UPDATE_ACCOUNT_DATA'', 0x20C),
    (''SMSG_CLEAR_FAR_SIGHT_IMMEDIATE'', 0x20D), (''SMSG_POWERGAINLOG_OBSOLETE'', 0x20E), (''CMSG_GM_TEACH'', 0x20F),
    (''CMSG_GM_CREATE_ITEM_TARGET'', 0x210), (''CMSG_GMTICKET_GETTICKET'', 0x211), (''SMSG_GMTICKET_GETTICKET'', 0x212),
    (''CMSG_UNLEARN_TALENTS'', 0x213), (''SMSG_GAMEOBJECT_SPAWN_ANIM_OBSOLETE'', 0x214), (''SMSG_GAMEOBJECT_DESPAWN_ANIM'', 0x215),
    (''MSG_CORPSE_QUERY'', 0x216), (''CMSG_GMTICKET_DELETETICKET'', 0x217), (''SMSG_GMTICKET_DELETETICKET'', 0x218),
    (''SMSG_CHAT_WRONG_FACTION'', 0x219), (''CMSG_GMTICKET_SYSTEMSTATUS'', 0x21A), (''SMSG_GMTICKET_SYSTEMSTATUS'', 0x21B),
    (''CMSG_SPIRIT_HEALER_ACTIVATE'', 0x21C), (''CMSG_SET_STAT_CHEAT'', 0x21D), (''SMSG_SET_REST_START'', 0x21E),
    (''CMSG_SKILL_BUY_STEP'', 0x21F), (''CMSG_SKILL_BUY_RANK'', 0x220), (''CMSG_XP_CHEAT'', 0x221),
    (''SMSG_SPIRIT_HEALER_CONFIRM'', 0x222), (''CMSG_CHARACTER_POINT_CHEAT'', 0x223), (''SMSG_GOSSIP_POI'', 0x224),
    (''CMSG_CHAT_IGNORED'', 0x225), (''CMSG_GM_VISION'', 0x226), (''CMSG_SERVER_COMMAND'', 0x227),
    (''CMSG_GM_SILENCE'', 0x228), (''CMSG_GM_REVEALTO'', 0x229), (''CMSG_GM_RESURRECT'', 0x22A),
    (''CMSG_GM_SUMMONMOB'', 0x22B), (''CMSG_GM_MOVECORPSE'', 0x22C), (''CMSG_GM_FREEZE'', 0x22D),
    (''CMSG_GM_UBERINVIS'', 0x22E), (''CMSG_GM_REQUEST_PLAYER_INFO'', 0x22F), (''SMSG_GM_PLAYER_INFO'', 0x230),
    (''CMSG_GUILD_RANK'', 0x231), (''CMSG_GUILD_ADD_RANK'', 0x232), (''CMSG_GUILD_DEL_RANK'', 0x233),
    (''CMSG_GUILD_SET_PUBLIC_NOTE'', 0x234), (''CMSG_GUILD_SET_OFFICER_NOTE'', 0x235), (''SMSG_LOGIN_VERIFY_WORLD'', 0x236),
    (''CMSG_CLEAR_EXPLORATION'', 0x237), (''CMSG_SEND_MAIL'', 0x238), (''SMSG_SEND_MAIL_RESULT'', 0x239),
    (''CMSG_GET_MAIL_LIST'', 0x23A), (''SMSG_MAIL_LIST_RESULT'', 0x23B), (''CMSG_BATTLEFIELD_LIST'', 0x23C),
    (''SMSG_BATTLEFIELD_LIST'', 0x23D), (''CMSG_BATTLEFIELD_JOIN'', 0x23E), (''SMSG_BATTLEFIELD_WIN_OBSOLETE'', 0x23F),
    (''SMSG_BATTLEFIELD_LOSE_OBSOLETE'', 0x240), (''CMSG_TAXICLEARNODE'', 0x241), (''CMSG_TAXIENABLENODE'', 0x242),
    (''CMSG_ITEM_TEXT_QUERY'', 0x243), (''SMSG_ITEM_TEXT_QUERY_RESPONSE'', 0x244), (''CMSG_MAIL_TAKE_MONEY'', 0x245),
    (''CMSG_MAIL_TAKE_ITEM'', 0x246), (''CMSG_MAIL_MARK_AS_READ'', 0x247), (''CMSG_MAIL_RETURN_TO_SENDER'', 0x248),
    (''CMSG_MAIL_DELETE'', 0x249), (''CMSG_MAIL_CREATE_TEXT_ITEM'', 0x24A), (''SMSG_SPELLLOGMISS'', 0x24B),
    (''SMSG_SPELLLOGEXECUTE'', 0x24C), (''SMSG_DEBUGAURAPROC'', 0x24D), (''SMSG_PERIODICAURALOG'', 0x24E),
    (''SMSG_SPELLDAMAGESHIELD'', 0x24F), (''SMSG_SPELLNONMELEEDAMAGELOG'', 0x250), (''CMSG_LEARN_TALENT'', 0x251),
    (''SMSG_RESURRECT_FAILED'', 0x252), (''CMSG_TOGGLE_PVP'', 0x253), (''SMSG_ZONE_UNDER_ATTACK'', 0x254),
    (''MSG_AUCTION_HELLO'', 0x255), (''CMSG_AUCTION_SELL_ITEM'', 0x256), (''CMSG_AUCTION_REMOVE_ITEM'', 0x257)]"

definition opcodes_4 :: "(string \<times> nat) list" where
  "opcodes_4 = [
    (''CMSG_AUCTION_LIST_ITEMS'', 0x258), (''CMSG_AUCTION_LIST_OWNER_ITEMS'', 0x259), (''CMSG_AUCTION_PLACE_BID'', 0x25A),
    (''SMSG_AUCTION_COMMAND_RESULT'', 0x25B), (''SMSG_AUCTION_LIST_RESULT'', 0x25C), (''SMSG_AUCTION_OWNER_LIST_RESULT'', 0x25D),
    (''SMSG_AUCTION_BIDDER_NOTIFICATION'', 0x25E), (''SMSG_AUCTION_OWNER_NOTIFICATION'', 0x25F), (''SMSG_PROCRESIST'', 0x260),
    (''SMSG_STANDSTATE_CHANGE_FAILURE_OBSOLETE'', 0x261), (''SMSG_DISPEL_FAILED'', 0x262), (''SMSG_SPELLORDAMAGE_IMMUNE'', 0x263),
    (''CMSG_AUCTION_LIST_BIDDER_ITEMS'', 0x264), (''SMSG_AUCTION_BIDDER_LIST_RESULT'', 0x265), (''SMSG_SET_FLAT_SPELL_MODIFIER'', 0x266),
    (''SMSG_SET_PCT_SPELL_MODIFIER'', 0x267), (''CMSG_SET_AMMO'', 0x268), (''SMSG_CORPSE_RECLAIM_DELAY'', 0x269),
    (''CMSG_SET_ACTIVE_MOVER'', 0x26A), (''CMSG_PET_CANCEL_AURA'', 0x26B), (''CMSG_PLAYER_AI_CHEAT'', 0x26C),
    (''CMSG_CANCEL_AUTO_REPEAT_SPELL'', 0x26D), (''MSG_GM_ACCOUNT_ONLINE'', 0x26E), (''MSG_LIST_STABLED_PETS'', 0x26F),
    (''CMSG_STABLE_PET'', 0x270), (''CMSG_UNSTABLE_PET'', 0x271), (''CMSG_BUY_STABLE_SLOT'', 0x272),
    (''SMSG_STABLE_RESULT'', 0x273), (''CMSG_STABLE_REVIVE_PET'', 0x274), (''CMSG_STABLE_SWAP_PET'', 0x275),
    (''MSG_QUEST_PUSH_RESULT'', 0x276), (''SMSG_PLAY_MUSIC'', 0x277), (''SMSG_PLAY_OBJECT_SOUND'', 0x278),
    (''CMSG_REQUEST_PET_INFO'', 0x279), (''CMSG_FAR_SIGHT'', 0x27A), (''SMSG_SPELLDISPELLOG'', 0x27B),
    (''SMSG_DAMAGE_CALC_LOG'', 0x27C), (''CMSG_ENABLE_DAMAGE_LOG'', 0x27D), (''CMSG_GROUP_CHANGE_SUB_GROUP'', 0x27E),
    (''CMSG_REQUEST_PARTY_MEMBER_STATS'', 0x27F), (''CMSG_GROUP_SWAP_SUB_GROUP'', 0x280), (''CMSG_RESET_FACTION_CHEAT'', 0x281),
    (''CMSG_AUTOSTORE_BANK_ITEM'', 0x282), (''CMSG_AUTOBANK_ITEM'', 0x283), (''MSG_QUERY_NEXT_MAIL_TIME'', 0x284),
    (''SMSG_RECEIVED_MAIL'', 0x285), (''SMSG_RAID_GROUP_ONLY'', 0x286), (''CMSG_SET_DURABILITY_CHEAT'', 0x287),
    (''CMSG_SET_PVP_RANK_CHEAT'', 0x288), (''CMSG_ADD_PVP_MEDAL_CHEAT'', 0x289), (''CMSG_DEL_PVP_MEDAL_CHEAT'', 0x28A),
    (''CMSG_SET_PVP_TITLE'', 0x28B), (''SMSG_PVP_CREDIT'', 0x28C), (''SMSG_AUCTION_REMOVED_NOTIFICATION'', 0x28D),
    (''CMSG_GROUP_RAID_CONVERT'', 0x28E), (''CMSG_GROUP_ASSISTANT_LEADER'', 0x28F), (''CMSG_BUYBACK_ITEM'', 0x290),
    (''SMSG_SERVER_MESSAGE'', 0x291), (''CMSG_MEETINGSTONE_JOIN'', 0x292), (''CMSG_MEETINGSTONE_LEAVE'', 0x293),
    (''CMSG_MEETINGSTONE_CHEAT'', 0x294), (''SMSG_MEETINGSTONE_SETQUEUE'', 0x295), (''CMSG_MEETINGSTONE_INFO'', 0x296),
    (''SMSG_MEETINGSTONE_COMPLETE'', 0x297), (''SMSG_MEETINGSTONE_IN_PROGRESS'', 0x298), (''SMSG_MEETINGSTONE_MEMBER_ADDED'', 0x299),
    (''CMSG_GMTICKETSYSTEM_TOGGLE'', 0x29A), (''CMSG_CANCEL_GROWTH_AURA'', 0x29B), (''SMSG_CANCEL_AUTO_REPEAT'', 0x29C),
    (''SMSG_STANDSTATE_UPDATE'', 0x29D), (''SMSG_LOOT_ALL_PASSED'', 0x29E), (''SMSG_LOOT_ROLL_WON'', 0x29F),
    (''CMSG_LOOT_ROLL'', 0x2A0), (''SMSG_LOOT_START_ROLL'', 0x2A1), (''SMSG_LOOT_ROLL'', 0x2A2),
    (''CMSG_LOOT_MASTER_GIVE'', 0x2A3), (''SMSG_LOOT_MASTER_LIST'', 0x2A4), (''SMSG_SET_FORCED_REACTIONS'', 0x2A5),
    (''SMSG_SPELL_FAILED_OTHER'', 0x2A6), (''SMSG_GAMEOBJECT_RESET_STATE'', 0x2A7), (''CMSG_REPAIR_ITEM'', 0x2A8),
    (''SMSG_CHAT_PLAYER_NOT_FOUND'', 0x2A9), (''MSG_TALENT_WIPE_CONFIRM'', 0x2AA), (''SMSG_SUMMON_REQUEST'', 0x2AB),
    (''CMSG_SUMMON_RESPONSE'', 0x2AC), (''MSG_MOVE_TOGGLE_GRAVITY_CHEAT'', 0x2AD), (''SMSG_MONSTER_MOVE_TRANSPORT'', 0x2AE),
    (''SMSG_PET_BROKEN'', 0x2AF), (''MSG_MOVE_FEATHER_FALL'', 0x2B0), (''MSG_MOVE_WATER_WALK'', 0x2B1),
    (''CMSG_SERVER_BROADCAST'', 0x2B2), (''CMSG_SELF_RES'', 0x2B3), (''SMSG_FEIGN_DEATH_RESISTED'', 0x2B4),
    (''CMSG_RUN_SCRIPT'', 0x2B5), (''SMSG_SCRIPT_MESSAGE'', 0x2B6), (''SMSG_DUEL_COUNTDOWN'', 0x2B7),
    (''SMSG_AREA_TRIGGER_MESSAGE'', 0x2B8), (''CMSG_TOGGLE_HELM'', 0x2B9), (''CMSG_TOGGLE_CLOAK'', 0x2BA),
    (''SMSG_MEETINGSTONE_JOINFAILED'', 0x2BB), (''SMSG_PLAYER_SKINNED'', 0x2BC), (''SMSG_DURABILITY_DAMAGE_DEATH'', 0x2BD),
    (''CMSG_SET_EXPLORATION'', 0x2BE), (''CMSG_SET_ACTIONBAR_TOGGLES'', 0x2BF), (''UMSG_DELETE_GUILD_CHARTER'', 0x2C0),
    (''MSG_PETITION_RENAME'', 0x2C1), (''SMSG_INIT_WORLD_STATES'', 0x2C2), (''SMSG_UPDATE_WORLD_STATE'', 0x2C3),
    (''CMSG_ITEM_NAME_QUERY'', 0x2C4), (''SMSG_ITEM_NAME_QUERY_RESPONSE'', 0x2C5), (''SMSG_PET_ACTION_FEEDBACK'', 0x2C6),
    (''CMSG_CHAR_RENAME'', 0x2C7), (''SMSG_CHAR_RENAME'', 0x2C8), (''CMSG_MOVE_SPLINE_DONE'', 0x2C9),
    (''CMSG_MOVE_FALL_RESET'', 0x2CA), (''SMSG_INSTANCE_SAVE_CREATED'', 0x2CB), (''SMSG_RAID_INSTANCE_INFO'', 0x2CC),
    (''CMSG_REQUEST_RAID_INFO'', 0x2CD), (''CMSG_MOVE_TIME_SKIPPED'', 0x2CE), (''CMSG_MOVE_FEATHER_FALL_ACK'', 0x2CF),
    (''CMSG_MOVE_WATER_WALK_ACK'', 0x2D0), (''CMSG_MOVE_NOT_ACTIVE_MOVER'', 0x2D1), (''SMSG_PLAY_SOUND'', 0x2D2),
    (''CMSG_BATTLEFIELD_STATUS'', 0x2D3), (''SMSG_BATTLEFIELD_STATUS'', 0x2D4), (''CMSG_BATTLEFIELD_PORT'', 0x2D5),
    (''MSG_INSPECT_HONOR_STATS'', 0x2D6), (''CMSG_BATTLEMASTER_HELLO'', 0x2D7), (''CMSG_MOVE_START_SWIM_CHEAT'', 0x2D8),
    (''CMSG_MOVE_STOP_SWIM_CHEAT'', 0x2D9), (''SMSG_FORCE_WALK_SPEED_CHANGE'', 0x2DA), (''CMSG_FORCE_WALK_SPEED_CHANGE_ACK'', 0x2DB),
    (''SMSG_FORCE_SWIM_BACK_SPEED_CHANGE'', 0x2DC), (''CMSG_FORCE_SWIM_BACK_SPEED_CHANGE_ACK'', 0x2DD), (''SMSG_FORCE_TURN_RATE_CHANGE'', 0x2DE),
    (''CMSG_FORCE_TURN_RATE_CHANGE_ACK'', 0x2DF), (''MSG_PVP_LOG_DATA'', 0x2E0), (''CMSG_LEAVE_BATTLEFIELD'', 0x2E1),
    (''CMSG_AREA_SPIRIT_HEALER_QUERY'', 0x2E2), (''CMSG_AREA_SPIRIT_HEALER_QUEUE'', 0x2E3), (''SMSG_AREA_SPIRIT_HEALER_TIME'', 0x2E4),
    (''CMSG_GM_UNTEACH'', 0x2E5), (''SMSG_WARDEN_DATA'', 0x2E6), (''CMSG_WARDEN_DATA'', 0x2E7),
    (''SMSG_GROUP_JOINED_BATTLEGROUND'', 0x2E8), (''MSG_BATTLEGROUND_PLAYER_POSITIONS'', 0x2E9), (''CMSG_PET_STOP_ATTACK'', 0x2EA),
    (''SMSG_BINDER_CONFIRM'', 0x2EB), (''SMSG_BATTLEGROUND_PLAYER_JOINED'', 0x2EC), (''SMSG_BATTLEGROUND_PLAYER_LEFT'', 0x2ED)]"

definition opcodes_5 :: "(string \<times> nat) list" where
  "opcodes_5 = [
    (''CMSG_BATTLEMASTER_JOIN'', 0x2EE), (''SMSG_ADDON_INFO'', 0x2EF), (''CMSG_PET_UNLEARN'', 0x2F0),
    (''SMSG_PET_UNLEARN_CONFIRM'', 0x2F1), (''SMSG_PARTY_MEMBER_STATS_FULL'', 0x2F2), (''CMSG_PET_SPELL_AUTOCAST'', 0x2F3),
    (''SMSG_WEATHER'', 0x2F4), (''SMSG_PLAY_TIME_WARNING'', 0x2F5), (''SMSG_MINIGAME_SETUP'', 0x2F6),
    (''SMSG_MINIGAME_STATE'', 0x2F7), (''CMSG_MINIGAME_MOVE'', 0x2F8), (''SMSG_MINIGAME_MOVE_FAILED'', 0x2F9),
    (''SMSG_RAID_INSTANCE_MESSAGE'', 0x2FA), (''SMSG_COMPRESSED_MOVES'', 0x2FB), (''CMSG_GUILD_INFO_TEXT'', 0x2FC),
    (''SMSG_CHAT_RESTRICTED'', 0x2FD), (''SMSG_SPLINE_SET_RUN_SPEED'', 0x2FE), (''SMSG_SPLINE_SET_RUN_BACK_SPEED'', 0x2FF),
    (''SMSG_SPLINE_SET_SWIM_SPEED'', 0x300), (''SMSG_SPLINE_SET_WALK_SPEED'', 0x301), (''SMSG_SPLINE_SET_SWIM_BACK_SPEED'', 0x302),
    (''SMSG_SPLINE_SET_TURN_RATE'', 0x303), (''SMSG_SPLINE_MOVE_UNROOT'', 0x304), (''SMSG_SPLINE_MOVE_FEATHER_FALL'', 0x305),
    (''SMSG_SPLINE_MOVE_NORMAL_FALL'', 0x306), (''SMSG_SPLINE_MOVE_SET_HOVER'', 0x307), (''SMSG_SPLINE_MOVE_UNSET_HOVER'', 0x308),
    (''SMSG_SPLINE_MOVE_WATER_WALK'', 0x309), (''SMSG_SPLINE_MOVE_LAND_WALK'', 0x30A), (''SMSG_SPLINE_MOVE_START_SWIM'', 0x30B),
    (''SMSG_SPLINE_MOVE_STOP_SWIM'', 0x30C), (''SMSG_SPLINE_MOVE_SET_RUN_MODE'', 0x30D), (''SMSG_SPLINE_MOVE_SET_WALK_MODE'', 0x30E),
    (''CMSG_GM_NUKE_ACCOUNT'', 0x30F), (''MSG_GM_DESTROY_CORPSE'', 0x310), (''CMSG_GM_DESTROY_ONLINE_CORPSE'', 0x311),
    (''CMSG_ACTIVATETAXIEXPRESS'', 0x312), (''SMSG_SET_FACTION_ATWAR'', 0x313), (''SMSG_GAMETIMEBIAS_SET'', 0x314),
    (''CMSG_DEBUG_ACTIONS_START'', 0x315), (''CMSG_DEBUG_ACTIONS_STOP'', 0x316), (''CMSG_SET_FACTION_INACTIVE'', 0x317),
    (''CMSG_SET_WATCHED_FACTION'', 0x318), (''MSG_MOVE_TIME_SKIPPED'', 0x319), (''SMSG_SPLINE_MOVE_ROOT'', 0x31A),
    (''CMSG_SET_EXPLORATION_ALL'', 0x31B), (''SMSG_INVALIDATE_PLAYER'', 0x31C), (''CMSG_RESET_INSTANCES'', 0x31D),
    (''SMSG_INSTANCE_RESET'', 0x31E), (''SMSG_INSTANCE_RESET_FAILED'', 0x31F), (''SMSG_UPDATE_LAST_INSTANCE'', 0x320),
    (''MSG_RAID_TARGET_UPDATE'', 0x321), (''MSG_RAID_READY_CHECK'', 0x322), (''CMSG_LUA_USAGE'', 0x323),
    (''SMSG_PET_ACTION_SOUND'', 0x324), (''SMSG_PET_DISMISS_SOUND'', 0x325), (''SMSG_GHOSTEE_GONE'', 0x326),
    (''CMSG_GM_UPDATE_TICKET_STATUS'', 0x327), (''SMSG_GM_TICKET_STATUS_UPDATE'', 0x328), (''MSG_SET_DUNGEON_DIFFICULTY'', 0x329),
    (''CMSG_GMSURVEY_SUBMIT'', 0x32A), (''SMSG_UPDATE_INSTANCE_OWNERSHIP'', 0x32B), (''CMSG_IGNORE_KNOCKBACK_CHEAT'', 0x32C),
    (''SMSG_CHAT_PLAYER_AMBIGUOUS'', 0x32D), (''MSG_DELAY_GHOST_TELEPORT'', 0x32E), (''SMSG_SPELLINSTAKILLLOG'', 0x32F),
    (''SMSG_SPELL_UPDATE_CHAIN_TARGETS'', 0x330), (''CMSG_CHAT_FILTERED'', 0x331), (''SMSG_EXPECTED_SPAM_RECORDS'', 0x332),
    (''SMSG_SPELLSTEALLOG'', 0x333), (''CMSG_LOTTERY_QUERY_OBSOLETE'', 0x334), (''SMSG_LOTTERY_QUERY_RESULT_OBSOLETE'', 0x335),
    (''CMSG_BUY_LOTTERY_TICKET_OBSOLETE'', 0x336), (''SMSG_LOTTERY_RESULT_OBSOLETE'', 0x337), (''SMSG_CHARACTER_PROFILE'', 0x338),
    (''SMSG_CHARACTER_PROFILE_REALM_CONNECTED'', 0x339), (''SMSG_DEFENSE_MESSAGE'', 0x33A), (''SMSG_INSTANCE_DIFFICULTY'', 0x33B),
    (''MSG_GM_RESETINSTANCELIMIT'', 0x33C), (''SMSG_MOTD'', 0x33D), (''SMSG_MOVE_SET_FLIGHT_OBSOLETE'', 0x33E),
    (''SMSG_MOVE_UNSET_FLIGHT_OBSOLETE'', 0x33F), (''CMSG_MOVE_FLIGHT_ACK_OBSOLETE'', 0x340), (''MSG_MOVE_START_SWIM_CHEAT'', 0x341),
    (''MSG_MOVE_STOP_SWIM_CHEAT'', 0x342), (''SMSG_MOVE_SET_CAN_FLY'', 0x343), (''SMSG_MOVE_UNSET_CAN_FLY'', 0x344),
    (''CMSG_MOVE_SET_CAN_FLY_ACK'', 0x345), (''CMSG_MOVE_SET_FLY'', 0x346), (''CMSG_SOCKET_GEMS'', 0x347),
    (''CMSG_ARENA_TEAM_CREATE'', 0x348), (''SMSG_ARENA_TEAM_COMMAND_RESULT'', 0x349), (''UMSG_UPDATE_ARENA_TEAM_OBSOLETE'', 0x34A),
    (''CMSG_ARENA_TEAM_QUERY'', 0x34B), (''SMSG_ARENA_TEAM_QUERY_RESPONSE'', 0x34C), (''CMSG_ARENA_TEAM_ROSTER'', 0x34D),
    (''SMSG_ARENA_TEAM_ROSTER'', 0x34E), (''CMSG_ARENA_TEAM_INVITE'', 0x34F), (''SMSG_ARENA_TEAM_INVITE'', 0x350),
    (''CMSG_ARENA_TEAM_ACCEPT'', 0x351), (''CMSG_ARENA_TEAM_DECLINE'', 0x352), (''CMSG_ARENA_TEAM_LEAVE'', 0x353),
    (''CMSG_ARENA_TEAM_REMOVE'', 0x354), (''CMSG_ARENA_TEAM_DISBAND'', 0x355), (''CMSG_ARENA_TEAM_LEADER'', 0x356),
    (''SMSG_ARENA_TEAM_EVENT'', 0x357), (''CMSG_BATTLEMASTER_JOIN_ARENA'', 0x358), (''MSG_MOVE_START_ASCEND'', 0x359),
    (''MSG_MOVE_STOP_ASCEND'', 0x35A), (''SMSG_ARENA_TEAM_STATS'', 0x35B), (''CMSG_LFG_SET_AUTOJOIN'', 0x35C),
    (''CMSG_LFG_CLEAR_AUTOJOIN'', 0x35D), (''CMSG_LFM_SET_AUTOFILL'', 0x35E), (''CMSG_LFM_CLEAR_AUTOFILL'', 0x35F),
    (''CMSG_ACCEPT_LFG_MATCH'', 0x360), (''CMSG_DECLINE_LFG_MATCH'', 0x361), (''CMSG_CANCEL_PENDING_LFG'', 0x362),
    (''CMSG_CLEAR_LOOKING_FOR_GROUP'', 0x363), (''CMSG_CLEAR_LOOKING_FOR_MORE'', 0x364), (''CMSG_SET_LOOKING_FOR_MORE'', 0x365),
    (''CMSG_SET_LFG_COMMENT'', 0x366), (''SMSG_LFG_TIMEDOUT'', 0x367), (''SMSG_LFG_OTHER_TIMEDOUT'', 0x368),
    (''SMSG_LFG_AUTOJOIN_FAILED'', 0x369), (''SMSG_LFG_AUTOJOIN_FAILED_NO_PLAYER'', 0x36A), (''SMSG_LFG_LEADER_IS_LFM'', 0x36B),
    (''SMSG_LFG_UPDATE'', 0x36C), (''SMSG_LFG_UPDATE_LFM'', 0x36D), (''SMSG_LFG_UPDATE_LFG'', 0x36E),
    (''SMSG_LFG_UPDATE_QUEUED'', 0x36F), (''SMSG_LFG_PENDING_INVITE'', 0x370), (''SMSG_LFG_PENDING_MATCH'', 0x371),
    (''SMSG_LFG_PENDING_MATCH_DONE'', 0x372), (''SMSG_TITLE_EARNED'', 0x373), (''CMSG_SET_TITLE'', 0x374),
    (''CMSG_CANCEL_MOUNT_AURA'', 0x375), (''SMSG_ARENA_ERROR'', 0x376), (''MSG_INSPECT_ARENA_TEAMS'', 0x377),
    (''SMSG_DEATH_RELEASE_LOC'', 0x378), (''CMSG_CANCEL_TEMP_ENCHANTMENT'', 0x379), (''SMSG_FORCED_DEATH_UPDATE'', 0x37A),
    (''CMSG_CHEAT_SET_HONOR_CURRENCY'', 0x37B), (''CMSG_CHEAT_SET_ARENA_CURRENCY'', 0x37C), (''MSG_MOVE_SET_FLIGHT_SPEED_CHEAT'', 0x37D),
    (''MSG_MOVE_SET_FLIGHT_SPEED'', 0x37E), (''MSG_MOVE_SET_FLIGHT_BACK_SPEED_CHEAT'', 0x37F), (''MSG_MOVE_SET_FLIGHT_BACK_SPEED'', 0x380),
    (''SMSG_FORCE_FLIGHT_SPEED_CHANGE'', 0x381), (''CMSG_FORCE_FLIGHT_SPEED_CHANGE_ACK'', 0x382), (''SMSG_FORCE_FLIGHT_BACK_SPEED_CHANGE'', 0x383)]"

definition opcodes_6 :: "(string \<times> nat) list" where
  "opcodes_6 = [
    (''CMSG_FORCE_FLIGHT_BACK_SPEED_CHANGE_ACK'', 0x384), (''SMSG_SPLINE_SET_FLIGHT_SPEED'', 0x385), (''SMSG_SPLINE_SET_FLIGHT_BACK_SPEED'', 0x386),
    (''CMSG_MAELSTROM_INVALIDATE_CACHE'', 0x387), (''SMSG_FLIGHT_SPLINE_SYNC'', 0x388), (''CMSG_SET_TAXI_BENCHMARK_MODE'', 0x389),
    (''SMSG_JOINED_BATTLEGROUND_QUEUE'', 0x38A), (''SMSG_REALM_SPLIT'', 0x38B), (''CMSG_REALM_SPLIT'', 0x38C),
    (''CMSG_MOVE_CHNG_TRANSPORT'', 0x38D), (''MSG_PARTY_ASSIGNMENT'', 0x38E), (''SMSG_OFFER_PETITION_ERROR'', 0x38F),
    (''SMSG_TIME_SYNC_REQ'', 0x390), (''CMSG_TIME_SYNC_RESP'', 0x391), (''CMSG_SEND_LOCAL_EVENT'', 0x392),
    (''CMSG_SEND_GENERAL_TRIGGER'', 0x393), (''CMSG_SEND_COMBAT_TRIGGER'', 0x394), (''CMSG_MAELSTROM_GM_SENT_MAIL'', 0x395),
    (''SMSG_RESET_FAILED_NOTIFY'', 0x396), (''SMSG_REAL_GROUP_UPDATE'', 0x397), (''SMSG_LFG_DISABLED'', 0x398),
    (''CMSG_ACTIVE_PVP_CHEAT'', 0x399), (''CMSG_CHEAT_DUMP_ITEMS_DEBUG_ONLY'', 0x39A), (''SMSG_CHEAT_DUMP_ITEMS_DEBUG_ONLY_RESPONSE'', 0x39B),
    (''SMSG_CHEAT_DUMP_ITEMS_DEBUG_ONLY_RESPONSE_WRITE_FILE'', 0x39C), (''SMSG_UPDATE_COMBO_POINTS'', 0x39D), (''SMSG_VOICE_SESSION_ROSTER_UPDATE'', 0x39E),
    (''SMSG_VOICE_SESSION_LEAVE'', 0x39F), (''SMSG_VOICE_SESSION_ADJUST_PRIORITY'', 0x3A0), (''CMSG_VOICE_SET_TALKER_MUTED_REQUEST'', 0x3A1),
    (''SMSG_VOICE_SET_TALKER_MUTED'', 0x3A2), (''SMSG_INIT_EXTRA_AURA_INFO'', 0x3A3), (''SMSG_SET_EXTRA_AURA_INFO'', 0x3A4),
    (''SMSG_SET_EXTRA_AURA_INFO_NEED_UPDATE'', 0x3A5), (''SMSG_CLEAR_EXTRA_AURA_INFO'', 0x3A6), (''MSG_MOVE_START_DESCEND'', 0x3A7),
    (''CMSG_IGNORE_REQUIREMENTS_CHEAT'', 0x3A8), (''SMSG_IGNORE_REQUIREMENTS_CHEAT'', 0x3A9), (''SMSG_SPELL_CHANCE_PROC_LOG'', 0x3AA),
    (''CMSG_MOVE_SET_RUN_SPEED'', 0x3AB), (''SMSG_DISMOUNT'', 0x3AC), (''MSG_MOVE_UPDATE_CAN_FLY'', 0x3AD),
    (''MSG_RAID_READY_CHECK_CONFIRM'', 0x3AE), (''CMSG_VOICE_SESSION_ENABLE'', 0x3AF), (''SMSG_VOICE_PARENTAL_CONTROLS'', 0x3B0),
    (''CMSG_GM_WHISPER'', 0x3B1), (''SMSG_GM_MESSAGECHAT'', 0x3B2), (''MSG_GM_GEARRATING'', 0x3B3),
    (''CMSG_COMMENTATOR_ENABLE'', 0x3B4), (''SMSG_COMMENTATOR_STATE_CHANGED'', 0x3B5), (''CMSG_COMMENTATOR_GET_MAP_INFO'', 0x3B6),
    (''SMSG_COMMENTATOR_MAP_INFO'', 0x3B7), (''CMSG_COMMENTATOR_GET_PLAYER_INFO'', 0x3B8), (''SMSG_COMMENTATOR_GET_PLAYER_INFO'', 0x3B9),
    (''SMSG_COMMENTATOR_PLAYER_INFO'', 0x3BA), (''CMSG_COMMENTATOR_ENTER_INSTANCE'', 0x3BB), (''CMSG_COMMENTATOR_EXIT_INSTANCE'', 0x3BC),
    (''CMSG_COMMENTATOR_INSTANCE_COMMAND'', 0x3BD), (''SMSG_CLEAR_TARGET'', 0x3BE), (''CMSG_BOT_DETECTED'', 0x3BF),
    (''SMSG_CROSSED_INEBRIATION_THRESHOLD'', 0x3C0), (''CMSG_CHEAT_PLAYER_LOGIN'', 0x3C1), (''CMSG_CHEAT_PLAYER_LOOKUP'', 0x3C2),
    (''SMSG_CHEAT_PLAYER_LOOKUP'', 0x3C3), (''SMSG_KICK_REASON'', 0x3C4), (''MSG_RAID_READY_CHECK_FINISHED'', 0x3C5),
    (''CMSG_COMPLAIN'', 0x3C6), (''SMSG_COMPLAIN_RESULT'', 0x3C7), (''SMSG_FEATURE_SYSTEM_STATUS'', 0x3C8),
    (''CMSG_GM_SHOW_COMPLAINTS'', 0x3C9), (''CMSG_GM_UNSQUELCH'', 0x3CA), (''CMSG_CHANNEL_SILENCE_VOICE'', 0x3CB),
    (''CMSG_CHANNEL_SILENCE_ALL'', 0x3CC), (''CMSG_CHANNEL_UNSILENCE_VOICE'', 0x3CD), (''CMSG_CHANNEL_UNSILENCE_ALL'', 0x3CE),
    (''CMSG_TARGET_CAST'', 0x3CF), (''CMSG_TARGET_SCRIPT_CAST'', 0x3D0), (''CMSG_CHANNEL_DISPLAY_LIST'', 0x3D1),
    (''CMSG_SET_ACTIVE_VOICE_CHANNEL'', 0x3D2), (''CMSG_GET_CHANNEL_MEMBER_COUNT'', 0x3D3), (''SMSG_CHANNEL_MEMBER_COUNT'', 0x3D4),
    (''CMSG_CHANNEL_VOICE_ON'', 0x3D5), (''CMSG_CHANNEL_VOICE_OFF'', 0x3D6), (''CMSG_DEBUG_LIST_TARGETS'', 0x3D7),
    (''SMSG_DEBUG_LIST_TARGETS'', 0x3D8), (''SMSG_AVAILABLE_VOICE_CHANNEL'', 0x3D9), (''CMSG_ADD_VOICE_IGNORE'', 0x3DA),
    (''CMSG_DEL_VOICE_IGNORE'', 0x3DB), (''CMSG_PARTY_SILENCE'', 0x3DC), (''CMSG_PARTY_UNSILENCE'', 0x3DD),
    (''MSG_NOTIFY_PARTY_SQUELCH'', 0x3DE), (''SMSG_COMSAT_RECONNECT_TRY'', 0x3DF), (''SMSG_COMSAT_DISCONNECT'', 0x3E0),
    (''SMSG_COMSAT_CONNECT_FAIL'', 0x3E1), (''SMSG_VOICE_CHAT_STATUS'', 0x3E2), (''CMSG_REPORT_PVP_AFK'', 0x3E3),
    (''CMSG_REPORT_PVP_AFK_RESULT'', 0x3E4), (''CMSG_GUILD_BANKER_ACTIVATE'', 0x3E5), (''CMSG_GUILD_BANK_QUERY_TAB'', 0x3E6),
    (''SMSG_GUILD_BANK_LIST'', 0x3E7), (''CMSG_GUILD_BANK_SWAP_ITEMS'', 0x3E8), (''CMSG_GUILD_BANK_BUY_TAB'', 0x3E9),
    (''CMSG_GUILD_BANK_UPDATE_TAB'', 0x3EA), (''CMSG_GUILD_BANK_DEPOSIT_MONEY'', 0x3EB), (''CMSG_GUILD_BANK_WITHDRAW_MONEY'', 0x3EC),
    (''MSG_GUILD_BANK_LOG_QUERY'', 0x3ED), (''CMSG_SET_CHANNEL_WATCH'', 0x3EE), (''SMSG_USERLIST_ADD'', 0x3EF),
    (''SMSG_USERLIST_REMOVE'', 0x3F0), (''SMSG_USERLIST_UPDATE'', 0x3F1), (''CMSG_CLEAR_CHANNEL_WATCH'', 0x3F2),
    (''SMSG_INSPECT_TALENT'', 0x3F3), (''SMSG_GOGOGO_OBSOLETE'', 0x3F4), (''SMSG_ECHO_PARTY_SQUELCH'', 0x3F5),
    (''CMSG_SET_TITLE_SUFFIX'', 0x3F6), (''CMSG_SPELLCLICK'', 0x3F7), (''SMSG_LOOT_LIST'', 0x3F8),
    (''CMSG_GM_CHARACTER_RESTORE'', 0x3F9), (''CMSG_GM_CHARACTER_SAVE'', 0x3FA), (''SMSG_VOICESESSION_FULL'', 0x3FB),
    (''MSG_GUILD_PERMISSIONS'', 0x3FC), (''MSG_GUILD_BANK_MONEY_WITHDRAWN'', 0x3FD), (''MSG_GUILD_EVENT_LOG_QUERY'', 0x3FE),
    (''CMSG_MAELSTROM_RENAME_GUILD'', 0x3FF), (''CMSG_GET_MIRRORIMAGE_DATA'', 0x400), (''SMSG_MIRRORIMAGE_DATA'', 0x401),
    (''SMSG_FORCE_DISPLAY_UPDATE'', 0x402), (''SMSG_SPELL_CHANCE_RESIST_PUSHBACK'', 0x403), (''CMSG_IGNORE_DIMINISHING_RETURNS_CHEAT'', 0x404),
    (''SMSG_IGNORE_DIMINISHING_RETURNS_CHEAT'', 0x405), (''CMSG_KEEP_ALIVE'', 0x406), (''SMSG_RAID_READY_CHECK_ERROR'', 0x407),
    (''CMSG_OPT_OUT_OF_LOOT'', 0x408), (''MSG_QUERY_GUILD_BANK_TEXT'', 0x409), (''CMSG_SET_GUILD_BANK_TEXT'', 0x40A),
    (''CMSG_SET_GRANTABLE_LEVELS'', 0x40B), (''CMSG_GRANT_LEVEL'', 0x40C), (''CMSG_REFER_A_FRIEND'', 0x40D),
    (''MSG_GM_CHANGE_ARENA_RATING'', 0x40E), (''CMSG_DECLINE_CHANNEL_INVITE'', 0x40F), (''CMSG_GROUPACTION_THROTTLED'', 0x410),
    (''SMSG_OVERRIDE_LIGHT'', 0x411), (''SMSG_TOTEM_CREATED'', 0x412), (''CMSG_TOTEM_DESTROYED'', 0x413),
    (''CMSG_EXPIRE_RAID_INSTANCE'', 0x414), (''CMSG_NO_SPELL_VARIANCE'', 0x415), (''CMSG_QUESTGIVER_STATUS_MULTIPLE_QUERY'', 0x416),
    (''SMSG_QUESTGIVER_STATUS_MULTIPLE'', 0x417), (''CMSG_SET_PLAYER_DECLINED_NAMES'', 0x418), (''SMSG_SET_PLAYER_DECLINED_NAMES_RESULT'', 0x419)]"

definition opcodes_7 :: "(string \<times> nat) list" where
  "opcodes_7 = [
    (''CMSG_QUERY_SERVER_BUCK_DATA'', 0x41A), (''CMSG_CLEAR_SERVER_BUCK_DATA'', 0x41B), (''SMSG_SERVER_BUCK_DATA'', 0x41C),
    (''SMSG_SEND_UNLEARN_SPELLS'', 0x41D), (''SMSG_PROPOSE_LEVEL_GRANT'', 0x41E), (''CMSG_ACCEPT_LEVEL_GRANT'', 0x41F),
    (''SMSG_REFER_A_FRIEND_FAILURE'', 0x420), (''SMSG_SPLINE_MOVE_SET_FLYING'', 0x421), (''SMSG_SPLINE_MOVE_UNSET_FLYING'', 0x422),
    (''SMSG_SUMMON_CANCEL'', 0x423)]"

definition opcodes :: "(string \<times> nat) list" where
  "opcodes = opcodes_0 @ opcodes_1 @ opcodes_2 @ opcodes_3 @ opcodes_4 @ opcodes_5 @ opcodes_6 @ opcodes_7"

section \<open>The names\<close>

definition names_0 :: "string list" where
  "names_0 = [
    ''MSG_NULL_ACTION'', ''CMSG_BOOTME'', ''CMSG_DBLOOKUP'', ''SMSG_DBLOOKUP'',
    ''CMSG_QUERY_OBJECT_POSITION'', ''SMSG_QUERY_OBJECT_POSITION'', ''CMSG_QUERY_OBJECT_ROTATION'', ''SMSG_QUERY_OBJECT_ROTATION'',
    ''CMSG_WORLD_TELEPORT'', ''CMSG_TELEPORT_TO_UNIT'', ''CMSG_ZONE_MAP'', ''SMSG_ZONE_MAP'',
    ''CMSG_DEBUG_CHANGECELLZONE'', ''CMSG_EMBLAZON_TABARD_OBSOLETE'', ''CMSG_UNEMBLAZON_TABARD_OBSOLETE'', ''CMSG_RECHARGE'',
    ''CMSG_LEARN_SPELL'', ''CMSG_CREATEMONSTER'', ''CMSG_DESTROYMONSTER'', ''CMSG_CREATEITEM'',
    ''CMSG_CREATEGAMEOBJECT'', ''SMSG_CHECK_FOR_BOTS'', ''CMSG_MAKEMONSTERATTACKGUID'', ''CMSG_BOT_DETECTED2'',
    ''CMSG_FORCEACTION'', ''CMSG_FORCEACTIONONOTHER'', ''CMSG_FORCEACTIONSHOW'', ''SMSG_FORCEACTIONSHOW'',
    ''CMSG_PETGODMODE'', ''SMSG_PETGODMODE'', ''SMSG_DEBUGINFOSPELLMISS_OBSOLETE'', ''CMSG_WEATHER_SPEED_CHEAT'',
    ''CMSG_UNDRESSPLAYER'', ''CMSG_BEASTMASTER'', ''CMSG_GODMODE'', ''SMSG_GODMODE'',
    ''CMSG_CHEAT_SETMONEY'', ''CMSG_LEVEL_CHEAT'', ''CMSG_PET_LEVEL_CHEAT'', ''CMSG_SET_WORLDSTATE'',
    ''CMSG_COOLDOWN_CHEAT'', ''CMSG_USE_SKILL_CHEAT'', ''CMSG_FLAG_QUEST'', ''CMSG_FLAG_QUEST_FINISH'',
    ''CMSG_CLEAR_QUEST'', ''CMSG_SEND_EVENT'', ''CMSG_DEBUG_AISTATE'', ''SMSG_DEBUG_AISTATE'',
    ''CMSG_DISABLE_PVP_CHEAT'', ''CMSG_ADVANCE_SPAWN_TIME'', ''CMSG_PVP_PORT_OBSOLETE'', ''CMSG_AUTH_SRP6_BEGIN'',
    ''CMSG_AUTH_SRP6_PROOF'', ''CMSG_AUTH_SRP6_RECODE'', ''CMSG_CHAR_CREATE'', ''CMSG_CHAR_ENUM'',
    ''CMSG_CHAR_DELETE'', ''SMSG_AUTH_SRP6_RESPONSE'', ''SMSG_CHAR_CREATE'', ''SMSG_CHAR_ENUM'',
    ''SMSG_CHAR_DELETE'', ''CMSG_PLAYER_LOGIN'', ''SMSG_NEW_WORLD'', ''SMSG_TRANSFER_PENDING'',
    ''SMSG_TRANSFER_ABORTED'', ''SMSG_CHARACTER_LOGIN_FAILED'', ''SMSG_LOGIN_SETTIMESPEED'', ''SMSG_GAMETIME_UPDATE'',
    ''CMSG_GAMETIME_SET'', ''SMSG_GAMETIME_SET'', ''CMSG_GAMESPEED_SET'', ''SMSG_GAMESPEED_SET'',
    ''CMSG_SERVERTIME'', ''SMSG_SERVERTIME'', ''CMSG_PLAYER_LOGOUT'', ''CMSG_LOGOUT_REQUEST'',
    ''SMSG_LOGOUT_RESPONSE'', ''SMSG_LOGOUT_COMPLETE'', ''CMSG_LOGOUT_CANCEL'', ''SMSG_LOGOUT_CANCEL_ACK'',
    ''CMSG_NAME_QUERY'', ''SMSG_NAME_QUERY_RESPONSE'', ''CMSG_PET_NAME_QUERY'', ''SMSG_PET_NAME_QUERY_RESPONSE'',
    ''CMSG_GUILD_QUERY'', ''SMSG_GUILD_QUERY_RESPONSE'', ''CMSG_ITEM_QUERY_SINGLE'', ''CMSG_ITEM_QUERY_MULTIPLE'',
    ''SMSG_ITEM_QUERY_SINGLE_RESPONSE'', ''SMSG_ITEM_QUERY_MULTIPLE_RESPONSE'', ''CMSG_PAGE_TEXT_QUERY'', ''SMSG_PAGE_TEXT_QUERY_RESPONSE'',
    ''CMSG_QUEST_QUERY'', ''SMSG_QUEST_QUERY_RESPONSE'', ''CMSG_GAMEOBJECT_QUERY'', ''SMSG_GAMEOBJECT_QUERY_RESPONSE'',
    ''CMSG_CREATURE_QUERY'', ''SMSG_CREATURE_QUERY_RESPONSE'', ''CMSG_WHO'', ''SMSG_WHO'',
    ''CMSG_WHOIS'', ''SMSG_WHOIS'', ''CMSG_CONTACT_LIST'', ''SMSG_CONTACT_LIST'',
    ''SMSG_FRIEND_STATUS'', ''CMSG_ADD_FRIEND'', ''CMSG_DEL_FRIEND'', ''CMSG_SET_CONTACT_NOTES'',
    ''CMSG_ADD_IGNORE'', ''CMSG_DEL_IGNORE'', ''CMSG_GROUP_INVITE'', ''SMSG_GROUP_INVITE'',
    ''CMSG_GROUP_CANCEL'', ''SMSG_GROUP_CANCEL'', ''CMSG_GROUP_ACCEPT'', ''CMSG_GROUP_DECLINE'',
    ''SMSG_GROUP_DECLINE'', ''CMSG_GROUP_UNINVITE'', ''CMSG_GROUP_UNINVITE_GUID'', ''SMSG_GROUP_UNINVITE'',
    ''CMSG_GROUP_SET_LEADER'', ''SMSG_GROUP_SET_LEADER'', ''CMSG_LOOT_METHOD'', ''CMSG_GROUP_DISBAND'',
    ''SMSG_GROUP_DESTROYED'', ''SMSG_GROUP_LIST'', ''SMSG_PARTY_MEMBER_STATS'', ''SMSG_PARTY_COMMAND_RESULT'',
    ''UMSG_UPDATE_GROUP_MEMBERS'', ''CMSG_GUILD_CREATE'', ''CMSG_GUILD_INVITE'', ''SMSG_GUILD_INVITE'',
    ''CMSG_GUILD_ACCEPT'', ''CMSG_GUILD_DECLINE'', ''SMSG_GUILD_DECLINE'', ''CMSG_GUILD_INFO'',
    ''SMSG_GUILD_INFO'', ''CMSG_GUILD_ROSTER'', ''SMSG_GUILD_ROSTER'', ''CMSG_GUILD_PROMOTE'',
    ''CMSG_GUILD_DEMOTE'', ''CMSG_GUILD_LEAVE'', ''CMSG_GUILD_REMOVE'', ''CMSG_GUILD_DISBAND'',
    ''CMSG_GUILD_LEADER'', ''CMSG_GUILD_MOTD'', ''SMSG_GUILD_EVENT'', ''SMSG_GUILD_COMMAND_RESULT'',
    ''UMSG_UPDATE_GUILD'', ''CMSG_MESSAGECHAT'']"

definition names_1 :: "string list" where
  "names_1 = [
    ''SMSG_MESSAGECHAT'', ''CMSG_JOIN_CHANNEL'', ''CMSG_LEAVE_CHANNEL'', ''SMSG_CHANNEL_NOTIFY'',
    ''CMSG_CHANNEL_LIST'', ''SMSG_CHANNEL_LIST'', ''CMSG_CHANNEL_PASSWORD'', ''CMSG_CHANNEL_SET_OWNER'',
    ''CMSG_CHANNEL_OWNER'', ''CMSG_CHANNEL_MODERATOR'', ''CMSG_CHANNEL_UNMODERATOR'', ''CMSG_CHANNEL_MUTE'',
    ''CMSG_CHANNEL_UNMUTE'', ''CMSG_CHANNEL_INVITE'', ''CMSG_CHANNEL_KICK'', ''CMSG_CHANNEL_BAN'',
    ''CMSG_CHANNEL_UNBAN'', ''CMSG_CHANNEL_ANNOUNCEMENTS'', ''CMSG_CHANNEL_MODERATE'', ''SMSG_UPDATE_OBJECT'',
    ''SMSG_DESTROY_OBJECT'', ''CMSG_USE_ITEM'', ''CMSG_OPEN_ITEM'', ''CMSG_READ_ITEM'',
    ''SMSG_READ_ITEM_OK'', ''SMSG_READ_ITEM_FAILED'', ''SMSG_ITEM_COOLDOWN'', ''CMSG_GAMEOBJ_USE'',
    ''CMSG_GAMEOBJ_CHAIR_USE_OBSOLETE'', ''SMSG_GAMEOBJECT_CUSTOM_ANIM'', ''CMSG_AREATRIGGER'', ''MSG_MOVE_START_FORWARD'',
    ''MSG_MOVE_START_BACKWARD'', ''MSG_MOVE_STOP'', ''MSG_MOVE_START_STRAFE_LEFT'', ''MSG_MOVE_START_STRAFE_RIGHT'',
    ''MSG_MOVE_STOP_STRAFE'', ''MSG_MOVE_JUMP'', ''MSG_MOVE_START_TURN_LEFT'', ''MSG_MOVE_START_TURN_RIGHT'',
    ''MSG_MOVE_STOP_TURN'', ''MSG_MOVE_START_PITCH_UP'', ''MSG_MOVE_START_PITCH_DOWN'', ''MSG_MOVE_STOP_PITCH'',
    ''MSG_MOVE_SET_RUN_MODE'', ''MSG_MOVE_SET_WALK_MODE'', ''MSG_MOVE_TOGGLE_LOGGING'', ''MSG_MOVE_TELEPORT'',
    ''MSG_MOVE_TELEPORT_CHEAT'', ''MSG_MOVE_TELEPORT_ACK'', ''MSG_MOVE_TOGGLE_FALL_LOGGING'', ''MSG_MOVE_FALL_LAND'',
    ''MSG_MOVE_START_SWIM'', ''MSG_MOVE_STOP_SWIM'', ''MSG_MOVE_SET_RUN_SPEED_CHEAT'', ''MSG_MOVE_SET_RUN_SPEED'',
    ''MSG_MOVE_SET_RUN_BACK_SPEED_CHEAT'', ''MSG_MOVE_SET_RUN_BACK_SPEED'', ''MSG_MOVE_SET_WALK_SPEED_CHEAT'', ''MSG_MOVE_SET_WALK_SPEED'',
    ''MSG_MOVE_SET_SWIM_SPEED_CHEAT'', ''MSG_MOVE_SET_SWIM_SPEED'', ''MSG_MOVE_SET_SWIM_BACK_SPEED_CHEAT'', ''MSG_MOVE_SET_SWIM_BACK_SPEED'',
    ''MSG_MOVE_SET_ALL_SPEED_CHEAT'', ''MSG_MOVE_SET_TURN_RATE_CHEAT'', ''MSG_MOVE_SET_TURN_RATE'', ''MSG_MOVE_TOGGLE_COLLISION_CHEAT'',
    ''MSG_MOVE_SET_FACING'', ''MSG_MOVE_SET_PITCH'', ''MSG_MOVE_WORLDPORT_ACK'', ''SMSG_MONSTER_MOVE'',
    ''SMSG_MOVE_WATER_WALK'', ''SMSG_MOVE_LAND_WALK'', ''MSG_MOVE_SET_RAW_POSITION_ACK'', ''CMSG_MOVE_SET_RAW_POSITION'',
    ''SMSG_FORCE_RUN_SPEED_CHANGE'', ''CMSG_FORCE_RUN_SPEED_CHANGE_ACK'', ''SMSG_FORCE_RUN_BACK_SPEED_CHANGE'', ''CMSG_FORCE_RUN_BACK_SPEED_CHANGE_ACK'',
    ''SMSG_FORCE_SWIM_SPEED_CHANGE'', ''CMSG_FORCE_SWIM_SPEED_CHANGE_ACK'', ''SMSG_FORCE_MOVE_ROOT'', ''CMSG_FORCE_MOVE_ROOT_ACK'',
    ''SMSG_FORCE_MOVE_UNROOT'', ''CMSG_FORCE_MOVE_UNROOT_ACK'', ''MSG_MOVE_ROOT'', ''MSG_MOVE_UNROOT'',
    ''MSG_MOVE_HEARTBEAT'', ''SMSG_MOVE_KNOCK_BACK'', ''CMSG_MOVE_KNOCK_BACK_ACK'', ''MSG_MOVE_KNOCK_BACK'',
    ''SMSG_MOVE_FEATHER_FALL'', ''SMSG_MOVE_NORMAL_FALL'', ''SMSG_MOVE_SET_HOVER'', ''SMSG_MOVE_UNSET_HOVER'',
    ''CMSG_MOVE_HOVER_ACK'', ''MSG_MOVE_HOVER'', ''CMSG_TRIGGER_CINEMATIC_CHEAT'', ''CMSG_OPENING_CINEMATIC'',
    ''SMSG_TRIGGER_CINEMATIC'', ''CMSG_NEXT_CINEMATIC_CAMERA'', ''CMSG_COMPLETE_CINEMATIC'', ''SMSG_TUTORIAL_FLAGS'',
    ''CMSG_TUTORIAL_FLAG'', ''CMSG_TUTORIAL_CLEAR'', ''CMSG_TUTORIAL_RESET'', ''CMSG_STANDSTATECHANGE'',
    ''CMSG_EMOTE'', ''SMSG_EMOTE'', ''CMSG_TEXT_EMOTE'', ''SMSG_TEXT_EMOTE'',
    ''CMSG_AUTOEQUIP_GROUND_ITEM'', ''CMSG_AUTOSTORE_GROUND_ITEM'', ''CMSG_AUTOSTORE_LOOT_ITEM'', ''CMSG_STORE_LOOT_IN_SLOT'',
    ''CMSG_AUTOEQUIP_ITEM'', ''CMSG_AUTOSTORE_BAG_ITEM'', ''CMSG_SWAP_ITEM'', ''CMSG_SWAP_INV_ITEM'',
    ''CMSG_SPLIT_ITEM'', ''CMSG_AUTOEQUIP_ITEM_SLOT'', ''OBSOLETE_DROP_ITEM'', ''CMSG_DESTROYITEM'',
    ''SMSG_INVENTORY_CHANGE_FAILURE'', ''SMSG_OPEN_CONTAINER'', ''CMSG_INSPECT'', ''SMSG_INSPECT'',
    ''CMSG_INITIATE_TRADE'', ''CMSG_BEGIN_TRADE'', ''CMSG_BUSY_TRADE'', ''CMSG_IGNORE_TRADE'',
    ''CMSG_ACCEPT_TRADE'', ''CMSG_UNACCEPT_TRADE'', ''CMSG_CANCEL_TRADE'', ''CMSG_SET_TRADE_ITEM'',
    ''CMSG_CLEAR_TRADE_ITEM'', ''CMSG_SET_TRADE_GOLD'', ''SMSG_TRADE_STATUS'', ''SMSG_TRADE_STATUS_EXTENDED'',
    ''SMSG_INITIALIZE_FACTIONS'', ''SMSG_SET_FACTION_VISIBLE'', ''SMSG_SET_FACTION_STANDING'', ''CMSG_SET_FACTION_ATWAR'',
    ''CMSG_SET_FACTION_CHEAT'', ''SMSG_SET_PROFICIENCY'', ''CMSG_SET_ACTION_BUTTON'', ''SMSG_ACTION_BUTTONS'',
    ''SMSG_INITIAL_SPELLS'', ''SMSG_LEARNED_SPELL'']"

definition names_2 :: "string list" where
  "names_2 = [
    ''SMSG_SUPERCEDED_SPELL'', ''CMSG_NEW_SPELL_SLOT'', ''CMSG_CAST_SPELL'', ''CMSG_CANCEL_CAST'',
    ''SMSG_CAST_FAILED'', ''SMSG_SPELL_START'', ''SMSG_SPELL_GO'', ''SMSG_SPELL_FAILURE'',
    ''SMSG_SPELL_COOLDOWN'', ''SMSG_COOLDOWN_EVENT'', ''CMSG_CANCEL_AURA'', ''SMSG_UPDATE_AURA_DURATION'',
    ''SMSG_PET_CAST_FAILED'', ''MSG_CHANNEL_START'', ''MSG_CHANNEL_UPDATE'', ''CMSG_CANCEL_CHANNELLING'',
    ''SMSG_AI_REACTION'', ''CMSG_SET_SELECTION'', ''CMSG_SET_TARGET_OBSOLETE'', ''CMSG_UNUSED'',
    ''CMSG_UNUSED2'', ''CMSG_ATTACKSWING'', ''CMSG_ATTACKSTOP'', ''SMSG_ATTACKSTART'',
    ''SMSG_ATTACKSTOP'', ''SMSG_ATTACKSWING_NOTINRANGE'', ''SMSG_ATTACKSWING_BADFACING'', ''SMSG_ATTACKSWING_NOTSTANDING'',
    ''SMSG_ATTACKSWING_DEADTARGET'', ''SMSG_ATTACKSWING_CANT_ATTACK'', ''SMSG_ATTACKERSTATEUPDATE'', ''SMSG_VICTIMSTATEUPDATE_OBSOLETE'',
    ''SMSG_DAMAGE_DONE_OBSOLETE'', ''SMSG_DAMAGE_TAKEN_OBSOLETE'', ''SMSG_CANCEL_COMBAT'', ''SMSG_PLAYER_COMBAT_XP_GAIN_OBSOLETE'',
    ''SMSG_SPELLHEALLOG'', ''SMSG_SPELLENERGIZELOG'', ''CMSG_SHEATHE_OBSOLETE'', ''CMSG_SAVE_PLAYER'',
    ''CMSG_SETDEATHBINDPOINT'', ''SMSG_BINDPOINTUPDATE'', ''CMSG_GETDEATHBINDZONE'', ''SMSG_BINDZONEREPLY'',
    ''SMSG_PLAYERBOUND'', ''SMSG_CLIENT_CONTROL_UPDATE'', ''CMSG_REPOP_REQUEST'', ''SMSG_RESURRECT_REQUEST'',
    ''CMSG_RESURRECT_RESPONSE'', ''CMSG_LOOT'', ''CMSG_LOOT_MONEY'', ''CMSG_LOOT_RELEASE'',
    ''SMSG_LOOT_RESPONSE'', ''SMSG_LOOT_RELEASE_RESPONSE'', ''SMSG_LOOT_REMOVED'', ''SMSG_LOOT_MONEY_NOTIFY'',
    ''SMSG_LOOT_ITEM_NOTIFY'', ''SMSG_LOOT_CLEAR_MONEY'', ''SMSG_ITEM_PUSH_RESULT'', ''SMSG_DUEL_REQUESTED'',
    ''SMSG_DUEL_OUTOFBOUNDS'', ''SMSG_DUEL_INBOUNDS'', ''SMSG_DUEL_COMPLETE'', ''SMSG_DUEL_WINNER'',
    ''CMSG_DUEL_ACCEPTED'', ''CMSG_DUEL_CANCELLED'', ''SMSG_MOUNTRESULT'', ''SMSG_DISMOUNTRESULT'',
    ''SMSG_PUREMOUNT_CANCELLED_OBSOLETE'', ''CMSG_MOUNTSPECIAL_ANIM'', ''SMSG_MOUNTSPECIAL_ANIM'', ''SMSG_PET_TAME_FAILURE'',
    ''CMSG_PET_SET_ACTION'', ''CMSG_PET_ACTION'', ''CMSG_PET_ABANDON'', ''CMSG_PET_RENAME'',
    ''SMSG_PET_NAME_INVALID'', ''SMSG_PET_SPELLS'', ''SMSG_PET_MODE'', ''CMSG_GOSSIP_HELLO'',
    ''CMSG_GOSSIP_SELECT_OPTION'', ''SMSG_GOSSIP_MESSAGE'', ''SMSG_GOSSIP_COMPLETE'', ''CMSG_NPC_TEXT_QUERY'',
    ''SMSG_NPC_TEXT_UPDATE'', ''SMSG_NPC_WONT_TALK'', ''CMSG_QUESTGIVER_STATUS_QUERY'', ''SMSG_QUESTGIVER_STATUS'',
    ''CMSG_QUESTGIVER_HELLO'', ''SMSG_QUESTGIVER_QUEST_LIST'', ''CMSG_QUESTGIVER_QUERY_QUEST'', ''CMSG_QUESTGIVER_QUEST_AUTOLAUNCH'',
    ''SMSG_QUESTGIVER_QUEST_DETAILS'', ''CMSG_QUESTGIVER_ACCEPT_QUEST'', ''CMSG_QUESTGIVER_COMPLETE_QUEST'', ''SMSG_QUESTGIVER_REQUEST_ITEMS'',
    ''CMSG_QUESTGIVER_REQUEST_REWARD'', ''SMSG_QUESTGIVER_OFFER_REWARD'', ''CMSG_QUESTGIVER_CHOOSE_REWARD'', ''SMSG_QUESTGIVER_QUEST_INVALID'',
    ''CMSG_QUESTGIVER_CANCEL'', ''SMSG_QUESTGIVER_QUEST_COMPLETE'', ''SMSG_QUESTGIVER_QUEST_FAILED'', ''CMSG_QUESTLOG_SWAP_QUEST'',
    ''CMSG_QUESTLOG_REMOVE_QUEST'', ''SMSG_QUESTLOG_FULL'', ''SMSG_QUESTUPDATE_FAILED'', ''SMSG_QUESTUPDATE_FAILEDTIMER'',
    ''SMSG_QUESTUPDATE_COMPLETE'', ''SMSG_QUESTUPDATE_ADD_KILL'', ''SMSG_QUESTUPDATE_ADD_ITEM'', ''CMSG_QUEST_CONFIRM_ACCEPT'',
    ''SMSG_QUEST_CONFIRM_ACCEPT'', ''CMSG_PUSHQUESTTOPARTY'', ''CMSG_LIST_INVENTORY'', ''SMSG_LIST_INVENTORY'',
    ''CMSG_SELL_ITEM'', ''SMSG_SELL_ITEM'', ''CMSG_BUY_ITEM'', ''CMSG_BUY_ITEM_IN_SLOT'',
    ''SMSG_BUY_ITEM'', ''SMSG_BUY_FAILED'', ''CMSG_TAXICLEARALLNODES'', ''CMSG_TAXIENABLEALLNODES'',
    ''CMSG_TAXISHOWNODES'', ''SMSG_SHOWTAXINODES'', ''CMSG_TAXINODE_STATUS_QUERY'', ''SMSG_TAXINODE_STATUS'',
    ''CMSG_TAXIQUERYAVAILABLENODES'', ''CMSG_ACTIVATETAXI'', ''SMSG_ACTIVATETAXIREPLY'', ''SMSG_NEW_TAXI_PATH'',
    ''CMSG_TRAINER_LIST'', ''SMSG_TRAINER_LIST'', ''CMSG_TRAINER_BUY_SPELL'', ''SMSG_TRAINER_BUY_SUCCEEDED'',
    ''SMSG_TRAINER_BUY_FAILED'', ''CMSG_BINDER_ACTIVATE'', ''SMSG_PLAYERBINDERROR'', ''CMSG_BANKER_ACTIVATE'',
    ''SMSG_SHOW_BANK'', ''CMSG_BUY_BANK_SLOT'', ''SMSG_BUY_BANK_SLOT_RESULT'', ''CMSG_PETITION_SHOWLIST'',
    ''SMSG_PETITION_SHOWLIST'', ''CMSG_PETITION_BUY'', ''CMSG_PETITION_SHOW_SIGNATURES'', ''SMSG_PETITION_SHOW_SIGNATURES'',
    ''CMSG_PETITION_SIGN'', ''SMSG_PETITION_SIGN_RESULTS'']"

definition names_3 :: "string list" where
  "names_3 = [
    ''MSG_PETITION_DECLINE'', ''CMSG_OFFER_PETITION'', ''CMSG_TURN_IN_PETITION'', ''SMSG_TURN_IN_PETITION_RESULTS'',
    ''CMSG_PETITION_QUERY'', ''SMSG_PETITION_QUERY_RESPONSE'', ''SMSG_FISH_NOT_HOOKED'', ''SMSG_FISH_ESCAPED'',
    ''CMSG_BUG'', ''SMSG_NOTIFICATION'', ''CMSG_PLAYED_TIME'', ''SMSG_PLAYED_TIME'',
    ''CMSG_QUERY_TIME'', ''SMSG_QUERY_TIME_RESPONSE'', ''SMSG_LOG_XPGAIN'', ''SMSG_AURACASTLOG'',
    ''CMSG_RECLAIM_CORPSE'', ''CMSG_WRAP_ITEM'', ''SMSG_LEVELUP_INFO'', ''MSG_MINIMAP_PING'',
    ''SMSG_RESISTLOG'', ''SMSG_ENCHANTMENTLOG'', ''CMSG_SET_SKILL_CHEAT'', ''SMSG_START_MIRROR_TIMER'',
    ''SMSG_PAUSE_MIRROR_TIMER'', ''SMSG_STOP_MIRROR_TIMER'', ''CMSG_PING'', ''SMSG_PONG'',
    ''SMSG_CLEAR_COOLDOWN'', ''SMSG_GAMEOBJECT_PAGETEXT'', ''CMSG_SETSHEATHED'', ''SMSG_COOLDOWN_CHEAT'',
    ''SMSG_SPELL_DELAYED'', ''CMSG_PLAYER_MACRO_OBSOLETE'', ''SMSG_PLAYER_MACRO_OBSOLETE'', ''CMSG_GHOST'',
    ''CMSG_GM_INVIS'', ''SMSG_INVALID_PROMOTION_CODE'', ''MSG_GM_BIND_OTHER'', ''MSG_GM_SUMMON'',
    ''SMSG_ITEM_TIME_UPDATE'', ''SMSG_ITEM_ENCHANT_TIME_UPDATE'', ''SMSG_AUTH_CHALLENGE'', ''CMSG_AUTH_SESSION'',
    ''SMSG_AUTH_RESPONSE'', ''MSG_GM_SHOWLABEL'', ''CMSG_PET_CAST_SPELL'', ''MSG_SAVE_GUILD_EMBLEM'',
    ''MSG_TABARDVENDOR_ACTIVATE'', ''SMSG_PLAY_SPELL_VISUAL'', ''CMSG_ZONEUPDATE'', ''SMSG_PARTYKILLLOG'',
    ''SMSG_COMPRESSED_UPDATE_OBJECT'', ''SMSG_PLAY_SPELL_IMPACT'', ''SMSG_EXPLORATION_EXPERIENCE'', ''CMSG_GM_SET_SECURITY_GROUP'',
    ''CMSG_GM_NUKE'', ''MSG_RANDOM_ROLL'', ''SMSG_ENVIRONMENTALDAMAGELOG'', ''CMSG_RWHOIS_OBSOLETE'',
    ''SMSG_RWHOIS'', ''MSG_LOOKING_FOR_GROUP'', ''CMSG_SET_LOOKING_FOR_GROUP'', ''CMSG_UNLEARN_SPELL'',
    ''CMSG_UNLEARN_SKILL'', ''SMSG_REMOVED_SPELL'', ''CMSG_DECHARGE'', ''CMSG_GMTICKET_CREATE'',
    ''SMSG_GMTICKET_CREATE'', ''CMSG_GMTICKET_UPDATETEXT'', ''SMSG_GMTICKET_UPDATETEXT'', ''SMSG_ACCOUNT_DATA_TIMES'',
    ''CMSG_REQUEST_ACCOUNT_DATA'', ''CMSG_UPDATE_ACCOUNT_DATA'', ''SMSG_UPDATE_ACCOUNT_DATA'', ''SMSG_CLEAR_FAR_SIGHT_IMMEDIATE'',
    ''SMSG_POWERGAINLOG_OBSOLETE'', ''CMSG_GM_TEACH'', ''CMSG_GM_CREATE_ITEM_TARGET'', ''CMSG_GMTICKET_GETTICKET'',
    ''SMSG_GMTICKET_GETTICKET'', ''CMSG_UNLEARN_TALENTS'', ''SMSG_GAMEOBJECT_SPAWN_ANIM_OBSOLETE'', ''SMSG_GAMEOBJECT_DESPAWN_ANIM'',
    ''MSG_CORPSE_QUERY'', ''CMSG_GMTICKET_DELETETICKET'', ''SMSG_GMTICKET_DELETETICKET'', ''SMSG_CHAT_WRONG_FACTION'',
    ''CMSG_GMTICKET_SYSTEMSTATUS'', ''SMSG_GMTICKET_SYSTEMSTATUS'', ''CMSG_SPIRIT_HEALER_ACTIVATE'', ''CMSG_SET_STAT_CHEAT'',
    ''SMSG_SET_REST_START'', ''CMSG_SKILL_BUY_STEP'', ''CMSG_SKILL_BUY_RANK'', ''CMSG_XP_CHEAT'',
    ''SMSG_SPIRIT_HEALER_CONFIRM'', ''CMSG_CHARACTER_POINT_CHEAT'', ''SMSG_GOSSIP_POI'', ''CMSG_CHAT_IGNORED'',
    ''CMSG_GM_VISION'', ''CMSG_SERVER_COMMAND'', ''CMSG_GM_SILENCE'', ''CMSG_GM_REVEALTO'',
    ''CMSG_GM_RESURRECT'', ''CMSG_GM_SUMMONMOB'', ''CMSG_GM_MOVECORPSE'', ''CMSG_GM_FREEZE'',
    ''CMSG_GM_UBERINVIS'', ''CMSG_GM_REQUEST_PLAYER_INFO'', ''SMSG_GM_PLAYER_INFO'', ''CMSG_GUILD_RANK'',
    ''CMSG_GUILD_ADD_RANK'', ''CMSG_GUILD_DEL_RANK'', ''CMSG_GUILD_SET_PUBLIC_NOTE'', ''CMSG_GUILD_SET_OFFICER_NOTE'',
    ''SMSG_LOGIN_VERIFY_WORLD'', ''CMSG_CLEAR_EXPLORATION'', ''CMSG_SEND_MAIL'', ''SMSG_SEND_MAIL_RESULT'',
    ''CMSG_GET_MAIL_LIST'', ''SMSG_MAIL_LIST_RESULT'', ''CMSG_BATTLEFIELD_LIST'', ''SMSG_BATTLEFIELD_LIST'',
    ''CMSG_BATTLEFIELD_JOIN'', ''SMSG_BATTLEFIELD_WIN_OBSOLETE'', ''SMSG_BATTLEFIELD_LOSE_OBSOLETE'', ''CMSG_TAXICLEARNODE'',
    ''CMSG_TAXIENABLENODE'', ''CMSG_ITEM_TEXT_QUERY'', ''SMSG_ITEM_TEXT_QUERY_RESPONSE'', ''CMSG_MAIL_TAKE_MONEY'',
    ''CMSG_MAIL_TAKE_ITEM'', ''CMSG_MAIL_MARK_AS_READ'', ''CMSG_MAIL_RETURN_TO_SENDER'', ''CMSG_MAIL_DELETE'',
    ''CMSG_MAIL_CREATE_TEXT_ITEM'', ''SMSG_SPELLLOGMISS'', ''SMSG_SPELLLOGEXECUTE'', ''SMSG_DEBUGAURAPROC'',
    ''SMSG_PERIODICAURALOG'', ''SMSG_SPELLDAMAGESHIELD'', ''SMSG_SPELLNONMELEEDAMAGELOG'', ''CMSG_LEARN_TALENT'',
    ''SMSG_RESURRECT_FAILED'', ''CMSG_TOGGLE_PVP'', ''SMSG_ZONE_UNDER_ATTACK'', ''MSG_AUCTION_HELLO'',
    ''CMSG_AUCTION_SELL_ITEM'', ''CMSG_AUCTION_REMOVE_ITEM'']"

definition names_4 :: "string list" where
  "names_4 = [
    ''CMSG_AUCTION_LIST_ITEMS'', ''CMSG_AUCTION_LIST_OWNER_ITEMS'', ''CMSG_AUCTION_PLACE_BID'', ''SMSG_AUCTION_COMMAND_RESULT'',
    ''SMSG_AUCTION_LIST_RESULT'', ''SMSG_AUCTION_OWNER_LIST_RESULT'', ''SMSG_AUCTION_BIDDER_NOTIFICATION'', ''SMSG_AUCTION_OWNER_NOTIFICATION'',
    ''SMSG_PROCRESIST'', ''SMSG_STANDSTATE_CHANGE_FAILURE_OBSOLETE'', ''SMSG_DISPEL_FAILED'', ''SMSG_SPELLORDAMAGE_IMMUNE'',
    ''CMSG_AUCTION_LIST_BIDDER_ITEMS'', ''SMSG_AUCTION_BIDDER_LIST_RESULT'', ''SMSG_SET_FLAT_SPELL_MODIFIER'', ''SMSG_SET_PCT_SPELL_MODIFIER'',
    ''CMSG_SET_AMMO'', ''SMSG_CORPSE_RECLAIM_DELAY'', ''CMSG_SET_ACTIVE_MOVER'', ''CMSG_PET_CANCEL_AURA'',
    ''CMSG_PLAYER_AI_CHEAT'', ''CMSG_CANCEL_AUTO_REPEAT_SPELL'', ''MSG_GM_ACCOUNT_ONLINE'', ''MSG_LIST_STABLED_PETS'',
    ''CMSG_STABLE_PET'', ''CMSG_UNSTABLE_PET'', ''CMSG_BUY_STABLE_SLOT'', ''SMSG_STABLE_RESULT'',
    ''CMSG_STABLE_REVIVE_PET'', ''CMSG_STABLE_SWAP_PET'', ''MSG_QUEST_PUSH_RESULT'', ''SMSG_PLAY_MUSIC'',
    ''SMSG_PLAY_OBJECT_SOUND'', ''CMSG_REQUEST_PET_INFO'', ''CMSG_FAR_SIGHT'', ''SMSG_SPELLDISPELLOG'',
    ''SMSG_DAMAGE_CALC_LOG'', ''CMSG_ENABLE_DAMAGE_LOG'', ''CMSG_GROUP_CHANGE_SUB_GROUP'', ''CMSG_REQUEST_PARTY_MEMBER_STATS'',
    ''CMSG_GROUP_SWAP_SUB_GROUP'', ''CMSG_RESET_FACTION_CHEAT'', ''CMSG_AUTOSTORE_BANK_ITEM'', ''CMSG_AUTOBANK_ITEM'',
    ''MSG_QUERY_NEXT_MAIL_TIME'', ''SMSG_RECEIVED_MAIL'', ''SMSG_RAID_GROUP_ONLY'', ''CMSG_SET_DURABILITY_CHEAT'',
    ''CMSG_SET_PVP_RANK_CHEAT'', ''CMSG_ADD_PVP_MEDAL_CHEAT'', ''CMSG_DEL_PVP_MEDAL_CHEAT'', ''CMSG_SET_PVP_TITLE'',
    ''SMSG_PVP_CREDIT'', ''SMSG_AUCTION_REMOVED_NOTIFICATION'', ''CMSG_GROUP_RAID_CONVERT'', ''CMSG_GROUP_ASSISTANT_LEADER'',
    ''CMSG_BUYBACK_ITEM'', ''SMSG_SERVER_MESSAGE'', ''CMSG_MEETINGSTONE_JOIN'', ''CMSG_MEETINGSTONE_LEAVE'',
    ''CMSG_MEETINGSTONE_CHEAT'', ''SMSG_MEETINGSTONE_SETQUEUE'', ''CMSG_MEETINGSTONE_INFO'', ''SMSG_MEETINGSTONE_COMPLETE'',
    ''SMSG_MEETINGSTONE_IN_PROGRESS'', ''SMSG_MEETINGSTONE_MEMBER_ADDED'', ''CMSG_GMTICKETSYSTEM_TOGGLE'', ''CMSG_CANCEL_GROWTH_AURA'',
    ''SMSG_CANCEL_AUTO_REPEAT'', ''SMSG_STANDSTATE_UPDATE'', ''SMSG_LOOT_ALL_PASSED'', ''SMSG_LOOT_ROLL_WON'',
    ''CMSG_LOOT_ROLL'', ''SMSG_LOOT_START_ROLL'', ''SMSG_LOOT_ROLL'', ''CMSG_LOOT_MASTER_GIVE'',
    ''SMSG_LOOT_MASTER_LIST'', ''SMSG_SET_FORCED_REACTIONS'', ''SMSG_SPELL_FAILED_OTHER'', ''SMSG_GAMEOBJECT_RESET_STATE'',
    ''CMSG_REPAIR_ITEM'', ''SMSG_CHAT_PLAYER_NOT_FOUND'', ''MSG_TALENT_WIPE_CONFIRM'', ''SMSG_SUMMON_REQUEST'',
    ''CMSG_SUMMON_RESPONSE'', ''MSG_MOVE_TOGGLE_GRAVITY_CHEAT'', ''SMSG_MONSTER_MOVE_TRANSPORT'', ''SMSG_PET_BROKEN'',
    ''MSG_MOVE_FEATHER_FALL'', ''MSG_MOVE_WATER_WALK'', ''CMSG_SERVER_BROADCAST'', ''CMSG_SELF_RES'',
    ''SMSG_FEIGN_DEATH_RESISTED'', ''CMSG_RUN_SCRIPT'', ''SMSG_SCRIPT_MESSAGE'', ''SMSG_DUEL_COUNTDOWN'',
    ''SMSG_AREA_TRIGGER_MESSAGE'', ''CMSG_TOGGLE_HELM'', ''CMSG_TOGGLE_CLOAK'', ''SMSG_MEETINGSTONE_JOINFAILED'',
    ''SMSG_PLAYER_SKINNED'', ''SMSG_DURABILITY_DAMAGE_DEATH'', ''CMSG_SET_EXPLORATION'', ''CMSG_SET_ACTIONBAR_TOGGLES'',
    ''UMSG_DELETE_GUILD_CHARTER'', ''MSG_PETITION_RENAME'', ''SMSG_INIT_WORLD_STATES'', ''SMSG_UPDATE_WORLD_STATE'',
    ''CMSG_ITEM_NAME_QUERY'', ''SMSG_ITEM_NAME_QUERY_RESPONSE'', ''SMSG_PET_ACTION_FEEDBACK'', ''CMSG_CHAR_RENAME'',
    ''SMSG_CHAR_RENAME'', ''CMSG_MOVE_SPLINE_DONE'', ''CMSG_MOVE_FALL_RESET'', ''SMSG_INSTANCE_SAVE_CREATED'',
    ''SMSG_RAID_INSTANCE_INFO'', ''CMSG_REQUEST_RAID_INFO'', ''CMSG_MOVE_TIME_SKIPPED'', ''CMSG_MOVE_FEATHER_FALL_ACK'',
    ''CMSG_MOVE_WATER_WALK_ACK'', ''CMSG_MOVE_NOT_ACTIVE_MOVER'', ''SMSG_PLAY_SOUND'', ''CMSG_BATTLEFIELD_STATUS'',
    ''SMSG_BATTLEFIELD_STATUS'', ''CMSG_BATTLEFIELD_PORT'', ''MSG_INSPECT_HONOR_STATS'', ''CMSG_BATTLEMASTER_HELLO'',
    ''CMSG_MOVE_START_SWIM_CHEAT'', ''CMSG_MOVE_STOP_SWIM_CHEAT'', ''SMSG_FORCE_WALK_SPEED_CHANGE'', ''CMSG_FORCE_WALK_SPEED_CHANGE_ACK'',
    ''SMSG_FORCE_SWIM_BACK_SPEED_CHANGE'', ''CMSG_FORCE_SWIM_BACK_SPEED_CHANGE_ACK'', ''SMSG_FORCE_TURN_RATE_CHANGE'', ''CMSG_FORCE_TURN_RATE_CHANGE_ACK'',
    ''MSG_PVP_LOG_DATA'', ''CMSG_LEAVE_BATTLEFIELD'', ''CMSG_AREA_SPIRIT_HEALER_QUERY'', ''CMSG_AREA_SPIRIT_HEALER_QUEUE'',
    ''SMSG_AREA_SPIRIT_HEALER_TIME'', ''CMSG_GM_UNTEACH'', ''SMSG_WARDEN_DATA'', ''CMSG_WARDEN_DATA'',
    ''SMSG_GROUP_JOINED_BATTLEGROUND'', ''MSG_BATTLEGROUND_PLAYER_POSITIONS'', ''CMSG_PET_STOP_ATTACK'', ''SMSG_BINDER_CONFIRM'',
    ''SMSG_BATTLEGROUND_PLAYER_JOINED'', ''SMSG_BATTLEGROUND_PLAYER_LEFT'']"

definition names_5 :: "string list" where
  "names_5 = [
    ''CMSG_BATTLEMASTER_JOIN'', ''SMSG_ADDON_INFO'', ''CMSG_PET_UNLEARN'', ''SMSG_PET_UNLEARN_CONFIRM'',
    ''SMSG_PARTY_MEMBER_STATS_FULL'', ''CMSG_PET_SPELL_AUTOCAST'', ''SMSG_WEATHER'', ''SMSG_PLAY_TIME_WARNING'',
    ''SMSG_MINIGAME_SETUP'', ''SMSG_MINIGAME_STATE'', ''CMSG_MINIGAME_MOVE'', ''SMSG_MINIGAME_MOVE_FAILED'',
    ''SMSG_RAID_INSTANCE_MESSAGE'', ''SMSG_COMPRESSED_MOVES'', ''CMSG_GUILD_INFO_TEXT'', ''SMSG_CHAT_RESTRICTED'',
    ''SMSG_SPLINE_SET_RUN_SPEED'', ''SMSG_SPLINE_SET_RUN_BACK_SPEED'', ''SMSG_SPLINE_SET_SWIM_SPEED'', ''SMSG_SPLINE_SET_WALK_SPEED'',
    ''SMSG_SPLINE_SET_SWIM_BACK_SPEED'', ''SMSG_SPLINE_SET_TURN_RATE'', ''SMSG_SPLINE_MOVE_UNROOT'', ''SMSG_SPLINE_MOVE_FEATHER_FALL'',
    ''SMSG_SPLINE_MOVE_NORMAL_FALL'', ''SMSG_SPLINE_MOVE_SET_HOVER'', ''SMSG_SPLINE_MOVE_UNSET_HOVER'', ''SMSG_SPLINE_MOVE_WATER_WALK'',
    ''SMSG_SPLINE_MOVE_LAND_WALK'', ''SMSG_SPLINE_MOVE_START_SWIM'', ''SMSG_SPLINE_MOVE_STOP_SWIM'', ''SMSG_SPLINE_MOVE_SET_RUN_MODE'',
    ''SMSG_SPLINE_MOVE_SET_WALK_MODE'', ''CMSG_GM_NUKE_ACCOUNT'', ''MSG_GM_DESTROY_CORPSE'', ''CMSG_GM_DESTROY_ONLINE_CORPSE'',
    ''CMSG_ACTIVATETAXIEXPRESS'', ''SMSG_SET_FACTION_ATWAR'', ''SMSG_GAMETIMEBIAS_SET'', ''CMSG_DEBUG_ACTIONS_START'',
    ''CMSG_DEBUG_ACTIONS_STOP'', ''CMSG_SET_FACTION_INACTIVE'', ''CMSG_SET_WATCHED_FACTION'', ''MSG_MOVE_TIME_SKIPPED'',
    ''SMSG_SPLINE_MOVE_ROOT'', ''CMSG_SET_EXPLORATION_ALL'', ''SMSG_INVALIDATE_PLAYER'', ''CMSG_RESET_INSTANCES'',
    ''SMSG_INSTANCE_RESET'', ''SMSG_INSTANCE_RESET_FAILED'', ''SMSG_UPDATE_LAST_INSTANCE'', ''MSG_RAID_TARGET_UPDATE'',
    ''MSG_RAID_READY_CHECK'', ''CMSG_LUA_USAGE'', ''SMSG_PET_ACTION_SOUND'', ''SMSG_PET_DISMISS_SOUND'',
    ''SMSG_GHOSTEE_GONE'', ''CMSG_GM_UPDATE_TICKET_STATUS'', ''SMSG_GM_TICKET_STATUS_UPDATE'', ''MSG_SET_DUNGEON_DIFFICULTY'',
    ''CMSG_GMSURVEY_SUBMIT'', ''SMSG_UPDATE_INSTANCE_OWNERSHIP'', ''CMSG_IGNORE_KNOCKBACK_CHEAT'', ''SMSG_CHAT_PLAYER_AMBIGUOUS'',
    ''MSG_DELAY_GHOST_TELEPORT'', ''SMSG_SPELLINSTAKILLLOG'', ''SMSG_SPELL_UPDATE_CHAIN_TARGETS'', ''CMSG_CHAT_FILTERED'',
    ''SMSG_EXPECTED_SPAM_RECORDS'', ''SMSG_SPELLSTEALLOG'', ''CMSG_LOTTERY_QUERY_OBSOLETE'', ''SMSG_LOTTERY_QUERY_RESULT_OBSOLETE'',
    ''CMSG_BUY_LOTTERY_TICKET_OBSOLETE'', ''SMSG_LOTTERY_RESULT_OBSOLETE'', ''SMSG_CHARACTER_PROFILE'', ''SMSG_CHARACTER_PROFILE_REALM_CONNECTED'',
    ''SMSG_DEFENSE_MESSAGE'', ''SMSG_INSTANCE_DIFFICULTY'', ''MSG_GM_RESETINSTANCELIMIT'', ''SMSG_MOTD'',
    ''SMSG_MOVE_SET_FLIGHT_OBSOLETE'', ''SMSG_MOVE_UNSET_FLIGHT_OBSOLETE'', ''CMSG_MOVE_FLIGHT_ACK_OBSOLETE'', ''MSG_MOVE_START_SWIM_CHEAT'',
    ''MSG_MOVE_STOP_SWIM_CHEAT'', ''SMSG_MOVE_SET_CAN_FLY'', ''SMSG_MOVE_UNSET_CAN_FLY'', ''CMSG_MOVE_SET_CAN_FLY_ACK'',
    ''CMSG_MOVE_SET_FLY'', ''CMSG_SOCKET_GEMS'', ''CMSG_ARENA_TEAM_CREATE'', ''SMSG_ARENA_TEAM_COMMAND_RESULT'',
    ''UMSG_UPDATE_ARENA_TEAM_OBSOLETE'', ''CMSG_ARENA_TEAM_QUERY'', ''SMSG_ARENA_TEAM_QUERY_RESPONSE'', ''CMSG_ARENA_TEAM_ROSTER'',
    ''SMSG_ARENA_TEAM_ROSTER'', ''CMSG_ARENA_TEAM_INVITE'', ''SMSG_ARENA_TEAM_INVITE'', ''CMSG_ARENA_TEAM_ACCEPT'',
    ''CMSG_ARENA_TEAM_DECLINE'', ''CMSG_ARENA_TEAM_LEAVE'', ''CMSG_ARENA_TEAM_REMOVE'', ''CMSG_ARENA_TEAM_DISBAND'',
    ''CMSG_ARENA_TEAM_LEADER'', ''SMSG_ARENA_TEAM_EVENT'', ''CMSG_BATTLEMASTER_JOIN_ARENA'', ''MSG_MOVE_START_ASCEND'',
    ''MSG_MOVE_STOP_ASCEND'', ''SMSG_ARENA_TEAM_STATS'', ''CMSG_LFG_SET_AUTOJOIN'', ''CMSG_LFG_CLEAR_AUTOJOIN'',
    ''CMSG_LFM_SET_AUTOFILL'', ''CMSG_LFM_CLEAR_AUTOFILL'', ''CMSG_ACCEPT_LFG_MATCH'', ''CMSG_DECLINE_LFG_MATCH'',
    ''CMSG_CANCEL_PENDING_LFG'', ''CMSG_CLEAR_LOOKING_FOR_GROUP'', ''CMSG_CLEAR_LOOKING_FOR_MORE'', ''CMSG_SET_LOOKING_FOR_MORE'',
    ''CMSG_SET_LFG_COMMENT'', ''SMSG_LFG_TIMEDOUT'', ''SMSG_LFG_OTHER_TIMEDOUT'', ''SMSG_LFG_AUTOJOIN_FAILED'',
    ''SMSG_LFG_AUTOJOIN_FAILED_NO_PLAYER'', ''SMSG_LFG_LEADER_IS_LFM'', ''SMSG_LFG_UPDATE'', ''SMSG_LFG_UPDATE_LFM'',
    ''SMSG_LFG_UPDATE_LFG'', ''SMSG_LFG_UPDATE_QUEUED'', ''SMSG_LFG_PENDING_INVITE'', ''SMSG_LFG_PENDING_MATCH'',
    ''SMSG_LFG_PENDING_MATCH_DONE'', ''SMSG_TITLE_EARNED'', ''CMSG_SET_TITLE'', ''CMSG_CANCEL_MOUNT_AURA'',
    ''SMSG_ARENA_ERROR'', ''MSG_INSPECT_ARENA_TEAMS'', ''SMSG_DEATH_RELEASE_LOC'', ''CMSG_CANCEL_TEMP_ENCHANTMENT'',
    ''SMSG_FORCED_DEATH_UPDATE'', ''CMSG_CHEAT_SET_HONOR_CURRENCY'', ''CMSG_CHEAT_SET_ARENA_CURRENCY'', ''MSG_MOVE_SET_FLIGHT_SPEED_CHEAT'',
    ''MSG_MOVE_SET_FLIGHT_SPEED'', ''MSG_MOVE_SET_FLIGHT_BACK_SPEED_CHEAT'', ''MSG_MOVE_SET_FLIGHT_BACK_SPEED'', ''SMSG_FORCE_FLIGHT_SPEED_CHANGE'',
    ''CMSG_FORCE_FLIGHT_SPEED_CHANGE_ACK'', ''SMSG_FORCE_FLIGHT_BACK_SPEED_CHANGE'']"

definition names_6 :: "string list" where
  "names_6 = [
    ''CMSG_FORCE_FLIGHT_BACK_SPEED_CHANGE_ACK'', ''SMSG_SPLINE_SET_FLIGHT_SPEED'', ''SMSG_SPLINE_SET_FLIGHT_BACK_SPEED'', ''CMSG_MAELSTROM_INVALIDATE_CACHE'',
    ''SMSG_FLIGHT_SPLINE_SYNC'', ''CMSG_SET_TAXI_BENCHMARK_MODE'', ''SMSG_JOINED_BATTLEGROUND_QUEUE'', ''SMSG_REALM_SPLIT'',
    ''CMSG_REALM_SPLIT'', ''CMSG_MOVE_CHNG_TRANSPORT'', ''MSG_PARTY_ASSIGNMENT'', ''SMSG_OFFER_PETITION_ERROR'',
    ''SMSG_TIME_SYNC_REQ'', ''CMSG_TIME_SYNC_RESP'', ''CMSG_SEND_LOCAL_EVENT'', ''CMSG_SEND_GENERAL_TRIGGER'',
    ''CMSG_SEND_COMBAT_TRIGGER'', ''CMSG_MAELSTROM_GM_SENT_MAIL'', ''SMSG_RESET_FAILED_NOTIFY'', ''SMSG_REAL_GROUP_UPDATE'',
    ''SMSG_LFG_DISABLED'', ''CMSG_ACTIVE_PVP_CHEAT'', ''CMSG_CHEAT_DUMP_ITEMS_DEBUG_ONLY'', ''SMSG_CHEAT_DUMP_ITEMS_DEBUG_ONLY_RESPONSE'',
    ''SMSG_CHEAT_DUMP_ITEMS_DEBUG_ONLY_RESPONSE_WRITE_FILE'', ''SMSG_UPDATE_COMBO_POINTS'', ''SMSG_VOICE_SESSION_ROSTER_UPDATE'', ''SMSG_VOICE_SESSION_LEAVE'',
    ''SMSG_VOICE_SESSION_ADJUST_PRIORITY'', ''CMSG_VOICE_SET_TALKER_MUTED_REQUEST'', ''SMSG_VOICE_SET_TALKER_MUTED'', ''SMSG_INIT_EXTRA_AURA_INFO'',
    ''SMSG_SET_EXTRA_AURA_INFO'', ''SMSG_SET_EXTRA_AURA_INFO_NEED_UPDATE'', ''SMSG_CLEAR_EXTRA_AURA_INFO'', ''MSG_MOVE_START_DESCEND'',
    ''CMSG_IGNORE_REQUIREMENTS_CHEAT'', ''SMSG_IGNORE_REQUIREMENTS_CHEAT'', ''SMSG_SPELL_CHANCE_PROC_LOG'', ''CMSG_MOVE_SET_RUN_SPEED'',
    ''SMSG_DISMOUNT'', ''MSG_MOVE_UPDATE_CAN_FLY'', ''MSG_RAID_READY_CHECK_CONFIRM'', ''CMSG_VOICE_SESSION_ENABLE'',
    ''SMSG_VOICE_PARENTAL_CONTROLS'', ''CMSG_GM_WHISPER'', ''SMSG_GM_MESSAGECHAT'', ''MSG_GM_GEARRATING'',
    ''CMSG_COMMENTATOR_ENABLE'', ''SMSG_COMMENTATOR_STATE_CHANGED'', ''CMSG_COMMENTATOR_GET_MAP_INFO'', ''SMSG_COMMENTATOR_MAP_INFO'',
    ''CMSG_COMMENTATOR_GET_PLAYER_INFO'', ''SMSG_COMMENTATOR_GET_PLAYER_INFO'', ''SMSG_COMMENTATOR_PLAYER_INFO'', ''CMSG_COMMENTATOR_ENTER_INSTANCE'',
    ''CMSG_COMMENTATOR_EXIT_INSTANCE'', ''CMSG_COMMENTATOR_INSTANCE_COMMAND'', ''SMSG_CLEAR_TARGET'', ''CMSG_BOT_DETECTED'',
    ''SMSG_CROSSED_INEBRIATION_THRESHOLD'', ''CMSG_CHEAT_PLAYER_LOGIN'', ''CMSG_CHEAT_PLAYER_LOOKUP'', ''SMSG_CHEAT_PLAYER_LOOKUP'',
    ''SMSG_KICK_REASON'', ''MSG_RAID_READY_CHECK_FINISHED'', ''CMSG_COMPLAIN'', ''SMSG_COMPLAIN_RESULT'',
    ''SMSG_FEATURE_SYSTEM_STATUS'', ''CMSG_GM_SHOW_COMPLAINTS'', ''CMSG_GM_UNSQUELCH'', ''CMSG_CHANNEL_SILENCE_VOICE'',
    ''CMSG_CHANNEL_SILENCE_ALL'', ''CMSG_CHANNEL_UNSILENCE_VOICE'', ''CMSG_CHANNEL_UNSILENCE_ALL'', ''CMSG_TARGET_CAST'',
    ''CMSG_TARGET_SCRIPT_CAST'', ''CMSG_CHANNEL_DISPLAY_LIST'', ''CMSG_SET_ACTIVE_VOICE_CHANNEL'', ''CMSG_GET_CHANNEL_MEMBER_COUNT'',
    ''SMSG_CHANNEL_MEMBER_COUNT'', ''CMSG_CHANNEL_VOICE_ON'', ''CMSG_CHANNEL_VOICE_OFF'', ''CMSG_DEBUG_LIST_TARGETS'',
    ''SMSG_DEBUG_LIST_TARGETS'', ''SMSG_AVAILABLE_VOICE_CHANNEL'', ''CMSG_ADD_VOICE_IGNORE'', ''CMSG_DEL_VOICE_IGNORE'',
    ''CMSG_PARTY_SILENCE'', ''CMSG_PARTY_UNSILENCE'', ''MSG_NOTIFY_PARTY_SQUELCH'', ''SMSG_COMSAT_RECONNECT_TRY'',
    ''SMSG_COMSAT_DISCONNECT'', ''SMSG_COMSAT_CONNECT_FAIL'', ''SMSG_VOICE_CHAT_STATUS'', ''CMSG_REPORT_PVP_AFK'',
    ''CMSG_REPORT_PVP_AFK_RESULT'', ''CMSG_GUILD_BANKER_ACTIVATE'', ''CMSG_GUILD_BANK_QUERY_TAB'', ''SMSG_GUILD_BANK_LIST'',
    ''CMSG_GUILD_BANK_SWAP_ITEMS'', ''CMSG_GUILD_BANK_BUY_TAB'', ''CMSG_GUILD_BANK_UPDATE_TAB'', ''CMSG_GUILD_BANK_DEPOSIT_MONEY'',
    ''CMSG_GUILD_BANK_WITHDRAW_MONEY'', ''MSG_GUILD_BANK_LOG_QUERY'', ''CMSG_SET_CHANNEL_WATCH'', ''SMSG_USERLIST_ADD'',
    ''SMSG_USERLIST_REMOVE'', ''SMSG_USERLIST_UPDATE'', ''CMSG_CLEAR_CHANNEL_WATCH'', ''SMSG_INSPECT_TALENT'',
    ''SMSG_GOGOGO_OBSOLETE'', ''SMSG_ECHO_PARTY_SQUELCH'', ''CMSG_SET_TITLE_SUFFIX'', ''CMSG_SPELLCLICK'',
    ''SMSG_LOOT_LIST'', ''CMSG_GM_CHARACTER_RESTORE'', ''CMSG_GM_CHARACTER_SAVE'', ''SMSG_VOICESESSION_FULL'',
    ''MSG_GUILD_PERMISSIONS'', ''MSG_GUILD_BANK_MONEY_WITHDRAWN'', ''MSG_GUILD_EVENT_LOG_QUERY'', ''CMSG_MAELSTROM_RENAME_GUILD'',
    ''CMSG_GET_MIRRORIMAGE_DATA'', ''SMSG_MIRRORIMAGE_DATA'', ''SMSG_FORCE_DISPLAY_UPDATE'', ''SMSG_SPELL_CHANCE_RESIST_PUSHBACK'',
    ''CMSG_IGNORE_DIMINISHING_RETURNS_CHEAT'', ''SMSG_IGNORE_DIMINISHING_RETURNS_CHEAT'', ''CMSG_KEEP_ALIVE'', ''SMSG_RAID_READY_CHECK_ERROR'',
    ''CMSG_OPT_OUT_OF_LOOT'', ''MSG_QUERY_GUILD_BANK_TEXT'', ''CMSG_SET_GUILD_BANK_TEXT'', ''CMSG_SET_GRANTABLE_LEVELS'',
    ''CMSG_GRANT_LEVEL'', ''CMSG_REFER_A_FRIEND'', ''MSG_GM_CHANGE_ARENA_RATING'', ''CMSG_DECLINE_CHANNEL_INVITE'',
    ''CMSG_GROUPACTION_THROTTLED'', ''SMSG_OVERRIDE_LIGHT'', ''SMSG_TOTEM_CREATED'', ''CMSG_TOTEM_DESTROYED'',
    ''CMSG_EXPIRE_RAID_INSTANCE'', ''CMSG_NO_SPELL_VARIANCE'', ''CMSG_QUESTGIVER_STATUS_MULTIPLE_QUERY'', ''SMSG_QUESTGIVER_STATUS_MULTIPLE'',
    ''CMSG_SET_PLAYER_DECLINED_NAMES'', ''SMSG_SET_PLAYER_DECLINED_NAMES_RESULT'']"

definition names_7 :: "string list" where
  "names_7 = [
    ''CMSG_QUERY_SERVER_BUCK_DATA'', ''CMSG_CLEAR_SERVER_BUCK_DATA'', ''SMSG_SERVER_BUCK_DATA'', ''SMSG_SEND_UNLEARN_SPELLS'',
    ''SMSG_PROPOSE_LEVEL_GRANT'', ''CMSG_ACCEPT_LEVEL_GRANT'', ''SMSG_REFER_A_FRIEND_FAILURE'', ''SMSG_SPLINE_MOVE_SET_FLYING'',
    ''SMSG_SPLINE_MOVE_UNSET_FLYING'', ''SMSG_SUMMON_CANCEL'']"

definition OpcodesNames :: "string list" where
  "OpcodesNames = names_0 @ names_1 @ names_2 @ names_3 @ names_4 @ names_5 @ names_6 @ names_7"

section \<open>Both tables agree\<close>

lemma upt_start: "[0..<150] = 0 # 1 # [2..<150]"
  by (subst upt_rec, subst upt_rec) (simp add: numeral_2_eq_2)

lemma part_0: "map fst opcodes_0 = names_0" "map snd opcodes_0 = [0..<150]"
  unfolding opcodes_0_def names_0_def by (simp_all only: list.map fst_conv snd_conv) (simp add: upt_start)

lemma part_1: "map fst opcodes_1 = names_1" "map snd opcodes_1 = [150..<300]"
  unfolding opcodes_1_def names_1_def by (simp_all only: list.map fst_conv snd_conv) (simp)

lemma part_2: "map fst opcodes_2 = names_2" "map snd opcodes_2 = [300..<450]"
  unfolding opcodes_2_def names_2_def by (simp_all only: list.map fst_conv snd_conv) (simp)

lemma part_3: "map fst opcodes_3 = names_3" "map snd opcodes_3 = [450..<600]"
  unfolding opcodes_3_def names_3_def by (simp_all only: list.map fst_conv snd_conv) (simp)

lemma part_4: "map fst opcodes_4 = names_4" "map snd opcodes_4 = [600..<750]"
  unfolding opcodes_4_def names_4_def by (simp_all only: list.map fst_conv snd_conv) (simp)

lemma part_5: "map fst opcodes_5 = names_5" "map snd opcodes_5 = [750..<900]"
  unfolding opcodes_5_def names_5_def by (simp_all only: list.map fst_conv snd_conv) (simp)

lemma part_6: "map fst opcodes_6 = names_6" "map snd opcodes_6 = [900..<1050]"
  unfolding opcodes_6_def names_6_def by (simp_all only: list.map fst_conv snd_conv) (simp)

lemma part_7: "map fst opcodes_7 = names_7" "map snd opcodes_7 = [1050..<1060]"
  unfolding opcodes_7_def names_7_def by (simp_all only: list.map fst_conv snd_conv) (simp)

lemmas parts = part_0 part_1 part_2 part_3 part_4 part_5 part_6 part_7

lemma upt_glue: "i \<le> j \<Longrightarrow> j \<le> k \<Longrightarrow> [i..<j] @ [j..<k] @ xs = [i..<k] @ xs" for i j k :: nat
  by (metis append_assoc le_add_diff_inverse upt_add_eq_append)

lemma opcodes_in_order: "map fst opcodes = OpcodesNames" "map snd opcodes = [0..<1060]"
proof -
  show "map fst opcodes = OpcodesNames" by (simp only: opcodes_def OpcodesNames_def map_append parts)
  have "map snd opcodes = [0..<150] @ [150..<300] @ [300..<450] @ [450..<600] @ [600..<750] @ [750..<900] @ [900..<1050] @ [1050..<1060] @ []"
    by (simp only: opcodes_def map_append parts append_Nil2)
  also have "\<dots> = [0..<1060] @ []" by (simp only: upt_glue rel_simps simp_thms)
  finally show "map snd opcodes = [0..<1060]" by simp
qed

lemma length_OpcodesNames: "length OpcodesNames = 1060"
  using opcodes_in_order by (metis length_map length_upt diff_zero)

lemma opcode_name:
  assumes "(n, v) \<in> set opcodes"
  shows "v < length OpcodesNames \<and> OpcodesNames ! v = n"
proof -
  obtain i where i: "i < length opcodes" "opcodes ! i = (n, v)" using assms by (auto simp: in_set_conv_nth)
  then have "i < 1060" using opcodes_in_order(2) by (metis length_map length_upt diff_zero)
  moreover have "map snd opcodes ! i = v" "map fst opcodes ! i = n" using i by simp_all
  ultimately have "v = i" unfolding opcodes_in_order(2) by simp
  with \<open>map fst opcodes ! i = n\<close> \<open>i < 1060\<close> show ?thesis by (simp add: opcodes_in_order length_OpcodesNames)
qed

end
