(* ===== verification/Packet_Names.thy ===== *)
theory Packet_Names
  imports Opcodes Session_Handoff
begin

text \<open>
  The reception of packets in the debug build, which logs the name of every packet before it is handled
  (the lines under \<open>_MORPHEUS_DEBUG\<close> in src/proxyd/Proxy_Socket.cpp).
\<close>

text \<open>\<open>OpcodesNames[op]\<close>\<close>

definition packet_name :: "u32 \<Rightarrow> string outcome" where
  "packet_name op = (if unat op < length OpcodesNames then Inr (OpcodesNames ! unat op) else Inl Out_of_bounds)"

text \<open>The name, size and opcode that are logged are the first component of the result.\<close>

definition process_incoming_debug ::
    "proxy_env \<Rightarrow> proxy_state \<Rightarrow> ((u32 \<times> string \<times> u16) option \<times> proxy_state) outcome" where
  "process_incoming_debug E = (\<lambda>(w, s).
     if in_packet s = No_packet then Inr (None, (w, s))
     else obind (with_packet (PeekOpcode Little) s) (\<lambda>(op, _).
       obind (packet_name op) (\<lambda>name.
       obind (with_packet (PeekSize Little) s) (\<lambda>(size, _).
       obind (process_incoming E (w, s)) (\<lambda>st. Inr (Some (op, name, size), st))))))"

lemma packet_name_opcode: "(n, unat op) \<in> set opcodes \<Longrightarrow> packet_name op = Inr n"
  using opcode_name [of n "unat op"] by (simp add: packet_name_def)

text \<open>C24. The debug build does what the release build does as long as the opcode is one of the 1060 of
  the enumeration, whose name it logs; a packet with any other opcode makes it read a name
  outside the table, where the release build ignores the packet.  No session is needed to send it.\<close>

theorem unknown_opcode_in_debug_build:
  assumes "in_packet s = Packet (client_packet op body)" and "length body \<le> 4090"
  shows "(\<forall>n. (n, unat op) \<in> set opcodes \<longrightarrow>
       process_incoming_debug E (w, s) =
         obind (process_incoming E (w, s)) (\<lambda>st. Inr (Some (op, n, client_size body), st))) \<and>
     (1060 \<le> unat op \<longrightarrow> process_incoming_debug E (w, s) = Inl Out_of_bounds \<and>
       process_incoming E (w, s) = Inr (w, s\<lparr>in_packet := Deleted\<rparr>))"
proof (intro conjI allI impI)
  have peek: "with_packet (PeekOpcode Little) s = Inr (op, client_packet op body)"
      "with_packet (PeekSize Little) s = Inr (client_size body, client_packet op body)"
    using peek_partial [of Little op body body] assms by (simp_all add: with_packet_def partial_packet_full)
  show "process_incoming_debug E (w, s) = obind (process_incoming E (w, s)) (\<lambda>st. Inr (Some (op, n, client_size body), st))"
    if "(n, unat op) \<in> set opcodes" for n
    using assms(1) packet_name_opcode [OF that] by (simp add: process_incoming_debug_def peek)
  assume big: "1060 \<le> unat op"
  then show "process_incoming_debug E (w, s) = Inl Out_of_bounds"
    using assms(1) by (simp add: process_incoming_debug_def peek packet_name_def length_OpcodesNames)
  have "op \<noteq> CMSG_AUTH_SESSION \<and> op \<noteq> CMSG_PING \<and> op \<noteq> CMSG_REALM_SPLIT \<and> op \<noteq> CMSG_CHAR_ENUM \<and>
      op \<noteq> CMSG_CHAR_CREATE \<and> op \<noteq> CMSG_PLAYED_TIME"
    using big by (auto simp: opcodes)
  then show "process_incoming E (w, s) = Inr (w, s\<lparr>in_packet := Deleted\<rparr>)"
    using process_partial [of s op body body E w] assms(1) by (simp add: partial_packet_full handle_opcode_def Let_def)
qed

theorem unknown_opcode_in_debug_build_witness:
  "process_incoming_debug demo_px_env (demo_proxyd, demo_client\<lparr>in_packet := Packet (client_packet 0x424 [])\<rparr>) = Inl Out_of_bounds"
  using unknown_opcode_in_debug_build [of "demo_client\<lparr>in_packet := Packet (client_packet 0x424 [])\<rparr>" "0x424" "[]" demo_px_env demo_proxyd]
  by simp

end
