(* ===== verification/Logging.thy ===== *)
theory Logging
  imports Text_Numbers
begin

text \<open>
  The configuration of the daemons (src/configuration/Configuration.cpp) and their log
  (src/common/Log.cpp).  The values of the configuration file, the files that can be opened and the
  local time are arguments; a message is the text its format gives.

  \<open>Log\<close> has two levels but uses the third place of their array, too.  In the object the member
  \<open>log_filter_mask\<close> lies behind the array, as the C++ rules for the layout of members without padding
  have it, so that the third place is this member; further places are out of bounds.
\<close>

section \<open>ConfigurationHolder\<close>

type_synonym ini = "bytes \<Rightarrow> bytes \<Rightarrow> bytes option"

record configuration =
  configFile :: bytes
  ini_values :: ini

definition conf_reload :: "(bytes \<Rightarrow> ini option) \<Rightarrow> configuration \<Rightarrow> configuration outcome" where
  "conf_reload import c = (case import (configFile c) of
       None \<Rightarrow> Inl Assert_failed
     | Some v \<Rightarrow> Inr (c\<lparr>ini_values := \<lambda>s k. case v s k of None \<Rightarrow> ini_values c s k | Some x \<Rightarrow> Some x\<rparr>))"

definition conf_open :: "(bytes \<Rightarrow> ini option) \<Rightarrow> bytes \<Rightarrow> configuration \<Rightarrow> configuration outcome" where
  "conf_open import location c = conf_reload import (c\<lparr>configFile := location\<rparr>)"

definition conf_getString :: "configuration \<Rightarrow> string \<Rightarrow> string \<Rightarrow> bytes" where
  "conf_getString c sect key = (case ini_values c (str sect) (str key) of None \<Rightarrow> [] | Some v \<Rightarrow> v)"

definition conf_getInt :: "configuration \<Rightarrow> string \<Rightarrow> string \<Rightarrow> u32" where
  "conf_getInt c sect key = of_int (atoi (conf_getString c sect key))"

definition conf_getBool :: "configuration \<Rightarrow> string \<Rightarrow> string \<Rightarrow> bool" where
  "conf_getBool c sect key \<longleftrightarrow> 0 < sint (conf_getInt c sect key)"

definition conf_getLogLevel :: "configuration \<Rightarrow> string \<Rightarrow> string \<Rightarrow> u32" where
  "conf_getLogLevel c sect key = conf_getInt c sect key"

section \<open>Log\<close>

definition LOG_FILTER_NONE :: u32 where "LOG_FILTER_NONE = 0"
definition LOG_FILTER_SYSTEM :: u32 where "LOG_FILTER_SYSTEM = 1"
definition LOG_FILTER_CHARS :: u32 where "LOG_FILTER_CHARS = 2"
definition LOG_FILTER_DB :: u32 where "LOG_FILTER_DB = 4"
definition LOG_FILTERS :: nat where "LOG_FILTERS = 2"

definition LOG_LEVEL_NORMAL :: u32 where "LOG_LEVEL_NORMAL = 1"
definition LOG_LEVEL_DETAIL :: u32 where "LOG_LEVEL_DETAIL = 2"
definition LOG_LEVEL_DEBUG :: u32 where "LOG_LEVEL_DEBUG = 3"
definition LOG_LEVEL_MAX :: u32 where "LOG_LEVEL_MAX = 4"

lemmas log_constants = LOG_FILTER_NONE_def LOG_FILTER_SYSTEM_def LOG_FILTER_CHARS_def LOG_FILTER_DB_def LOG_FILTERS_def
  LOG_LEVEL_NORMAL_def LOG_LEVEL_DETAIL_def LOG_LEVEL_DEBUG_def LOG_LEVEL_MAX_def

datatype log_type = LOG_TYPE_REALMD | LOG_TYPE_PROXYD | LOG_TYPE_ZONED

text \<open>An output file: its name once it is open, whether the stream is good, and what was written.\<close>

record log_file =
  lf_name :: "bytes option"
  lf_good :: bool
  lf_text :: bytes

definition lf_open :: "(bytes \<Rightarrow> bool) \<Rightarrow> bytes \<Rightarrow> log_file \<Rightarrow> log_file" where
  "lf_open can_open name f =
     (if lf_name f = None \<and> can_open name then f\<lparr>lf_name := Some name\<rparr> else f\<lparr>lf_good := False\<rparr>)"

definition lf_write :: "bytes \<Rightarrow> log_file \<Rightarrow> log_file" where
  "lf_write s f = (if lf_name f \<noteq> None \<and> lf_good f then f\<lparr>lf_text := lf_text f @ s\<rparr> else f\<lparr>lf_good := False\<rparr>)"

text \<open>\<open>log_levels\<close> is the array of two levels with the member behind it, \<open>log_filter_mask\<close>.\<close>

record log_state =
  log_levels :: "u32 list"
  f_log_main :: log_file
  f_log_chars :: log_file

definition log_filter_mask :: "log_state \<Rightarrow> u32" where
  "log_filter_mask l = log_levels l ! LOG_FILTERS"

definition set_level :: "u32 \<Rightarrow> u32 \<Rightarrow> log_state \<Rightarrow> log_state outcome" where
  "set_level i v l = (if unat i < length (log_levels l) then Inr (l\<lparr>log_levels := (log_levels l)[unat i := v]\<rparr>) else Inl Out_of_bounds)"

definition get_level :: "u32 \<Rightarrow> log_state \<Rightarrow> u32 outcome" where
  "get_level i l = (if unat i < length (log_levels l) then Inr (log_levels l ! unat i) else Inl Out_of_bounds)"

subsection \<open>Time stamps\<close>

record local_time =
  tm_year :: nat
  tm_mon :: nat
  tm_mday :: nat
  tm_hour :: nat
  tm_min :: nat
  tm_sec :: nat

text \<open>\<open>%0nd\<close>\<close>

definition zero_padded :: "nat \<Rightarrow> nat \<Rightarrow> bytes" where
  "zero_padded k n = replicate (k - length (decimal n)) 48 @ decimal n"

definition timestamp :: "local_time \<Rightarrow> bool \<Rightarrow> bytes" where
  "timestamp t for_file_name =
     (let date = zero_padded 4 (tm_year t + 1900) @ str ''-'' @ zero_padded 2 (tm_mon t + 1) @ str ''-'' @ zero_padded 2 (tm_mday t);
          sep = (if for_file_name then str ''-'' else str '':'')
      in take 19 (date @ (if for_file_name then str ''_'' else str '' '') @ zero_padded 2 (tm_hour t) @ sep @ zero_padded 2 (tm_min t) @ sep @ zero_padded 2 (tm_sec t)))"

subsection \<open>Output\<close>

text \<open>The environment: configuration, files that can be opened, time.\<close>

record log_env =
  l_config :: configuration
  l_can_open :: "bytes \<Rightarrow> bool"
  l_time :: local_time

definition get_file_for :: "u32 \<Rightarrow> (log_file \<Rightarrow> log_file) \<Rightarrow> log_state \<Rightarrow> log_state" where
  "get_file_for flt f l =
     (if flt = LOG_FILTER_SYSTEM then l\<lparr>f_log_main := f (f_log_main l)\<rparr>
      else if flt = LOG_FILTER_CHARS then l\<lparr>f_log_chars := f (f_log_chars l)\<rparr>
      else l\<lparr>f_log_main := f (f_log_main l)\<rparr>)"

text \<open>The common end of the four functions: the message is cut to fit its buffer, the time goes to the
  main file, the message to the file of the filter.\<close>

definition write_line :: "log_env \<Rightarrow> u32 \<Rightarrow> string \<Rightarrow> bytes \<Rightarrow> log_state \<Rightarrow> log_state" where
  "write_line E flt prefix msg l =
     get_file_for flt (lf_write (str prefix @ take 1022 msg @ [10]))
       (l\<lparr>f_log_main := lf_write (timestamp (l_time E) False @ str '' '') (f_log_main l)\<rparr>)"

definition outString :: "log_env \<Rightarrow> u32 \<Rightarrow> bytes \<Rightarrow> log_state \<Rightarrow> log_state outcome" where
  "outString E flt msg l = Inr (if log_filter_mask l AND flt = 0 then l else write_line E flt '''' msg l)"

definition outError :: "log_env \<Rightarrow> u32 \<Rightarrow> bytes \<Rightarrow> log_state \<Rightarrow> log_state outcome" where
  "outError E flt msg l = Inr (if log_filter_mask l AND flt = 0 then l else write_line E flt ''ERROR: '' msg l)"

definition outDetail :: "log_env \<Rightarrow> u32 \<Rightarrow> bytes \<Rightarrow> log_state \<Rightarrow> log_state outcome" where
  "outDetail E flt msg l =
     (if log_filter_mask l AND flt = 0 then Inr l
      else obind (get_level flt l) (\<lambda>v. Inr (if v < LOG_LEVEL_DETAIL then l else write_line E flt ''DETAIL: '' msg l)))"

definition outDebug :: "log_env \<Rightarrow> u32 \<Rightarrow> bytes \<Rightarrow> log_state \<Rightarrow> log_state outcome" where
  "outDebug E flt msg l =
     (if log_filter_mask l AND flt = 0 then Inr l
      else obind (get_level flt l) (\<lambda>v. Inr (if v < LOG_LEVEL_DEBUG then l else write_line E flt ''DEBUG: '' msg l)))"

subsection \<open>Set-up\<close>

definition log_open :: "log_env \<Rightarrow> string \<Rightarrow> log_file \<Rightarrow> log_file" where
  "log_open E name = lf_open (l_can_open E)
     (conf_getString (l_config E) ''log'' ''LogDir'' @ str ''/'' @ str name @ str ''_'' @ timestamp (l_time E) True @ str ''.log'')"

definition open_files :: "log_env \<Rightarrow> log_type \<Rightarrow> log_state \<Rightarrow> log_state" where
  "open_files E type l = (case type of
       LOG_TYPE_REALMD \<Rightarrow> l\<lparr>f_log_main := log_open E ''realmd'' (f_log_main l)\<rparr>
     | LOG_TYPE_PROXYD \<Rightarrow> l\<lparr>f_log_main := log_open E ''proxyd'' (f_log_main l), f_log_chars := log_open E ''proxyd_chars'' (f_log_chars l)\<rparr>
     | LOG_TYPE_ZONED \<Rightarrow> l\<lparr>f_log_main := log_open E ''zoned'' (f_log_main l), f_log_chars := log_open E ''zoned_chars'' (f_log_chars l)\<rparr>)"

text \<open>A level from the configuration, or the normal one with an error.\<close>

definition init_level :: "log_env \<Rightarrow> u32 \<Rightarrow> string \<Rightarrow> log_state \<Rightarrow> log_state outcome" where
  "init_level E flt key l =
     (let v = conf_getLogLevel (l_config E) ''log'' key in
      obind (set_level flt v l) (\<lambda>l.
        if v = 0 \<or> v \<ge> LOG_LEVEL_MAX
        then obind (outError E flt (str ''Log::initialize: Invalid level '' @ decimal (unat v) @ str '' for '' @ str key @
                 str '', setting to LOG_LEVEL_NORMAL.'') l) (set_level flt LOG_LEVEL_NORMAL)
        else Inr l))"

definition log_initialize :: "log_env \<Rightarrow> log_type \<Rightarrow> log_state \<Rightarrow> log_state outcome" where
  "log_initialize E type l =
     (let l = open_files E type l;
          l = l\<lparr>log_levels := (log_levels l)[LOG_FILTERS := conf_getInt (l_config E) ''log'' ''LogFilterMask'']\<rparr>
      in obind (set_level LOG_FILTER_NONE LOG_LEVEL_DEBUG l) (\<lambda>l.
         obind (init_level E LOG_FILTER_SYSTEM ''LogLevelSystem'' l) (\<lambda>l.
         init_level E LOG_FILTER_CHARS ''LogLevelChars'' l)))"

definition setLevel :: "log_env \<Rightarrow> u32 \<Rightarrow> u32 \<Rightarrow> log_state \<Rightarrow> log_state outcome" where
  "setLevel E flt level l =
     (if level = 0 \<or> level \<ge> LOG_LEVEL_MAX
      then outError E LOG_FILTER_SYSTEM (str ''Log::setLevel: Invalid level '' @ decimal (unat (ucast level :: u8)) @ str ''.'') l
      else ofold (\<lambda>i l. if flt AND of_nat i = 0 then Inr l else set_level (of_nat i) level l) [0..<LOG_FILTERS] l)"

section \<open>What is logged\<close>

definition effective_level :: "log_env \<Rightarrow> string \<Rightarrow> u32" where
  "effective_level E key =
     (let v = conf_getLogLevel (l_config E) ''log'' key in if v = 0 \<or> v \<ge> LOG_LEVEL_MAX then LOG_LEVEL_NORMAL else v)"

lemma levels_simps [simp]:
  "log_levels (open_files E type l) = log_levels l" "log_levels (write_line E flt prefix msg l) = log_levels l"
  by (cases type) (simp_all add: open_files_def write_line_def get_file_for_def)

lemma init_level_eval:
  assumes "unat flt < length (log_levels l)"
  shows "\<exists>l'. init_level E flt key l = Inr l' \<and> log_levels l' = (log_levels l)[unat flt := effective_level E key]"
proof (cases "conf_getLogLevel (l_config E) ''log'' key = 0 \<or> LOG_LEVEL_MAX \<le> conf_getLogLevel (l_config E) ''log'' key")
  case True
  then show ?thesis
    using assms by (simp add: init_level_def effective_level_def set_level_def outError_def Let_def)
next
  case False
  then show ?thesis
    using assms by (simp add: init_level_def effective_level_def set_level_def Let_def)
qed

lemma effective_level_cases: "effective_level E key \<in> {1, 2, 3}"
proof -
  have "v \<in> {0, 1, 2, 3}" if "\<not> 4 \<le> v" for v :: u32
  proof -
    have "unat v < 4" using that by (simp add: word_le_nat_alt not_le)
    then show ?thesis by (simp add: word_unat_eq_iff) linarith
  qed
  then show ?thesis by (auto simp: effective_level_def log_constants Let_def)
qed

text \<open>A message of a filter with a level is written, or not.\<close>

definition writes_if :: "bool \<Rightarrow> log_env \<Rightarrow> u32 \<Rightarrow> string \<Rightarrow> bytes \<Rightarrow> log_state \<Rightarrow> log_state outcome" where
  "writes_if b E flt prefix msg l = Inr (if b then write_line E flt prefix msg l else l)"

lemma mask_bits:
  "v \<in> {1, 2, 3 :: u32} \<Longrightarrow> (v AND 1 = 0) = (v = 2)" "v \<in> {1, 2, 3 :: u32} \<Longrightarrow> (v AND 2 = 0) = (v = 1)"
  "v \<in> {1, 2, 3 :: u32} \<Longrightarrow> v AND 4 = 0"
  by auto

lemma log_initialize_levels:
  assumes "length (log_levels l) = 3"
  shows "\<exists>l'. log_initialize E type l = Inr l' \<and>
     log_levels l' = [3, effective_level E ''LogLevelSystem'', effective_level E ''LogLevelChars'']"
proof -
  let ?s = "effective_level E ''LogLevelSystem''" and ?c = "effective_level E ''LogLevelChars''"
  define l1 where "l1 = (open_files E type l)\<lparr>log_levels := (log_levels l)[LOG_FILTERS := conf_getInt (l_config E) ''log'' ''LogFilterMask'', 0 := 3]\<rparr>"
  obtain l2 where l2: "init_level E LOG_FILTER_SYSTEM ''LogLevelSystem'' l1 = Inr l2" "log_levels l2 = (log_levels l1)[1 := ?s]"
    using init_level_eval [of LOG_FILTER_SYSTEM l1 E "''LogLevelSystem''"] assms by (auto simp: l1_def log_constants)
  obtain l3 where l3: "init_level E LOG_FILTER_CHARS ''LogLevelChars'' l2 = Inr l3" "log_levels l3 = (log_levels l2)[2 := ?c]"
    using init_level_eval [of LOG_FILTER_CHARS l2 E "''LogLevelChars''"] assms l2(2) by (auto simp: l1_def log_constants)
  have "log_levels l \<noteq> []" using assms by auto
  then have "log_initialize E type l = Inr l3"
    using l2(1) l3(1) assms by (simp add: log_initialize_def Let_def set_level_def l1_def log_constants)
  moreover have "log_levels l3 = [3, ?s, ?c]"
    using assms unfolding l3(2) l2(2) l1_def by (auto simp: log_constants length_Suc_conv numeral_3_eq_3)
  ultimately show ?thesis by blast
qed

text \<open>C23. After the start the mask of the log is the level configured for characters: storing this level
  behind the array of the levels overwrites what was read from \<open>LogFilterMask\<close>, which has no effect.  So
  messages of the system are written at the levels 1 and 3 but not at 2, those about characters in
  detail at the levels 2 and 3 and in debug detail at 3 only, and those of the database never.  \<open>setLevel\<close> cannot change the level for
  characters.\<close>

theorem log_mask_overwritten:
  assumes "length (log_levels l) = 3"
  shows "\<exists>l'. log_initialize E type l = Inr l' \<and>
     log_levels l' = [3, effective_level E ''LogLevelSystem'', effective_level E ''LogLevelChars''] \<and>
     log_filter_mask l' = effective_level E ''LogLevelChars'' \<and>
     (\<forall>msg. outString E LOG_FILTER_SYSTEM msg l' = writes_if (effective_level E ''LogLevelChars'' \<noteq> 2) E 1 [] msg l' \<and>
        outDetail E LOG_FILTER_CHARS msg l' = writes_if (effective_level E ''LogLevelChars'' \<noteq> 1) E 2 ''DETAIL: '' msg l' \<and>
        outDebug E LOG_FILTER_CHARS msg l' = writes_if (effective_level E ''LogLevelChars'' = 3) E 2 ''DEBUG: '' msg l' \<and>
        outDebug E LOG_FILTER_DB msg l' = Inr l') \<and>
     (\<forall>level. level \<noteq> 0 \<longrightarrow> level < LOG_LEVEL_MAX \<longrightarrow> setLevel E LOG_FILTER_CHARS level l' = Inr l')"
proof -
  let ?c = "effective_level E ''LogLevelChars''"
  obtain l3 where l3: "log_initialize E type l = Inr l3"
      and levels: "log_levels l3 = [3, effective_level E ''LogLevelSystem'', ?c]"
    using log_initialize_levels [OF assms] by blast
  have mask: "log_filter_mask l3 = ?c" by (simp add: log_filter_mask_def levels log_constants)
  moreover have "outString E LOG_FILTER_SYSTEM msg l3 = writes_if (?c \<noteq> 2) E 1 [] msg l3 \<and>
      outDetail E LOG_FILTER_CHARS msg l3 = writes_if (?c \<noteq> 1) E 2 ''DETAIL: '' msg l3 \<and>
      outDebug E LOG_FILTER_CHARS msg l3 = writes_if (?c = 3) E 2 ''DEBUG: '' msg l3 \<and>
      outDebug E LOG_FILTER_DB msg l3 = Inr l3" for msg
    using effective_level_cases [of E "''LogLevelChars''"] mask levels
    by (elim insertE emptyE) (simp_all add: writes_if_def outString_def outDetail_def outDebug_def get_level_def log_constants)
  moreover have "setLevel E LOG_FILTER_CHARS level l3 = Inr l3" if "level \<noteq> 0" "level < LOG_LEVEL_MAX" for level
    using that by (simp add: setLevel_def LOG_FILTERS_def LOG_FILTER_CHARS_def numeral_2_eq_2 flip: not_le)
  ultimately show ?thesis using l3 levels by blast
qed

theorem log_mask_overwritten_witness:
  "\<exists>l'. log_initialize \<lparr>l_config = \<lparr>configFile = [], ini_values = \<lambda>s k. if k = str ''LogFilterMask'' then Some (str ''7'')
         else if k = str ''LogLevelChars'' then Some (str ''2'') else None\<rparr>, l_can_open = \<lambda>_. True,
       l_time = \<lparr>tm_year = 109, tm_mon = 0, tm_mday = 1, tm_hour = 0, tm_min = 0, tm_sec = 0\<rparr>\<rparr> LOG_TYPE_PROXYD
       \<lparr>log_levels = [0, 0, 0], f_log_main = \<lparr>lf_name = None, lf_good = True, lf_text = []\<rparr>,
         f_log_chars = \<lparr>lf_name = None, lf_good = True, lf_text = []\<rparr>\<rparr> = Inr l' \<and> log_filter_mask l' = 2"
  (is "\<exists>l'. log_initialize ?E _ ?l = _ \<and> _")
proof -
  have "effective_level ?E ''LogLevelChars'' = 2"
    by (simp add: effective_level_def conf_getLogLevel_def conf_getInt_def conf_getString_def atoi_def isspace_def str_def log_constants)
  moreover have "length (log_levels ?l) = 3" by simp
  ultimately show ?thesis using log_mask_overwritten [of ?l ?E LOG_TYPE_PROXYD] by metis
qed

end
