(* ===== verification/Startup.thy ===== *)
theory Startup
  imports Logging Realm_Service Realm_Database Proxy_Service Proxy_Database Dbc_Store Sql_Connections
begin

text \<open>
  How the two daemons start (\<open>start\<close> of src/realmd/Realm_Service.cpp and src/proxyd/Proxy_Service.cpp):
  the order of their steps, what each step reads from the configuration, and where they give up.  The
  reactor, the name service and the database server are arguments; the threads are not modelled.
\<close>

section \<open>The environment\<close>

text \<open>\<open>se_bind\<close>: can the acceptor open this address; \<open>se_orb\<close>: does the connection to the event channel
  through this name service succeed; \<open>se_database\<close>: \<open>DatabaseHolder::open\<close> with the number of threads,
  the driver and the URL; \<open>se_answer\<close>: the result of a request someone waits for.\<close>

record 'b start_env =
  se_log :: log_env
  se_bind :: "bytes \<Rightarrow> bool"
  se_orb :: "bytes \<Rightarrow> bool"
  se_database :: "int \<Rightarrow> bytes \<Rightarrow> bytes \<Rightarrow> 'b list option outcome"
  se_answer :: "proxy_op \<Rightarrow> result_set option"
  se_dir :: "bytes \<Rightarrow> bool"
  se_files :: "bytes \<Rightarrow> bytes option"
  se_junk :: "u32 \<times> byte"
  se_timer :: int

abbreviation se_config :: "('b, 'z) start_env_scheme \<Rightarrow> configuration" where
  "se_config E \<equiv> l_config (se_log E)"

definition name_service :: "('b, 'z) start_env_scheme \<Rightarrow> bytes" where
  "name_service E = str ''NameService='' @ conf_getString (se_config E) ''corba'' ''NSLocation'' @ str ''/NameService''"

text \<open>A daemon returns from \<open>start\<close> early, or it serves.\<close>

datatype 's start_result = Returned 's | Serving 's

definition start_log :: "log_env \<Rightarrow> log_type \<Rightarrow> log_state \<Rightarrow> log_state outcome" where
  "start_log E type l =
     obind (log_initialize E type l) (outDetail E LOG_FILTER_SYSTEM (str ''Log system initialized.''))"

text \<open>\<open>open\<close> of the database with the values of the section of the configuration.\<close>

definition start_database :: "('b, 'z) start_env_scheme \<Rightarrow> string \<Rightarrow> 'b list option outcome" where
  "start_database E sect =
     se_database E (sint (conf_getInt (se_config E) sect ''DBThreads''))
       (conf_getString (se_config E) sect ''DBengine'') (conf_getString (se_config E) sect ''DBUrl'')"

section \<open>\<open>Realm_Service::start\<close>\<close>

text \<open>\<open>rd_timers\<close>: delay and interval of the timers in seconds.\<close>

record 'b realm_daemon =
  rd_log :: log_state
  rd_db :: "'b list"
  rd_running :: bool
  rd_jobs :: "realm_op list"
  rd_timers :: "(int \<times> int) list"

definition realm_start :: "('b, 'z) start_env_scheme \<Rightarrow> 'b realm_daemon \<Rightarrow> 'b realm_daemon start_result outcome" where
  "realm_start E d =
     obind (start_log (se_log E) LOG_TYPE_REALMD (rd_log d)) (\<lambda>l.
     let d = d\<lparr>rd_log := l\<rparr> in
     if \<not> se_bind E (conf_getString (se_config E) ''realmd'' ''BindAddr'') then Inr (Returned d)
     else obind (start_database E ''realmd'') (\<lambda>db.
       let d = d\<lparr>rd_db := (case db of None \<Rightarrow> [] | Some bs \<Rightarrow> bs)\<rparr> in
       if \<not> se_orb E (name_service E) then Inr (Returned d)
       else obind get_realmlist (\<lambda>op.
         Inr (Serving (d\<lparr>rd_running := True, rd_jobs := rd_jobs d @ [op], rd_timers := rd_timers d @ [(1, 60)]\<rparr>)))))"

text \<open>\<open>Realm_Service::stop\<close> and a timeout of the timer.\<close>

definition realm_stop :: "'b realm_daemon \<Rightarrow> 'b realm_daemon" where
  "realm_stop d = d\<lparr>rd_running := False, rd_db := []\<rparr>"

definition realm_unban_timeout :: "'b realm_daemon \<Rightarrow> 'b realm_daemon" where
  "realm_unban_timeout d = d\<lparr>rd_jobs := rd_jobs d @ unban_timer\<rparr>"

section \<open>\<open>Proxy_Service::start\<close>\<close>

record 'b proxy_daemon =
  pd_log :: log_state
  pd_service :: proxy_service
  pd_store :: dbc_store
  pd_objects :: object_mgr
  pd_db :: "'b list"
  pd_jobs :: "proxy_job list"

definition load_store :: "('b, 'z) start_env_scheme \<Rightarrow> dbc_store \<Rightarrow> dbc_store outcome" where
  "load_store E d =
     (let (jw, jc) = se_junk E in
      obind (dbc_open (conf_getString (se_config E) ''data'' ''dbc'') (se_dir E) d) (\<lambda>d.
      obind (load_item_dbc jw jc (se_files E) d) (\<lambda>d.
      obind (load_spell_item_enchantments_dbc jw jc (se_files E) d) (\<lambda>d.
      obind (load_chr_races_dbc jw jc (se_files E) d) (\<lambda>d.
      load_chr_classes_dbc jw jc (se_files E) d)))))"

text \<open>The members that \<open>start\<close> sets first; the address is read from the configuration at every
  announcement.\<close>

definition configured :: "('b, 'z) start_env_scheme \<Rightarrow> proxy_service \<Rightarrow> proxy_service" where
  "configured E s = (proxy_service_start (sint (conf_getInt (se_config E) ''proxyd'' ''ConnectionLimit''))
      (sint (conf_getInt (se_config E) ''proxyd'' ''RealmID'')) s)
      \<lparr>bind_addr := conf_getString (se_config E) ''proxyd'' ''BindAddr''\<rparr>"

text \<open>Without connections nothing sets the future that \<open>init_max_guids\<close> waits for.\<close>

definition proxy_start :: "('b, 'z) start_env_scheme \<Rightarrow> 'b proxy_daemon \<Rightarrow> 'b proxy_daemon start_result outcome" where
  "proxy_start E d =
     obind (start_log (se_log E) LOG_TYPE_PROXYD (pd_log d)) (\<lambda>l.
     let d = d\<lparr>pd_log := l, pd_service := configured E (pd_service d)\<rparr> in
     case load_store E (pd_store d) of
       Inl (Thrown e) \<Rightarrow> Inr (Returned d)
     | Inl f \<Rightarrow> Inl f
     | Inr store \<Rightarrow>
         let d = d\<lparr>pd_store := store\<rparr> in
         if \<not> se_bind E (conf_getString (se_config E) ''proxyd'' ''BindAddr'') then Inr (Returned d)
         else if \<not> se_orb E (name_service E) then Inr (Returned d)
         else obind (start_database E ''proxyd'') (\<lambda>db.
           let bs = (case db of None \<Rightarrow> [] | Some bs \<Rightarrow> bs);
               answer = (\<lambda>op. if bs = [] then None else se_answer E op)
           in obind (init_max_guids answer (pd_objects d, pd_jobs d @ [Request load_player_createinfo])) (\<lambda>(om, jobs).
             Inr (Serving (d\<lparr>pd_service := start_announcing (se_timer E) ((pd_service d)\<lparr>is_running := True\<rparr>),
               pd_objects := om, pd_db := bs, pd_jobs := jobs\<rparr>)))))"

definition proxy_daemon_stop :: "'b proxy_daemon \<Rightarrow> 'b proxy_daemon" where
  "proxy_daemon_stop d = d\<lparr>pd_service := proxy_stop (pd_service d), pd_db := []\<rparr>"

section \<open>Properties\<close>

lemma start_log_returns:
  assumes "length (log_levels l) = 3"
  shows "\<exists>l'. start_log E type l = Inr l' \<and> length (log_levels l') = 3"
proof -
  obtain l' where l': "log_initialize E type l = Inr l'"
      "log_levels l' = [3, effective_level E ''LogLevelSystem'', effective_level E ''LogLevelChars'']"
    using log_initialize_levels [OF assms] by blast
  then show ?thesis
    by (auto simp: start_log_def outDetail_def get_level_def log_constants)
qed

definition ready :: "('b, 'z) start_env_scheme \<Rightarrow> 'b proxy_daemon \<Rightarrow> bool" where
  "ready E d \<longleftrightarrow> (\<exists>store. load_store E (pd_store d) = Inr store) \<and>
     se_bind E (conf_getString (se_config E) ''proxyd'' ''BindAddr'') \<and> se_orb E (name_service E)"

definition gives_up :: "('b, 'z) start_env_scheme \<Rightarrow> 'b proxy_daemon \<Rightarrow> bool" where
  "gives_up E d \<longleftrightarrow> (\<exists>e. load_store E (pd_store d) = Inl (Thrown e)) \<or>
     (\<exists>store. load_store E (pd_store d) = Inr store) \<and> \<not> ready E d"

text \<open>The request for the highest guid, as the worker gets it.\<close>

definition max_guid_request :: proxy_op where
  "max_guid_request = (sql_request PROXYD_DB_GET_CHAR_MAX_GUID)\<lparr>observer := Some Synch\<rparr>"

lemma init_max_guids_waits: "init_max_guids (\<lambda>_. None) mj = Inl Hangs"
  by (simp add: init_max_guids_def enqueue_synch_query_def Let_def)

lemma init_max_guids_answered:
  assumes "answer max_guid_request = Some res" "rs_next res = Inr (b, r)" "rs_getUint32 1 r = Inr g"
  shows "init_max_guids answer (m, jobs) = Inr (m\<lparr>max_guids := (max_guids m)[0 := g + 1]\<rparr>, jobs @ [Request max_guid_request])"
  using assms
  by (simp add: init_max_guids_def enqueue_synch_query_def max_guid_request_def sql_request_def has_result_def GUID_CHAR_def Let_def)


lemma realm_starts:
  assumes "length (log_levels (rd_log d)) = 3"
  shows "\<exists>l. \<not> se_bind E (conf_getString (se_config E) ''realmd'' ''BindAddr'') \<longrightarrow> realm_start E d = Inr (Returned (d\<lparr>rd_log := l\<rparr>))"
    and "\<exists>l. se_bind E (conf_getString (se_config E) ''realmd'' ''BindAddr'') \<longrightarrow> start_database E ''realmd'' = Inr (Some bs) \<longrightarrow>
      realm_start E d = Inr (if se_orb E (name_service E)
        then Serving (d\<lparr>rd_log := l, rd_db := bs, rd_running := True,
          rd_jobs := rd_jobs d @ [sql_request_res REALMD_DB_GET_REALMLIST getRealmList], rd_timers := rd_timers d @ [(1, 60)]\<rparr>)
        else Returned (d\<lparr>rd_log := l, rd_db := bs\<rparr>))"
proof -
  obtain l where l: "start_log (se_log E) LOG_TYPE_REALMD (rd_log d) = Inr l"
    using start_log_returns [OF assms] by blast
  show "\<exists>l. \<not> se_bind E (conf_getString (se_config E) ''realmd'' ''BindAddr'') \<longrightarrow> realm_start E d = Inr (Returned (d\<lparr>rd_log := l\<rparr>))"
    by (intro exI [of _ l]) (simp add: realm_start_def l Let_def)
  show "\<exists>l. se_bind E (conf_getString (se_config E) ''realmd'' ''BindAddr'') \<longrightarrow> start_database E ''realmd'' = Inr (Some bs) \<longrightarrow>
      realm_start E d = Inr (if se_orb E (name_service E)
        then Serving (d\<lparr>rd_log := l, rd_db := bs, rd_running := True,
          rd_jobs := rd_jobs d @ [sql_request_res REALMD_DB_GET_REALMLIST getRealmList], rd_timers := rd_timers d @ [(1, 60)]\<rparr>)
        else Returned (d\<lparr>rd_log := l, rd_db := bs\<rparr>))"
    by (intro exI [of _ l]) (simp add: realm_start_def l Let_def get_realmlist_def)
qed

section \<open>Witness\<close>

text \<open>A machine with empty DBC files, a realm and an address in the configuration but no limit, and 41 as
  the highest guid.\<close>

definition demo_max_guid :: result_set where
  "demo_max_guid = RS_MySQL \<lparr>m_rowPosition = 0, m_numRows = 1, m_numFields = 1, m_bindResult = [None],
     m_pending = [[Some (le_bytes 8 (41 :: u64), 8)]]\<rparr>"

definition demo_start :: "nat start_env" where
  "demo_start = \<lparr>se_log = \<lparr>l_config = \<lparr>configFile = [], ini_values = \<lambda>s k. if k = str ''RealmID'' then Some [55]
        else if k = str ''BindAddr'' then Some [65] else None\<rparr>, l_can_open = \<lambda>_. True,
       l_time = \<lparr>tm_year = 109, tm_mon = 0, tm_mday = 1, tm_hour = 0, tm_min = 0, tm_sec = 0\<rparr>\<rparr>,
     se_bind = \<lambda>_. True, se_orb = \<lambda>_. True, se_database = \<lambda>_ _ _. Inr (Some [0]), se_answer = \<lambda>_. Some demo_max_guid,
     se_dir = \<lambda>_. True, se_files = \<lambda>_. Some (dbc_image 4 [] [0, 65, 0]), se_junk = (0, 0), se_timer = 5\<rparr>"

definition demo_daemon :: "nat proxy_daemon" where
  "demo_daemon = \<lparr>pd_log = \<lparr>log_levels = [0, 0, 0], f_log_main = \<lparr>lf_name = None, lf_good = True, lf_text = []\<rparr>,
       f_log_chars = \<lparr>lf_name = None, lf_good = True, lf_text = []\<rparr>\<rparr>,
     pd_service = \<lparr>load = 0, current_connections = 0, connection_limit = 9, realm_id = 0, announce_timer_id = 0,
       is_running = False, bind_addr = [], timers = [], announced = []\<rparr>,
     pd_store = demo_store, pd_objects = demo_mgr, pd_db = [], pd_jobs = []\<rparr>"

lemma demo_start_simps:
  "se_bind demo_start a" "se_orb demo_start a" "se_dir demo_start a" "se_junk demo_start = (0, 0)" "se_timer demo_start = 5"
  "se_database demo_start n e u = Inr (Some [0])" "se_answer demo_start op = Some demo_max_guid"
  by (simp_all add: demo_start_def)

lemma demo_config:
  "conf_getString (se_config demo_start) ''proxyd'' ''BindAddr'' = [65]"
  "conf_getString (se_config demo_start) ''proxyd'' ''ConnectionLimit'' = []"
  "conf_getInt (se_config demo_start) ''proxyd'' ''RealmID'' = 7"
  by (simp_all add: demo_start_def conf_getInt_def conf_getString_def str_def atoi_def isspace_def)

lemma demo_empty_file: "load_dbc 0 0 (se_files demo_start) name body d = Inr d"
proof -
  obtain f where "DBC_File 0 0 (Some (dbc_image 4 [] [0, 65, 0])) = Inr f" "unat (dbc_records f) = 0"
    using DBC_File_image [of 4 "[]" "[0, 65, 0]" 0 0] by (auto simp: dbc_image_ok_def)
  then show ?thesis by (simp add: load_dbc_def demo_start_def)
qed

lemma demo_ready: "ready demo_start demo_daemon"
  by (simp add: ready_def load_store_def load_item_dbc_def load_spell_item_enchantments_dbc_def load_chr_races_dbc_def
      load_chr_classes_dbc_def demo_empty_file demo_start_simps dbc_open_def Let_def)


end
