(* ===== verification/Dumps.thy ===== *)
theory Dumps
  imports Byte_Buffer Text_Numbers
begin

text \<open>
  The two routines that print memory for the log: \<open>Utils::hexdump\<close> (common/Util.h), which lays every
  sixteen bytes out in a line buffer of 100 characters, and \<open>ByteBuffer::hexlike\<close> (common/ByteBuffer.h).
  The value of each is the text that goes to the log.
\<close>

section \<open>Lines of \<open>hexdump\<close>\<close>

text \<open>Writing characters into \<open>szBuf\<close>; \<open>sprintf\<close> also writes the NUL.\<close>

definition put_at :: "nat \<Rightarrow> bytes \<Rightarrow> bytes \<Rightarrow> bytes outcome" where
  "put_at i t buf = (if i + length t \<le> length buf then Inr (splice_at i t buf) else Inl Out_of_bounds)"

definition sprintf_at :: "nat \<Rightarrow> bytes \<Rightarrow> bytes \<Rightarrow> bytes outcome" where
  "sprintf_at i t buf = put_at i (t @ [0]) buf"

definition isprint :: "byte \<Rightarrow> bool" where
  "isprint c \<longleftrightarrow> 32 \<le> c \<and> c \<le> 126"

text \<open>\<open>%X\<close> and \<open>%08lX\<close>.\<close>

fun hex_digits :: "nat \<Rightarrow> bytes" where
  "hex_digits n = (if n < 16 then [hex_upper (of_nat n)] else hex_digits (n div 16) @ [hex_upper (of_nat (n mod 16))])"

declare hex_digits.simps [simp del]

definition hex_pad8 :: "nat \<Rightarrow> bytes" where
  "hex_pad8 n = replicate (8 - length (hex_digits n)) 48 @ hex_digits n"

text \<open>The loop over the bytes of a line, with the values of \<open>lIndex\<close>, \<open>lIndex2\<close> and \<open>lRelPos\<close>.\<close>

fun dump_bytes :: "nat \<Rightarrow> nat \<Rightarrow> nat \<Rightarrow> bytes \<Rightarrow> bytes \<Rightarrow> (nat \<times> nat \<times> bytes) outcome" where
  "dump_bytes lIndex lIndex2 lRelPos [] buf = Inr (lIndex, lRelPos, buf)"
| "dump_bytes lIndex lIndex2 lRelPos (c # cs) buf =
     obind (sprintf_at lIndex (sprintf_02X c @ [32]) buf) (\<lambda>buf.
     obind (put_at lIndex2 [if isprint c then c else 46] buf) (\<lambda>buf.
     if (lRelPos + 1) mod 4 = 0
     then obind (put_at (lIndex + 1 + 2) [32] buf) (\<lambda>buf.
            dump_bytes (lIndex + 1 + 2) (lIndex2 + 1) (lRelPos + 1) cs buf)
     else dump_bytes (lIndex + 2) (lIndex2 + 1) (lRelPos + 1) cs buf))"

text \<open>One line: its text as \<open>operator<<\<close> takes it from the buffer, and the buffer.\<close>

definition dump_line :: "nat \<Rightarrow> bytes \<Rightarrow> bytes \<Rightarrow> (bytes \<times> bytes) outcome" where
  "dump_line off row buf =
     obind (sprintf_at 0 ([32, 62] @ replicate 54 32 @ hex_pad8 off) buf) (\<lambda>buf.
     obind (dump_bytes (1 + 1) (53 - 15 + 1) 0 row buf) (\<lambda>(lIndex, lRelPos, buf).
       let lIndex = if lRelPos mod 4 = 0 then lIndex - 1 else lIndex
       in obind (put_at lIndex [60] buf) (\<lambda>buf. obind (put_at (lIndex + 1) [32] buf) (\<lambda>buf.
            if 0 \<in> set buf then Inr (takeWhile (\<lambda>c. c \<noteq> 0) buf, buf) else Inl Out_of_bounds))))"

function dump_loop :: "nat \<Rightarrow> bytes \<Rightarrow> bytes \<Rightarrow> bytes \<Rightarrow> bytes outcome" where
  "dump_loop off mem buf stm =
     (if mem = [] then Inr stm
      else obind (dump_line off (take 16 mem) buf) (\<lambda>(line, buf).
             dump_loop (off + length (take 16 mem)) (drop 16 mem) buf (stm @ line @ [10])))"
  by pat_completeness auto
termination by (relation "measure (\<lambda>(off, mem, buf, stm). length mem)") auto

declare dump_loop.simps [simp del]

definition hexdump :: "bytes \<Rightarrow> bytes \<Rightarrow> bytes outcome" where
  "hexdump junk mem = dump_loop 0 mem junk [10]"

section \<open>What a line should be\<close>

text \<open>The bytes in groups of four, the characters from column 39, the offset in columns 56 to 63.\<close>

fun cells :: "nat \<Rightarrow> bytes \<Rightarrow> bytes" where
  "cells k [] = []"
| "cells k (c # cs) = sprintf_02X c @ (if (k + 1) mod 4 = 0 then [32] else []) @ cells (k + 1) cs"

definition shown :: "byte \<Rightarrow> byte" where
  "shown c = (if isprint c then c else 46)"

definition pad :: "nat \<Rightarrow> bytes \<Rightarrow> bytes" where
  "pad n t = t @ replicate (n - length t) 32"

definition line_text :: "nat \<Rightarrow> bytes \<Rightarrow> bytes" where
  "line_text off row =
     (let left = cells 0 row; left = (if length row mod 4 = 0 then butlast left else left)
      in pad 39 ([32, 62] @ left @ [60]) @ pad 17 (map shown row) @ hex_pad8 off)"

lemma put_at_append:
  "i = length A \<Longrightarrow> length X = length t \<Longrightarrow> put_at i t (A @ X @ Z) = Inr (A @ t @ Z)"
  by (simp add: put_at_def splice_at_def)

text \<open>Where the hexadecimal part stands after \<open>k\<close> bytes, and what lies between it and column 39: after a
  byte that does not end a group, the NUL that \<open>sprintf\<close> left.\<close>

definition hex_end :: "nat \<Rightarrow> nat" where
  "hex_end k = 2 + 2 * k + k div 4"

definition gap :: "nat \<Rightarrow> bytes" where
  "gap k = (if k mod 4 = 0 then replicate (39 - hex_end k) 32 else 32 # 0 # replicate (37 - hex_end k) 32)"

lemma hex_end_Suc: "hex_end (Suc k) = hex_end k + (if Suc k mod 4 = 0 then 3 else 2)"
  by (simp add: hex_end_def mod_Suc div_Suc)

lemma hex_end_le: "k < 16 \<Longrightarrow> hex_end k \<le> 35"
  by (simp add: hex_end_def)

lemma gap_front:
  assumes "hex_end k \<le> 35"
  shows "\<exists>x y. gap k = [x, y, 32, 32] @ replicate (35 - hex_end k) 32"
proof -
  have "39 - hex_end k = Suc (Suc (Suc (Suc (35 - hex_end k))))" "37 - hex_end k = Suc (Suc (35 - hex_end k))"
    using assms by simp_all
  then show ?thesis by (auto simp: gap_def)
qed

lemma gap_Suc:
  "hex_end k \<le> 35 \<Longrightarrow> gap (k + 1) = (if (k + 1) mod 4 = 0 then [] else [32]) @
     (if (k + 1) mod 4 = 0 then 32 else 0) # replicate (35 - hex_end k) 32"
proof -
  assume "hex_end k \<le> 35"
  then have "36 - hex_end k = Suc (35 - hex_end k)" by simp
  then show ?thesis by (simp add: gap_def hex_end_Suc)
qed

lemma length_sprintf_02X [simp]: "length (sprintf_02X c) = 2"
  by (simp add: sprintf_02X_def)

lemma dump_bytes_eval:
  assumes "length A = hex_end k" and "length C = k" and "k + length cs \<le> 16"
  shows "dump_bytes (length A) (39 + k) k cs (A @ gap k @ C @ replicate (17 - k) 32 @ T) =
    (let n = k + length cs; A' = A @ cells k cs
     in Inr (length A', n, A' @ gap n @ (C @ map shown cs) @ replicate (17 - n) 32 @ T))"
  using assms
proof (induction cs arbitrary: k A C)
  case (Cons c cs)
  let ?h = "sprintf_02X c" and ?G = "replicate (35 - hex_end k) (32 :: byte)" and ?R = "replicate (16 - k) (32 :: byte)"
  have k: "hex_end k \<le> 35" using Cons.prems(3) by (intro hex_end_le) simp
  obtain x y where g: "gap k = [x, y, 32, 32] @ ?G" using gap_front [OF k] by blast
  have r: "replicate (17 - k) (32 :: byte) = [32] @ ?R" using Cons.prems(3) by (simp add: Suc_diff_le flip: replicate_Suc)
  have w1: "sprintf_at (length A) (?h @ [32]) (A @ gap k @ C @ replicate (17 - k) 32 @ T)
      = Inr (A @ (?h @ [32, 0]) @ ?G @ C @ [32] @ ?R @ T)"
    using put_at_append [of "length A" A "[x, y, 32, 32]" "?h @ [32, 0]" "?G @ C @ [32] @ ?R @ T"]
    by (simp add: sprintf_at_def g r)
  have w2: "put_at (39 + k) [shown c] (A @ (?h @ [32, 0]) @ ?G @ C @ [32] @ ?R @ T)
      = Inr (A @ (?h @ [32, 0]) @ ?G @ C @ [shown c] @ ?R @ T)"
    using put_at_append [of "39 + k" "A @ (?h @ [32, 0]) @ ?G @ C" "[32]" "[shown c]" "?R @ T"] k Cons.prems(1,2) by simp
  have w3: "put_at (length A + 1 + 2) [32] (A @ (?h @ [32, 0]) @ ?G @ C @ [shown c] @ ?R @ T)
      = Inr (A @ (?h @ [32, 32]) @ ?G @ C @ [shown c] @ ?R @ T)"
    using put_at_append [of "length A + 1 + 2" "A @ ?h @ [32]" "[0]" "[32]" "?G @ C @ [shown c] @ ?R @ T"] by simp
  show ?case
  proof (cases "(k + 1) mod 4 = 0")
    case True
    have "dump_bytes (length (A @ ?h @ [32])) (39 + (k + 1)) (k + 1) cs
        ((A @ ?h @ [32]) @ gap (k + 1) @ (C @ [shown c]) @ replicate (17 - (k + 1)) 32 @ T) =
      (let n = k + 1 + length cs; A' = (A @ ?h @ [32]) @ cells (k + 1) cs
       in Inr (length A', n, A' @ gap n @ ((C @ [shown c]) @ map shown cs) @ replicate (17 - n) 32 @ T))"
      using True Cons.prems by (intro Cons.IH) (simp_all add: hex_end_Suc)
    with w1 w2 w3 True gap_Suc [OF k] show ?thesis
      by (simp add: Let_def numeral_3_eq_3 flip: shown_def)
  next
    case False
    have "dump_bytes (length (A @ ?h)) (39 + (k + 1)) (k + 1) cs
        ((A @ ?h) @ gap (k + 1) @ (C @ [shown c]) @ replicate (17 - (k + 1)) 32 @ T) =
      (let n = k + 1 + length cs; A' = (A @ ?h) @ cells (k + 1) cs
       in Inr (length A', n, A' @ gap n @ ((C @ [shown c]) @ map shown cs) @ replicate (17 - n) 32 @ T))"
      using False Cons.prems by (intro Cons.IH) (simp_all add: hex_end_Suc)
    with w1 w2 False gap_Suc [OF k] show ?thesis
      by (simp add: Let_def numeral_3_eq_3 flip: shown_def)
  qed
qed (simp add: Let_def)

lemma sprintf_02X_text: "0 \<notin> set (sprintf_02X c)"
  using hex_upper_char(3) [OF nibble_cases(1) [of c]] hex_upper_char(3) [OF nibble_cases(2) [of c]]
  by (simp add: sprintf_02X_def del: drop_bit_numeral_bit0)

lemma hex_digits_text: "0 \<notin> set (hex_digits n)"
proof (induction n rule: hex_digits.induct)
  case (1 n)
  have "hex_upper (of_nat k) \<noteq> 0" if "k < 16" for k
  proof -
    have "(of_nat k :: byte) < 16" using that by (simp add: word_less_nat_alt unat_of_nat_small)
    then show ?thesis by (rule hex_upper_char(3))
  qed
  from this [of n] this [of "n mod 16"] 1 show ?case by (subst hex_digits.simps) (auto dest: sym)
qed

lemma length_hex_digits: "n < 16 ^ Suc k \<Longrightarrow> length (hex_digits n) \<le> Suc k"
proof (induction k arbitrary: n)
  case (Suc k)
  then have "n div 16 < 16 ^ Suc k" by (simp add: less_mult_imp_div_less mult.commute)
  from Suc.IH [OF this] show ?case by (subst hex_digits.simps) simp
qed (simp add: hex_digits.simps)

lemma cells_last: "cs \<noteq> [] \<Longrightarrow> (k + length cs) mod 4 = 0 \<Longrightarrow> \<exists>xs. cells k cs = xs @ [32]"
proof (induction cs arbitrary: k)
  case (Cons c cs)
  then show ?case
  proof (cases cs)
    case Nil
    with Cons.prems show ?thesis by simp
  next
    case (Cons d ds)
    with Cons.IH [of "k + 1"] Cons.prems obtain xs where "cells (k + 1) cs = xs @ [32]" by auto
    then show ?thesis by simp
  qed
qed simp

lemma length_cells: "hex_end k + length (cells k cs) = hex_end (k + length cs)"
proof (induction cs arbitrary: k)
  case (Cons c cs)
  from Cons.IH [of "k + 1"] show ?case by (simp add: hex_end_Suc split: if_splits)
qed simp

lemma cells_text: "0 \<notin> set (cells k cs)"
  using sprintf_02X_text by (induction cs arbitrary: k) auto

text \<open>The end of a line.\<close>

lemma close_line:
  assumes "row \<noteq> []" and "length row \<le> 16"
  shows "\<exists>b. put_at (if length row mod 4 = 0 then length ([32, 62] @ cells 0 row) - 1 else length ([32, 62] @ cells 0 row)) [60]
      (([32, 62] @ cells 0 row) @ gap (length row) @ Z) = Inr b \<and>
    put_at ((if length row mod 4 = 0 then length ([32, 62] @ cells 0 row) - 1 else length ([32, 62] @ cells 0 row)) + 1) [32] b =
      Inr (pad 39 ([32, 62] @ (if length row mod 4 = 0 then butlast (cells 0 row) else cells 0 row) @ [60]) @ Z)"
proof -
  let ?n = "length row" and ?H = "cells 0 row"
  let ?A = "[32, 62] @ ?H" and ?left = "if ?n mod 4 = 0 then butlast ?H else ?H"
  let ?i = "if ?n mod 4 = 0 then length ?A - 1 else length ?A"
  let ?L = "[32, 62] @ ?left @ [60]"
  have A: "length ?A = hex_end ?n" using length_cells [of 0 row] by (simp add: hex_end_def)
  show ?thesis
  proof (cases "?n mod 4 = 0")
    case True
    then obtain xs where xs: "?H = xs @ [32]" using cells_last [of row 0] assms(1) by auto
    have "hex_end ?n \<le> 38" using assms(2) by (simp add: hex_end_def)
    then have e: "39 - hex_end ?n = Suc (38 - hex_end ?n)" by simp
    have i: "?i = length xs + 2" "hex_end ?n = length xs + 3" using A True xs by simp_all
    have "put_at (length xs + 2) [60] (([32, 62] @ xs) @ [32] @ gap ?n @ Z)
        = Inr (([32, 62] @ xs) @ [60] @ gap ?n @ Z)"
      by (rule put_at_append) simp_all
    moreover have "put_at (length xs + 3) [32] (([32, 62] @ xs @ [60]) @ [32] @ replicate (38 - hex_end ?n) 32 @ Z)
        = Inr (([32, 62] @ xs @ [60]) @ [32] @ replicate (38 - hex_end ?n) 32 @ Z)"
      by (rule put_at_append) simp_all
    moreover have "gap ?n = [32] @ replicate (38 - hex_end ?n) 32" using True e by (simp add: gap_def)
    moreover have "pad 39 ?L = ([32, 62] @ xs @ [60]) @ [32] @ replicate (38 - hex_end ?n) 32"
      using True i(2) e by (simp add: pad_def xs)
    ultimately show ?thesis using True by (simp add: xs numeral_2_eq_2 numeral_3_eq_3)
  next
    case False
    then have "?n < 16" using assms(2) by (cases "?n = 16") auto
    then have h: "hex_end ?n \<le> 35" by (rule hex_end_le)
    then have e: "39 - (hex_end ?n + 1) = Suc (37 - hex_end ?n)" by simp
    have g: "gap ?n = [32] @ [0] @ replicate (37 - hex_end ?n) 32" using False by (simp add: gap_def)
    have i: "?i = length ?A" using False by simp
    have "put_at ?i [60] (?A @ [32] @ [0] @ replicate (37 - hex_end ?n) 32 @ Z)
        = Inr (?A @ [60] @ [0] @ replicate (37 - hex_end ?n) 32 @ Z)"
      by (rule put_at_append [OF i]) simp
    moreover have "put_at (?i + 1) [32] ((?A @ [60]) @ [0] @ replicate (37 - hex_end ?n) 32 @ Z)
        = Inr ((?A @ [60]) @ [32] @ replicate (37 - hex_end ?n) 32 @ Z)"
      by (rule put_at_append) (simp_all add: i)
    moreover have "pad 39 ?L = (?A @ [60]) @ [32] @ replicate (37 - hex_end ?n) 32"
      using False A e by (simp add: pad_def)
    ultimately show ?thesis by (simp add: g)
  qed
qed

lemma line_parts:
  assumes "length row \<le> 16"
  shows "length ([32, 62] @ (if length row mod 4 = 0 then butlast (cells 0 row) else cells 0 row) @ [60]) \<le> 39"
    and "0 \<notin> set (if length row mod 4 = 0 then butlast (cells 0 row) else cells 0 row)"
proof -
  have "hex_end (length row) \<le> 38" using assms(1) by (simp add: hex_end_def)
  then show "length ([32, 62] @ (if length row mod 4 = 0 then butlast (cells 0 row) else cells 0 row) @ [60]) \<le> 39"
    using length_cells [of 0 row] hex_end_le [of "length row"] assms
    by (cases "length row = 16") (auto simp: hex_end_def)
  show "0 \<notin> set (if length row mod 4 = 0 then butlast (cells 0 row) else cells 0 row)"
    using cells_text [of 0 row] in_set_butlastD [of 0 "cells 0 row"] by auto
qed

text \<open>A line has the text it should have and never leaves the buffer, whatever that held before.\<close>

lemma dump_line_eval:
  assumes "row \<noteq> []" and "length row \<le> 16" and "length buf = 100" and "off < 16 ^ 8"
  shows "\<exists>buf'. dump_line off row buf = Inr (line_text off row, buf') \<and> length buf' = 100"
proof -
  let ?n = "length row" and ?H = "cells 0 row" and ?D = "hex_pad8 off"
  have D: "length ?D = 8" "0 \<notin> set ?D"
    using length_hex_digits [of off 7] assms(4) hex_digits_text [of off] by (auto simp: hex_pad8_def)
  have buf: "buf = take 65 buf @ drop 65 buf" "length (take 65 buf) = 65" using assms(3) by simp_all
  let ?T = "?D @ 0 # drop 65 buf"
  let ?A = "[32, 62] @ ?H"
  have spaces: "replicate 54 (32 :: byte) = replicate 37 32 @ replicate 17 32" by (simp flip: replicate_add)
  have "sprintf_at 0 ([32, 62] @ replicate 54 32 @ ?D) buf = Inr ([32, 62] @ replicate 54 32 @ ?T)"
    using put_at_append [of 0 "[]" "take 65 buf" "([32, 62] @ replicate 54 32 @ ?D) @ [0]" "drop 65 buf"] buf D(1)
    by (simp add: sprintf_at_def)
  then have start: "sprintf_at 0 ([32, 62] @ replicate 54 32 @ ?D) buf
      = Inr ([32, 62] @ gap 0 @ [] @ replicate (17 - 0) 32 @ ?T)"
    by (simp add: gap_def hex_end_def spaces)
  have bytes: "dump_bytes 2 39 0 row ([32, 62] @ gap 0 @ [] @ replicate (17 - 0) 32 @ ?T) =
      Inr (length ?A, ?n, ?A @ gap ?n @ map shown row @ replicate (17 - ?n) 32 @ ?T)"
    using dump_bytes_eval [of "[32, 62]" 0 "[]" row ?T] assms(2) by (simp add: hex_end_def Let_def numeral_2_eq_2)
  let ?left = "if ?n mod 4 = 0 then butlast ?H else ?H"
  let ?i = "if ?n mod 4 = 0 then length ?A - 1 else length ?A"
  from close_line [OF assms(1,2), of "map shown row @ replicate (17 - ?n) 32 @ ?T"]
  obtain b where b: "put_at ?i [60] (?A @ gap ?n @ map shown row @ replicate (17 - ?n) 32 @ ?T) = Inr b"
    "put_at (?i + 1) [32] b = Inr (pad 39 ([32, 62] @ ?left @ [60]) @ map shown row @ replicate (17 - ?n) 32 @ ?T)"
    by (elim exE conjE)
  have line: "pad 39 ([32, 62] @ ?left @ [60]) @ map shown row @ replicate (17 - ?n) 32 @ ?T = line_text off row @ 0 # drop 65 buf"
    by (simp add: line_text_def pad_def Let_def)
  have no: "0 \<notin> set (line_text off row)" and len: "length (line_text off row) = 64"
    using line_parts [OF assms(2)] D assms(2) by (auto simp: line_text_def pad_def Let_def shown_def isprint_def)
  have n: "1 + 1 = (2 :: nat)" "53 - 15 + 1 = (39 :: nat)" by simp_all
  have "dump_line off row buf = (let l = line_text off row @ 0 # drop 65 buf
      in if 0 \<in> set l then Inr (takeWhile (\<lambda>c. c \<noteq> 0) l, l) else Inl Out_of_bounds)"
    unfolding dump_line_def start obind_Inr n bytes prod.case Let_def b(1) obind_Inr b(2) [unfolded line]
    by (rule refl)
  moreover have "takeWhile (\<lambda>c. c \<noteq> 0) (line_text off row @ 0 # drop 65 buf) = line_text off row"
    using no by (subst takeWhile_append2) auto
  ultimately show ?thesis using len assms(3) by (simp add: Let_def)
qed

text \<open>The dump of any memory below 4 GB: a line for every sixteen bytes.\<close>

fun dump_text :: "nat \<Rightarrow> bytes list \<Rightarrow> bytes" where
  "dump_text off [] = []"
| "dump_text off (row # rows) = line_text off row @ [10] @ dump_text (off + length row) rows"

fun rows_of :: "nat \<Rightarrow> 'a list \<Rightarrow> 'a list list" where
  "rows_of 0 xs = []"
| "rows_of (Suc k) xs = (if xs = [] then [] else take 16 xs # rows_of k (drop 16 xs))"

lemma dump_loop_eval:
  assumes "length buf = 100" and "off + length mem \<le> 16 ^ 8" and "length mem \<le> k"
  shows "dump_loop off mem buf stm = Inr (stm @ dump_text off (rows_of k mem))"
  using assms
proof (induction k arbitrary: off mem buf stm)
  case (Suc k)
  show ?case
  proof (cases "mem = []")
    case False
    then have "0 < length mem" by simp
    then have "take 16 mem \<noteq> []" "off < 16 ^ 8" using Suc.prems(2) False by (simp_all, linarith)
    from dump_line_eval [OF this(1) _ Suc.prems(1) this(2)] obtain buf' where
      l: "dump_line off (take 16 mem) buf = Inr (line_text off (take 16 mem), buf')" "length buf' = 100" by auto
    have "length mem = length (take 16 mem) + length (drop 16 mem)" by simp
    moreover have "length (drop 16 mem) \<le> k" using False Suc.prems(3) by (cases mem) auto
    ultimately show ?thesis
      using Suc.IH [OF l(2), of "off + length (take 16 mem)" "drop 16 mem" "stm @ line_text off (take 16 mem) @ [10]"]
        Suc.prems(2) False l(1) by (subst dump_loop.simps) simp
  qed (simp add: dump_loop.simps)
qed (simp add: dump_loop.simps)

lemma hexdump_text:
  assumes "length junk = 100" and "length mem \<le> 16 ^ 8"
  shows "hexdump junk mem = Inr ([10] @ dump_text 0 (rows_of (length mem) mem))"
  using dump_loop_eval [of junk 0 mem "length mem" "[10]"] assms by (simp add: hexdump_def)

section \<open>\<open>hexlike\<close>\<close>

definition hex_X :: "byte \<Rightarrow> bytes" where
  "hex_X b = (if b < 16 then [hex_upper b] else sprintf_02X b)"

text \<open>The loop at index \<open>i\<close>, with the counters of groups of eight and of sixteen.\<close>

definition hex_cell :: "byte \<Rightarrow> bytes" where
  "hex_cell b = (if b < 0x0F then [48] @ hex_X b @ [32] else hex_X b @ [32])"

fun hexlike_loop :: "nat \<Rightarrow> nat \<Rightarrow> nat \<Rightarrow> bytes \<Rightarrow> bytes" where
  "hexlike_loop i j k [] = []"
| "hexlike_loop i j k (b # bs) =
     (if i = j * 8 \<and> i \<noteq> k * 16 then str ''| '' @ hex_cell b @ hexlike_loop (i + 1) (j + 1) k bs
      else if i = k * 16 then [10] @ hex_cell b @ hexlike_loop (i + 1) (j + 1) (k + 1) bs
      else hex_cell b @ hexlike_loop (i + 1) j k bs)"

definition hexlike :: "byte_buffer \<Rightarrow> bytes" where
  "hexlike b = str ''STORAGE_SIZE: '' @ decimal (bb_size b) @ [10] @ hexlike_loop 0 1 1 (storage b) @ [10]"

text \<open>What stands before the byte at index \<open>i\<close>: rows of sixteen, halved by a bar.\<close>

definition separator :: "nat \<Rightarrow> bytes" where
  "separator i = (if i = 0 \<or> i mod 8 \<noteq> 0 then [] else if i mod 16 = 0 then [10] else str ''| '')"

lemma multiples:
  fixes i q :: nat
  assumes "0 < q"
  shows "i = (i + (q - 1)) div q * q \<longleftrightarrow> i mod q = 0"
    and "(Suc i + (q - 1)) div q = (i + (q - 1)) div q + (if i mod q = 0 then 1 else 0)"
proof -
  obtain a r where i: "i = a * q + r" "r < q" using assms by (metis div_mult_mod_eq mod_less_divisor)
  have "(r + (q - 1)) div q = (if r = 0 then 0 else 1)"
    using i(2) by (auto simp: div_nat_eqI)
  moreover have "i + (q - 1) = r + (q - 1) + a * q" by (simp add: i(1))
  ultimately have up: "(i + (q - 1)) div q = a + (if r = 0 then 0 else 1)"
    using div_mult_self1 [of q "r + (q - 1)" a] assms by simp
  show "i = (i + (q - 1)) div q * q \<longleftrightarrow> i mod q = 0"
    unfolding up using i by auto
  have "Suc i + (q - 1) = r + (a + 1) * q" using assms by (simp add: i(1))
  moreover have "(r + (a + 1) * q) div q = a + 1"
    using assms i(2) by (subst div_mult_self1) simp_all
  ultimately have "(Suc i + (q - 1)) div q = a + 1" by simp
  then show "(Suc i + (q - 1)) div q = (i + (q - 1)) div q + (if i mod q = 0 then 1 else 0)"
    unfolding up using i by simp
qed

lemma hexlike_loop_eval:
  assumes "0 < i"
  shows "hexlike_loop i ((i + 7) div 8) ((i + 15) div 16) bs =
    concat (map (\<lambda>(n, b). separator (i + n) @ hex_cell b) (enumerate 0 bs))"
  using assms
proof (induction bs arbitrary: i)
  case (Cons b bs)
  have sh: "map (\<lambda>(n, b). separator (i + n) @ hex_cell b) (enumerate (Suc 0) bs) =
      map (\<lambda>(n, b). separator (Suc i + n) @ hex_cell b) (enumerate 0 bs)"
    by (auto simp: enumerate_Suc_eq)
  define J K where JK: "J = (i + 7) div 8" "K = (i + 15) div 16"
  have d: "i = J * 8 \<longleftrightarrow> i mod 8 = 0" "i = K * 16 \<longleftrightarrow> i mod 16 = 0" 
    using multiples(1) [of 8 i] multiples(1) [of 16 i] by (simp_all add: JK)
  have c: "(Suc i + 7) div 8 = J + (if i mod 8 = 0 then 1 else 0)"
    "(Suc i + 15) div 16 = K + (if i mod 16 = 0 then 1 else 0)" 
    using multiples(2) [of 8 i] multiples(2) [of 16 i] by (simp_all add: JK)
  have e: "i mod 16 = 0 \<Longrightarrow> i mod 8 = 0" by presburger
  have "hexlike_loop i J K (b # bs) = separator i @ hex_cell b @ hexlike_loop (Suc i) ((Suc i + 7) div 8) ((Suc i + 15) div 16) bs"
    unfolding c hexlike_loop.simps d separator_def using e Cons.prems by simp
  then show ?case using Cons.IH [of "Suc i"] sh by (simp add: JK)
qed simp

lemma hexlike_text:
  "hexlike b = str ''STORAGE_SIZE: '' @ decimal (length (storage b)) @ [10] @
     concat (map (\<lambda>(i, c). separator i @ hex_cell c) (enumerate 0 (storage b))) @ [10]"
proof (cases "storage b")
  case (Cons c cs)
  have "hexlike_loop 0 1 1 (c # cs) = hex_cell c @ hexlike_loop 1 1 1 cs" by simp
  also have "hexlike_loop 1 1 1 cs = concat (map (\<lambda>(n, b). separator (1 + n) @ hex_cell b) (enumerate 0 cs))"
    using hexlike_loop_eval [of 1 cs] by simp
  also have "hex_cell c @ \<dots> = concat (map (\<lambda>(i, c). separator i @ hex_cell c) (enumerate 0 (c # cs)))"
    by (auto simp: enumerate_Suc_eq separator_def intro!: arg_cong [of _ _ concat])
  finally show ?thesis by (simp add: hexlike_def bb_size_def Cons)
qed (simp add: hexlike_def bb_size_def)

text \<open>The test for a leading zero is off by one: 15 is printed with one digit, all others with two.\<close>

lemma hex_cell_width: "length (hex_cell b) = (if b = 0x0F then 2 else 3)"
proof -
  have "b < 15 \<or> b = 15 \<or> \<not> b < 16"
  proof -
    have "unat b < 15 \<or> unat b = 15 \<or> 16 \<le> unat b" by linarith
    then show ?thesis by (auto simp: word_less_nat_alt word_unat_eq_iff)
  qed
  then show ?thesis by (auto simp: hex_cell_def hex_X_def word_less_nat_alt)
qed

end
